(* ===== verification/Go_Prelude.thy ===== *)
theory Go_Prelude
  imports Main "HOL-Library.Monad_Syntax" "HOL-Library.Word" "HOL-Library.Sublist"
begin

text \<open>
  What the instrumentation uses of Go itself and of the \<open>strings\<close>, \<open>strconv\<close> and
  \<open>unicode/utf8\<close> packages.  A Go string is a list of bytes (\<open>string\<close>, that is
  \<open>char list\<close>).  A run-time panic is \<open>None\<close>: indexing and slicing are partial, as in
  Go.  The index functions, which in Go return \<open>-1\<close> for \<open>not found\<close>, return
  \<open>nat option\<close>.  Upper and lower case are those of the ASCII letters; every other
  operation is defined on arbitrary bytes.
\<close>

type_synonym gostring = string

named_theorems go_bounds \<open>index results lie inside the string\<close>
named_theorems go_defs \<open>unfoldings of the string operations\<close>

section \<open>Indexing and slicing\<close>

definition byte_at :: "gostring \<Rightarrow> nat \<Rightarrow> char option" where
  "byte_at s i = (if i < length s then Some (s ! i) else None)"

definition slice_from :: "gostring \<Rightarrow> nat \<Rightarrow> gostring option" where
  "slice_from s i = (if i \<le> length s then Some (drop i s) else None)"

definition slice_to :: "gostring \<Rightarrow> nat \<Rightarrow> gostring option" where
  "slice_to s j = (if j \<le> length s then Some (take j s) else None)"

definition go_slice :: "gostring \<Rightarrow> nat \<Rightarrow> nat \<Rightarrow> gostring option" where
  "go_slice s i j = (if i \<le> j \<and> j \<le> length s then Some (drop i (take j s)) else None)"

lemma slice_from_ok [simp]: "i \<le> length s \<Longrightarrow> slice_from s i = Some (drop i s)"
  by (simp add: slice_from_def)

lemma slice_to_ok [simp]: "j \<le> length s \<Longrightarrow> slice_to s j = Some (take j s)"
  by (simp add: slice_to_def)

lemma go_slice_ok [simp]:
  "i \<le> j \<Longrightarrow> j \<le> length s \<Longrightarrow> go_slice s i j = Some (drop i (take j s))"
  by (simp add: go_slice_def)

section \<open>Searching\<close>

fun find_idx :: "(char \<Rightarrow> bool) \<Rightarrow> gostring \<Rightarrow> nat option" where
  "find_idx P [] = None"
| "find_idx P (x # xs) = (if P x then Some 0 else map_option Suc (find_idx P xs))"

fun find_last_idx :: "(char \<Rightarrow> bool) \<Rightarrow> gostring \<Rightarrow> nat option" where
  "find_last_idx P [] = None"
| "find_last_idx P (x # xs) =
     (case find_last_idx P xs of
        Some i \<Rightarrow> Some (Suc i)
      | None \<Rightarrow> if P x then Some 0 else None)"

definition index_byte :: "gostring \<Rightarrow> char \<Rightarrow> nat option" where
  "index_byte s c = find_idx (\<lambda>x. x = c) s"

definition index_any :: "gostring \<Rightarrow> gostring \<Rightarrow> nat option" where
  "index_any s cs = find_idx (\<lambda>x. x \<in> set cs) s"

definition last_index_byte :: "gostring \<Rightarrow> char \<Rightarrow> nat option" where
  "last_index_byte s c = find_last_idx (\<lambda>x. x = c) s"

definition has_prefix :: "gostring \<Rightarrow> gostring \<Rightarrow> bool" where
  "has_prefix s p \<longleftrightarrow> take (length p) s = p"

definition has_suffix :: "gostring \<Rightarrow> gostring \<Rightarrow> bool" where
  "has_suffix s p \<longleftrightarrow> has_prefix (rev s) (rev p)"

definition trim_prefix :: "gostring \<Rightarrow> gostring \<Rightarrow> gostring" where
  "trim_prefix s p = (if has_prefix s p then drop (length p) s else s)"

fun str_index :: "gostring \<Rightarrow> gostring \<Rightarrow> nat option" where
  "str_index [] p = (if p = [] then Some 0 else None)"
| "str_index (c # cs) p =
     (if has_prefix (c # cs) p then Some 0 else map_option Suc (str_index cs p))"

definition str_contains :: "gostring \<Rightarrow> gostring \<Rightarrow> bool" where
  "str_contains s p \<longleftrightarrow> str_index s p \<noteq> None"

lemma find_idx_None_iff: "find_idx P s = None \<longleftrightarrow> (\<forall>x \<in> set s. \<not> P x)"
  by (induction s) auto

lemma find_idx_SomeD:
  "find_idx P s = Some i \<Longrightarrow> i < length s \<and> P (s ! i) \<and> (\<forall>x \<in> set (take i s). \<not> P x)"
  by (induction s arbitrary: i) (auto split: if_splits)

lemma map_option_plus_0 [simp]: "map_option ((+) (0::nat)) x = x"
  by (cases x) simp_all

lemma find_idx_append:
  "find_idx P (s @ t) =
     (case find_idx P s of Some i \<Rightarrow> Some i | None \<Rightarrow> map_option (\<lambda>i. length s + i) (find_idx P t))"
  by (induction s)
    (auto split: option.splits simp: option.map_comp comp_def intro: option.map_cong)

lemma find_last_idx_None_iff: "find_last_idx P s = None \<longleftrightarrow> (\<forall>x \<in> set s. \<not> P x)"
  by (induction s) (auto split: option.splits)

lemma find_last_idx_SomeD:
  "find_last_idx P s = Some i \<Longrightarrow> i < length s \<and> P (s ! i) \<and> (\<forall>x \<in> set (drop (Suc i) s). \<not> P x)"
proof (induction s arbitrary: i)
  case (Cons a s)
  show ?case
  proof (cases "find_last_idx P s")
    case None
    then have "\<forall>x \<in> set s. \<not> P x" by (simp add: find_last_idx_None_iff)
    with None Cons.prems show ?thesis by (auto split: if_splits)
  next
    case (Some j)
    with Cons.prems have "i = Suc j" by simp
    with Cons.IH [OF Some] show ?thesis by simp
  qed
qed simp

lemma find_last_idx_append:
  "find_last_idx P (s @ t) =
     (case find_last_idx P t of Some i \<Rightarrow> Some (length s + i) | None \<Rightarrow> find_last_idx P s)"
  by (induction s) (auto split: option.splits)

lemma index_byte_bound [go_bounds]: "index_byte s c = Some i \<Longrightarrow> i < length s"
  by (simp add: index_byte_def find_idx_SomeD)

lemma index_any_bound [go_bounds]: "index_any s cs = Some i \<Longrightarrow> i < length s"
  by (simp add: index_any_def find_idx_SomeD)

lemma last_index_byte_bound [go_bounds]: "last_index_byte s c = Some i \<Longrightarrow> i < length s"
  by (simp add: last_index_byte_def find_last_idx_SomeD)

lemma index_byte_None: "index_byte s c = None \<longleftrightarrow> c \<notin> set s"
  by (auto simp: index_byte_def find_idx_None_iff)

lemma last_index_byte_None: "last_index_byte s c = None \<longleftrightarrow> c \<notin> set s"
  by (auto simp: last_index_byte_def find_last_idx_None_iff)

lemma index_byte_at: "c \<notin> set s \<Longrightarrow> index_byte (s @ c # t) c = Some (length s)"
  by (induction s) (auto simp: index_byte_def)

lemma last_index_byte_at: "c \<notin> set t \<Longrightarrow> last_index_byte (s @ c # t) c = Some (length s)"
proof -
  assume "c \<notin> set t"
  then have "find_last_idx (\<lambda>x. x = c) t = None" by (auto simp: find_last_idx_None_iff)
  then show ?thesis by (simp add: last_index_byte_def find_last_idx_append)
qed

lemma index_byte_split: "index_byte s c = Some i \<Longrightarrow> s = take i s @ c # drop (Suc i) s \<and> c \<notin> set (take i s)"
  using find_idx_SomeD [of "\<lambda>x. x = c" s i] id_take_nth_drop [of i s]
  by (auto simp: index_byte_def)

lemma last_index_byte_split:
  "last_index_byte s c = Some i \<Longrightarrow> s = take i s @ c # drop (Suc i) s \<and> c \<notin> set (drop (Suc i) s)"
  using find_last_idx_SomeD [of "\<lambda>x. x = c" s i] id_take_nth_drop [of i s]
  by (auto simp: last_index_byte_def)

lemma has_prefix_iff: "has_prefix s p \<longleftrightarrow> (\<exists>t. s = p @ t)"
  by (metis append_eq_conv_conj append_take_drop_id has_prefix_def)

lemma has_prefix_append [simp]: "has_prefix (p @ t) p"
  by (simp add: has_prefix_def)

lemma has_prefix_Nil [simp]: "has_prefix s []"
  by (simp add: has_prefix_def)

lemma has_prefix_Cons [simp]:
  "has_prefix (c # s) (d # p) \<longleftrightarrow> c = d \<and> has_prefix s p"
  "\<not> has_prefix [] (d # p)"
  by (auto simp: has_prefix_def)

lemma has_prefix_length: "has_prefix s p \<Longrightarrow> length p \<le> length s"
  by (auto simp: has_prefix_iff)

lemma trim_prefix_append [simp]: "trim_prefix (p @ t) p = t"
  by (simp add: trim_prefix_def)

lemma length_trim_prefix: "length (trim_prefix s p) \<le> length s"
  by (simp add: trim_prefix_def)

lemma str_index_bound [go_bounds]: "str_index s p = Some i \<Longrightarrow> i + length p \<le> length s"
proof (induction s arbitrary: i)
  case (Cons a s)
  then show ?case using has_prefix_length [of "a # s" p] by (auto split: if_splits)
qed (auto split: if_splits)

section \<open>White space\<close>

text \<open>
  The UTF-8 encodings of the runes that \<open>unicode.IsSpace\<close> accepts.  None is a proper
  prefix or suffix of another, and every non-ASCII one starts with a byte that is not a
  continuation byte, so matching them on bytes is what the rune loops of
  \<open>strings.TrimSpace\<close> and \<open>strings.Fields\<close> do.
\<close>

definition space_codes :: "nat list list" where
  "space_codes =
     [[9], [10], [11], [12], [13], [32], [0xC2, 0x85], [0xC2, 0xA0], [0xE1, 0x9A, 0x80],
      [0xE2, 0x80, 0x80], [0xE2, 0x80, 0x81], [0xE2, 0x80, 0x82], [0xE2, 0x80, 0x83],
      [0xE2, 0x80, 0x84], [0xE2, 0x80, 0x85], [0xE2, 0x80, 0x86], [0xE2, 0x80, 0x87],
      [0xE2, 0x80, 0x88], [0xE2, 0x80, 0x89], [0xE2, 0x80, 0x8A], [0xE2, 0x80, 0xA8],
      [0xE2, 0x80, 0xA9], [0xE2, 0x80, 0xAF], [0xE2, 0x81, 0x9F], [0xE3, 0x80, 0x80]]"

definition codes :: "gostring \<Rightarrow> nat list" where
  "codes s = map of_char s"

fun starts_with :: "nat list \<Rightarrow> nat list \<Rightarrow> bool" where
  "starts_with s [] = True"
| "starts_with [] (d # p) = False"
| "starts_with (c # s) (d # p) = (c = d \<and> starts_with s p)"

text \<open>The byte length of the first of the given sequences that starts \<open>s\<close>, 0 if none does.\<close>

definition match_len :: "nat list list \<Rightarrow> nat list \<Rightarrow> nat" where
  "match_len rs s = (case List.find (starts_with s) rs of None \<Rightarrow> 0 | Some r \<Rightarrow> length r)"

function trim_left_runes :: "nat list list \<Rightarrow> gostring \<Rightarrow> gostring" where
  "trim_left_runes rs s =
     (let n = match_len rs (map of_char (take 3 s))
      in if s = [] \<or> n = 0 then s else trim_left_runes rs (drop n s))"
  by pat_completeness auto
termination
  by (relation "measure (\<lambda>(rs, s). length s)") auto

declare trim_left_runes.simps [simp del]

definition trim_left_space :: "gostring \<Rightarrow> gostring" where
  "trim_left_space s = trim_left_runes space_codes s"

definition trim_right_space :: "gostring \<Rightarrow> gostring" where
  "trim_right_space s = rev (trim_left_runes (map rev space_codes) (rev s))"

definition trim_space :: "gostring \<Rightarrow> gostring" where
  "trim_space s = trim_right_space (trim_left_space s)"

lemma trim_left_runes_drop: "\<exists>n. trim_left_runes rs s = drop n s"
proof (induction rs s rule: trim_left_runes.induct)
  case (1 rs s)
  let ?n = "match_len rs (map of_char (take 3 s))"
  show ?case
  proof (cases "s = [] \<or> ?n = 0")
    case True
    then have "trim_left_runes rs s = drop 0 s"
      by (simp add: trim_left_runes.simps [of rs s] Let_def)
    then show ?thesis by blast
  next
    case False
    from 1 [OF refl False] obtain m where "trim_left_runes rs (drop ?n s) = drop m (drop ?n s)" ..
    with False have "trim_left_runes rs s = drop (m + ?n) s"
      by (simp add: trim_left_runes.simps [of rs s] Let_def)
    then show ?thesis by blast
  qed
qed

lemma length_trim_left_space: "length (trim_left_space s) \<le> length s"
  using trim_left_runes_drop [of space_codes s] by (auto simp: trim_left_space_def)

lemma length_trim_right_space: "length (trim_right_space s) \<le> length s"
  using trim_left_runes_drop [of "map rev space_codes" "rev s"] by (auto simp: trim_right_space_def)

lemma length_trim_space: "length (trim_space s) \<le> length s"
  unfolding trim_space_def by (rule le_trans [OF length_trim_right_space length_trim_left_space])

lemma set_trim_space: "set (trim_space s) \<subseteq> set s"
proof -
  obtain m n where "trim_left_space s = drop m s"
    and "trim_right_space (drop m s) = rev (drop n (rev (drop m s)))"
    using trim_left_runes_drop by (metis trim_left_space_def trim_right_space_def)
  then show ?thesis
    by (auto simp: trim_space_def dest: in_set_dropD dest!: in_set_dropD [of _ n "rev (drop m s)"])
qed

text \<open>\<open>strings.TrimLeft\<close> with an ASCII cut set, and \<open>strings.TrimRight\<close> likewise.\<close>

definition trim_left_set :: "gostring \<Rightarrow> gostring \<Rightarrow> gostring" where
  "trim_left_set s cs = dropWhile (\<lambda>c. c \<in> set cs) s"

definition trim_right_set :: "gostring \<Rightarrow> gostring \<Rightarrow> gostring" where
  "trim_right_set s cs = rev (dropWhile (\<lambda>c. c \<in> set cs) (rev s))"

text \<open>\<open>strings.Fields\<close>: the maximal runs without white space.\<close>

function fields_from :: "gostring \<Rightarrow> gostring \<Rightarrow> gostring list" where
  "fields_from acc s =
     (case s of
        [] \<Rightarrow> (if acc = [] then [] else [rev acc])
      | c # r \<Rightarrow>
          (let n = match_len space_codes (map of_char (take 3 s))
           in if n = 0 then fields_from (c # acc) r
              else (if acc = [] then [] else [rev acc]) @ fields_from [] (drop n s)))"
  by pat_completeness auto
termination
  by (relation "measure (\<lambda>(acc, s). length s)") auto

declare fields_from.simps [simp del]

definition str_fields :: "gostring \<Rightarrow> gostring list" where
  "str_fields s = fields_from [] s"

section \<open>Case mapping\<close>

text \<open>
  \<open>strings.ToLower\<close> and \<open>ToUpper\<close> on ASCII letters; other bytes stay, where Go also maps the letters of other scripts.  The
  code applies them to names, methods and settings.  \<open>strings.EqualFold\<close> against ASCII text has the two other letters that fold to
  it.
\<close>

definition ascii_lower :: "char \<Rightarrow> char" where
  "ascii_lower c =
     (let n = (of_char c :: nat) in if 65 \<le> n \<and> n \<le> 90 then char_of (n + 32) else c)"

definition ascii_upper :: "char \<Rightarrow> char" where
  "ascii_upper c =
     (let n = (of_char c :: nat) in if 97 \<le> n \<and> n \<le> 122 then char_of (n - 32) else c)"

definition to_lower :: "gostring \<Rightarrow> gostring" where
  "to_lower = map ascii_lower"

definition to_upper :: "gostring \<Rightarrow> gostring" where
  "to_upper = map ascii_upper"

lemma of_char_ascii_lower:
  "of_char (ascii_lower c) =
     (if 65 \<le> (of_char c :: nat) \<and> (of_char c :: nat) \<le> 90 then of_char c + 32 else (of_char c :: nat))"
  by (auto simp: ascii_lower_def Let_def of_char_of)

lemma ascii_lower_idem [simp]: "ascii_lower (ascii_lower c) = ascii_lower c"
  using of_char_ascii_lower [of c] by (subst ascii_lower_def) (auto simp: Let_def split: if_splits)

lemma to_lower_idem [simp]: "to_lower (to_lower s) = to_lower s"
  by (simp add: to_lower_def)

lemma to_lower_Nil [simp]: "to_lower [] = []" "to_upper [] = []"
  by (simp_all add: to_lower_def to_upper_def)

lemma to_lower_eq_Nil [simp]: "to_lower s = [] \<longleftrightarrow> s = []"
  by (simp add: to_lower_def)

text \<open>
  \<open>strings.EqualFold\<close> against an ASCII string: simple folding relates an ASCII letter
  to its other case, and beyond ASCII only \<open>s\<close> to U+017F and \<open>k\<close> to U+212A.
\<close>

fun fold_ascii :: "gostring \<Rightarrow> gostring" where
  "fold_ascii [] = []"
| "fold_ascii (c # s) =
     (if (of_char c :: nat) = 0xC5 \<and> s \<noteq> [] \<and> (of_char (hd s) :: nat) = 0xBF
      then CHR ''s'' # fold_ascii (tl s)
      else if (of_char c :: nat) = 0xE2 \<and> 2 \<le> length s \<and> (of_char (hd s) :: nat) = 0x84
              \<and> (of_char (s ! 1) :: nat) = 0xAA
      then CHR ''k'' # fold_ascii (drop 2 s)
      else ascii_lower c # fold_ascii s)"

definition equal_fold_ascii :: "gostring \<Rightarrow> gostring \<Rightarrow> bool" where
  "equal_fold_ascii s t \<longleftrightarrow> fold_ascii s = to_lower t"

section \<open>Splitting and joining\<close>

fun split_on :: "char \<Rightarrow> gostring \<Rightarrow> gostring list" where
  "split_on c [] = [[]]"
| "split_on c (x # xs) =
     (if x = c then [] # split_on c xs
      else (case split_on c xs of [] \<Rightarrow> [[x]] | p # ps \<Rightarrow> (x # p) # ps))"

lemma split_on_ne [simp]: "split_on c s \<noteq> []"
  by (cases s) (auto split: list.splits)

lemma split_on_no_sep: "c \<notin> set s \<Longrightarrow> split_on c s = [s]"
  by (induction s) auto

lemma split_on_parts: "p \<in> set (split_on c s) \<Longrightarrow> c \<notin> set p"
proof (induction s arbitrary: p)
  case (Cons x xs)
  then show ?case
    by (cases "split_on c xs") (auto split: if_splits)
qed simp

lemma split_on_append_sep: "split_on c (s @ c # t) = split_on c s @ split_on c t"
proof (induction s)
  case (Cons x xs)
  then show ?case by (auto split: list.splits simp: append_eq_Cons_conv)
qed simp

definition str_cut :: "gostring \<Rightarrow> char \<Rightarrow> gostring \<times> gostring \<times> bool" where
  "str_cut s c =
     (case index_byte s c of
        Some i \<Rightarrow> (take i s, drop (Suc i) s, True)
      | None \<Rightarrow> (s, [], False))"

lemma str_cut_at: "c \<notin> set s \<Longrightarrow> str_cut (s @ c # t) c = (s, t, True)"
  by (simp add: str_cut_def index_byte_at)

lemma str_cut_none: "c \<notin> set s \<Longrightarrow> str_cut s c = (s, [], False)"
  using index_byte_None [of s c] by (simp add: str_cut_def)

fun str_join :: "gostring \<Rightarrow> gostring list \<Rightarrow> gostring" where
  "str_join sep [] = []"
| "str_join sep [x] = x"
| "str_join sep (x # y # ys) = x @ sep @ str_join sep (y # ys)"

section \<open>Decimal numbers\<close>

definition is_digit :: "char \<Rightarrow> bool" where
  "is_digit c \<longleftrightarrow> 48 \<le> (of_char c :: nat) \<and> (of_char c :: nat) \<le> 57"

definition digit_val :: "char \<Rightarrow> nat" where
  "digit_val c = of_char c - 48"

fun dec_acc :: "nat \<Rightarrow> gostring \<Rightarrow> nat option" where
  "dec_acc n [] = Some n"
| "dec_acc n (c # s) = (if is_digit c then dec_acc (10 * n + digit_val c) s else None)"

definition parse_dec :: "gostring \<Rightarrow> nat option" where
  "parse_dec s = (if s = [] then None else dec_acc 0 s)"

text \<open>\<open>strconv.Atoi\<close> on a 64-bit platform: optional sign, digits, and the int64 range.\<close>

definition int64_ok :: "int \<Rightarrow> bool" where
  "int64_ok n \<longleftrightarrow> - (2 ^ 63) \<le> n \<and> n < 2 ^ 63"

definition go_atoi :: "gostring \<Rightarrow> int option" where
  "go_atoi s =
     (case s of
        [] \<Rightarrow> None
      | c # r \<Rightarrow>
          (let neg = (c = CHR ''-'');
               body = (if c = CHR ''-'' \<or> c = CHR ''+'' then r else s)
           in case parse_dec body of
                None \<Rightarrow> None
              | Some n \<Rightarrow> (let v = (if neg then - int n else int n)
                          in if int64_ok v then Some v else None)))"

text \<open>\<open>strconv.ParseUint(s, 10, 16)\<close>.\<close>

definition parse_uint16 :: "gostring \<Rightarrow> nat option" where
  "parse_uint16 s =
     (case parse_dec s of None \<Rightarrow> None | Some n \<Rightarrow> if n < 65536 then Some n else None)"

definition digit_char :: "nat \<Rightarrow> char" where
  "digit_char d = char_of (48 + d)"

fun nat_dec :: "nat \<Rightarrow> gostring" where
  "nat_dec n = (if n < 10 then [digit_char n] else nat_dec (n div 10) @ [digit_char (n mod 10)])"

declare nat_dec.simps [simp del]

definition go_itoa :: "int \<Rightarrow> gostring" where
  "go_itoa n = (if n < 0 then CHR ''-'' # nat_dec (nat (- n)) else nat_dec (nat n))"

lemma digit_char_props:
  assumes "d < 10"
  shows "is_digit (digit_char d)" "digit_val (digit_char d) = d"
  using assms by (simp_all add: is_digit_def digit_val_def digit_char_def of_char_of)

lemma dec_acc_append:
  "dec_acc n (s @ t) = (case dec_acc n s of None \<Rightarrow> None | Some m \<Rightarrow> dec_acc m t)"
  by (induction s arbitrary: n) auto

lemma dec_acc_nat_dec: "dec_acc 0 (nat_dec n) = Some n"
proof (induction n rule: nat_dec.induct)
  case (1 n)
  show ?case
  proof (cases "n < 10")
    case True
    then show ?thesis by (subst nat_dec.simps) (simp add: digit_char_props)
  next
    case False
    with 1 show ?thesis
      by (subst nat_dec.simps) (simp add: dec_acc_append digit_char_props)
  qed
qed

lemma nat_dec_digits: "c \<in> set (nat_dec n) \<Longrightarrow> is_digit c"
proof (induction n rule: nat_dec.induct)
  case (1 n)
  then show ?case
    by (cases "n < 10") (auto simp: nat_dec.simps [of n] digit_char_props split: if_splits)
qed

lemma nat_dec_ne [simp]: "nat_dec n \<noteq> []"
  by (subst nat_dec.simps) simp

lemma parse_dec_nat_dec [simp]: "parse_dec (nat_dec n) = Some n"
  by (simp add: parse_dec_def dec_acc_nat_dec)

lemma go_atoi_nat_dec: "int n < 2 ^ 63 \<Longrightarrow> go_atoi (nat_dec n) = Some (int n)"
proof -
  assume n: "int n < 2 ^ 63"
  obtain c r where cr: "nat_dec n = c # r" by (cases "nat_dec n") auto
  have "is_digit c" using cr nat_dec_digits [of c n] by simp
  then have "c \<noteq> CHR ''-''" "c \<noteq> CHR ''+''" by (auto simp: is_digit_def)
  with n cr show ?thesis
    using parse_dec_nat_dec [of n] by (simp add: go_atoi_def int64_ok_def Let_def)
qed

lemma go_atoi_itoa: "int64_ok n \<Longrightarrow> go_atoi (go_itoa n) = Some n"
proof (cases "n < 0")
  case True
  then show "int64_ok n \<Longrightarrow> go_atoi (go_itoa n) = Some n"
    by (simp add: go_itoa_def go_atoi_def Let_def)
next
  case False
  then show "int64_ok n \<Longrightarrow> go_atoi (go_itoa n) = Some n"
    using go_atoi_nat_dec [of "nat n"] by (simp add: go_itoa_def int64_ok_def)
qed

lemma str_contains_mid: "str_contains (s @ p @ t) p"
proof -
  have "str_index (s @ p @ t) p \<noteq> None"
  proof (induction s)
    case Nil
    have "has_prefix (p @ t) p" by simp
    then show ?case by (cases "p @ t") auto
  next
    case (Cons c s)
    then show ?case by auto
  qed
  then show ?thesis by (simp add: str_contains_def)
qed

end
