(* ===== verification/Gls_Stack.thy ===== *)
theory Gls_Stack
  imports Go_Prelude "HOL-Library.AList"
begin

text \<open>
  The goroutine-local span stack of \<open>otelc/sdktrace/gls.go\<close>, the goroutine-local slots
  of \<open>otelc/runtime\<close>, and the registry that lets the API package reach the stack
  (\<open>otelc/otelgls\<close>, \<open>otelc/oteltrace\<close>, \<open>otelc/otelroot\<close>).

  The Go program shares \<open>*atomic.Bool\<close> cells between goroutines: a cell belongs to a span
  key and is referenced by every stack that holds the span.  The cells are an explicit
  store (\<open>flags\<close>, with \<open>next_flag\<close> the first unused address).  The \<open>prev\<close>-linked
  wrappers of a \<open>traceContext\<close> are reachable from that context only (\<open>Clone\<close> allocates
  a new wrapper), so a stack is a list, innermost span first, and in-place unlinking is
  list update.  A \<open>traceContext\<close> is likewise owned by one goroutine, and the slot of
  goroutine \<open>g\<close> holds it by value.  The map \<open>spanStates.states\<close> is an association list,
  \<open>spanStates.order\<close> the list of (element, key), oldest first.  The mutex makes each
  tracker operation atomic; the debug log calls have no effect on this state.
\<close>

type_synonym trace_id = "128 word"
type_synonym span_id = "64 word"
type_synonym span_key = "trace_id \<times> span_id"
type_synonym goroutine = nat

record span =
  span_ref :: nat
  span_trace :: trace_id
  span_sid :: span_id

definition span_key :: "span \<Rightarrow> span_key" where
  "span_key s = (span_trace s, span_sid s)"

definition ctx_valid :: "span \<Rightarrow> bool" where
  "ctx_valid s \<longleftrightarrow> span_trace s \<noteq> 0 \<and> span_sid s \<noteq> 0"

record span_wrapper =
  w_span :: span
  w_ended :: nat

record trace_context =
  tc_sw :: "span_wrapper list"
  tc_n :: int
  tc_lcs :: "span option"

record span_state_entry =
  st_state :: nat
  st_elem :: nat

record world =
  flags :: "nat \<Rightarrow> bool"
  next_flag :: nat
  states :: "(span_key \<times> span_state_entry) list"
  order :: "(nat \<times> span_key) list"
  next_elem :: nat
  gls :: "goroutine \<Rightarrow> trace_context option"
  baggage :: "goroutine \<Rightarrow> nat option"
  max_spans :: int
  max_states :: int

section \<open>Configuration\<close>

definition default_gls_max_spans :: int where
  "default_gls_max_spans = 1000"

definition default_max_span_states :: int where
  "default_max_span_states = 100000"

definition positive_int_env :: "gostring \<Rightarrow> int option" where
  "positive_int_env v =
     (if v = [] then None
      else case go_atoi v of
             None \<Rightarrow> None
           | Some parsed \<Rightarrow> if parsed \<le> 0 then None else Some parsed)"

text \<open>The state after package initialisation; \<open>env\<close> is \<open>os.Getenv\<close>.\<close>

definition init_world :: "(gostring \<Rightarrow> gostring) \<Rightarrow> world" where
  "init_world env =
     \<lparr>flags = (\<lambda>_. False), next_flag = 0, states = [], order = [], next_elem = 0,
      gls = (\<lambda>_. None), baggage = (\<lambda>_. None),
      max_spans = (case positive_int_env (env ''OTEL_GLS_MAX_SPANS'') of
                     Some p \<Rightarrow> p | None \<Rightarrow> default_gls_max_spans),
      max_states = (case positive_int_env (env ''OTEL_GLS_MAX_SPAN_STATES'') of
                     Some p \<Rightarrow> p | None \<Rightarrow> default_max_span_states)\<rparr>"

section \<open>The lifecycle tracker\<close>

definition evict_oldest_locked :: "world \<Rightarrow> world" where
  "evict_oldest_locked w =
     (case order w of
        [] \<Rightarrow> w
      | (el, key) # _ \<Rightarrow>
          (let w' = (case map_of (states w) key of
                       Some entry \<Rightarrow> w\<lparr>flags := (flags w)(st_state entry := True),
                                       states := AList.delete key (states w)\<rparr>
                     | None \<Rightarrow> w)
           in w'\<lparr>order := filter (\<lambda>(el', _). el' \<noteq> el) (order w')\<rparr>))"

definition new_flag :: "world \<Rightarrow> nat \<times> world" where
  "new_flag w = (next_flag w, w\<lparr>flags := (flags w)(next_flag w := False), next_flag := Suc (next_flag w)\<rparr>)"

definition state_for_span :: "span \<Rightarrow> world \<Rightarrow> nat \<times> world" where
  "state_for_span s w =
     (if \<not> ctx_valid s then new_flag w
      else case map_of (states w) (span_key s) of
             Some entry \<Rightarrow> (st_state entry, w)
           | None \<Rightarrow>
               (let w1 = (if int (length (states w)) \<ge> max_states w then evict_oldest_locked w else w);
                    (st, w2) = new_flag w1;
                    el = next_elem w2
                in (st, w2\<lparr>next_elem := Suc el, order := order w2 @ [(el, span_key s)],
                           states := AList.update (span_key s) \<lparr>st_state = st, st_elem = el\<rparr> (states w2)\<rparr>)))"

definition mark_span_ended :: "span \<Rightarrow> world \<Rightarrow> world" where
  "mark_span_ended s w =
     (if \<not> ctx_valid s then w
      else case map_of (states w) (span_key s) of
             Some entry \<Rightarrow> w\<lparr>flags := (flags w)(st_state entry := True),
                            states := AList.delete (span_key s) (states w),
                            order := filter (\<lambda>(el, _). el \<noteq> st_elem entry) (order w)\<rparr>
           | None \<Rightarrow> w)"

section \<open>The span stack of one goroutine\<close>

fun compact_loop :: "(nat \<Rightarrow> bool) \<Rightarrow> span_wrapper list \<Rightarrow> int \<Rightarrow> span_wrapper list \<times> int" where
  "compact_loop fl [] n = ([], n)"
| "compact_loop fl (x # xs) n =
     (if fl (w_ended x) then compact_loop fl xs (n - 1)
      else let (ys, n') = compact_loop fl xs n in (x # ys, n'))"

fun bottom_span :: "span option \<Rightarrow> span_wrapper list \<Rightarrow> span option" where
  "bottom_span acc [] = acc"
| "bottom_span acc (x # xs) = bottom_span (Some (w_span x)) xs"

definition tc_compact :: "(nat \<Rightarrow> bool) \<Rightarrow> trace_context \<Rightarrow> trace_context" where
  "tc_compact fl tc =
     (let (sw, n) = compact_loop fl (tc_sw tc) (tc_n tc)
      in tc\<lparr>tc_sw := sw, tc_n := n, tc_lcs := bottom_span None sw\<rparr>)"

definition tc_add :: "span \<Rightarrow> trace_context \<Rightarrow> world \<Rightarrow> bool \<times> trace_context \<times> world" where
  "tc_add s tc w =
     (let tc1 = (if tc_n tc \<ge> max_spans w then tc_compact (flags w) tc else tc)
      in if tc_n tc \<ge> max_spans w \<and> tc_n tc1 \<ge> max_spans w then (False, tc1, w)
         else let (st, w') = state_for_span s w;
                  tc2 = (if tc_n tc1 = 0 then tc1\<lparr>tc_lcs := Some s\<rparr> else tc1)
              in (True, tc2\<lparr>tc_sw := \<lparr>w_span = s, w_ended = st\<rparr> # tc_sw tc1, tc_n := tc_n tc1 + 1\<rparr>, w'))"

fun tail_loop :: "(nat \<Rightarrow> bool) \<Rightarrow> span_wrapper list \<Rightarrow> int \<Rightarrow> span_wrapper list \<times> int" where
  "tail_loop fl [] n = ([], n)"
| "tail_loop fl (x # xs) n = (if fl (w_ended x) then tail_loop fl xs (n - 1) else (x # xs, n))"

definition tc_tail :: "(nat \<Rightarrow> bool) \<Rightarrow> trace_context \<Rightarrow> span option \<times> trace_context" where
  "tc_tail fl tc =
     (let (sw, n) = tail_loop fl (tc_sw tc) (tc_n tc); tc' = tc\<lparr>tc_sw := sw, tc_n := n\<rparr>
      in case sw of
           [] \<Rightarrow> (None, tc'\<lparr>tc_lcs := None\<rparr>)
         | x # _ \<Rightarrow> (Some (w_span x), tc'))"

definition tc_local_root_span :: "trace_context \<Rightarrow> span option" where
  "tc_local_root_span tc = (if tc_n tc = 0 then None else tc_lcs tc)"

text \<open>
  \<open>del_loop s sw\<close> walks to the first wrapper with the trace and span id of \<open>s\<close>; it
  returns the list with that wrapper unlinked, its flag cell, and whether it was the last.
\<close>

fun del_loop :: "span \<Rightarrow> span_wrapper list \<Rightarrow> (span_wrapper list \<times> nat \<times> bool) option" where
  "del_loop s [] = None"
| "del_loop s (x # xs) =
     (if span_trace (w_span x) = span_trace s \<and> span_sid (w_span x) = span_sid s
      then Some (xs, w_ended x, xs = [])
      else case del_loop s xs of
             None \<Rightarrow> None
           | Some (ys, f, lst) \<Rightarrow> Some (x # ys, f, lst))"

definition tc_del :: "span \<Rightarrow> trace_context \<Rightarrow> world \<Rightarrow> trace_context \<times> world" where
  "tc_del s tc w =
     (if tc_n tc = 0 then (tc, w)
      else case del_loop s (tc_sw tc) of
             None \<Rightarrow> (tc, w)
           | Some (sw, f, lst) \<Rightarrow>
               (tc\<lparr>tc_sw := sw, tc_n := tc_n tc - 1,
                   tc_lcs := (if lst then bottom_span None sw else tc_lcs tc)\<rparr>,
                w\<lparr>flags := (flags w)(f := True)\<rparr>))"

definition tc_empty :: trace_context where
  "tc_empty = \<lparr>tc_sw = [], tc_n = 0, tc_lcs = None\<rparr>"

text \<open>\<open>Clone\<close> first pops ended spans off the cloned context, which it changes in place.\<close>

definition tc_clone :: "(nat \<Rightarrow> bool) \<Rightarrow> trace_context \<Rightarrow> trace_context \<times> trace_context" where
  "tc_clone fl tc =
     (let (last, tc') = tc_tail fl tc
      in case last of
           None \<Rightarrow> (tc_empty, tc')
         | Some s \<Rightarrow>
             (\<lparr>tc_sw = [\<lparr>w_span = s, w_ended = w_ended (hd (tc_sw tc'))\<rparr>], tc_n = 1, tc_lcs = None\<rparr>, tc'))"

section \<open>The goroutine-local slots and the hooks\<close>

definition set_ctx :: "goroutine \<Rightarrow> trace_context \<Rightarrow> world \<Rightarrow> world" where
  "set_ctx g tc w = w\<lparr>gls := (gls w)(g := Some tc)\<rparr>"

definition get_or_init_trace_context :: "goroutine \<Rightarrow> world \<Rightarrow> trace_context \<times> world" where
  "get_or_init_trace_context g w =
     (case gls w g of
        None \<Rightarrow> (tc_empty, set_ctx g tc_empty w)
      | Some tc \<Rightarrow> (tc, w))"

definition get_trace_context :: "goroutine \<Rightarrow> world \<Rightarrow> span_key \<times> world" where
  "get_trace_context g w =
     (let (tc, w1) = get_or_init_trace_context g w; (s, tc') = tc_tail (flags w1) tc
      in (case s of Some sp \<Rightarrow> span_key sp | None \<Rightarrow> (0, 0), set_ctx g tc' w1))"

text \<open>
  The context is changed through a pointer, so its new value is visible in the slot
  whether or not \<open>add\<close> succeeds.
\<close>

definition trace_context_add_span :: "goroutine \<Rightarrow> span \<Rightarrow> world \<Rightarrow> world" where
  "trace_context_add_span g s w =
     (let (tc, w1) = get_or_init_trace_context g w; (ok, tc', w2) = tc_add s tc w1
      in set_ctx g tc' w2)"

definition span_from_gls :: "goroutine \<Rightarrow> world \<Rightarrow> span option \<times> world" where
  "span_from_gls g w =
     (case gls w g of
        None \<Rightarrow> (None, w)
      | Some tc \<Rightarrow> (let (s, tc') = tc_tail (flags w) tc in (s, set_ctx g tc' w)))"

text \<open>\<open>hexT\<close> and \<open>hexS\<close> are the \<open>String\<close> methods of the API's id types.\<close>

definition get_trace_and_span_id ::
  "(trace_id \<Rightarrow> gostring) \<Rightarrow> (span_id \<Rightarrow> gostring) \<Rightarrow> goroutine \<Rightarrow> world \<Rightarrow> (gostring \<times> gostring) \<times> world"
where
  "get_trace_and_span_id hexT hexS g w =
     (let (s, w') = span_from_gls g w
      in (case s of None \<Rightarrow> ([], []) | Some sp \<Rightarrow> (hexT (span_trace sp), hexS (span_sid sp)), w'))"

definition trace_context_del_span :: "goroutine \<Rightarrow> span \<Rightarrow> world \<Rightarrow> world" where
  "trace_context_del_span g s w =
     (let w1 = mark_span_ended s w
      in case gls w1 g of
           None \<Rightarrow> w1
         | Some tc \<Rightarrow> (let (tc', w2) = tc_del s tc w1 in set_ctx g tc' w2))"

definition clear_trace_context :: "goroutine \<Rightarrow> world \<Rightarrow> world" where
  "clear_trace_context g w =
     (let (tc, w1) = get_or_init_trace_context g w
      in (set_ctx g (tc\<lparr>tc_sw := [], tc_n := 0, tc_lcs := None\<rparr>) w1)\<lparr>baggage := (baggage w1)(g := None)\<rparr>)"

text \<open>
  The hooks around the SDK: the two span constructors push the span they return (\<open>None\<close>
  is the nil result of \<open>newRecordingSpan\<close>), both \<open>End\<close> methods pop.
\<close>

definition new_recording_span :: "goroutine \<Rightarrow> span option \<Rightarrow> world \<Rightarrow> world" where
  "new_recording_span g res w = (case res of None \<Rightarrow> w | Some s \<Rightarrow> trace_context_add_span g s w)"

definition new_non_recording_span :: "goroutine \<Rightarrow> span \<Rightarrow> world \<Rightarrow> world" where
  "new_non_recording_span g s w = trace_context_add_span g s w"

definition span_end :: "goroutine \<Rightarrow> span \<Rightarrow> world \<Rightarrow> world" where
  "span_end g s w = trace_context_del_span g s w"

text \<open>
  \<open>runtime.newproc1\<close>: the new goroutine's trace context is a clone, its baggage the
  caller's reference (nothing in the repository stores a baggage with a \<open>Clone\<close> method).
\<close>

definition propagate_trace_context ::
  "(nat \<Rightarrow> bool) \<Rightarrow> trace_context option \<Rightarrow> trace_context option \<times> trace_context option"
where
  "propagate_trace_context fl c =
     (case c of None \<Rightarrow> (None, None) | Some tc \<Rightarrow> (let (cl, tc') = tc_clone fl tc in (Some cl, Some tc')))"

definition newproc1 :: "goroutine \<Rightarrow> goroutine \<Rightarrow> world \<Rightarrow> world" where
  "newproc1 caller new w =
     (let (cl, own) = propagate_trace_context (flags w) (gls w caller)
      in w\<lparr>gls := (gls w)(caller := own, new := cl), baggage := (baggage w)(new := baggage w caller)\<rparr>)"

text \<open>
  \<open>trace.SpanFromContext\<close>: \<open>from_ctx\<close> is the span the original body found in the
  context (its no-op span when there is none).
\<close>

definition span_from_context :: "goroutine \<Rightarrow> span \<Rightarrow> world \<Rightarrow> span \<times> world" where
  "span_from_context g from_ctx w =
     (if ctx_valid from_ctx then (from_ctx, w)
      else let (s, w') = span_from_gls g w
           in (case s of None \<Rightarrow> from_ctx | Some sp \<Rightarrow> sp, w'))"

text \<open>\<open>otel.SetTracerProvider\<close>: the atomic swap lets only the first call through.\<close>

definition set_tracer_provider :: "'p \<Rightarrow> bool \<times> 'p option \<Rightarrow> bool \<times> 'p option" where
  "set_tracer_provider p st = (if fst st then (True, snd st) else (True, Some p))"

end
