(* ===== verification/Gls_Invariant.thy ===== *)
theory Gls_Invariant
  imports Gls_Stack
begin

text \<open>
  The invariant of the span stacks and the lifecycle tracker, and its preservation by
  every operation.  \<open>tracker_inv\<close> ties the map to the eviction list and says that a
  tracked cell is live; \<open>wrap_ok\<close> ties a stack entry to the tracker: the entry of a
  valid span is ended or its cell is the tracked one; \<open>ctx_ok\<close> ties the counter to the
  list.
\<close>

definition order_of :: "(span_key \<times> span_state_entry) list \<Rightarrow> (nat \<times> span_key) list" where
  "order_of sts = map (\<lambda>(k, e). (st_elem e, k)) sts"

definition tracker_inv :: "world \<Rightarrow> bool" where
  "tracker_inv w \<longleftrightarrow>
     distinct (map fst (states w)) \<and> order w = order_of (states w) \<and>
     distinct (map (\<lambda>(k, e). st_elem e) (states w)) \<and>
     distinct (map (\<lambda>(k, e). st_state e) (states w)) \<and>
     (\<forall>(k, e) \<in> set (states w).
        st_elem e < next_elem w \<and> st_state e < next_flag w \<and> \<not> flags w (st_state e) \<and>
        fst k \<noteq> 0 \<and> snd k \<noteq> 0) \<and>
     int (length (states w)) \<le> max_states w \<and> 0 < max_states w \<and> 0 < max_spans w"

definition wrap_ok :: "world \<Rightarrow> span_wrapper \<Rightarrow> bool" where
  "wrap_ok w x \<longleftrightarrow>
     w_ended x < next_flag w \<and>
     (ctx_valid (w_span x) \<longrightarrow>
        flags w (w_ended x) \<or>
        (\<exists>e. map_of (states w) (span_key (w_span x)) = Some e \<and> st_state e = w_ended x)) \<and>
     (\<forall>(k, e) \<in> set (states w). st_state e = w_ended x \<longrightarrow> k = span_key (w_span x))"

definition ctx_ok :: "world \<Rightarrow> trace_context \<Rightarrow> bool" where
  "ctx_ok w tc \<longleftrightarrow>
     tc_n tc = int (length (tc_sw tc)) \<and> tc_n tc \<le> max_spans w \<and> (\<forall>x \<in> set (tc_sw tc). wrap_ok w x)"

definition gls_inv :: "world \<Rightarrow> bool" where
  "gls_inv w \<longleftrightarrow> tracker_inv w \<and> (\<forall>g tc. gls w g = Some tc \<longrightarrow> ctx_ok w tc)"

section \<open>Removing a tracker entry\<close>

text \<open>Eviction and \<open>markSpanEnded\<close> both do this to one tracked key.\<close>

definition drop_entry :: "span_key \<Rightarrow> span_state_entry \<Rightarrow> world \<Rightarrow> world" where
  "drop_entry k e w =
     w\<lparr>flags := (flags w)(st_state e := True), states := AList.delete k (states w),
       order := filter (\<lambda>(el, _). el \<noteq> st_elem e) (order w)\<rparr>"

lemma drop_entry_sel [simp]:
  "flags (drop_entry k e w) = (flags w)(st_state e := True)"
  "states (drop_entry k e w) = AList.delete k (states w)"
  "gls (drop_entry k e w) = gls w" "next_flag (drop_entry k e w) = next_flag w"
  "max_spans (drop_entry k e w) = max_spans w" "max_states (drop_entry k e w) = max_states w"
  "next_elem (drop_entry k e w) = next_elem w" "baggage (drop_entry k e w) = baggage w"
  by (simp_all add: drop_entry_def)

lemma distinct_map_inj: "distinct (map f xs) \<Longrightarrow> x \<in> set xs \<Longrightarrow> y \<in> set xs \<Longrightarrow> f x = f y \<Longrightarrow> x = y"
  by (auto simp: distinct_map inj_on_def)

lemma map_of_entry: "tracker_inv w \<Longrightarrow> map_of (states w) k = Some e \<longleftrightarrow> (k, e) \<in> set (states w)"
  by (auto simp: tracker_inv_def)

lemma order_delete:
  assumes "distinct (map (\<lambda>(k, e). st_elem e) sts)" "distinct (map fst sts)" "(k, e) \<in> set sts"
  shows "filter (\<lambda>(el, _). el \<noteq> st_elem e) (order_of sts) = order_of (AList.delete k sts)"
  using assms
proof (induction sts)
  case (Cons a sts)
  obtain k' e' where a: "a = (k', e')" by (cases a)
  show ?case
  proof (cases "k' = k")
    case True
    with Cons.prems a have "e' = e" "k \<notin> fst ` set sts" by (auto simp: rev_image_eqI)
    moreover have "\<forall>(el, _) \<in> set (order_of sts). el \<noteq> st_elem e"
      using Cons.prems a \<open>e' = e\<close> by (fastforce simp: order_of_def)
    then have "filter (\<lambda>(el, _). el \<noteq> st_elem e) (order_of sts) = order_of sts"
      by (auto simp: filter_id_conv)
    ultimately show ?thesis
      using a True by (simp add: order_of_def AList.delete_id)
  next
    case False
    with Cons.prems a have "(k, e) \<in> set sts" by simp
    moreover then have "st_elem e' \<noteq> st_elem e"
      using Cons.prems a by (auto simp: image_iff)
    ultimately show ?thesis using Cons a False by (simp add: order_of_def)
  qed
qed simp

lemma distinct_map_delete: "distinct (map f sts) \<Longrightarrow> distinct (map f (AList.delete k sts))"
  by (simp add: AList.delete_eq distinct_map_filter)

lemma tracker_drop_entry:
  assumes inv: "tracker_inv w" and mem: "(k, e) \<in> set (states w)"
  shows "tracker_inv (drop_entry k e w)"
proof -
  let ?sts = "AList.delete k (states w)"
  have sub: "set ?sts \<subseteq> set (states w)" by (auto simp: AList.delete_eq)
  have other: "st_state e' \<noteq> st_state e" if "(k', e') \<in> set ?sts" for k' e'
  proof
    assume "st_state e' = st_state e"
    with inv mem that sub have "(k', e') = (k, e)"
      using distinct_map_inj [of "\<lambda>(k, e). st_state e" "states w" "(k', e')" "(k, e)"]
      by (auto simp: tracker_inv_def)
    with that show False by (simp add: AList.delete_eq)
  qed
  have "int (length ?sts) \<le> max_states w"
    using inv length_delete_le [of k "states w"] by (auto simp: tracker_inv_def)
  moreover have "filter (\<lambda>(el, _). el \<noteq> st_elem e) (order w) = order_of ?sts"
    using inv mem order_delete [of "states w" k e] by (simp add: tracker_inv_def)
  ultimately show ?thesis
    using inv sub other by (fastforce simp: tracker_inv_def drop_entry_def distinct_map_delete)
qed

lemma wrap_drop_entry:
  assumes inv: "tracker_inv w" and mem: "(k, e) \<in> set (states w)" and ok: "wrap_ok w x"
  shows "wrap_ok (drop_entry k e w) x"
proof -
  have "map_of (AList.delete k (states w)) (span_key (w_span x)) =
          (if span_key (w_span x) = k then None else map_of (states w) (span_key (w_span x)))"
    by (simp add: delete_conv)
  moreover have "map_of (states w) k = Some e" using inv mem by (simp add: map_of_entry)
  ultimately show ?thesis using ok by (auto simp: wrap_ok_def AList.delete_eq)
qed

lemma evict_oldest_Cons:
  assumes "tracker_inv w" "states w = (k, e) # sts"
  shows "evict_oldest_locked w = drop_entry k e w"
proof -
  have "order w = (st_elem e, k) # order_of sts"
    using assms by (simp add: tracker_inv_def order_of_def)
  then show ?thesis using assms by (simp add: evict_oldest_locked_def drop_entry_def Let_def)
qed

lemma mark_span_ended_cases:
  assumes "tracker_inv w"
  obtains "mark_span_ended s w = w" "\<not> ctx_valid s \<or> map_of (states w) (span_key s) = None"
  | e where "ctx_valid s" "(span_key s, e) \<in> set (states w)" "mark_span_ended s w = drop_entry (span_key s) e w"
proof (cases "ctx_valid s \<and> map_of (states w) (span_key s) \<noteq> None")
  case True
  then obtain e where e: "map_of (states w) (span_key s) = Some e" by blast
  with assms have "(span_key s, e) \<in> set (states w)" by (simp add: map_of_entry)
  with True e that(2) show ?thesis by (simp add: mark_span_ended_def drop_entry_def)
next
  case False
  with that(1) show ?thesis by (auto simp: mark_span_ended_def)
qed

section \<open>Tracker steps keep the stacks well formed\<close>

text \<open>
  What a tracker step promises to the stacks: cells already allocated only go from live to
  ended, and a well-formed entry stays so.
\<close>

definition tracker_step :: "world \<Rightarrow> world \<Rightarrow> bool" where
  "tracker_step w w' \<longleftrightarrow>
     gls w' = gls w \<and> baggage w' = baggage w \<and>
     max_spans w' = max_spans w \<and> max_states w' = max_states w \<and>
     (\<forall>x. wrap_ok w x \<longrightarrow> wrap_ok w' x)"

lemma tracker_step_refl [simp]: "tracker_step w w"
  by (simp add: tracker_step_def)

lemma tracker_step_trans [trans]: "tracker_step a b \<Longrightarrow> tracker_step b c \<Longrightarrow> tracker_step a c"
  by (simp add: tracker_step_def)

lemma tracker_step_drop: "tracker_inv w \<Longrightarrow> (k, e) \<in> set (states w) \<Longrightarrow> tracker_step w (drop_entry k e w)"
  by (simp add: tracker_step_def wrap_drop_entry)

lemma tracker_step_ctx: "tracker_step w w' \<Longrightarrow> ctx_ok w tc \<Longrightarrow> ctx_ok w' tc"
  by (simp add: tracker_step_def ctx_ok_def)

lemma mark_span_ended_step:
  assumes "tracker_inv w"
  shows "tracker_inv (mark_span_ended s w) \<and> tracker_step w (mark_span_ended s w)"
  by (rule mark_span_ended_cases [OF assms, of s])
    (simp_all add: assms tracker_drop_entry tracker_step_drop)

lemma new_flag_step:
  assumes "tracker_inv w" and "new_flag w = (f, w')"
  shows "tracker_inv w' \<and> tracker_step w w' \<and> f = next_flag w \<and> states w' = states w \<and> next_elem w' = next_elem w"
proof -
  have "f = next_flag w" "w' = w\<lparr>flags := (flags w)(next_flag w := False), next_flag := Suc (next_flag w)\<rparr>"
    using assms(2) by (auto simp: new_flag_def)
  with assms(1) show ?thesis
    by (fastforce simp: tracker_inv_def tracker_step_def wrap_ok_def)
qed

text \<open>Entering a fresh cell for an untracked key, with room in the tracker.\<close>

definition track :: "span_key \<Rightarrow> world \<Rightarrow> world" where
  "track k w =
     w\<lparr>flags := (flags w)(next_flag w := False), next_flag := Suc (next_flag w),
       next_elem := Suc (next_elem w), order := order w @ [(next_elem w, k)],
       states := states w @ [(k, \<lparr>st_state = next_flag w, st_elem = next_elem w\<rparr>)]\<rparr>"

lemma track_sel [simp]:
  "flags (track k w) = (flags w)(next_flag w := False)"
  "states (track k w) = states w @ [(k, \<lparr>st_state = next_flag w, st_elem = next_elem w\<rparr>)]"
  "gls (track k w) = gls w" "baggage (track k w) = baggage w"
  "next_flag (track k w) = Suc (next_flag w)"
  "max_spans (track k w) = max_spans w" "max_states (track k w) = max_states w"
  by (simp_all add: track_def)

lemma update_new: "k \<notin> fst ` set sts \<Longrightarrow> AList.update k v sts = sts @ [(k, v)]"
  by (induction sts) auto

lemma tracker_track:
  assumes inv: "tracker_inv w" and new: "k \<notin> fst ` set (states w)" and val: "fst k \<noteq> 0" "snd k \<noteq> 0"
    and room: "int (length (states w)) < max_states w"
  shows "tracker_inv (track k w)" "tracker_step w (track k w)"
proof -
  show "tracker_inv (track k w)"
    using assms by (fastforce simp: tracker_inv_def track_def order_of_def)
  have "wrap_ok (track k w) x" if "wrap_ok w x" for x
    using that new by (fastforce simp: wrap_ok_def map_of_append split: option.splits)
  then show "tracker_step w (track k w)" by (simp add: tracker_step_def)
qed

text \<open>\<open>stateForSpan\<close> on an untracked valid span: evict the oldest entry if full, then track.\<close>

definition make_room :: "world \<Rightarrow> world" where
  "make_room w = (if int (length (states w)) \<ge> max_states w then evict_oldest_locked w else w)"

lemma make_room_cases:
  assumes "tracker_inv w"
  obtains "make_room w = w" "int (length (states w)) < max_states w"
  | k e sts where "states w = (k, e) # sts" "int (length (states w)) = max_states w"
      "make_room w = drop_entry k e w"
proof (cases "int (length (states w)) \<ge> max_states w")
  case True
  with assms have "states w \<noteq> []" by (auto simp: tracker_inv_def)
  then obtain k e sts where "states w = (k, e) # sts" by (metis list.exhaust surj_pair)
  with assms True that(2) show ?thesis
    by (auto simp: make_room_def evict_oldest_Cons tracker_inv_def)
next
  case False
  with that(1) show ?thesis by (simp add: make_room_def)
qed

lemma make_room_step:
  assumes "tracker_inv w"
  shows "tracker_inv (make_room w)" "tracker_step w (make_room w)"
    "int (length (states (make_room w))) < max_states w"
    "fst ` set (states (make_room w)) \<subseteq> fst ` set (states w)"
proof -
  have "tracker_inv (make_room w) \<and> tracker_step w (make_room w) \<and>
    int (length (states (make_room w))) < max_states w \<and>
    fst ` set (states (make_room w)) \<subseteq> fst ` set (states w)" (is ?P)
  proof (rule make_room_cases [OF assms])
    assume "make_room w = w" "int (length (states w)) < max_states w"
    with assms show ?P by simp
  next
    fix k e sts
    assume *: "states w = (k, e) # sts" "int (length (states w)) = max_states w"
      "make_room w = drop_entry k e w"
    have "k \<notin> fst ` set sts" using assms * by (auto simp: tracker_inv_def)
    then have "AList.delete k (states w) = sts" using * by (simp add: AList.delete_id)
    then show ?P
      using assms * tracker_drop_entry [of w k e] tracker_step_drop [of w k e] by auto
  qed
  then show "tracker_inv (make_room w)" "tracker_step w (make_room w)"
    "int (length (states (make_room w))) < max_states w"
    "fst ` set (states (make_room w)) \<subseteq> fst ` set (states w)" by blast+
qed

lemma state_for_span_cases:
  assumes "tracker_inv w"
  obtains (untracked) "\<not> ctx_valid s" "state_for_span s w = new_flag w"
  | (known) e where "ctx_valid s" "map_of (states w) (span_key s) = Some e" "state_for_span s w = (st_state e, w)"
  | (fresh) "ctx_valid s" "span_key s \<notin> fst ` set (states w)"
      "state_for_span s w = (next_flag (make_room w), track (span_key s) (make_room w))"
proof (cases "ctx_valid s")
  case False
  with untracked show ?thesis by (simp add: state_for_span_def)
next
  case True
  show ?thesis
  proof (cases "map_of (states w) (span_key s)")
    case None
    then have new: "span_key s \<notin> fst ` set (states w)" by (simp add: map_of_eq_None_iff)
    with make_room_step(4) [OF assms] have "span_key s \<notin> fst ` set (states (make_room w))" by blast
    with None True have "state_for_span s w = (next_flag (make_room w), track (span_key s) (make_room w))"
      by (simp add: state_for_span_def make_room_def [symmetric] new_flag_def Let_def track_def update_new)
    with True new fresh show ?thesis by simp
  qed (use True known in \<open>simp add: state_for_span_def\<close>)
qed

lemma state_for_span_step:
  assumes inv: "tracker_inv w" and eq: "state_for_span s w = (f, w')"
  shows "tracker_inv w' \<and> tracker_step w w' \<and> wrap_ok w' \<lparr>w_span = s, w_ended = f\<rparr> \<and> \<not> flags w' f"
proof (rule state_for_span_cases [OF inv, of s])
  assume untracked: "\<not> ctx_valid s" "state_for_span s w = new_flag w"
  then have "new_flag w = (f, w')" using eq by simp
  with new_flag_step [OF inv this] untracked inv show ?thesis
    by (auto simp: wrap_ok_def new_flag_def tracker_inv_def)
next
  fix e
  assume known: "ctx_valid s" "map_of (states w) (span_key s) = Some e"
    "state_for_span s w = (st_state e, w)"
  with eq have "(span_key s, e) \<in> set (states w)" "f = st_state e" "w' = w"
    by (auto dest: map_of_SomeD)
  with known inv show ?thesis
    using distinct_map_inj [of "\<lambda>(k, e). st_state e" "states w" "(span_key s, e)"]
    by (fastforce simp: wrap_ok_def tracker_inv_def)
next
  assume fresh: "ctx_valid s" "span_key s \<notin> fst ` set (states w)"
    "state_for_span s w = (next_flag (make_room w), track (span_key s) (make_room w))"
  let ?w1 = "make_room w"
  note room = make_room_step [OF inv]
  have w': "w' = track (span_key s) ?w1" and f: "f = next_flag ?w1" using fresh eq by auto
  have new: "span_key s \<notin> fst ` set (states ?w1)" using fresh room(4) by blast
  have val: "fst (span_key s) \<noteq> 0" "snd (span_key s) \<noteq> 0"
    using fresh by (simp_all add: ctx_valid_def span_key_def)
  have mx: "max_states ?w1 = max_states w" using room(2) by (simp add: tracker_step_def)
  note tr = tracker_track [OF room(1) new val]
  have "tracker_inv w'" "tracker_step ?w1 w'" using tr room(3) mx w' by auto
  moreover have "wrap_ok w' \<lparr>w_span = s, w_ended = f\<rparr>"
  proof -
    have "map_of (states w') (span_key s) = Some \<lparr>st_state = f, st_elem = next_elem ?w1\<rparr>"
      using new w' f by (simp add: map_of_append map_add_def map_of_eq_None_iff [THEN iffD2])
    moreover have "st_state e < f" if "(k, e) \<in> set (states ?w1)" for k e
      using that room(1) f by (auto simp: tracker_inv_def)
    ultimately show ?thesis using w' f by (fastforce simp: wrap_ok_def)
  qed
  ultimately show ?thesis using room(2) w' f by (auto intro: tracker_step_trans)
qed

section \<open>Stack operations\<close>

lemma compact_loop_eq:
  "compact_loop fl sw n =
     (filter (\<lambda>x. \<not> fl (w_ended x)) sw, n - int (length (filter (\<lambda>x. fl (w_ended x)) sw)))"
  by (induction fl sw n rule: compact_loop.induct) (auto simp: Let_def)

lemma tail_loop_eq:
  "tail_loop fl sw n =
     (dropWhile (\<lambda>x. fl (w_ended x)) sw, n - int (length (takeWhile (\<lambda>x. fl (w_ended x)) sw)))"
  by (induction fl sw n rule: tail_loop.induct) auto

lemma length_filter_split: "length (filter P xs) + length (filter (\<lambda>x. \<not> P x) xs) = length xs"
  by (induction xs) auto

lemma length_while_split: "length (takeWhile P xs) + length (dropWhile P xs) = length xs"
  by (metis length_append takeWhile_dropWhile_id)

lemma ctx_ok_compact:
  assumes "ctx_ok w tc"
  shows "ctx_ok w (tc_compact fl tc)"
    and "tc_sw (tc_compact fl tc) = filter (\<lambda>x. \<not> fl (w_ended x)) (tc_sw tc)"
  using assms length_filter_split [of "\<lambda>x. fl (w_ended x)" "tc_sw tc"]
  by (auto simp: tc_compact_def compact_loop_eq Let_def ctx_ok_def)

lemma ctx_ok_tail:
  assumes "ctx_ok w tc" and "tc_tail fl tc = (s, tc')"
  shows "ctx_ok w tc'"
    and "tc_sw tc' = dropWhile (\<lambda>x. fl (w_ended x)) (tc_sw tc)"
    and "s = (case tc_sw tc' of [] \<Rightarrow> None | x # _ \<Rightarrow> Some (w_span x))"
proof -
  obtain sw n where tl: "tail_loop fl (tc_sw tc) (tc_n tc) = (sw, n)" by (metis surj_pair)
  have res: "tc_sw tc' = sw" "tc_n tc' = n" "s = (case sw of [] \<Rightarrow> None | x # _ \<Rightarrow> Some (w_span x))"
    using assms(2) tl by (cases sw; auto simp: tc_tail_def Let_def)+
  have sw: "sw = dropWhile (\<lambda>x. fl (w_ended x)) (tc_sw tc)"
    and n: "n = tc_n tc - int (length (takeWhile (\<lambda>x. fl (w_ended x)) (tc_sw tc)))"
    using tl by (simp_all add: tail_loop_eq)
  show "tc_sw tc' = dropWhile (\<lambda>x. fl (w_ended x)) (tc_sw tc)"
    and "s = (case tc_sw tc' of [] \<Rightarrow> None | x # _ \<Rightarrow> Some (w_span x))"
    using res sw by simp_all
  show "ctx_ok w tc'"
    using assms(1) res sw n length_while_split [of "\<lambda>x. fl (w_ended x)" "tc_sw tc"]
    by (auto simp: ctx_ok_def dest: set_dropWhileD)
qed

lemma del_loop_eq:
  assumes "del_loop s sw = Some (sw', f, lst)"
  shows "\<exists>x a b. sw = a @ x # b \<and> sw' = a @ b \<and> f = w_ended x \<and> span_key (w_span x) = span_key s \<and>
           (\<forall>y \<in> set a. span_key (w_span y) \<noteq> span_key s) \<and> (lst \<longleftrightarrow> b = [])"
  using assms
proof (induction sw arbitrary: sw')
  case (Cons y sw)
  show ?case
  proof (cases "span_key (w_span y) = span_key s")
    case True
    with Cons.prems show ?thesis
      by (intro exI [of _ y] exI [of _ "[]"] exI [of _ sw]) (auto simp: span_key_def)
  next
    case False
    with Cons.prems obtain ys where ys: "del_loop s sw = Some (ys, f, lst)" "sw' = y # ys"
      by (auto simp: span_key_def split: option.splits if_splits)
    from Cons.IH [OF ys(1)] obtain x a b where
      "sw = a @ x # b" "ys = a @ b" "f = w_ended x" "span_key (w_span x) = span_key s"
      "\<forall>y \<in> set a. span_key (w_span y) \<noteq> span_key s" "lst \<longleftrightarrow> b = []" by blast
    with False ys show ?thesis by (intro exI [of _ x] exI [of _ "y # a"] exI [of _ b]) auto
  qed
qed simp

lemma del_loop_None: "del_loop s sw = None \<longleftrightarrow> (\<forall>x \<in> set sw. span_key (w_span x) \<noteq> span_key s)"
  by (induction sw) (auto simp: span_key_def split: option.splits)

end
