(* ===== verification/Transition_Systems.thy ===== *)
theory Transition_Systems
  imports Main
begin

text \<open>
  Runs of a deterministic component over a list of operations, and the two contracts the
  stateful components of the model are shown to meet: an invariant kept by every guarded
  operation, and a functional refinement of an abstract component.
\<close>

fun run_ops :: "('o \<Rightarrow> 's \<Rightarrow> 's) \<Rightarrow> 'o list \<Rightarrow> 's \<Rightarrow> 's" where
  "run_ops step [] s = s"
| "run_ops step (x # xs) s = run_ops step xs (step x s)"

text \<open>Every operation of the run meets its guard in the state it is executed in.\<close>

fun guarded :: "('o \<Rightarrow> 's \<Rightarrow> 's) \<Rightarrow> ('o \<Rightarrow> 's \<Rightarrow> bool) \<Rightarrow> 'o list \<Rightarrow> 's \<Rightarrow> bool" where
  "guarded step ok [] s = True"
| "guarded step ok (x # xs) s = (ok x s \<and> guarded step ok xs (step x s))"

lemma run_ops_append: "run_ops step (xs @ ys) s = run_ops step ys (run_ops step xs s)"
  by (induction xs arbitrary: s) auto

lemma guarded_append:
  "guarded step ok (xs @ ys) s \<longleftrightarrow> guarded step ok xs s \<and> guarded step ok ys (run_ops step xs s)"
  by (induction xs arbitrary: s) auto

lemma guarded_True [simp]: "guarded step (\<lambda>_ _. True) xs s"
  by (induction xs arbitrary: s) auto

locale invariant_system =
  fixes step :: "'o \<Rightarrow> 's \<Rightarrow> 's" and ok :: "'o \<Rightarrow> 's \<Rightarrow> bool" and inv :: "'s \<Rightarrow> bool"
  assumes step_inv: "inv s \<Longrightarrow> ok x s \<Longrightarrow> inv (step x s)"
begin

lemma run_inv: "inv s \<Longrightarrow> guarded step ok xs s \<Longrightarrow> inv (run_ops step xs s)"
  by (induction xs arbitrary: s) (auto intro: step_inv)

end

locale refinement_system = invariant_system +
  fixes abs :: "'s \<Rightarrow> 'a" and astep :: "'o \<Rightarrow> 'a \<Rightarrow> 'a"
  assumes step_abs: "inv s \<Longrightarrow> ok x s \<Longrightarrow> abs (step x s) = astep x (abs s)"
begin

lemma run_abs: "inv s \<Longrightarrow> guarded step ok xs s \<Longrightarrow> abs (run_ops step xs s) = run_ops astep xs (abs s)"
  by (induction xs arbitrary: s) (auto simp: step_abs step_inv)

end

text \<open>
  A component whose operations may fail to return, simulated by one whose operations do not: every
  run returns, in a state related to the one the abstract run reaches.
\<close>

fun run_partial :: "('o \<Rightarrow> 's \<Rightarrow> 's option) \<Rightarrow> 'o list \<Rightarrow> 's \<Rightarrow> 's option" where
  "run_partial step [] s = Some s"
| "run_partial step (x # xs) s = (case step x s of None \<Rightarrow> None | Some s' \<Rightarrow> run_partial step xs s')"

locale total_simulation =
  fixes step :: "'o \<Rightarrow> 's \<Rightarrow> 's option" and astep :: "'o \<Rightarrow> 'a \<Rightarrow> 'a"
    and ok :: "'o \<Rightarrow> 'a \<Rightarrow> bool" and rel :: "'s \<Rightarrow> 'a \<Rightarrow> bool"
  assumes step_sim: "rel s a \<Longrightarrow> ok x a \<Longrightarrow> \<exists>s'. step x s = Some s' \<and> rel s' (astep x a)"
begin

lemma run_sim:
  "rel s a \<Longrightarrow> guarded astep ok xs a \<Longrightarrow> \<exists>s'. run_partial step xs s = Some s' \<and> rel s' (run_ops astep xs a)"
proof (induction xs arbitrary: s a)
  case (Cons x xs)
  then obtain s1 where "step x s = Some s1" "rel s1 (astep x a)"
    using step_sim by fastforce
  then show ?case using Cons by simp
qed simp

end

end
