(* ===== verification/Gls_Refinement.thy ===== *)
theory Gls_Refinement
  imports Gls_Invariant Transition_Systems
begin

text \<open>
  The goroutine-local span stacks as one system: its operations, the invariant over every
  run, and the abstract specification they refine.  The specification has no flags,
  counters, wrappers or lazy popping: a stack per goroutine holding live spans only, and
  the list of tracked keys in insertion order.
\<close>

datatype gls_op =
    StartSpan goroutine span
  | EndSpan goroutine span
  | LookupSpan goroutine
  | ForkGo goroutine goroutine
  | ClearCtx goroutine

fun gls_step :: "gls_op \<Rightarrow> world \<Rightarrow> world" where
  "gls_step (StartSpan g s) w = new_recording_span g (Some s) w"
| "gls_step (EndSpan g s) w = span_end g s w"
| "gls_step (LookupSpan g) w = snd (span_from_gls g w)"
| "gls_step (ForkGo p c) w = newproc1 p c w"
| "gls_step (ClearCtx g) w = clear_trace_context g w"

text \<open>A new goroutine is not its own creator.\<close>

fun gls_ok :: "gls_op \<Rightarrow> world \<Rightarrow> bool" where
  "gls_ok (ForkGo p c) w = (p \<noteq> c)"
| "gls_ok _ w = True"

section \<open>Every operation keeps the invariant\<close>

lemma gls_invD [dest]: "gls_inv w \<Longrightarrow> tracker_inv w"
  and gls_inv_ctx: "gls_inv w \<Longrightarrow> gls w g = Some tc \<Longrightarrow> ctx_ok w tc"
  by (simp_all add: gls_inv_def)

lemma ctx_ok_empty: "tracker_inv w \<Longrightarrow> ctx_ok w tc_empty"
  by (simp add: ctx_ok_def tc_empty_def tracker_inv_def)

lemma wrap_ok_gls [simp]: "wrap_ok (set_ctx g tc w) = wrap_ok w"
  by (simp add: wrap_ok_def fun_eq_iff set_ctx_def)

lemma set_ctx_sel [simp]:
  "tracker_inv (set_ctx g tc w) = tracker_inv w" "ctx_ok (set_ctx g tc w) = ctx_ok w"
  "flags (set_ctx g tc w) = flags w" "states (set_ctx g tc w) = states w"
  "gls (set_ctx g tc w) = (gls w)(g := Some tc)"
  "max_spans (set_ctx g tc w) = max_spans w" "max_states (set_ctx g tc w) = max_states w"
  by (simp_all add: tracker_inv_def ctx_ok_def wrap_ok_def fun_eq_iff set_ctx_def)

lemma gls_inv_set_ctx: "gls_inv w \<Longrightarrow> ctx_ok w tc \<Longrightarrow> gls_inv (set_ctx g tc w)"
  by (simp add: gls_inv_def)

lemma gls_inv_step:
  assumes "gls_inv w" "tracker_inv w'" "tracker_step w w'"
  shows "gls_inv w'"
proof -
  have "gls w' = gls w" using assms(3) by (simp add: tracker_step_def)
  with assms show ?thesis by (simp add: gls_inv_def tracker_step_ctx)
qed

lemma gls_inv_baggage [simp]: "gls_inv (w\<lparr>baggage := b\<rparr>) = gls_inv w"
  by (simp add: gls_inv_def tracker_inv_def ctx_ok_def wrap_ok_def)

lemma get_or_init_inv:
  assumes "gls_inv w" "get_or_init_trace_context g w = (tc, w1)"
  shows "gls_inv w1" "ctx_ok w1 tc" "gls w1 = (gls w)(g := Some tc)" "flags w1 = flags w"
    "states w1 = states w" "max_spans w1 = max_spans w" "max_states w1 = max_states w"
    "tc = (case gls w g of None \<Rightarrow> tc_empty | Some t \<Rightarrow> t)"
  using assms
  by (auto simp: get_or_init_trace_context_def gls_inv_set_ctx ctx_ok_empty gls_invD gls_inv_ctx
      split: option.splits)

text \<open>The two outcomes of \<open>add\<close>: the stack is full of live spans, or the span is pushed.\<close>

abbreviation live_entries :: "(nat \<Rightarrow> bool) \<Rightarrow> span_wrapper list \<Rightarrow> span_wrapper list" where
  "live_entries fl \<equiv> filter (\<lambda>x. \<not> fl (w_ended x))"

lemma tc_add_cases:
  assumes "ctx_ok w tc" "tc_add s tc w = (b, tc', w')"
  obtains (full) "\<not> b" "w' = w" "ctx_ok w tc'" "tc_sw tc' = live_entries (flags w) (tc_sw tc)"
      "int (length (live_entries (flags w) (tc_sw tc))) \<ge> max_spans w"
  | (pushed) f base where "b" "state_for_span s w = (f, w')"
      "tc_sw tc' = \<lparr>w_span = s, w_ended = f\<rparr> # base"
      "base = tc_sw tc \<or> base = live_entries (flags w) (tc_sw tc)"
      "tc_n tc' = int (length (tc_sw tc'))" "tc_n tc' \<le> max_spans w"
      "int (length (live_entries (flags w) (tc_sw tc))) < max_spans w"
proof -
  obtain f w1 where fs: "state_for_span s w = (f, w1)" by (metis surj_pair)
  note comp = ctx_ok_compact [OF assms(1), of "flags w"]
  have len: "length (live_entries (flags w) (tc_sw tc)) \<le> length (tc_sw tc)" by simp
  show ?thesis
  proof (cases "tc_n tc \<ge> max_spans w")
    case True
    show ?thesis
    proof (cases "tc_n (tc_compact (flags w) tc) \<ge> max_spans w")
      case full': True
      with True assms(2) have "\<not> b" "w' = w" "tc' = tc_compact (flags w) tc"
        by (auto simp: tc_add_def Let_def)
      then show ?thesis
        using comp full' full by (simp add: ctx_ok_def)
    next
      case False
      with True assms(2) fs have "b" "w' = w1"
        "tc_sw tc' = \<lparr>w_span = s, w_ended = f\<rparr> # live_entries (flags w) (tc_sw tc)"
        "tc_n tc' = tc_n (tc_compact (flags w) tc) + 1"
        using comp by (auto simp: tc_add_def Let_def)
      then show ?thesis using pushed [of f] fs comp False by (simp add: ctx_ok_def)
    qed
  next
    case False
    with assms(2) fs have "b" "w' = w1" "tc_sw tc' = \<lparr>w_span = s, w_ended = f\<rparr> # tc_sw tc"
      "tc_n tc' = tc_n tc + 1"
      by (auto simp: tc_add_def Let_def)
    moreover have "tc_n tc = int (length (tc_sw tc))" using assms(1) by (simp add: ctx_ok_def)
    ultimately show ?thesis using pushed [of f] fs False len by simp
  qed
qed

lemma tc_add_inv:
  assumes inv: "gls_inv w" and ctx: "ctx_ok w tc" and add: "tc_add s tc w = (b, tc', w')"
  shows "gls_inv w' \<and> ctx_ok w' tc' \<and> tracker_step w w'"
proof (cases rule: tc_add_cases [OF ctx add, case_names full pushed])
  case full
  then show ?thesis using inv by simp
next
  case (pushed f base)
  note st = state_for_span_step [OF gls_invD [OF inv] pushed(2)]
  have "\<forall>x \<in> set base. wrap_ok w' x"
    using pushed(4) ctx st by (auto simp: ctx_ok_def tracker_step_def)
  then have "ctx_ok w' tc'" using pushed st by (simp add: ctx_ok_def tracker_step_def)
  then show ?thesis using gls_inv_step [OF inv] st by blast
qed

lemma add_span_inv: "gls_inv w \<Longrightarrow> gls_inv (trace_context_add_span g s w)"
proof -
  assume inv: "gls_inv w"
  obtain tc w1 where gi: "get_or_init_trace_context g w = (tc, w1)" by (metis surj_pair)
  obtain b tc' w2 where add: "tc_add s tc w1 = (b, tc', w2)" by (metis surj_pair)
  have "gls_inv w2 \<and> ctx_ok w2 tc'"
    using tc_add_inv [OF get_or_init_inv(1,2) [OF inv gi] add] by blast
  then show ?thesis using gi add by (simp add: trace_context_add_span_def gls_inv_set_ctx)
qed

lemma tail_inv:
  assumes "gls_inv w" "ctx_ok w tc" "tc_tail (flags w) tc = (s, tc')"
  shows "gls_inv (set_ctx g tc' w)"
  using assms ctx_ok_tail(1) gls_inv_set_ctx by blast

lemma span_from_gls_inv: "gls_inv w \<Longrightarrow> span_from_gls g w = (s, w') \<Longrightarrow> gls_inv w'"
  by (auto simp: span_from_gls_def Let_def intro!: tail_inv gls_inv_ctx split: option.splits prod.splits)

lemma clone_ctx:
  assumes "ctx_ok w tc" "tc_clone (flags w) tc = (cl, tc')" "tracker_inv w"
  shows "ctx_ok w tc'" "ctx_ok w cl"
    "tc_sw tc' = dropWhile (\<lambda>x. flags w (w_ended x)) (tc_sw tc)"
    "tc_sw cl = take 1 (tc_sw tc')"
proof -
  obtain s t where t: "tc_tail (flags w) tc = (s, t)" by (metis surj_pair)
  note tl = ctx_ok_tail [OF assms(1) t]
  have tc': "tc' = t" and cl: "cl = (case s of None \<Rightarrow> tc_empty
      | Some s \<Rightarrow> \<lparr>tc_sw = [\<lparr>w_span = s, w_ended = w_ended (hd (tc_sw t))\<rparr>], tc_n = 1, tc_lcs = None\<rparr>)"
    using assms(2) t by (auto simp: tc_clone_def split: option.splits)
  show "ctx_ok w tc'" "tc_sw tc' = dropWhile (\<lambda>x. flags w (w_ended x)) (tc_sw tc)" using tl tc' by simp_all
  show take1: "tc_sw cl = take 1 (tc_sw tc')"
    using tl(3) cl tc' by (cases "tc_sw t") (simp_all add: tc_empty_def)
  show "ctx_ok w cl"
  proof (cases "tc_sw t")
    case Nil
    then show ?thesis using cl tl(3) ctx_ok_empty [OF assms(3)] by simp
  next
    case (Cons x xs)
    then have "wrap_ok w x" "tc_sw cl = [x]" "tc_n cl = 1"
      using tl(1,3) take1 tc' cl by (simp_all add: ctx_ok_def)
    moreover have "1 \<le> max_spans w" using assms(3) by (simp add: tracker_inv_def)
    ultimately show ?thesis unfolding ctx_ok_def by simp
  qed
qed

lemma gls_inv_gls:
  assumes "tracker_inv w" "\<forall>g tc. G g = Some tc \<longrightarrow> ctx_ok w tc"
  shows "gls_inv (w\<lparr>gls := G, baggage := b\<rparr>)"
proof -
  have "ctx_ok (w\<lparr>gls := G, baggage := b\<rparr>) = ctx_ok w"
    by (simp add: fun_eq_iff ctx_ok_def wrap_ok_def)
  with assms show ?thesis by (simp add: gls_inv_def tracker_inv_def)
qed

lemma newproc1_inv:
  assumes "gls_inv w"
  shows "gls_inv (newproc1 p c w)"
proof -
  obtain cl own where pr: "propagate_trace_context (flags w) (gls w p) = (cl, own)" by (metis surj_pair)
  have "(\<forall>t. cl = Some t \<longrightarrow> ctx_ok w t) \<and> (\<forall>t. own = Some t \<longrightarrow> ctx_ok w t)"
  proof (cases "gls w p")
    case None
    then show ?thesis using pr by (auto simp: propagate_trace_context_def)
  next
    case (Some tc)
    obtain t t' where c: "tc_clone (flags w) tc = (t, t')" by (metis surj_pair)
    have "cl = Some t" "own = Some t'" using pr Some c by (simp_all add: propagate_trace_context_def)
    then show ?thesis
      using clone_ctx(1,2) [OF gls_inv_ctx [OF assms Some] c gls_invD [OF assms]] by simp
  qed
  then have all: "\<forall>g tc. ((gls w)(p := own, c := cl)) g = Some tc \<longrightarrow> ctx_ok w tc"
    using assms by (simp add: gls_inv_def)
  show ?thesis
    unfolding newproc1_def pr Let_def prod.case by (rule gls_inv_gls [OF gls_invD [OF assms] all])
qed

lemma clear_inv: "gls_inv w \<Longrightarrow> gls_inv (clear_trace_context g w)"
proof -
  assume inv: "gls_inv w"
  obtain tc w1 where gi: "get_or_init_trace_context g w = (tc, w1)" by (metis surj_pair)
  have "ctx_ok w1 (tc\<lparr>tc_sw := [], tc_n := 0, tc_lcs := None\<rparr>)"
    using get_or_init_inv(1) [OF inv gi] by (auto simp: ctx_ok_def gls_inv_def tracker_inv_def)
  with get_or_init_inv(1) [OF inv gi] gi show ?thesis
    by (simp add: clear_trace_context_def gls_inv_set_ctx)
qed

text \<open>Ending: marking, then unlinking one wrapper and setting its cell, which is not tracked.\<close>

lemma set_untracked_flag:
  assumes inv: "tracker_inv w" and un: "\<And>k e. (k, e) \<in> set (states w) \<Longrightarrow> st_state e \<noteq> f"
  shows "tracker_inv (w\<lparr>flags := (flags w)(f := True)\<rparr>)" "tracker_step w (w\<lparr>flags := (flags w)(f := True)\<rparr>)"
  using inv un by (fastforce simp: tracker_inv_def tracker_step_def wrap_ok_def)+

lemma mark_untracks:
  assumes "tracker_inv w" "(k, e) \<in> set (states (mark_span_ended s w))"
  shows "k \<noteq> span_key s"
proof (rule mark_span_ended_cases [OF assms(1), of s])
  assume *: "mark_span_ended s w = w" "\<not> ctx_valid s \<or> map_of (states w) (span_key s) = None"
  then have "(k, e) \<in> set (states w)" using assms(2) by simp
  moreover then have "fst k \<noteq> 0" "snd k \<noteq> 0" "map_of (states w) k = Some e"
    using assms(1) map_of_entry [OF assms(1)] by (auto simp: tracker_inv_def)
  ultimately show ?thesis using * by (auto simp: ctx_valid_def span_key_def)
next
  fix e'
  assume "mark_span_ended s w = drop_entry (span_key s) e' w"
  then show ?thesis using assms(2) by (auto simp: AList.delete_eq)
qed

lemma wrap_ok_key:
  "wrap_ok w x \<Longrightarrow> (k, e) \<in> set (states w) \<Longrightarrow> st_state e = w_ended x \<Longrightarrow> k = span_key (w_span x)"
  by (fastforce simp: wrap_ok_def)

lemma tc_del_inv:
  assumes inv: "gls_inv w" and ctx: "ctx_ok w tc" and del: "tc_del s tc w = (tc', w')"
    and un: "\<And>k e. (k, e) \<in> set (states w) \<Longrightarrow> k \<noteq> span_key s"
  shows "gls_inv w' \<and> ctx_ok w' tc' \<and> tracker_step w w'"
proof (cases "tc_n tc = 0 \<or> del_loop s (tc_sw tc) = None")
  case True
  then have "tc' = tc" "w' = w" using del by (auto simp: tc_del_def split: option.splits)
  then show ?thesis using inv ctx by simp
next
  case False
  then obtain sw f lst where dl: "del_loop s (tc_sw tc) = Some (sw, f, lst)" by auto
  then obtain x a b where x: "tc_sw tc = a @ x # b" "sw = a @ b" "f = w_ended x"
    "span_key (w_span x) = span_key s" using del_loop_eq [OF dl] by blast
  have w': "w' = w\<lparr>flags := (flags w)(f := True)\<rparr>" and tc': "tc_sw tc' = sw" "tc_n tc' = tc_n tc - 1"
    using del False dl by (auto simp: tc_del_def)
  have "wrap_ok w x" using ctx x by (simp add: ctx_ok_def)
  then have "\<And>k e. (k, e) \<in> set (states w) \<Longrightarrow> st_state e \<noteq> f"
    using un x wrap_ok_key by metis
  then have step: "tracker_inv w'" "tracker_step w w'"
    unfolding w' using set_untracked_flag [OF gls_invD [OF inv]] by blast+
  have "ctx_ok w tc'" using ctx x tc' by (auto simp: ctx_ok_def)
  then show ?thesis using step gls_inv_step [OF inv] tracker_step_ctx by blast
qed

lemma del_span_inv: "gls_inv w \<Longrightarrow> gls_inv (trace_context_del_span g s w)"
proof -
  assume inv: "gls_inv w"
  let ?w1 = "mark_span_ended s w"
  have inv1: "gls_inv ?w1" using mark_span_ended_step [OF gls_invD [OF inv]] gls_inv_step [OF inv] by blast
  show ?thesis
  proof (cases "gls ?w1 g")
    case None
    then show ?thesis using inv1 by (simp add: trace_context_del_span_def)
  next
    case (Some tc)
    obtain tc' w2 where del: "tc_del s tc ?w1 = (tc', w2)" by (metis surj_pair)
    have "gls_inv w2 \<and> ctx_ok w2 tc' \<and> tracker_step ?w1 w2"
      using tc_del_inv [OF inv1 gls_inv_ctx [OF inv1 Some] del] mark_untracks [OF gls_invD [OF inv]] by blast
    then show ?thesis using Some del by (simp add: trace_context_del_span_def gls_inv_set_ctx)
  qed
qed

interpretation gls_sys: invariant_system gls_step gls_ok gls_inv
proof
  fix w x
  assume inv: "gls_inv w"
  show "gls_inv (gls_step x w)"
  proof (cases x)
    case (LookupSpan g)
    with inv show ?thesis by (metis gls_step.simps(3) span_from_gls_inv surj_pair snd_conv)
  qed (use inv in \<open>simp_all add: new_recording_span_def add_span_inv span_end_def del_span_inv newproc1_inv clear_inv\<close>)
qed

lemma positive_int_env_pos: "positive_int_env v = Some p \<Longrightarrow> 0 < p"
  by (auto simp: positive_int_env_def split: if_splits option.splits)

lemma init_world_inv: "gls_inv (init_world env)"
  by (auto dest!: positive_int_env_pos simp: gls_inv_def tracker_inv_def init_world_def order_of_def default_gls_max_spans_def
      default_max_span_states_def split: option.splits)

end
