(* ===== verification/Gls_Spec.thy ===== *)
theory Gls_Spec
  imports Gls_Refinement
begin

text \<open>
  The abstract specification of the goroutine-local span stacks and the proof that the
  detailed model of \<open>Gls_Stack\<close> refines it step by step.
\<close>

record stacks =
  stk :: "goroutine \<Rightarrow> span list"
  tracked :: "span_key list"
  lim_spans :: int
  lim_states :: int

definition drop_key :: "span_key \<Rightarrow> span list \<Rightarrow> span list" where
  "drop_key k = filter (\<lambda>x. span_key x \<noteq> k)"

definition spec_start :: "goroutine \<Rightarrow> span \<Rightarrow> stacks \<Rightarrow> stacks" where
  "spec_start g s a =
     (if int (length (stk a g)) \<ge> lim_spans a then a
      else let fresh = ctx_valid s \<and> span_key s \<notin> set (tracked a);
               evict = fresh \<and> int (length (tracked a)) \<ge> lim_states a;
               kept = (if evict then drop_key (hd (tracked a)) else (\<lambda>xs. xs))
           in a\<lparr>stk := (\<lambda>h. (if h = g then [s] else []) @ kept (stk a h)),
                tracked := (if evict then tl (tracked a) else tracked a) @ (if fresh then [span_key s] else [])\<rparr>)"

fun spec_step :: "gls_op \<Rightarrow> stacks \<Rightarrow> stacks" where
  "spec_step (StartSpan g s) a = spec_start g s a"
| "spec_step (EndSpan g s) a =
     a\<lparr>stk := (\<lambda>h. drop_key (span_key s) (stk a h)), tracked := filter (\<lambda>k. k \<noteq> span_key s) (tracked a)\<rparr>"
| "spec_step (LookupSpan g) a = a"
| "spec_step (ForkGo p c) a = a\<lparr>stk := (stk a)(c := take 1 (stk a p))\<rparr>"
| "spec_step (ClearCtx g) a = a\<lparr>stk := (stk a)(g := [])\<rparr>"

text \<open>The abstraction: the spans of the entries that have not ended.\<close>

definition live_spans :: "(nat \<Rightarrow> bool) \<Rightarrow> span_wrapper list \<Rightarrow> span list" where
  "live_spans fl sw = map w_span (live_entries fl sw)"

fun live_in :: "(nat \<Rightarrow> bool) \<Rightarrow> trace_context option \<Rightarrow> span list" where
  "live_in fl None = []"
| "live_in fl (Some tc) = live_spans fl (tc_sw tc)"

definition live_stack :: "world \<Rightarrow> goroutine \<Rightarrow> span list" where
  "live_stack w g = live_in (flags w) (gls w g)"

definition abs_world :: "world \<Rightarrow> stacks" where
  "abs_world w = \<lparr>stk = live_stack w, tracked = map fst (states w),
                  lim_spans = max_spans w, lim_states = max_states w\<rparr>"

text \<open>
  The refinement covers ending a span with valid ids (every span the SDK makes has them;
  for an invalid one the code unlinks the first entry with the same, zero, ids).
\<close>

fun gls_valid_op :: "gls_op \<Rightarrow> world \<Rightarrow> bool" where
  "gls_valid_op (EndSpan g s) w = ctx_valid s"
| "gls_valid_op x w = gls_ok x w"

section \<open>Liveness of entries under tracker steps\<close>

lemma live_spans_simps [simp]:
  "live_spans fl [] = []"
  "live_spans fl (x # xs) = (if fl (w_ended x) then [] else [w_span x]) @ live_spans fl xs"
  "live_spans fl (xs @ ys) = live_spans fl xs @ live_spans fl ys"
  by (simp_all add: live_spans_def)

lemma length_live_spans: "length (live_spans fl sw) = length (live_entries fl sw)"
  by (simp add: live_spans_def)

lemma live_spans_live: "live_spans fl (live_entries fl sw) = live_spans fl sw"
  by (simp add: live_spans_def)

lemma live_spans_dropWhile: "live_spans fl (dropWhile (\<lambda>x. fl (w_ended x)) sw) = live_spans fl sw"
  by (induction sw) auto

lemma live_spans_cong:
  "(\<And>x. x \<in> set sw \<Longrightarrow> fl (w_ended x) = fl' (w_ended x)) \<Longrightarrow> live_spans fl sw = live_spans fl' sw"
  unfolding live_spans_def by (metis (mono_tags, lifting) filter_cong)

lemma dropWhile_live_head:
  "take 1 (map w_span (dropWhile (\<lambda>x. fl (w_ended x)) sw)) = take 1 (live_spans fl sw)"
  by (induction sw) auto

lemma wrap_tracked:
  assumes "tracker_inv w" "wrap_ok w x" "(k, e) \<in> set (states w)"
  shows "st_state e = w_ended x \<longleftrightarrow> \<not> flags w (w_ended x) \<and> span_key (w_span x) = k"
proof
  assume eq: "st_state e = w_ended x"
  then show "\<not> flags w (w_ended x) \<and> span_key (w_span x) = k"
    using assms wrap_ok_key [OF assms(2,3)] by (auto simp: tracker_inv_def)
next
  assume *: "\<not> flags w (w_ended x) \<and> span_key (w_span x) = k"
  then have "ctx_valid (w_span x)"
    using assms by (auto simp: tracker_inv_def ctx_valid_def span_key_def)
  with * assms show "st_state e = w_ended x"
    using map_of_entry [OF assms(1), of k e] by (auto simp: wrap_ok_def)
qed

lemma live_drop_entry:
  assumes "tracker_inv w" "(k, e) \<in> set (states w)" "\<forall>x \<in> set sw. wrap_ok w x"
  shows "live_spans (flags (drop_entry k e w)) sw = drop_key k (live_spans (flags w) sw)"
  using assms(3)
proof (induction sw)
  case (Cons x sw)
  then show ?case
    using wrap_tracked [OF assms(1) _ assms(2), of x] by (auto simp: drop_key_def)
qed (simp add: drop_key_def)

lemma live_mark:
  assumes inv: "tracker_inv w" and val: "ctx_valid s" and ok: "\<forall>x \<in> set sw. wrap_ok w x"
  shows "live_spans (flags (mark_span_ended s w)) sw = drop_key (span_key s) (live_spans (flags w) sw)"
proof (rule mark_span_ended_cases [OF inv, of s])
  fix e
  assume "(span_key s, e) \<in> set (states w)" "mark_span_ended s w = drop_entry (span_key s) e w"
  then show ?thesis using live_drop_entry [OF inv] ok by simp
next
  assume *: "mark_span_ended s w = w" "\<not> ctx_valid s \<or> map_of (states w) (span_key s) = None"
  have "live_spans (flags w) sw = drop_key (span_key s) (live_spans (flags w) sw)"
    using ok
  proof (induction sw)
    case (Cons x sw)
    have "flags w (w_ended x)" if "span_key (w_span x) = span_key s"
      using Cons.prems that val * by (auto simp: wrap_ok_def ctx_valid_def span_key_def)
    with Cons show ?case by (auto simp: drop_key_def)
  qed (simp add: drop_key_def)
  then show ?thesis using * by simp
qed

lemma tracked_mark:
  assumes inv: "tracker_inv w" and val: "ctx_valid s"
  shows "map fst (states (mark_span_ended s w)) = filter (\<lambda>k. k \<noteq> span_key s) (map fst (states w))"
proof (rule mark_span_ended_cases [OF inv, of s])
  fix e
  assume "mark_span_ended s w = drop_entry (span_key s) e w"
  then show ?thesis
    by (simp add: delete_keys removeAll_filter_not_eq eq_commute)
next
  assume *: "mark_span_ended s w = w" "\<not> ctx_valid s \<or> map_of (states w) (span_key s) = None"
  then have "span_key s \<notin> set (map fst (states w))" using val by (simp add: map_of_eq_None_iff)
  then have "filter (\<lambda>k. k \<noteq> span_key s) (map fst (states w)) = map fst (states w)"
    by (intro filter_True ballI) metis
  then show ?thesis using * by simp
qed

section \<open>Each operation simulates its specification\<close>

lemma abs_world_eqI:
  "live_stack w = stk a \<Longrightarrow> map fst (states w) = tracked a \<Longrightarrow> max_spans w = lim_spans a \<Longrightarrow>
   max_states w = lim_states a \<Longrightarrow> abs_world w = a"
  by (simp add: abs_world_def)

lemma abs_world_sel [simp]:
  "stk (abs_world w) = live_stack w" "tracked (abs_world w) = map fst (states w)"
  "lim_spans (abs_world w) = max_spans w" "lim_states (abs_world w) = max_states w"
  by (simp_all add: abs_world_def)

lemma live_stack_set_ctx:
  "live_stack (set_ctx g tc w) h = (if h = g then live_spans (flags w) (tc_sw tc) else live_stack w h)"
  by (simp add: live_stack_def)

lemma abs_set_ctx_same:
  "live_spans (flags w) (tc_sw tc) = live_stack w g \<Longrightarrow> abs_world (set_ctx g tc w) = abs_world w"
  by (intro abs_world_eqI) (auto simp: live_stack_set_ctx fun_eq_iff)

lemma lookup_result:
  assumes "gls_inv w" "span_from_gls g w = (r, w')"
  shows "r = (case live_stack w g of [] \<Rightarrow> None | s # _ \<Rightarrow> Some s)" "abs_world w' = abs_world w"
proof -
  have "r = (case live_stack w g of [] \<Rightarrow> None | s # _ \<Rightarrow> Some s) \<and> abs_world w' = abs_world w"
  proof (cases "gls w g")
    case None
    then show ?thesis using assms(2) by (auto simp: span_from_gls_def live_stack_def)
  next
    case (Some tc)
    obtain s tc' where t: "tc_tail (flags w) tc = (s, tc')" by (metis surj_pair)
    note tl = ctx_ok_tail [OF gls_inv_ctx [OF assms(1) Some] t]
    have "take 1 (map w_span (tc_sw tc')) = take 1 (live_stack w g)"
      using tl(2) Some dropWhile_live_head by (simp add: live_stack_def)
    then have "r = (case live_stack w g of [] \<Rightarrow> None | s # _ \<Rightarrow> Some s)"
      using assms(2) Some t tl(3) by (auto simp: span_from_gls_def split: list.splits)
    moreover have "abs_world w' = abs_world w"
      using assms(2) Some t tl(2)
      by (auto simp: span_from_gls_def live_spans_dropWhile live_stack_def intro!: abs_set_ctx_same)
    ultimately show ?thesis by blast
  qed
  then show "r = (case live_stack w g of [] \<Rightarrow> None | s # _ \<Rightarrow> Some s)" "abs_world w' = abs_world w"
    by blast+
qed

lemma sim_fork:
  assumes inv: "gls_inv w" and "p \<noteq> c"
  shows "abs_world (newproc1 p c w) = spec_step (ForkGo p c) (abs_world w)"
proof (cases "gls w p")
  case None
  then show ?thesis using assms(2)
    by (intro abs_world_eqI)
      (auto simp: newproc1_def propagate_trace_context_def live_stack_def fun_eq_iff)
next
  case (Some tc)
  obtain cl tc' where c: "tc_clone (flags w) tc = (cl, tc')" by (metis surj_pair)
  note cx = clone_ctx [OF gls_inv_ctx [OF inv Some] c gls_invD [OF inv]]
  have own: "live_spans (flags w) (tc_sw tc') = live_spans (flags w) (tc_sw tc)"
    using cx(3) by (simp add: live_spans_dropWhile)
  have head: "live_spans (flags w) (take 1 sw) = take 1 (live_spans (flags w) sw)"
    if "sw = dropWhile (\<lambda>x. flags w (w_ended x)) sw'" for sw sw'
    using that by (induction sw') auto
  have "live_spans (flags w) (tc_sw cl) = take 1 (live_spans (flags w) (tc_sw tc))"
    using cx(4) head [OF cx(3)] own by simp
  then show ?thesis
    using Some c own assms(2)
    by (intro abs_world_eqI)
      (auto simp: newproc1_def propagate_trace_context_def live_stack_def fun_eq_iff)
qed

lemma sim_clear:
  assumes inv: "gls_inv w"
  shows "abs_world (clear_trace_context g w) = spec_step (ClearCtx g) (abs_world w)"
proof -
  obtain tc w1 where gi: "get_or_init_trace_context g w = (tc, w1)" by (metis surj_pair)
  note gi' = get_or_init_inv [OF inv gi]
  show ?thesis
    using gi gi'(3-7) by (intro abs_world_eqI ext) (auto simp: clear_trace_context_def live_stack_def)
qed

lemma sim_end:
  assumes inv: "gls_inv w" and val: "ctx_valid s"
  shows "abs_world (span_end g s w) = spec_step (EndSpan g s) (abs_world w)"
proof -
  let ?w1 = "mark_span_ended s w"
  note tinv = gls_invD [OF inv]
  note st = mark_span_ended_step [OF tinv, of s]
  have inv1: "gls_inv ?w1" using st gls_inv_step [OF inv] by blast
  have gls1: "gls ?w1 = gls w" and lims: "max_spans ?w1 = max_spans w" "max_states ?w1 = max_states w"
    using st by (simp_all add: tracker_step_def)
  have live1: "live_stack ?w1 h = drop_key (span_key s) (live_stack w h)" for h
    using live_mark [OF tinv val] inv gls1
    by (cases "gls w h") (auto simp: live_stack_def gls_inv_def ctx_ok_def drop_key_def)
  have abs1: "abs_world ?w1 = spec_step (EndSpan g s) (abs_world w)"
    using live1 lims tracked_mark [OF tinv val] by (intro abs_world_eqI) (auto simp: fun_eq_iff)
  show ?thesis
  proof (cases "gls ?w1 g")
    case None
    then show ?thesis using abs1 by (simp add: span_end_def trace_context_del_span_def)
  next
    case (Some tc)
    obtain tc' w2 where del: "tc_del s tc ?w1 = (tc', w2)" by (metis surj_pair)
    have "w2 = ?w1 \<and> live_spans (flags ?w1) (tc_sw tc') = live_spans (flags ?w1) (tc_sw tc)"
    proof (cases "tc_n tc = 0 \<or> del_loop s (tc_sw tc) = None")
      case True
      then show ?thesis using del by (auto simp: tc_del_def split: option.splits)
    next
      case False
      then obtain sw f lst where dl: "del_loop s (tc_sw tc) = Some (sw, f, lst)" by auto
      from del_loop_eq [OF dl] obtain x a b where x: "tc_sw tc = a @ x # b" "sw = a @ b"
        "f = w_ended x" "span_key (w_span x) = span_key s" by blast
      have "wrap_ok ?w1 x" using gls_inv_ctx [OF inv1 Some] x by (simp add: ctx_ok_def)
      moreover have "ctx_valid (w_span x)" using val x by (simp add: ctx_valid_def span_key_def)
      ultimately have "flags ?w1 f"
        using x mark_untracks [OF tinv] by (fastforce simp: wrap_ok_def dest: map_of_SomeD)
      then have "(flags ?w1)(f := True) = flags ?w1" by (simp add: fun_upd_idem_iff)
      with \<open>flags ?w1 f\<close> False dl del x show ?thesis by (auto simp: tc_del_def)
    qed
    then have "abs_world (set_ctx g tc' w2) = abs_world ?w1"
      using Some by (intro abs_set_ctx_same [THEN trans]) (auto simp: live_stack_def)
    then show ?thesis using Some del abs1 by (simp add: span_end_def trace_context_del_span_def)
  qed
qed

text \<open>Starting: the effect of \<open>stateForSpan\<close> on the live entries of every stack.\<close>

lemma live_make_room:
  assumes inv: "tracker_inv w" and ok: "\<forall>x \<in> set sw. wrap_ok w x"
  shows "live_spans (flags (make_room w)) sw =
    (if int (length (states w)) \<ge> max_states w then drop_key (hd (map fst (states w))) (live_spans (flags w) sw)
     else live_spans (flags w) sw)"
  by (rule make_room_cases [OF inv]) (use live_drop_entry [OF inv _ ok] in auto)

lemma keys_make_room:
  assumes inv: "tracker_inv w"
  shows "map fst (states (make_room w)) =
    (if int (length (states w)) \<ge> max_states w then tl (map fst (states w)) else map fst (states w))"
proof (rule make_room_cases [OF inv])
  fix k e sts
  assume *: "states w = (k, e) # sts" "int (length (states w)) = max_states w" "make_room w = drop_entry k e w"
  then have "k \<notin> fst ` set sts" using inv by (auto simp: tracker_inv_def)
  then show ?thesis using * by simp
qed simp

lemma live_fresh_flag:
  assumes "\<forall>x \<in> set sw. wrap_ok w x"
  shows "live_spans ((flags w)(next_flag w := False)) sw = live_spans (flags w) sw"
  using assms by (intro live_spans_cong) (auto simp: wrap_ok_def)

definition is_fresh :: "span \<Rightarrow> world \<Rightarrow> bool" where
  "is_fresh s w \<longleftrightarrow> ctx_valid s \<and> span_key s \<notin> fst ` set (states w)"

definition kept_live :: "span \<Rightarrow> world \<Rightarrow> span list \<Rightarrow> span list" where
  "kept_live s w =
     (if is_fresh s w \<and> int (length (states w)) \<ge> max_states w
      then drop_key (hd (map fst (states w))) else (\<lambda>xs. xs))"

lemma state_for_span_live:
  assumes inv: "tracker_inv w" and eq: "state_for_span s w = (f, w')"
  shows "\<forall>x \<in> set sw. wrap_ok w x \<Longrightarrow> live_spans (flags w') sw = kept_live s w (live_spans (flags w) sw)"
    and "map fst (states w') =
      (if is_fresh s w \<and> int (length (states w)) \<ge> max_states w then tl (map fst (states w)) else map fst (states w))
      @ (if is_fresh s w then [span_key s] else [])"
proof (atomize (full), rule state_for_span_cases [OF inv, of s], goal_cases)
  case 1
  then have "w' = w\<lparr>flags := (flags w)(next_flag w := False), next_flag := Suc (next_flag w)\<rparr>"
    using eq by (simp add: new_flag_def)
  with 1 show ?case by (auto simp: live_fresh_flag kept_live_def is_fresh_def)
next
  case (2 e)
  then have "span_key s \<in> fst ` set (states w)" by (metis map_of_eq_None_iff option.distinct(1))
  with 2 eq show ?case by (auto simp: kept_live_def is_fresh_def)
next
  case 3
  then have w': "w' = track (span_key s) (make_room w)" and fr: "is_fresh s w"
    using eq by (auto simp: is_fresh_def)
  have "\<forall>x \<in> set sw. wrap_ok (make_room w) x" if "\<forall>x \<in> set sw. wrap_ok w x"
    using that make_room_step(2) [OF inv] by (auto simp: tracker_step_def)
  then show ?case
    using fr live_make_room [OF inv, of sw] keys_make_room [OF inv]
    by (auto simp: w' live_fresh_flag kept_live_def)
qed

lemma sim_start:
  assumes inv: "gls_inv w"
  shows "abs_world (trace_context_add_span g s w) = spec_start g s (abs_world w)"
proof -
  obtain tc w1 where gi: "get_or_init_trace_context g w = (tc, w1)" by (metis surj_pair)
  note gi' = get_or_init_inv [OF inv gi]
  obtain b tc' w2 where add: "tc_add s tc w1 = (b, tc', w2)" by (metis surj_pair)
  have res: "trace_context_add_span g s w = set_ctx g tc' w2"
    using gi add by (simp add: trace_context_add_span_def)
  have live1: "live_stack w1 = live_stack w"
    using gi'(3,4,8) by (intro ext, cases "gls w g") (auto simp: live_stack_def tc_empty_def)
  have own: "live_stack w g = live_spans (flags w) (tc_sw tc)"
    using gi'(8) by (cases "gls w g") (simp_all add: live_stack_def tc_empty_def)
  show ?thesis
  proof (cases rule: tc_add_cases [OF gi'(2) add, case_names full pushed])
    case full
    then have "int (length (live_stack w g)) \<ge> max_spans w"
      using own gi' by (simp add: length_live_spans)
    moreover have "abs_world (set_ctx g tc' w2) = abs_world w"
      using full own live1 gi'(4-7) by (intro abs_world_eqI ext) (simp_all add: live_stack_set_ctx live_spans_live)
    ultimately show ?thesis using res by (simp add: spec_start_def)
  next
    case (pushed f base)
    note tinv = gls_invD [OF gi'(1)]
    note st = state_for_span_step [OF tinv pushed(2)]
    note live = state_for_span_live [OF tinv pushed(2)]
    have room: "int (length (live_stack w g)) < max_spans w"
      using pushed(7) own gi' by (simp add: length_live_spans)
    have kl: "kept_live s w1 = kept_live s w" and fr: "is_fresh s w1 = is_fresh s w"
      using gi' by (simp_all add: kept_live_def is_fresh_def fun_eq_iff)
    have okb: "\<forall>x \<in> set base. wrap_ok w1 x" using pushed(4) gi'(2) by (auto simp: ctx_ok_def)
    have "live_spans (flags w1) base = live_stack w g"
      using pushed(4) own gi'(4) live_spans_live by auto
    then have here: "live_spans (flags w2) (tc_sw tc') = s # kept_live s w (live_stack w g)"
      using live(1) [OF okb] kl st pushed(3) by simp
    have kl_Nil: "kept_live s w [] = []" by (simp add: kept_live_def drop_key_def)
    have gls2: "gls w2 = gls w1" using st by (simp add: tracker_step_def)
    have there: "live_stack w2 h = kept_live s w (live_stack w1 h)" for h
    proof (cases "gls w1 h")
      case (Some t)
      then have "\<forall>x \<in> set (tc_sw t). wrap_ok w1 x" using gi'(1) by (simp add: gls_inv_def ctx_ok_def)
      then show ?thesis using live(1) [of "tc_sw t"] Some kl gls2 by (simp add: live_stack_def)
    qed (simp add: live_stack_def gls2 kl_Nil)
    have lims: "max_spans w2 = max_spans w" "max_states w2 = max_states w"
      using st gi' by (simp_all add: tracker_step_def)
    show ?thesis
      unfolding res
      using room here there live1 lims live(2) fr gi'
      by (intro abs_world_eqI)
        (auto simp: spec_start_def Let_def live_stack_set_ctx fun_eq_iff kept_live_def is_fresh_def)
  qed
qed

interpretation gls_ref: refinement_system gls_step gls_valid_op gls_inv abs_world spec_step
proof
  fix w x
  assume inv: "gls_inv w" and ok: "gls_valid_op x w"
  then have "gls_ok x w" by (cases x) simp_all
  then show "gls_inv (gls_step x w)" using inv by (rule gls_sys.step_inv [rotated])
  show "abs_world (gls_step x w) = spec_step x (abs_world w)"
    using inv ok
  proof (cases x)
    case (LookupSpan g)
    then show ?thesis using lookup_result(2) [OF inv] by (metis gls_step.simps(3) snd_conv spec_step.simps(3) surj_pair)
  qed (simp_all add: new_recording_span_def sim_start sim_end sim_fork sim_clear del: spec_step.simps(2,4,5))
qed

end
