(* ===== verification/Gls_Props.thy ===== *)
theory Gls_Props
  imports Gls_Spec
begin

text \<open>The properties of the goroutine-local span stacks, over every run of the system.\<close>

abbreviation gls_run :: "gls_op list \<Rightarrow> (gostring \<Rightarrow> gostring) \<Rightarrow> world" where
  "gls_run ops env \<equiv> run_ops gls_step ops (init_world env)"

abbreviation gls_current :: "goroutine \<Rightarrow> world \<Rightarrow> span option" where
  "gls_current g w \<equiv> fst (span_from_gls g w)"

lemma gls_valid_ok: "guarded gls_step gls_valid_op ops w \<Longrightarrow> guarded gls_step gls_ok ops w"
proof (induction ops arbitrary: w)
  case (Cons x ops)
  then have "gls_ok x w" by (cases x) auto
  with Cons show ?case by auto
qed simp

lemma gls_run_inv: "guarded gls_step gls_ok ops (init_world env) \<Longrightarrow> gls_inv (gls_run ops env)"
  by (rule gls_sys.run_inv [OF init_world_inv])

lemma gls_current_eq:
  "gls_inv w \<Longrightarrow> gls_current g w = (case live_stack w g of [] \<Rightarrow> None | s # _ \<Rightarrow> Some s)"
  by (metis lookup_result(1) prod.collapse)

lemma drop_key_fresh: "k \<notin> span_key ` set xs \<Longrightarrow> drop_key k xs = xs"
  by (induction xs) (auto simp: drop_key_def)

text \<open>A short concrete run used by the witnesses.\<close>

definition demo_span :: "nat \<Rightarrow> span" where
  "demo_span i = \<lparr>span_ref = i, span_trace = 1, span_sid = of_nat (i + 1)\<rparr>"

definition demo_env :: "gostring \<Rightarrow> gostring" where
  "demo_env v = []"

definition demo_ops :: "gls_op list" where
  "demo_ops = [StartSpan 0 (demo_span 0), StartSpan 0 (demo_span 1), ForkGo 0 1]"

lemmas gls_eval =
  demo_span_def demo_env_def demo_ops_def init_world_def positive_int_env_def
  default_gls_max_spans_def default_max_span_states_def new_recording_span_def
  trace_context_add_span_def get_or_init_trace_context_def tc_empty_def set_ctx_def tc_add_def
  tc_compact_def state_for_span_def new_flag_def ctx_valid_def span_key_def newproc1_def
  propagate_trace_context_def tc_clone_def tc_tail_def span_from_gls_def span_end_def
  trace_context_del_span_def mark_span_ended_def tc_del_def abs_world_def live_stack_def
  live_spans_def spec_start_def Let_def

text \<open>
  A lookup without a context returns the innermost live span: the value of
  \<open>spanFromGLS\<close> on a goroutine, after any run, is the top of the specification's stack
  for that goroutine (nil if it is empty).
\<close>
theorem gls_lookup_innermost:
  assumes "guarded gls_step gls_valid_op ops (init_world env)"
  shows "gls_current g (gls_run ops env) =
    (case stk (run_ops spec_step ops (abs_world (init_world env))) g of [] \<Rightarrow> None | s # _ \<Rightarrow> Some s)"
  using gls_ref.run_abs [OF init_world_inv assms] gls_current_eq [OF gls_run_inv [OF gls_valid_ok [OF assms]]]
  by (metis abs_world_sel(1))

theorem gls_lookup_innermost_witness:
  "gls_current 1 (gls_run demo_ops demo_env) = Some (demo_span 1)"
proof -
  have "stk (run_ops spec_step demo_ops (abs_world (init_world demo_env))) 1 = [demo_span 1]"
    by (simp add: gls_eval)
  then show ?thesis
    using gls_lookup_innermost [of demo_ops demo_env 1] by (simp add: demo_ops_def)
qed

text \<open>
  An ended span is never served again, on any goroutine: right after \<open>End\<close> of a span
  on goroutine \<open>g\<close>, no goroutine \<open>h\<close> (such as one that was forked while the span was
  current) gets a span with its ids from the stack.
\<close>
theorem gls_end_visible_everywhere:
  assumes "guarded gls_step gls_ok ops (init_world env)" and "ctx_valid s"
    and "gls_current h (span_end g s (gls_run ops env)) = Some x"
  shows "span_key x \<noteq> span_key s"
proof -
  let ?w = "gls_run ops env"
  have inv: "gls_inv ?w" using gls_run_inv [OF assms(1)] .
  have "stk (abs_world (span_end g s ?w)) h = drop_key (span_key s) (live_stack ?w h)"
    using sim_end [OF inv assms(2), of g] by simp
  then have "live_stack (span_end g s ?w) h = drop_key (span_key s) (live_stack ?w h)" by simp
  moreover have "gls_inv (span_end g s ?w)" using inv by (simp add: span_end_def del_span_inv)
  ultimately show ?thesis
    using assms(3) gls_current_eq [of "span_end g s ?w" h]
    by (auto simp: drop_key_def filter_eq_Cons_iff split: list.splits)
qed

theorem gls_end_visible_everywhere_witness:
  "gls_current 0 (span_end 1 (demo_span 1) (gls_run demo_ops demo_env)) = Some (demo_span 0) \<and>
   span_key (demo_span 0) \<noteq> span_key (demo_span 1)"
proof -
  have cur: "gls_current 0 (span_end 1 (demo_span 1) (gls_run demo_ops demo_env)) = Some (demo_span 0)"
    by (simp add: gls_eval)
  show ?thesis
    using cur gls_end_visible_everywhere [OF _ _ cur] by (simp add: demo_ops_def demo_span_def ctx_valid_def)
qed

text \<open>
  C4: Memory stays bounded: after any run, every goroutine's stack holds at most
  \<open>otelGLSMaxSpans\<close> entries and its counter is exact, and the lifecycle tracker holds at
  most \<open>maxSpanStates\<close> keys, all distinct, each with its own element of the eviction list.
\<close>
theorem gls_bounded:
  assumes "guarded gls_step gls_ok ops (init_world env)" and "gls_run ops env = w"
  shows "(\<forall>g tc. gls w g = Some tc \<longrightarrow> tc_n tc = int (length (tc_sw tc)) \<and> tc_n tc \<le> max_spans w) \<and>
    int (length (states w)) \<le> max_states w \<and> distinct (map fst (states w)) \<and>
    map snd (order w) = map fst (states w) \<and> distinct (map fst (order w))"
proof -
  have "gls_inv w" using gls_run_inv [OF assms(1)] assms(2) by simp
  then have tr: "tracker_inv w" and
    ctx: "\<And>g tc. gls w g = Some tc \<Longrightarrow> ctx_ok w tc" by (simp_all add: gls_inv_def)
  have "tc_n tc = int (length (tc_sw tc)) \<and> tc_n tc \<le> max_spans w" if "gls w g = Some tc" for g tc
    using ctx [OF that] by (simp add: ctx_ok_def)
  moreover have "int (length (states w)) \<le> max_states w \<and> distinct (map fst (states w)) \<and>
    map snd (order w) = map fst (states w) \<and> distinct (map fst (order w))"
    using tr by (simp add: tracker_inv_def order_of_def comp_def split_def)
  ultimately show ?thesis by blast
qed

theorem gls_bounded_witness:
  "distinct (map fst (states (gls_run demo_ops demo_env)))"
  using gls_bounded [OF _ refl, of demo_ops demo_env] by (simp add: demo_ops_def)

text \<open>
  A new goroutine inherits exactly the creator's current span: its first lookup
  returns what the creator's lookup returns, and the creator's own view is unchanged.
\<close>
theorem gls_fork_inherits:
  assumes "guarded gls_step gls_ok ops (init_world env)" and "p \<noteq> c" and "gls_run ops env = w"
  shows "gls_current c (newproc1 p c w) = gls_current p w \<and>
    live_stack (newproc1 p c w) c = take 1 (live_stack w p) \<and>
    live_stack (newproc1 p c w) p = live_stack w p"
proof -
  have inv: "gls_inv w" using gls_run_inv [OF assms(1)] assms(3) by simp
  have "stk (abs_world (newproc1 p c w)) = (live_stack w)(c := take 1 (live_stack w p))"
    using sim_fork [OF inv assms(2)] by simp
  then have live: "live_stack (newproc1 p c w) = (live_stack w)(c := take 1 (live_stack w p))" by simp
  show ?thesis
    using gls_current_eq [OF inv, of p] gls_current_eq [OF newproc1_inv [OF inv, of p c], of c] assms(2)
    by (cases "live_stack w p") (simp_all add: live)
qed

theorem gls_fork_inherits_witness:
  "gls_current 7 (newproc1 0 7 (gls_run demo_ops demo_env)) = gls_current 0 (gls_run demo_ops demo_env)"
  using gls_fork_inherits [OF _ _ refl, of demo_ops demo_env 0 7] by (simp add: demo_ops_def)

text \<open>
  Nesting: starting a span on a goroutine with room makes it current there; ending
  it, when its ids were not already on that stack and the tracker had room for them, makes
  the goroutine's stack of live spans what it was before.
\<close>
theorem gls_start_end_nests:
  assumes "guarded gls_step gls_ok ops (init_world env)" and "gls_run ops env = w" and "ctx_valid s"
    and "int (length (live_stack w g)) < max_spans w"
    and "int (length (states w)) < max_states w"
    and "span_key s \<notin> span_key ` set (live_stack w g)"
  shows "gls_current g (new_recording_span g (Some s) w) = Some s \<and>
    live_stack (span_end g s (new_recording_span g (Some s) w)) g = live_stack w g"
proof -
  have inv: "gls_inv w" using gls_run_inv [OF assms(1)] assms(2) by simp
  let ?w1 = "new_recording_span g (Some s) w"
  have inv1: "gls_inv ?w1" using inv by (simp add: new_recording_span_def add_span_inv)
  have "stk (abs_world ?w1) g = s # live_stack w g"
    using assms sim_start [OF inv, of g s] by (simp add: new_recording_span_def spec_start_def Let_def)
  then have live1: "live_stack ?w1 g = s # live_stack w g" by simp
  have "stk (abs_world (span_end g s ?w1)) g = drop_key (span_key s) (live_stack ?w1 g)"
    using sim_end [OF inv1 assms(3), of g] by simp
  moreover have "drop_key (span_key s) (live_stack w g) = live_stack w g"
    using assms(6) by (rule drop_key_fresh)
  ultimately have "live_stack (span_end g s ?w1) g = live_stack w g"
    using live1 by (simp add: drop_key_def)
  then show ?thesis using live1 gls_current_eq [OF inv1, of g] by simp
qed

theorem gls_start_end_nests_witness:
  "gls_current 0 (new_recording_span 0 (Some (demo_span 5)) (gls_run demo_ops demo_env)) = Some (demo_span 5)"
proof -
  have "live_stack (gls_run demo_ops demo_env) 0 = [demo_span 1, demo_span 0]"
    "length (states (gls_run demo_ops demo_env)) = 2" "max_spans (gls_run demo_ops demo_env) = 1000"
    "max_states (gls_run demo_ops demo_env) = 100000"
    by (simp_all add: gls_eval)
  then show ?thesis
    using gls_start_end_nests [OF _ refl, of demo_ops demo_env "demo_span 5" 0]
    by (simp add: demo_ops_def demo_span_def ctx_valid_def span_key_def)
qed

end
