(* ===== verification/Telemetry.thy ===== *)
theory Telemetry
  imports Go_Prelude
begin

text \<open>
  The telemetry the hooks produce and the two contracts they share.  A hook is modelled by
  what it hands to the OpenTelemetry API: how it starts a span (\<open>span_start\<close>) and the calls it
  makes on that span, in order (\<open>span_log\<close>).  The SDK ignores every call after \<open>End\<close>
  and keeps the greater of two status codes (Unset, Error, Ok), as the OpenTelemetry trace
  specification says; \<open>effective\<close> and \<open>span_status\<close> read a log that way.

  Two locales: \<open>finishing_hook\<close>, extended by \<open>reporting_hook\<close>, is the contract of the code
  that finishes a span, and \<open>text_map_carrier\<close> that of a propagation carrier (the message
  headers the trace context is written to and read from).
\<close>

section \<open>Attributes and span calls\<close>

datatype attr_value = StrV gostring | IntV int | BoolV bool | StrsV "gostring list" | FloatV gostring

type_synonym attrs = "(gostring \<times> attr_value) list"

datatype status_code = StatusUnset | StatusError | StatusOk

datatype span_kind = KindInternal | KindServer | KindClient | KindProducer | KindConsumer

datatype span_call =
    SetStatus status_code gostring
  | RecordError gostring
  | SetAttrs attrs
  | SetName gostring
  | AddEvent gostring attrs
  | SpanEnd

type_synonym span_log = "span_call list"

record span_start =
  ss_name :: gostring
  ss_kind :: span_kind
  ss_attrs :: attrs

definition start_span :: "gostring \<Rightarrow> span_kind \<Rightarrow> attrs \<Rightarrow> span_start" where
  "start_span n k a = \<lparr>ss_name = n, ss_kind = k, ss_attrs = a\<rparr>"

definition effective :: "span_log \<Rightarrow> span_log" where
  "effective log = takeWhile (\<lambda>c. c \<noteq> SpanEnd) log"

fun status_rank :: "status_code \<Rightarrow> nat" where
  "status_rank StatusUnset = 0" | "status_rank StatusError = 1" | "status_rank StatusOk = 2"

fun status_after :: "status_code \<Rightarrow> span_log \<Rightarrow> status_code" where
  "status_after c [] = c"
| "status_after c (SetStatus d _ # log) = status_after (if status_rank c \<le> status_rank d then d else c) log"
| "status_after c (_ # log) = status_after c log"

definition span_status :: "span_log \<Rightarrow> status_code" where
  "span_status log = status_after StatusUnset (effective log)"

fun call_attrs :: "span_call \<Rightarrow> attrs" where
  "call_attrs (SetAttrs a) = a" | "call_attrs _ = []"

text \<open>The attributes of the exported span: those of the start and those set before \<open>End\<close>.\<close>

definition span_attrs :: "span_start \<Rightarrow> span_log \<Rightarrow> attrs" where
  "span_attrs st log = ss_attrs st @ concat (map call_attrs (effective log))"

lemma effective_append [simp]:
  "SpanEnd \<notin> set xs \<Longrightarrow> effective (xs @ [SpanEnd]) = xs"
  by (induction xs) (auto simp: effective_def)

lemma effective_simps [simp]:
  "effective [] = []" "effective (SpanEnd # log) = []"
  "c \<noteq> SpanEnd \<Longrightarrow> effective (c # log) = c # effective log"
  by (simp_all add: effective_def)

lemma status_after_no_status:
  "\<forall>c d. SetStatus c d \<notin> set log \<Longrightarrow> status_after s log = s"
  by (induction s log rule: status_after.induct) auto

lemma status_after_errors:
  assumes "\<forall>c d. SetStatus c d \<in> set log \<longrightarrow> c = StatusError" "s \<noteq> StatusOk"
  shows "status_after s log = (if \<exists>d. SetStatus StatusError d \<in> set log then StatusError else s)"
  using assms
proof (induction s log rule: status_after.induct)
  case (2 c d m log)
  have d: "d = StatusError" using "2.prems"(1) by simp
  have "(if status_rank c \<le> status_rank d then d else c) = StatusError"
    using d "2.prems"(2) by (cases c) auto
  then show ?case using 2 d by simp metis
qed auto

section \<open>The contract of finishing a span\<close>

locale finishing_hook =
  fixes finish :: "'a \<Rightarrow> span_log"
  assumes ends_once: "count_list (finish a) SpanEnd = 1"
    and ends_last: "last (finish a) = SpanEnd"
begin

lemma shape: "\<exists>xs. finish a = xs @ [SpanEnd] \<and> SpanEnd \<notin> set xs"
proof -
  have ne: "finish a \<noteq> []" using ends_once [of a] by auto
  then have eq: "finish a = butlast (finish a) @ [SpanEnd]"
    using append_butlast_last_id [OF ne] ends_last [of a] by simp
  then have "count_list (butlast (finish a)) SpanEnd = 0"
    using ends_once [of a] by (metis add_cancel_left_left count_list.simps(1,2) count_list_append plus_1_eq_Suc
        add.commute add_right_cancel)
  then have "SpanEnd \<notin> set (butlast (finish a))" by (simp add: count_list_0_iff)
  with eq show ?thesis by blast
qed

lemma nothing_lost: "effective (finish a) = butlast (finish a)"
  using shape [of a] by auto

lemma call_kept: "c \<in> set (finish a) \<Longrightarrow> c \<noteq> SpanEnd \<Longrightarrow> c \<in> set (effective (finish a))"
  using shape [of a] by auto

end

locale reporting_hook = finishing_hook +
  fixes failed :: "'a \<Rightarrow> bool"
  assumes only_errors: "SetStatus c d \<in> set (finish a) \<Longrightarrow> c = StatusError"
    and error_iff: "failed a \<longleftrightarrow> (\<exists>d. SetStatus StatusError d \<in> set (finish a))"
begin

lemma status: "span_status (finish a) = (if failed a then StatusError else StatusUnset)"
proof -
  obtain xs where xs: "finish a = xs @ [SpanEnd]" "SpanEnd \<notin> set xs" using shape by blast
  have "\<forall>c d. SetStatus c d \<in> set xs \<longrightarrow> c = StatusError" using only_errors [of _ _ a] xs by auto
  then show ?thesis
    using status_after_errors [of xs StatusUnset] error_iff [of a] xs by (simp add: span_status_def)
qed

end

section \<open>The contract of a propagation carrier\<close>

locale text_map_carrier =
  fixes cget :: "'c \<Rightarrow> gostring \<Rightarrow> gostring"
    and cset :: "gostring \<Rightarrow> gostring \<Rightarrow> 'c \<Rightarrow> 'c"
    and norm :: "gostring \<Rightarrow> gostring"
  assumes get_set: "cget (cset k v c) k' = (if norm k' = norm k then v else cget c k')"
begin

lemma get_inject_other:
  "norm k \<notin> norm ` fst ` set kvs \<Longrightarrow> cget (fold (\<lambda>(k, v). cset k v) kvs c) k = cget c k"
  by (induction kvs arbitrary: c) (auto simp: get_set)

lemma get_inject:
  "distinct (map (norm \<circ> fst) kvs) \<Longrightarrow> (k, v) \<in> set kvs \<Longrightarrow> cget (fold (\<lambda>(k, v). cset k v) kvs c) k = v"
proof (induction kvs arbitrary: c)
  case (Cons kv kvs)
  show ?case
  proof (cases "kv = (k, v)")
    case True
    then have "norm k \<notin> norm ` fst ` set kvs" using Cons.prems(1) by (auto simp: image_comp)
    then show ?thesis using True get_inject_other [of k kvs "cset k v c"] by (simp add: get_set)
  next
    case False
    then show ?thesis using Cons by (cases kv) auto
  qed
qed simp

text \<open>What an extractor reading the given keys sees.\<close>

lemma extract_inject:
  "distinct (map (norm \<circ> fst) kvs) \<Longrightarrow> map (cget (fold (\<lambda>(k, v). cset k v) kvs c)) (map fst kvs) = map snd kvs"
  using get_inject by (fastforce intro: map_cong)

end

end
