(* ===== verification/Hook_Support.thy ===== *)
theory Hook_Support
  imports Transition_Systems Telemetry
begin

text \<open>
  Model of \<open>otelc/hooksupport\<close> and \<open>otelc/hooklog\<close>: the per-instrumentation switch with its
  cached configuration, and the marker that keeps the HTTP client hook quiet under a more
  specific span.  The environment is a function from variable names to values, empty when
  unset; the atomic pointer to the cache is an explicit state.
\<close>

type_synonym go_env = "gostring \<Rightarrow> gostring"

record config_cache =
  cc_sdk_disabled :: gostring
  cc_enabled_raw :: gostring
  cc_disabled_raw :: gostring
  cc_is_sdk_disabled :: bool
  cc_has_enabled :: bool
  cc_enabled :: "gostring set"
  cc_disabled :: "gostring set"

definition parse_instrumentation_list :: "gostring \<Rightarrow> gostring list" where
  "parse_instrumentation_list l =
     filter (\<lambda>t. t \<noteq> []) (map (\<lambda>item. trim_space (to_lower item)) (split_on CHR '','' l))"

definition build_config_cache :: "gostring \<Rightarrow> gostring \<Rightarrow> gostring \<Rightarrow> config_cache" where
  "build_config_cache sdk en dis =
     (let parsed = parse_instrumentation_list en
      in \<lparr>cc_sdk_disabled = sdk, cc_enabled_raw = en, cc_disabled_raw = dis,
          cc_is_sdk_disabled = equal_fold_ascii sdk ''true'',
          cc_has_enabled = (parsed \<noteq> []),
          cc_enabled = (if parsed \<noteq> [] then set parsed else {}),
          cc_disabled = (if dis \<noteq> [] then set (parse_instrumentation_list dis) else {})\<rparr>)"

definition load_config :: "go_env \<Rightarrow> config_cache option \<Rightarrow> config_cache" where
  "load_config env cache =
     (let sdk = env ''OTEL_SDK_DISABLED'';
          en = env ''OTEL_GO_ENABLED_INSTRUMENTATIONS'';
          dis = env ''OTEL_GO_DISABLED_INSTRUMENTATIONS''
      in case cache of
           None \<Rightarrow> build_config_cache sdk en dis
         | Some c \<Rightarrow> if cc_sdk_disabled c \<noteq> sdk \<or> cc_enabled_raw c \<noteq> en \<or> cc_disabled_raw c \<noteq> dis
                     then build_config_cache sdk en dis else c)"

text \<open>\<open>Instrumented\<close>: the answer and the cache it leaves.\<close>

definition instrumented :: "go_env \<Rightarrow> gostring \<Rightarrow> config_cache option \<Rightarrow> bool \<times> config_cache option" where
  "instrumented env name0 cache =
     (let c = load_config env cache; name = to_lower name0
      in (if cc_is_sdk_disabled c then False
          else if cc_has_enabled c \<and> name \<notin> cc_enabled c then False
          else name \<notin> cc_disabled c, Some c))"

text \<open>Context values and the suppression marker.\<close>

type_synonym go_ctx = "gostring \<rightharpoonup> bool"

definition suppress_key :: gostring where
  "suppress_key = ''suppressHTTPClientKey''"

definition suppress_http_client :: "go_ctx \<Rightarrow> go_ctx" where
  "suppress_http_client ctx = ctx(suppress_key \<mapsto> True)"

definition is_http_client_suppressed :: "go_ctx \<Rightarrow> bool" where
  "is_http_client_suppressed ctx = (case ctx suppress_key of Some v \<Rightarrow> v | None \<Rightarrow> False)"

definition module_version :: "gostring option \<Rightarrow> gostring" where
  "module_version build =
     (case build of Some v \<Rightarrow> if v \<noteq> [] \<and> v \<noteq> ''(devel)'' then v else ''dev'' | None \<Rightarrow> ''dev'')"

text \<open>The hook logger's level.\<close>

datatype log_level = LvlDebug | LvlInfo | LvlWarn | LvlError

definition hook_log_level :: "go_env \<Rightarrow> log_level" where
  "hook_log_level env =
     (let l = to_lower (trim_space (env ''OTEL_LOG_LEVEL''))
      in if l = ''debug'' then LvlDebug else if l = ''info'' then LvlInfo
         else if l = ''warn'' then LvlWarn else if l = ''error'' then LvlError else LvlInfo)"

section \<open>The documented decision, and the cache as an invisible optimisation\<close>

definition instrumented_spec :: "go_env \<Rightarrow> gostring \<Rightarrow> bool" where
  "instrumented_spec env name \<longleftrightarrow>
     (let en = parse_instrumentation_list (env ''OTEL_GO_ENABLED_INSTRUMENTATIONS'');
          dis = parse_instrumentation_list (env ''OTEL_GO_DISABLED_INSTRUMENTATIONS'')
      in \<not> equal_fold_ascii (env ''OTEL_SDK_DISABLED'') ''true''
         \<and> (en = [] \<or> to_lower name \<in> set en) \<and> to_lower name \<notin> set dis)"

text \<open>A cache is consistent when its fields are those built from its own raw strings.\<close>

definition cache_ok :: "config_cache option \<Rightarrow> bool" where
  "cache_ok cache \<longleftrightarrow>
     (\<forall>c. cache = Some c \<longrightarrow> c = build_config_cache (cc_sdk_disabled c) (cc_enabled_raw c) (cc_disabled_raw c))"

text \<open>A call: the environment at that moment and the instrumentation asked about.\<close>

definition instrumented_step :: "go_env \<times> gostring \<Rightarrow> config_cache option \<Rightarrow> config_cache option" where
  "instrumented_step q cache = snd (instrumented (fst q) (snd q) cache)"

lemma parse_list_Nil [simp]: "parse_instrumentation_list [] = []"
  by (simp add: parse_instrumentation_list_def trim_space_def trim_left_space_def trim_right_space_def
      trim_left_runes.simps)

lemma build_cache_raw [simp]:
  "cc_sdk_disabled (build_config_cache s e d) = s"
  "cc_enabled_raw (build_config_cache s e d) = e"
  "cc_disabled_raw (build_config_cache s e d) = d"
  by (simp_all add: build_config_cache_def Let_def)

lemma load_config_ok:
  "cache_ok cache \<Longrightarrow> load_config env cache =
     build_config_cache (env ''OTEL_SDK_DISABLED'') (env ''OTEL_GO_ENABLED_INSTRUMENTATIONS'')
       (env ''OTEL_GO_DISABLED_INSTRUMENTATIONS'')"
  by (cases cache) (auto simp: load_config_def Let_def cache_ok_def)

lemma instrumented_ok:
  assumes "cache_ok cache"
  shows "fst (instrumented env name cache) = instrumented_spec env name"
    and "cache_ok (snd (instrumented env name cache))"
proof -
  show "fst (instrumented env name cache) = instrumented_spec env name"
    by (simp add: instrumented_def load_config_ok [OF assms] instrumented_spec_def build_config_cache_def Let_def)
  show "cache_ok (snd (instrumented env name cache))"
    by (simp add: instrumented_def load_config_ok [OF assms] cache_ok_def Let_def)
qed

interpretation cfg_cache: invariant_system instrumented_step "\<lambda>_ _. True" cache_ok
  by unfold_locales (simp add: instrumented_step_def instrumented_ok(2))

text \<open>
  The configuration cache is invisible: after any sequence of calls under any environments,
  \<open>Instrumented\<close> answers what the documented rule says for the environment of this call (the SDK
  not disabled, the name on the enabled list if there is one, and not on the disabled list).
\<close>
theorem instrumented_cache_transparent:
  "fst (instrumented env name (run_ops instrumented_step calls None)) = instrumented_spec env name"
proof -
  have "cache_ok None" by (simp add: cache_ok_def)
  then have "cache_ok (run_ops instrumented_step calls None)"
    by (rule cfg_cache.run_inv [OF _ guarded_True])
  then show ?thesis by (rule instrumented_ok)
qed

lemma suppressed_is_suppressed: "is_http_client_suppressed (suppress_http_client ctx)"
  by (simp add: is_http_client_suppressed_def suppress_http_client_def)

end
