(* ===== verification/Boot.thy ===== *)
theory Boot
  imports Hook_Support Gls_Stack
begin

text \<open>
  Model of \<open>otelc/boot/boot.go\<close> and \<open>otelc/bootinit\<close>: the set-up of the SDK when the
  application starts, the signal handler that flushes it, and the shutdown.  What the OpenTelemetry packages return is a
  parameter: the outcome of building the resource and of each of the three exporters, where
  a call that panics is an outcome too, as the set-up recovers from panics.  An exporter is a
  number; a provider is the exporter with its processor.
\<close>

datatype exporter_outcome = ExporterPanics | ExporterErr gostring | ExporterNone | Exporter nat

datatype resource_outcome = ResourcePanics | ResourceErr gostring | ResourceOk

datatype span_processor = SimpleProcessor nat | BatchProcessor nat nat nat

datatype stage_result = StageOk | StageErr gostring | StagePanic

record otel_calls =
  oc_resource :: resource_outcome
  oc_trace :: exporter_outcome
  oc_metric :: exporter_outcome
  oc_logs :: exporter_outcome

record boot_state =
  tracer_provider :: "span_processor option"
  meter_provider :: "nat option"
  logger_provider :: "nat option"
  global_tracer :: "bool \<times> span_processor option"
  global_meter :: "nat option"
  global_logger :: "nat option"
  propagator_set :: bool
  signal_registered :: bool
  signal_handlers :: nat
  hook_log :: "(log_level \<times> gostring) list"

definition boot_init :: boot_state where
  "boot_init = \<lparr>tracer_provider = None, meter_provider = None, logger_provider = None,
     global_tracer = (False, None), global_meter = None, global_logger = None, propagator_set = False,
     signal_registered = False, signal_handlers = 0, hook_log = []\<rparr>"

definition boot_log :: "log_level \<Rightarrow> gostring \<Rightarrow> boot_state \<Rightarrow> boot_state" where
  "boot_log l m st = st\<lparr>hook_log := hook_log st @ [(l, m)]\<rparr>"

definition default_batch_timeout_ms :: nat where "default_batch_timeout_ms = 1000"
definition default_batch_size :: nat where "default_batch_size = 512"

definition use_simple_span_processor :: "go_env \<Rightarrow> bool" where
  "use_simple_span_processor env \<longleftrightarrow> equal_fold_ascii (env ''OTEL_GO_SIMPLE_SPAN_PROCESSOR'') ''true''"

definition new_span_processor :: "go_env \<Rightarrow> nat \<Rightarrow> span_processor" where
  "new_span_processor env e =
     (if use_simple_span_processor env then SimpleProcessor e
      else BatchProcessor e default_batch_timeout_ms default_batch_size)"

definition setup_trace_provider :: "go_env \<Rightarrow> exporter_outcome \<Rightarrow> boot_state \<Rightarrow> stage_result \<times> boot_state" where
  "setup_trace_provider env out st =
     (case out of
        ExporterPanics \<Rightarrow> (StagePanic, st)
      | ExporterErr e \<Rightarrow> (StageErr e, st)
      | ExporterNone \<Rightarrow> (StageOk, boot_log LvlDebug ''trace exporter disabled'' st)
      | Exporter e \<Rightarrow>
          (let p = new_span_processor env e
           in (StageOk, boot_log LvlInfo ''trace provider initialized''
                 (st\<lparr>tracer_provider := Some p,
                    global_tracer := set_tracer_provider p (global_tracer st)\<rparr>))))"

definition setup_meter_provider :: "exporter_outcome \<Rightarrow> boot_state \<Rightarrow> stage_result \<times> boot_state" where
  "setup_meter_provider out st =
     (case out of
        ExporterPanics \<Rightarrow> (StagePanic, st)
      | ExporterErr e \<Rightarrow> (StageErr e, st)
      | ExporterNone \<Rightarrow> (StageOk, boot_log LvlDebug ''metric exporter disabled'' st)
      | Exporter e \<Rightarrow> (StageOk, boot_log LvlInfo ''meter provider initialized''
                          (st\<lparr>meter_provider := Some e, global_meter := Some e\<rparr>)))"

definition setup_logger_provider :: "exporter_outcome \<Rightarrow> boot_state \<Rightarrow> stage_result \<times> boot_state" where
  "setup_logger_provider out st =
     (case out of
        ExporterPanics \<Rightarrow> (StagePanic, st)
      | ExporterErr e \<Rightarrow> (StageErr e, st)
      | ExporterNone \<Rightarrow> (StageOk, boot_log LvlDebug ''log exporter disabled'' st)
      | Exporter e \<Rightarrow> (StageOk, boot_log LvlInfo ''logger provider initialized''
                          (st\<lparr>logger_provider := Some e, global_logger := Some e\<rparr>)))"

text \<open>One stage of the set-up: an error is logged and the next stage runs; a panic unwinds.\<close>

definition boot_stage :: "gostring \<Rightarrow> (boot_state \<Rightarrow> stage_result \<times> boot_state) \<Rightarrow>
    (boot_state \<Rightarrow> bool \<times> boot_state) \<Rightarrow> boot_state \<Rightarrow> bool \<times> boot_state" where
  "boot_stage what stage rest st =
     (case stage st of
        (StagePanic, st') \<Rightarrow> (True, st')
      | (StageErr e, st') \<Rightarrow> rest (boot_log LvlWarn (''failed to setup '' @ what) st')
      | (StageOk, st') \<Rightarrow> rest st')"

definition setup_open_telemetry :: "go_env \<Rightarrow> otel_calls \<Rightarrow> boot_state \<Rightarrow> boot_state" where
  "setup_open_telemetry env oc st0 =
     (let body =
        (case oc_resource oc of
           ResourcePanics \<Rightarrow> (True, st0)
         | r \<Rightarrow>
            boot_stage ''trace provider'' (setup_trace_provider env (oc_trace oc))
             (boot_stage ''meter provider'' (setup_meter_provider (oc_metric oc))
               (boot_stage ''logger provider'' (setup_logger_provider (oc_logs oc))
                 (\<lambda>st. (False, boot_log LvlInfo ''OpenTelemetry initialized'' (st\<lparr>propagator_set := True\<rparr>)))))
             (case r of ResourceErr e \<Rightarrow> boot_log LvlWarn ''failed to create resource'' st0 | _ \<Rightarrow> st0))
      in if fst body then boot_log LvlError ''panic during OpenTelemetry setup'' (snd body) else snd body)"

definition setup_signal_handler :: "boot_state \<Rightarrow> boot_state" where
  "setup_signal_handler st =
     (if signal_registered st then st
      else st\<lparr>signal_registered := True, signal_handlers := Suc (signal_handlers st)\<rparr>)"

definition boot_initialize :: "go_env \<Rightarrow> otel_calls \<Rightarrow> boot_state \<Rightarrow> boot_state" where
  "boot_initialize env oc st = setup_signal_handler (setup_open_telemetry env oc st)"

definition setup_otel_sdk :: "go_env \<Rightarrow> otel_calls \<Rightarrow> boot_state \<Rightarrow> boot_state" where
  "setup_otel_sdk env oc st =
     (if equal_fold_ascii (env ''OTEL_SDK_DISABLED'') ''true''
      then boot_log LvlInfo ''OpenTelemetry SDK disabled'' st
      else boot_initialize env oc st)"

definition start_runtime_metrics ::
  "go_env \<Rightarrow> gostring option \<Rightarrow> config_cache option \<times> boot_state \<Rightarrow> bool \<times> config_cache option \<times> boot_state" where
  "start_runtime_metrics env start_err cs =
     (case cs of (cache, st) \<Rightarrow>
        (case instrumented env ''runtimemetrics'' cache of
           (False, cache') \<Rightarrow> (False, cache', boot_log LvlDebug ''runtime metrics disabled'' st)
         | (True, cache') \<Rightarrow>
             (case start_err of
                Some e \<Rightarrow> (False, cache', boot_log LvlWarn ''failed to start runtime metrics'' st)
              | None \<Rightarrow> (True, cache', boot_log LvlInfo ''runtime metrics enabled'' st))))"

text \<open>\<open>bootinit\<close>: the SDK first, then the runtime metrics.\<close>

definition boot_main_init where
  "boot_main_init env oc start_err cache st = start_runtime_metrics env start_err (cache, setup_otel_sdk env oc st)"

text \<open>Shutdown: each provider that exists is shut down; the error returned is the last one.\<close>

datatype otel_signal = Traces | Metrics | Logs

definition shutdown_step ::
  "bool \<Rightarrow> otel_signal \<Rightarrow> (otel_signal \<Rightarrow> gostring option) \<Rightarrow>
   gostring option \<times> otel_signal list \<Rightarrow> gostring option \<times> otel_signal list" where
  "shutdown_step present s fails acc =
     (if \<not> present then acc
      else (case fails s of Some e \<Rightarrow> Some e | None \<Rightarrow> fst acc, snd acc @ [s]))"

definition boot_shutdown :: "(otel_signal \<Rightarrow> gostring option) \<Rightarrow> boot_state \<Rightarrow> gostring option \<times> otel_signal list" where
  "boot_shutdown fails st =
     shutdown_step (logger_provider st \<noteq> None) Logs fails
       (shutdown_step (meter_provider st \<noteq> None) Metrics fails
         (shutdown_step (tracer_provider st \<noteq> None) Traces fails (None, [])))"

text \<open>The handler goroutine: it stops listening before it flushes.\<close>

definition handle_shutdown_signal ::
  "(otel_signal \<Rightarrow> gostring option) \<Rightarrow> boot_state \<Rightarrow> (gostring option \<times> otel_signal list) \<times> boot_state" where
  "handle_shutdown_signal fails st =
     (let st1 = boot_log LvlInfo ''received signal'' (st\<lparr>signal_handlers := signal_handlers st - 1\<rparr>);
          r = boot_shutdown fails st1
      in (r, (case fst r of
                Some e \<Rightarrow> boot_log LvlError ''error flushing telemetry during shutdown'' st1
              | None \<Rightarrow> boot_log LvlInfo ''OpenTelemetry SDK shutdown completed successfully'' st1)))"

section \<open>Properties of the set-up\<close>

definition exporter_of :: "exporter_outcome \<Rightarrow> nat option" where
  "exporter_of o' = (case o' of Exporter e \<Rightarrow> Some e | _ \<Rightarrow> None)"

lemma boot_log_sel [simp]:
  "tracer_provider (boot_log l m st) = tracer_provider st" "meter_provider (boot_log l m st) = meter_provider st"
  "logger_provider (boot_log l m st) = logger_provider st" "global_tracer (boot_log l m st) = global_tracer st"
  "propagator_set (boot_log l m st) = propagator_set st"
  "signal_registered (boot_log l m st) = signal_registered st"
  "signal_handlers (boot_log l m st) = signal_handlers st"
  by (simp_all add: boot_log_def)

lemma stage_handler:
  assumes "\<And>st'. signal_handlers (snd (rest st')) = signal_handlers st' \<and>
      signal_registered (snd (rest st')) = signal_registered st'"
    and "\<And>st'. signal_handlers (snd (stage st')) = signal_handlers st' \<and>
      signal_registered (snd (stage st')) = signal_registered st'"
  shows "signal_handlers (snd (boot_stage w stage rest st)) = signal_handlers st \<and>
    signal_registered (snd (boot_stage w stage rest st)) = signal_registered st"
proof -
  obtain r st' where r: "stage st = (r, st')" by (metis surj_pair)
  show ?thesis using assms(2) [of st] r assms(1) by (cases r) (simp_all add: boot_stage_def)
qed

lemma stages_keep_handler:
  "signal_handlers (snd (setup_trace_provider env o1 st)) = signal_handlers st \<and>
   signal_registered (snd (setup_trace_provider env o1 st)) = signal_registered st"
  "signal_handlers (snd (setup_meter_provider o2 st)) = signal_handlers st \<and>
   signal_registered (snd (setup_meter_provider o2 st)) = signal_registered st"
  "signal_handlers (snd (setup_logger_provider o3 st)) = signal_handlers st \<and>
   signal_registered (snd (setup_logger_provider o3 st)) = signal_registered st"
  by (cases o1, simp_all add: setup_trace_provider_def Let_def)
    (cases o2, simp_all add: setup_meter_provider_def, cases o3, simp_all add: setup_logger_provider_def)

definition all_stages :: "go_env \<Rightarrow> otel_calls \<Rightarrow> boot_state \<Rightarrow> bool \<times> boot_state" where
  "all_stages env oc = boot_stage ''trace provider'' (setup_trace_provider env (oc_trace oc))
    (boot_stage ''meter provider'' (setup_meter_provider (oc_metric oc))
      (boot_stage ''logger provider'' (setup_logger_provider (oc_logs oc))
        (\<lambda>st. (False, boot_log LvlInfo ''OpenTelemetry initialized'' (st\<lparr>propagator_set := True\<rparr>)))))"

lemma setup_open_telemetry_eq:
  "setup_open_telemetry env oc st0 =
     (let body = (case oc_resource oc of
          ResourcePanics \<Rightarrow> (True, st0)
        | ResourceErr e \<Rightarrow> all_stages env oc (boot_log LvlWarn ''failed to create resource'' st0)
        | ResourceOk \<Rightarrow> all_stages env oc st0)
      in if fst body then boot_log LvlError ''panic during OpenTelemetry setup'' (snd body) else snd body)"
  unfolding setup_open_telemetry_def all_stages_def by (cases "oc_resource oc") simp_all

lemma all_stages_handler:
  "signal_handlers (snd (all_stages env oc st)) = signal_handlers st \<and>
   signal_registered (snd (all_stages env oc st)) = signal_registered st"
  unfolding all_stages_def
  by (rule stage_handler, rule stage_handler, rule stage_handler, simp)
    (rule stages_keep_handler)+

lemma setup_handler:
  "signal_handlers (setup_open_telemetry env oc st) = signal_handlers st \<and>
   signal_registered (setup_open_telemetry env oc st) = signal_registered st"
  by (cases "oc_resource oc") (simp_all add: setup_open_telemetry_eq Let_def all_stages_handler)

lemma initialize_handler: "signal_handlers (boot_initialize env oc boot_init) = 1"
  using setup_handler [of env oc boot_init]
  by (simp add: boot_initialize_def setup_signal_handler_def boot_init_def)

lemma boot_stage_simps:
  "boot_stage w (setup_trace_provider env (ExporterErr e)) rest st = rest (boot_log LvlWarn (''failed to setup '' @ w) st)"
  "boot_stage w (setup_trace_provider env ExporterNone) rest st = rest (boot_log LvlDebug ''trace exporter disabled'' st)"
  "boot_stage w (setup_trace_provider env (Exporter x)) rest st = rest (boot_log LvlInfo ''trace provider initialized''
     (st\<lparr>tracer_provider := Some (new_span_processor env x),
         global_tracer := set_tracer_provider (new_span_processor env x) (global_tracer st)\<rparr>))"
  "boot_stage w (setup_meter_provider (ExporterErr e)) rest st = rest (boot_log LvlWarn (''failed to setup '' @ w) st)"
  "boot_stage w (setup_meter_provider ExporterNone) rest st = rest (boot_log LvlDebug ''metric exporter disabled'' st)"
  "boot_stage w (setup_meter_provider (Exporter x)) rest st = rest (boot_log LvlInfo ''meter provider initialized''
     (st\<lparr>meter_provider := Some x, global_meter := Some x\<rparr>))"
  "boot_stage w (setup_logger_provider (ExporterErr e)) rest st = rest (boot_log LvlWarn (''failed to setup '' @ w) st)"
  "boot_stage w (setup_logger_provider ExporterNone) rest st = rest (boot_log LvlDebug ''log exporter disabled'' st)"
  "boot_stage w (setup_logger_provider (Exporter x)) rest st = rest (boot_log LvlInfo ''logger provider initialized''
     (st\<lparr>logger_provider := Some x, global_logger := Some x\<rparr>))"
  by (simp_all only: boot_stage_def setup_trace_provider_def setup_meter_provider_def setup_logger_provider_def
      Let_def prod.case stage_result.case exporter_outcome.case)

lemma initialize_eq:
  "tracer_provider (boot_initialize env oc st) = tracer_provider (setup_open_telemetry env oc st)"
  "meter_provider (boot_initialize env oc st) = meter_provider (setup_open_telemetry env oc st)"
  "logger_provider (boot_initialize env oc st) = logger_provider (setup_open_telemetry env oc st)"
  "propagator_set (boot_initialize env oc st) = propagator_set (setup_open_telemetry env oc st)"
  "global_tracer (boot_initialize env oc st) = global_tracer (setup_open_telemetry env oc st)"
  by (simp_all add: boot_initialize_def setup_signal_handler_def)

lemma exporter_of_simps [simp]:
  "exporter_of (Exporter e) = Some e" "exporter_of ExporterNone = None" "exporter_of (ExporterErr m) = None"
  by (simp_all add: exporter_of_def)

lemma all_stages_providers:
  assumes "oc_trace oc \<noteq> ExporterPanics" "oc_metric oc \<noteq> ExporterPanics" "oc_logs oc \<noteq> ExporterPanics"
    "tracer_provider st0 = None" "meter_provider st0 = None" "logger_provider st0 = None"
  shows "\<exists>st. all_stages env oc st0 = (False, st) \<and> propagator_set st \<and>
    tracer_provider st = map_option (new_span_processor env) (exporter_of (oc_trace oc)) \<and>
    meter_provider st = exporter_of (oc_metric oc) \<and> logger_provider st = exporter_of (oc_logs oc) \<and>
    global_tracer st = (case exporter_of (oc_trace oc) of None \<Rightarrow> global_tracer st0
      | Some e \<Rightarrow> set_tracer_provider (new_span_processor env e) (global_tracer st0))"
  unfolding all_stages_def using assms
  by (cases "oc_trace oc"; cases "oc_metric oc"; cases "oc_logs oc"; simp add: boot_stage_simps)

lemma initialize_providers:
  assumes "oc_resource oc \<noteq> ResourcePanics" "oc_trace oc \<noteq> ExporterPanics" "oc_metric oc \<noteq> ExporterPanics"
    "oc_logs oc \<noteq> ExporterPanics"
  shows "propagator_set (boot_initialize env oc boot_init) \<and>
    tracer_provider (boot_initialize env oc boot_init) = map_option (new_span_processor env) (exporter_of (oc_trace oc)) \<and>
    meter_provider (boot_initialize env oc boot_init) = exporter_of (oc_metric oc) \<and>
    logger_provider (boot_initialize env oc boot_init) = exporter_of (oc_logs oc) \<and>
    global_tracer (boot_initialize env oc boot_init) =
      (case exporter_of (oc_trace oc) of None \<Rightarrow> (False, None) | Some e \<Rightarrow> (True, Some (new_span_processor env e)))"
proof -
  define st0 where "st0 = (case oc_resource oc of
    ResourceErr e \<Rightarrow> boot_log LvlWarn ''failed to create resource'' boot_init | _ \<Rightarrow> boot_init)"
  have g0: "global_tracer st0 = (False, None)"
    by (cases "oc_resource oc") (simp_all add: st0_def boot_init_def)
  have "tracer_provider st0 = None" "meter_provider st0 = None" "logger_provider st0 = None"
    by (cases "oc_resource oc"; simp add: st0_def boot_init_def)+
  then obtain st where st: "all_stages env oc st0 = (False, st)" and
    p: "propagator_set st \<and>
    tracer_provider st = map_option (new_span_processor env) (exporter_of (oc_trace oc)) \<and>
    meter_provider st = exporter_of (oc_metric oc) \<and> logger_provider st = exporter_of (oc_logs oc) \<and>
    global_tracer st = (case exporter_of (oc_trace oc) of None \<Rightarrow> global_tracer st0
      | Some e \<Rightarrow> set_tracer_provider (new_span_processor env e) (global_tracer st0))"
    using all_stages_providers [OF assms(2-4)] by blast
  have "setup_open_telemetry env oc boot_init = st"
    using st assms(1) by (cases "oc_resource oc") (simp_all add: setup_open_telemetry_eq st0_def)
  then show ?thesis using p g0 by (cases "exporter_of (oc_trace oc)") (simp_all add: initialize_eq set_tracer_provider_def)
qed

text \<open>Once a provider is set, no later call replaces it.\<close>

lemma set_tracer_provider_again: "fold set_tracer_provider ps (True, q) = (True, q)"
  by (induction ps) (simp_all add: set_tracer_provider_def)

text \<open>
  C13: Start-up is fault isolated and shutdown complete.  Whatever fails or panics during the
  set-up, it returns with the signal handler registered exactly once; without panics each
  signal's provider exists exactly when its exporter was built, independently of the errors of
  the other two, and the tracer provider it made stays the global one whatever the application sets later
  (if it made none, the application's first does); and a signal then shuts down exactly the existing providers, in order, also
  after one fails, reporting an error exactly when one of those failed.
\<close>
theorem boot_isolated_and_flushed:
  assumes "st = boot_initialize env oc boot_init"
    and "(r, st') = handle_shutdown_signal fails st"
  shows "signal_handlers st = 1 \<and>
    (oc_resource oc \<noteq> ResourcePanics \<and> oc_trace oc \<noteq> ExporterPanics \<and> oc_metric oc \<noteq> ExporterPanics \<and>
     oc_logs oc \<noteq> ExporterPanics \<longrightarrow>
       propagator_set st \<and>
       tracer_provider st = map_option (new_span_processor env) (exporter_of (oc_trace oc)) \<and>
       meter_provider st = exporter_of (oc_metric oc) \<and> logger_provider st = exporter_of (oc_logs oc) \<and>
       fold set_tracer_provider (p # ps) (global_tracer st) =
         (True, Some (case tracer_provider st of Some q \<Rightarrow> q | None \<Rightarrow> p))) \<and>
    signal_handlers st' = 0 \<and>
    snd r = (if tracer_provider st \<noteq> None then [Traces] else []) @ (if meter_provider st \<noteq> None then [Metrics] else [])
      @ (if logger_provider st \<noteq> None then [Logs] else []) \<and>
    (fst r = None \<longleftrightarrow> (\<forall>s \<in> set (snd r). fails s = None))"
proof -
  have "r = boot_shutdown fails st" "signal_handlers st' = signal_handlers st - 1"
    using assms(2) by (auto simp: handle_shutdown_signal_def Let_def boot_shutdown_def split: option.splits)
  moreover have "signal_handlers st = 1" using initialize_handler assms(1) by simp
  moreover have "snd (boot_shutdown fails st) =
    (if tracer_provider st \<noteq> None then [Traces] else []) @ (if meter_provider st \<noteq> None then [Metrics] else [])
      @ (if logger_provider st \<noteq> None then [Logs] else [])"
    "fst (boot_shutdown fails st) = None \<longleftrightarrow> (\<forall>s \<in> set (snd (boot_shutdown fails st)). fails s = None)"
    by (auto simp: boot_shutdown_def shutdown_step_def split: option.splits)
  moreover have "fold set_tracer_provider (p # ps) (global_tracer st) =
      (True, Some (case tracer_provider st of Some q \<Rightarrow> q | None \<Rightarrow> p))"
    if "oc_resource oc \<noteq> ResourcePanics \<and> oc_trace oc \<noteq> ExporterPanics \<and> oc_metric oc \<noteq> ExporterPanics \<and>
      oc_logs oc \<noteq> ExporterPanics"
    using initialize_providers [of oc env] that assms(1)
    by (cases "exporter_of (oc_trace oc)") (simp_all add: set_tracer_provider_def set_tracer_provider_again)
  ultimately show ?thesis using initialize_providers [of oc env] assms(1) by auto
qed

theorem boot_isolated_and_flushed_witness:
  "let oc = \<lparr>oc_resource = ResourceErr ''x'', oc_trace = ExporterErr ''y'', oc_metric = Exporter 3, oc_logs = Exporter 4\<rparr>;
       st = boot_initialize (\<lambda>_. []) oc boot_init
   in tracer_provider st = None \<and> meter_provider st = Some 3 \<and> logger_provider st = Some 4 \<and>
      snd (fold set_tracer_provider [SimpleProcessor 7, SimpleProcessor 8] (global_tracer st)) = Some (SimpleProcessor 7) \<and>
      fst (handle_shutdown_signal (\<lambda>s. if s = Metrics then Some ''e'' else None) st) = (Some ''e'', [Metrics, Logs])"
proof -
  let ?oc = "\<lparr>oc_resource = ResourceErr ''x'', oc_trace = ExporterErr ''y'', oc_metric = Exporter 3, oc_logs = Exporter 4\<rparr>"
  let ?st = "boot_initialize (\<lambda>_. []) ?oc boot_init"
  have "tracer_provider ?st = None \<and> meter_provider ?st = Some 3 \<and> logger_provider ?st = Some 4 \<and>
      fold set_tracer_provider [SimpleProcessor 7, SimpleProcessor 8] (global_tracer ?st) = (True, Some (SimpleProcessor 7))"
    using boot_isolated_and_flushed [OF refl prod.collapse, where env = "\<lambda>_. []" and oc = ?oc and fails = "\<lambda>_. None"
        and p = "SimpleProcessor 7" and ps = "[SimpleProcessor 8]"] by (simp add: exporter_of_def)
  then show ?thesis
    by (simp add: Let_def handle_shutdown_signal_def boot_shutdown_def shutdown_step_def)
qed

end
