(* ===== verification/Go_Net.thy ===== *)
theory Go_Net
  imports Go_Prelude
begin

text \<open>
  What the instrumentation uses of Go's \<open>net\<close> and \<open>net/url\<close> packages (as of Go 1.25.0, the
  version of \<open>go.mod\<close>): \<open>SplitHostPort\<close>, \<open>JoinHostPort\<close>, \<open>url.Parse\<close> with the fields and
  methods the parsers read, \<open>Query().Get\<close> and \<open>PathUnescape\<close>.  An \<open>error\<close> result is
  \<open>None\<close>; which error it is, is never looked at by the callers.
\<close>

section \<open>Host and port\<close>

definition split_host_port :: "gostring \<Rightarrow> (gostring \<times> gostring) option" where
  "split_host_port hp =
     (case last_index_byte hp CHR '':'' of
        None \<Rightarrow> None
      | Some i \<Rightarrow>
          if has_prefix hp ''['' then
            (case index_byte hp CHR '']'' of
               None \<Rightarrow> None
             | Some e \<Rightarrow>
                 if e + 1 \<noteq> i then None
                 else if CHR ''['' \<in> set (drop 1 hp) \<or> CHR '']'' \<in> set (drop (e + 1) hp) then None
                 else Some (drop 1 (take e hp), drop (i + 1) hp))
          else
            let host = take i hp
            in if CHR '':'' \<in> set host \<or> CHR ''['' \<in> set hp \<or> CHR '']'' \<in> set hp then None
               else Some (host, drop (i + 1) hp))"

definition join_host_port :: "gostring \<Rightarrow> gostring \<Rightarrow> gostring" where
  "join_host_port host port =
     (if CHR '':'' \<in> set host then ''['' @ host @ '']:'' @ port else host @ '':'' @ port)"

text \<open>No colon or bracket, as in every port and every host name or IPv4 address.\<close>

definition plain_chars :: "gostring \<Rightarrow> bool" where
  "plain_chars s \<longleftrightarrow> CHR '':'' \<notin> set s \<and> CHR ''['' \<notin> set s \<and> CHR '']'' \<notin> set s"

definition bracket_free :: "gostring \<Rightarrow> bool" where
  "bracket_free s \<longleftrightarrow> CHR ''['' \<notin> set s \<and> CHR '']'' \<notin> set s"

lemma last_index_byte_Cons [simp]:
  "c \<notin> set t \<Longrightarrow> last_index_byte (c # t) c = Some 0"
  using last_index_byte_at [of c t "[]"] by simp

theorem split_join_host_port:
  assumes "bracket_free host" "plain_chars port"
  shows "split_host_port (join_host_port host port) = Some (host, port)"
proof (cases "CHR '':'' \<in> set host")
  case False
  then have "last_index_byte (host @ '':'' @ port) CHR '':'' = Some (length host)"
    using assms last_index_byte_at [of "CHR '':''" port host] by (simp add: plain_chars_def)
  then show ?thesis
    using False assms
    by (cases host)
      (auto simp: split_host_port_def join_host_port_def plain_chars_def bracket_free_def Let_def)
next
  case True
  have eq: "join_host_port host port = (CHR ''['' # host @ '']'') @ CHR '':'' # port"
    using True by (simp add: join_host_port_def)
  have "last_index_byte ((CHR ''['' # host @ '']'') @ CHR '':'' # port) CHR '':'' = Some (length host + 2)"
    using assms(2) last_index_byte_at [of "CHR '':''" port "CHR ''['' # host @ '']''"]
    by (simp add: plain_chars_def)
  moreover have "index_byte ((CHR ''['' # host) @ CHR '']'' # '':'' @ port) CHR '']'' = Some (length host + 1)"
    using assms(1) index_byte_at [of "CHR '']''" "CHR ''['' # host"] by (simp add: bracket_free_def)
  ultimately show ?thesis
    using assms unfolding eq
    by (auto simp: split_host_port_def plain_chars_def bracket_free_def)
qed

section \<open>Percent decoding\<close>

datatype encoding = EncodePath | EncodeHost | EncodeZone | EncodeUserPassword | EncodeQueryComponent | EncodeFragment

definition is_alpha :: "char \<Rightarrow> bool" where
  "is_alpha c \<longleftrightarrow> (65 \<le> (of_char c :: nat) \<and> (of_char c :: nat) \<le> 90) \<or>
                  (97 \<le> (of_char c :: nat) \<and> (of_char c :: nat) \<le> 122)"

definition is_hex :: "char \<Rightarrow> bool" where
  "is_hex c \<longleftrightarrow> is_digit c \<or> (65 \<le> (of_char c :: nat) \<and> (of_char c :: nat) \<le> 70) \<or>
                (97 \<le> (of_char c :: nat) \<and> (of_char c :: nat) \<le> 102)"

definition un_hex :: "char \<Rightarrow> nat" where
  "un_hex c = (if is_digit c then of_char c - 48
               else if 97 \<le> (of_char c :: nat) then of_char c - 97 + 10 else of_char c - 65 + 10)"

text \<open>\<open>shouldEscape\<close> in the two host modes, the only ones the parser asks for.\<close>

definition should_escape_host :: "char \<Rightarrow> bool" where
  "should_escape_host c \<longleftrightarrow>
     \<not> (is_alpha c \<or> is_digit c \<or> c \<in> set ''!$&()*+,;=:[]<>-_.~'' \<or> (of_char c :: nat) = 39 \<or> (of_char c :: nat) = 34)"

fun unescape :: "encoding \<Rightarrow> gostring \<Rightarrow> gostring option" where
  "unescape m [] = Some []"
| "unescape m (c # s) =
     (if c = CHR ''%'' then
        (case s of
           a # b # r \<Rightarrow>
             if \<not> (is_hex a \<and> is_hex b) then None
             else if m = EncodeHost \<and> un_hex a < 8 \<and> \<not> (a = CHR ''2'' \<and> b = CHR ''5'') then None
             else if m = EncodeZone \<and> \<not> (a = CHR ''2'' \<and> b = CHR ''5'')
                  \<and> un_hex a * 16 + un_hex b \<noteq> 32 \<and> should_escape_host (char_of (un_hex a * 16 + un_hex b)) then None
             else map_option (\<lambda>t. char_of (un_hex a * 16 + un_hex b) # t) (unescape m r)
         | _ \<Rightarrow> None)
      else if c = CHR ''+'' \<and> m = EncodeQueryComponent then map_option (\<lambda>t. CHR '' '' # t) (unescape m s)
      else if (m = EncodeHost \<or> m = EncodeZone) \<and> (of_char c :: nat) < 0x80 \<and> should_escape_host c then None
      else map_option (\<lambda>t. c # t) (unescape m s))"

definition path_unescape :: "gostring \<Rightarrow> gostring option" where
  "path_unescape s = unescape EncodePath s"

section \<open>Parsing a URL\<close>

record url =
  u_scheme :: gostring
  u_host :: gostring
  u_path :: gostring
  u_raw_query :: gostring
  u_opaque :: gostring

definition url_zero :: url where
  "url_zero = \<lparr>u_scheme = [], u_host = [], u_path = [], u_raw_query = [], u_opaque = []\<rparr>"

definition contains_ctl :: "gostring \<Rightarrow> bool" where
  "contains_ctl s \<longleftrightarrow> list_ex (\<lambda>c. (of_char c :: nat) < 32 \<or> (of_char c :: nat) = 127) s"

text \<open>\<open>getScheme\<close>: \<open>None\<close> is the \<open>missing protocol scheme\<close> error.\<close>

fun get_scheme_from :: "gostring \<Rightarrow> gostring \<Rightarrow> gostring \<Rightarrow> (gostring \<times> gostring) option" where
  "get_scheme_from raw pre [] = Some ([], raw)"
| "get_scheme_from raw pre (c # s) =
     (if is_alpha c then get_scheme_from raw (pre @ [c]) s
      else if is_digit c \<or> c = CHR ''+'' \<or> c = CHR ''-'' \<or> c = CHR ''.'' then
        (if pre = [] then Some ([], raw) else get_scheme_from raw (pre @ [c]) s)
      else if c = CHR '':'' then (if pre = [] then None else Some (pre, s))
      else Some ([], raw))"

definition get_scheme :: "gostring \<Rightarrow> (gostring \<times> gostring) option" where
  "get_scheme raw = get_scheme_from raw [] raw"

definition valid_optional_port :: "gostring \<Rightarrow> bool" where
  "valid_optional_port p = (case p of [] \<Rightarrow> True | c # r \<Rightarrow> c = CHR '':'' \<and> list_all is_digit r)"

definition parse_host :: "gostring \<Rightarrow> gostring option" where
  "parse_host host =
     (if has_prefix host ''['' then
        (case last_index_byte host CHR '']'' of
           None \<Rightarrow> None
         | Some i \<Rightarrow>
             if \<not> valid_optional_port (drop (i + 1) host) then None
             else (case str_index (take i host) ''%25'' of
                     None \<Rightarrow> unescape EncodeHost host
                   | Some z \<Rightarrow>
                       do { h1 \<leftarrow> unescape EncodeHost (take z host);
                            h2 \<leftarrow> unescape EncodeZone (drop z (take i host));
                            h3 \<leftarrow> unescape EncodeHost (drop i host);
                            Some (h1 @ h2 @ h3) }))
      else
        (case last_index_byte host CHR '':'' of
           None \<Rightarrow> unescape EncodeHost host
         | Some i \<Rightarrow> if valid_optional_port (drop i host) then unescape EncodeHost host else None))"

definition valid_userinfo :: "gostring \<Rightarrow> bool" where
  "valid_userinfo s \<longleftrightarrow>
     list_all (\<lambda>c. is_alpha c \<or> is_digit c \<or> c \<in> set ''-._:~!$&()*+,;=%@'' \<or> (of_char c :: nat) = 39) s"

definition parse_authority :: "gostring \<Rightarrow> gostring option" where
  "parse_authority a =
     (case last_index_byte a CHR ''@'' of
        None \<Rightarrow> parse_host a
      | Some i \<Rightarrow>
          do { host \<leftarrow> parse_host (drop (i + 1) a);
               let ui = take i a;
               if \<not> valid_userinfo ui then None
               else (case str_cut ui CHR '':'' of
                       (user, pass, _) \<Rightarrow>
                         do { _ \<leftarrow> unescape EncodeUserPassword user;
                              _ \<leftarrow> unescape EncodeUserPassword pass;
                              Some host }) })"

definition set_path :: "gostring \<Rightarrow> url \<Rightarrow> url option" where
  "set_path p u = map_option (\<lambda>q. u\<lparr>u_path := q\<rparr>) (unescape EncodePath p)"

definition cut_query :: "gostring \<Rightarrow> gostring \<times> gostring" where
  "cut_query rest =
     (if has_suffix rest ''?'' \<and> count_list rest CHR ''?'' = 1 then (butlast rest, [])
      else (case str_cut rest CHR ''?'' of (r, q, _) \<Rightarrow> (r, q)))"

text \<open>\<open>Parse\<close> without the fragment, \<open>viaRequest = false\<close>.\<close>

definition url_parse_nofrag :: "gostring \<Rightarrow> url option" where
  "url_parse_nofrag raw =
     (if contains_ctl raw then None
      else if raw = ''*'' then Some (url_zero\<lparr>u_path := ''*''\<rparr>)
      else do {
        (sch, rest0) \<leftarrow> get_scheme raw;
        let scheme = to_lower sch;
        let (rest, query) = cut_query rest0;
        let u = url_zero\<lparr>u_scheme := scheme, u_raw_query := query\<rparr>;
        if \<not> has_prefix rest ''/'' \<and> scheme \<noteq> [] then Some (u\<lparr>u_opaque := rest\<rparr>)
        else if \<not> has_prefix rest ''/'' \<and> CHR '':'' \<in> set (fst (str_cut rest CHR ''/'')) then None
        else if (scheme \<noteq> [] \<or> \<not> has_prefix rest ''///'') \<and> has_prefix rest ''//'' then
          (let auth = drop 2 rest;
               i = (case index_byte auth CHR ''/'' of None \<Rightarrow> length auth | Some i \<Rightarrow> i)
           in do { host \<leftarrow> parse_authority (take i auth);
                   set_path (drop i auth) (u\<lparr>u_host := host\<rparr>) })
        else set_path rest u })"

definition url_parse :: "gostring \<Rightarrow> url option" where
  "url_parse raw =
     (case str_cut raw CHR ''#'' of
        (u, frag, _) \<Rightarrow>
          do { url \<leftarrow> url_parse_nofrag u;
               if frag = [] then Some url
               else map_option (\<lambda>_. url) (unescape EncodeFragment frag) })"

section \<open>Reading a URL\<close>

definition url_split_host_port :: "gostring \<Rightarrow> gostring \<times> gostring" where
  "url_split_host_port hp =
     (let (host, port) =
        (case last_index_byte hp CHR '':'' of
           None \<Rightarrow> (hp, [])
         | Some i \<Rightarrow> if valid_optional_port (drop i hp) then (take i hp, drop (i + 1) hp) else (hp, []))
      in (if has_prefix host ''['' \<and> has_suffix host '']'' then drop 1 (butlast host) else host, port))"

definition url_hostname :: "url \<Rightarrow> gostring" where
  "url_hostname u = fst (url_split_host_port (u_host u))"

definition url_port :: "url \<Rightarrow> gostring" where
  "url_port u = snd (url_split_host_port (u_host u))"

text \<open>\<open>u.Query().Get(key)\<close>: malformed pairs are skipped and the first value wins.\<close>

definition query_pair :: "gostring \<Rightarrow> (gostring \<times> gostring) option" where
  "query_pair p =
     (if CHR '';'' \<in> set p \<or> p = [] then None
      else (case str_cut p CHR ''='' of
              (k, v, _) \<Rightarrow> do { k' \<leftarrow> unescape EncodeQueryComponent k;
                               v' \<leftarrow> unescape EncodeQueryComponent v;
                               Some (k', v') }))"

definition query_get :: "gostring \<Rightarrow> gostring \<Rightarrow> gostring" where
  "query_get raw key =
     (case map_of (List.map_filter query_pair (split_on CHR ''&'' raw)) key of None \<Rightarrow> [] | Some v \<Rightarrow> v)"

section \<open>Facts about escaping\<close>

lemma unescape_plain: "CHR ''%'' \<notin> set s \<Longrightarrow> m = EncodePath \<or> m = EncodeUserPassword \<or> m = EncodeFragment \<Longrightarrow>
  unescape m s = Some s"
  by (induction s) auto

lemma unescape_host_plain:
  "CHR ''%'' \<notin> set s \<Longrightarrow> \<forall>c \<in> set s. \<not> should_escape_host c \<Longrightarrow> unescape EncodeHost s = Some s"
  by (induction s) auto

lemma valid_optional_port_digits: "list_all is_digit p \<Longrightarrow> valid_optional_port (CHR '':'' # p)"
  by (simp add: valid_optional_port_def)

lemma digits_plain_chars:
  assumes "list_all is_digit p"
  shows "plain_chars p"
  using assms by (auto simp: plain_chars_def list_all_iff is_digit_def)

end
