(* ===== verification/Dsn_Parse.thy ===== *)
theory Dsn_Parse
  imports Go_Net
begin

text \<open>
  Model of \<open>otelc/dsnparse/parse.go\<close>: the parsers of driver-specific data source names, the
  registry that selects one by driver name, and the address they are turned into.  Every
  index and slice expression of the source is partial (\<open>None\<close> is a run-time panic), so
  that \<open>never panics\<close> is a theorem and not a convention.
\<close>

record dsn_info =
  dsn_host :: gostring
  dsn_port :: gostring
  dsn_dbname :: gostring

definition dsn_zero :: dsn_info where
  "dsn_zero = \<lparr>dsn_host = [], dsn_port = [], dsn_dbname = []\<rparr>"

definition mk_dsn :: "gostring \<Rightarrow> gostring \<Rightarrow> gostring \<Rightarrow> dsn_info" where
  "mk_dsn h p d = \<lparr>dsn_host = h, dsn_port = p, dsn_dbname = d\<rparr>"

type_synonym parser = "gostring \<Rightarrow> dsn_info option"

definition trim_host_brackets :: "gostring \<Rightarrow> gostring option" where
  "trim_host_brackets host =
     (if length host > 1 then
        do { a \<leftarrow> byte_at host 0;
             z \<leftarrow> byte_at host (length host - 1);
             if a = CHR ''['' \<and> z = CHR '']'' then go_slice host 1 (length host - 1) else Some host }
      else Some host)"

definition dsn_addr :: "dsn_info \<Rightarrow> gostring option" where
  "dsn_addr d =
     do { host \<leftarrow> trim_host_brackets (dsn_host d);
          if host = [] then Some []
          else if dsn_port d = [] then Some host
          else Some (join_host_port host (dsn_port d)) }"

section \<open>Generic URL fallback\<close>

definition best_effort_parse :: parser where
  "best_effort_parse dsn =
     Some (case url_parse dsn of
             Some u \<Rightarrow> if u_host u \<noteq> [] then mk_dsn (url_hostname u) (url_port u) (trim_prefix (u_path u) ''/'')
                       else dsn_zero
           | None \<Rightarrow> dsn_zero)"

definition parse_db_name :: "gostring \<Rightarrow> gostring option" where
  "parse_db_name dsn =
     (case last_index_byte dsn CHR ''/'' of
        None \<Rightarrow> Some []
      | Some i \<Rightarrow>
          do { rest \<leftarrow> slice_from dsn (i + 1);
               dbname \<leftarrow> (case index_any rest ''?&'' of Some j \<Rightarrow> slice_to rest j | None \<Rightarrow> Some rest);
               Some (case path_unescape dbname of Some u \<Rightarrow> u | None \<Rightarrow> dbname) })"

section \<open>PostgreSQL\<close>

text \<open>The inner loop over a single-quoted value: the value and what follows it.\<close>

fun libpq_quoted :: "gostring \<Rightarrow> gostring \<Rightarrow> gostring \<times> gostring" where
  "libpq_quoted b [] = (b, [])"
| "libpq_quoted b (c # r) =
     (if c = CHR 0x5C \<and> r \<noteq> [] then libpq_quoted (b @ [hd r]) (tl r)
      else if c = CHR 0x27 then (b, r)
      else libpq_quoted (b @ [c]) r)"

definition libpq_space :: gostring where
  "libpq_space = [CHR 0x20, CHR 0x09, CHR 0x0A, CHR 0x0D]"

definition libpq_value :: "gostring \<Rightarrow> (gostring \<times> gostring) option" where
  "libpq_value rest =
     (if has_prefix rest [CHR 0x27] then map_option (libpq_quoted []) (slice_from rest 1)
      else
        (let e = (case index_any rest libpq_space of Some i \<Rightarrow> i | None \<Rightarrow> length rest)
         in do { v \<leftarrow> slice_to rest e; r \<leftarrow> slice_from rest e; Some (v, r) }))"

definition libpq_set :: "gostring \<Rightarrow> gostring \<Rightarrow> dsn_info \<Rightarrow> dsn_info option" where
  "libpq_set key val info =
     (if key = ''host'' then map_option (\<lambda>h. info\<lparr>dsn_host := h\<rparr>) (trim_host_brackets val)
      else if key = ''port'' then Some (info\<lparr>dsn_port := val\<rparr>)
      else if key = ''dbname'' then Some (info\<lparr>dsn_dbname := val\<rparr>)
      else Some info)"

lemma libpq_quoted_length: "libpq_quoted b s = (v, r) \<Longrightarrow> length r \<le> length s"
  by (induction b s rule: libpq_quoted.induct) (auto split: if_splits)

lemma libpq_value_length: "libpq_value s = Some (v, r) \<Longrightarrow> length r \<le> length s"
  using libpq_quoted_length [of "[]" "drop 1 s" v r]
  by (auto simp: libpq_value_def slice_from_def slice_to_def Let_def split: if_splits option.splits)

function libpq_loop :: "gostring \<Rightarrow> dsn_info \<Rightarrow> dsn_info option" where
  "libpq_loop rest0 info =
     (let rest = trim_left_set rest0 libpq_space
      in if rest0 = [] \<or> rest = [] then Some info
         else (case index_byte rest CHR ''='' of
                 None \<Rightarrow> Some info
               | Some e \<Rightarrow>
                   do { k \<leftarrow> slice_to rest e;
                        body \<leftarrow> slice_from rest (e + 1);
                        vr \<leftarrow> libpq_value body;
                        info' \<leftarrow> libpq_set (trim_space k) (fst vr) info;
                        libpq_loop (snd vr) info' }))"
  by pat_completeness auto
termination
proof (relation "measure (\<lambda>(s, _). length s)", simp, goal_cases)
  case (1 rest0 info rest e k body vr info')
  then have "length (snd vr) \<le> length body" by (metis libpq_value_length prod.collapse)
  moreover have "length body < length rest"
    using 1 index_byte_bound [of rest "CHR ''=''" e] by (auto simp: slice_from_def split: if_splits)
  moreover have "length rest \<le> length rest0"
    using 1 by (simp add: trim_left_set_def length_dropWhile_le)
  ultimately show ?case by simp
qed

declare libpq_loop.simps [simp del]

definition parse_libpq_kv :: parser where
  "parse_libpq_kv dsn = libpq_loop (trim_space dsn) (mk_dsn ''localhost'' ''5432'' [])"

definition or_default :: "gostring \<Rightarrow> gostring \<Rightarrow> gostring" where
  "or_default s d = (if s = [] then d else s)"

definition parse_postgres_dsn :: parser where
  "parse_postgres_dsn dsn =
     (case (if str_contains dsn ''://'' then url_parse dsn else None) of
        Some u \<Rightarrow>
          if u_scheme u = ''postgres'' \<or> u_scheme u = ''postgresql''
          then Some (mk_dsn (url_hostname u) (or_default (url_port u) ''5432'') (trim_prefix (u_path u) ''/''))
          else parse_libpq_kv dsn
      | None \<Rightarrow> parse_libpq_kv dsn)"

section \<open>MySQL\<close>

fun mysql_at_idx :: "nat \<Rightarrow> nat option \<Rightarrow> gostring \<Rightarrow> nat option" where
  "mysql_at_idx i acc [] = acc"
| "mysql_at_idx i acc (c # s) =
     (let acc' = (if c = CHR ''@'' then Some i else acc)
      in if c = CHR ''('' then acc' else mysql_at_idx (Suc i) acc' s)"

definition is_mysql_unix_addr :: "gostring \<Rightarrow> bool option" where
  "is_mysql_unix_addr addr =
     (case index_byte addr CHR '':'' of
        None \<Rightarrow> Some False
      | Some colon \<Rightarrow> map_option (\<lambda>p. p = ''unix'') (slice_to addr colon))"

definition mysql_known_protocols :: "gostring set" where
  "mysql_known_protocols = {''tcp'', ''unix'', ''udp'', ''pipe''}"

definition mysql_strip_protocol :: "gostring \<Rightarrow> gostring option" where
  "mysql_strip_protocol addr =
     (case index_byte addr CHR '':'' of
        None \<Rightarrow> Some addr
      | Some colon \<Rightarrow>
          do { proto \<leftarrow> slice_to addr colon;
               if proto \<notin> mysql_known_protocols then Some addr
               else do { rest \<leftarrow> slice_from addr (colon + 1);
                         if rest = [] then Some []
                         else if list_all is_digit rest then Some (''localhost:'' @ rest)
                         else Some rest } })"

text \<open>The two address splitters share the handling of a bracketed IPv6 literal.\<close>

definition mysql_split_addr :: "gostring \<Rightarrow> (gostring \<times> gostring) option" where
  "mysql_split_addr addr =
     (if addr = [] then Some ([], [])
      else
        (case (if has_prefix addr ''['' then last_index_byte addr CHR '']'' else None) of
           Some rb \<Rightarrow>
             do { host \<leftarrow> go_slice addr 1 rb;
                  rest \<leftarrow> slice_from addr (rb + 1);
                  if has_prefix rest '':'' then map_option (Pair host) (slice_from rest 1)
                  else Some (host, ''3306'') }
         | None \<Rightarrow>
             (case last_index_byte addr CHR '':'' of
                Some colon \<Rightarrow>
                  do { h \<leftarrow> slice_to addr colon; p \<leftarrow> slice_from addr (colon + 1); Some (h, p) }
              | None \<Rightarrow> if CHR ''/'' \<in> set addr then Some (addr, []) else Some (addr, ''3306''))))"

definition mysql_db_name :: "gostring \<Rightarrow> gostring option" where
  "mysql_db_name s0 =
     (let s = trim_prefix s0 ''/''
      in case index_byte s CHR ''?'' of Some i \<Rightarrow> slice_to s i | None \<Rightarrow> Some s)"

text \<open>The address and database parts of what follows the credentials.\<close>

definition mysql_parts :: "gostring \<Rightarrow> (gostring \<times> gostring) option" where
  "mysql_parts rest =
     (case index_byte rest CHR ''('' of
        Some lp \<Rightarrow>
          do { tail \<leftarrow> slice_from rest lp;
               (case index_byte tail CHR '')'' of
                  Some rp \<Rightarrow>
                    do { addr \<leftarrow> go_slice rest (lp + 1) (lp + rp);
                         db \<leftarrow> slice_from rest (lp + rp + 1);
                         Some (addr, db) }
                | None \<Rightarrow> Some ([], [])) }
      | None \<Rightarrow>
          do { unix \<leftarrow> is_mysql_unix_addr rest;
               sl \<leftarrow> (if unix then
                        (case index_byte rest CHR ''?'' of
                           Some q \<Rightarrow> map_option (\<lambda>s. last_index_byte s CHR ''/'') (slice_to rest q)
                         | None \<Rightarrow> Some (last_index_byte rest CHR ''/''))
                      else Some (index_byte rest CHR ''/''));
               (addr, db) \<leftarrow> (case sl of
                  Some i \<Rightarrow> do { a \<leftarrow> slice_to rest i; d \<leftarrow> slice_from rest i; Some (a, d) }
                | None \<Rightarrow> Some (rest, []));
               addr' \<leftarrow> mysql_strip_protocol addr;
               Some (addr', db) })"

definition parse_mysql_dsn :: parser where
  "parse_mysql_dsn dsn =
     do { rest \<leftarrow> (case mysql_at_idx 0 None dsn of Some i \<Rightarrow> slice_from dsn (i + 1) | None \<Rightarrow> Some dsn);
          (addr, db) \<leftarrow> mysql_parts rest;
          (host, port) \<leftarrow> mysql_split_addr addr;
          name \<leftarrow> mysql_db_name db;
          Some (mk_dsn host port name) }"

section \<open>SQLite\<close>

definition base_name :: "gostring \<Rightarrow> gostring option" where
  "base_name path =
     (case last_index_byte path CHR ''/'' of Some i \<Rightarrow> slice_from path (i + 1) | None \<Rightarrow> Some path)"

definition strip_query :: "gostring \<Rightarrow> gostring option" where
  "strip_query s = (case index_byte s CHR ''?'' of Some i \<Rightarrow> slice_to s i | None \<Rightarrow> Some s)"

definition sqlite_db_name :: "gostring \<Rightarrow> gostring option" where
  "sqlite_db_name dsn =
     (if has_prefix dsn ''file:'' then
        do { path0 \<leftarrow> slice_from dsn (length ''file:'');
             path \<leftarrow> strip_query path0;
             if trim_prefix path ''//'' = '':memory:'' then Some '':memory:'' else base_name path }
      else if dsn = '':memory:'' then Some '':memory:''
      else strip_query dsn \<bind> base_name)"

definition parse_sqlite_dsn :: parser where
  "parse_sqlite_dsn dsn = map_option (mk_dsn ''sqlite3'' []) (sqlite_db_name dsn)"

section \<open>SQL Server\<close>

definition sqlserver_pair :: "gostring \<Rightarrow> dsn_info \<Rightarrow> dsn_info option" where
  "sqlserver_pair pair0 info =
     (let pair = trim_space pair0
      in if pair = [] then Some info
         else (case str_cut pair CHR ''='' of
                 (key0, val0, ok) \<Rightarrow>
                   if \<not> ok then Some info
                   else
                     (let key = to_lower (trim_space key0); val = trim_space val0
                      in if key = ''server'' \<or> key = ''data source'' then
                           do { info' \<leftarrow>
                                  (case index_byte val CHR '','' of
                                     Some comma \<Rightarrow>
                                       do { h \<leftarrow> slice_to val comma; p \<leftarrow> slice_from val (comma + 1);
                                            Some (info\<lparr>dsn_host := h, dsn_port := p\<rparr>) }
                                   | None \<Rightarrow>
                                       (case index_byte val CHR 0x5C of
                                          Some bs \<Rightarrow> map_option (\<lambda>h. info\<lparr>dsn_host := h\<rparr>) (slice_to val bs)
                                        | None \<Rightarrow> Some (info\<lparr>dsn_host := val\<rparr>)));
                                h \<leftarrow> trim_host_brackets (dsn_host info');
                                Some (info'\<lparr>dsn_host := h\<rparr>) }
                         else if key = ''port'' then Some (info\<lparr>dsn_port := val\<rparr>)
                         else if key = ''database'' \<or> key = ''initial catalog'' then Some (info\<lparr>dsn_dbname := val\<rparr>)
                         else Some info)))"

fun sqlserver_loop :: "gostring list \<Rightarrow> dsn_info \<Rightarrow> dsn_info option" where
  "sqlserver_loop [] info = Some info"
| "sqlserver_loop (p # ps) info = sqlserver_pair p info \<bind> sqlserver_loop ps"

definition parse_sqlserver_kv :: parser where
  "parse_sqlserver_kv dsn =
     do { info \<leftarrow> sqlserver_loop (split_on CHR '';'' dsn) dsn_zero;
          Some (if dsn_host info \<noteq> [] \<and> dsn_port info = [] then info\<lparr>dsn_port := ''1433''\<rparr> else info) }"

definition parse_sqlserver_dsn :: parser where
  "parse_sqlserver_dsn dsn =
     (case (if str_contains dsn ''://'' then url_parse dsn else None) of
        Some u \<Rightarrow> Some (mk_dsn (url_hostname u) (or_default (url_port u) ''1433'')
                             (query_get (u_raw_query u) ''database''))
      | None \<Rightarrow> parse_sqlserver_kv dsn)"

section \<open>ClickHouse and Oracle\<close>

definition parse_clickhouse_dsn :: parser where
  "parse_clickhouse_dsn dsn =
     Some (case url_parse dsn of
             None \<Rightarrow> dsn_zero
           | Some u \<Rightarrow>
               mk_dsn (url_hostname u)
                 (or_default (url_port u)
                    (if u_scheme u = ''http'' then ''8123'' else if u_scheme u = ''https'' then ''8443'' else ''9000''))
                 (or_default (trim_prefix (u_path u) ''/'') (query_get (u_raw_query u) ''database'')))"

definition oracle_split_host_port :: "gostring \<Rightarrow> (gostring \<times> gostring) option" where
  "oracle_split_host_port hp =
     (case (if has_prefix hp ''['' then last_index_byte hp CHR '']'' else None) of
        Some rb \<Rightarrow>
          do { host \<leftarrow> go_slice hp 1 rb;
               rest \<leftarrow> slice_from hp (rb + 1);
               if has_prefix rest '':'' then map_option (Pair host) (slice_from rest 1)
               else Some (host, ''1521'') }
      | None \<Rightarrow>
          (case last_index_byte hp CHR '':'' of
             Some i \<Rightarrow> do { h \<leftarrow> slice_to hp i; p \<leftarrow> slice_from hp (i + 1); Some (h, p) }
           | None \<Rightarrow> Some (hp, ''1521'')))"

definition parse_oracle_plain :: parser where
  "parse_oracle_plain dsn =
     (case index_byte dsn CHR ''@'' of
        None \<Rightarrow> Some dsn_zero
      | Some at \<Rightarrow>
          do { after_at \<leftarrow> slice_from dsn (at + 1);
               let conn = trim_prefix after_at ''//'';
               (hp, db) \<leftarrow> (case index_byte conn CHR ''/'' of
                  Some sl \<Rightarrow> do { h \<leftarrow> slice_to conn sl; d \<leftarrow> slice_from conn (sl + 1); Some (h, d) }
                | None \<Rightarrow> Some (conn, []));
               (host, port) \<leftarrow> oracle_split_host_port hp;
               Some (mk_dsn host port db) })"

definition parse_oracle_dsn :: parser where
  "parse_oracle_dsn dsn =
     (case (if str_contains dsn ''://'' then url_parse dsn else None) of
        Some u \<Rightarrow>
          if u_host u \<noteq> []
          then Some (mk_dsn (url_hostname u) (or_default (url_port u) ''1521'') (trim_prefix (u_path u) ''/''))
          else parse_oracle_plain dsn
      | None \<Rightarrow> parse_oracle_plain dsn)"

section \<open>The registry\<close>

type_synonym dsn_registry = "gostring \<rightharpoonup> parser"

definition registry_register :: "gostring \<Rightarrow> parser \<Rightarrow> dsn_registry \<Rightarrow> dsn_registry" where
  "registry_register name p r = r(name \<mapsto> p)"

definition registry_register_all :: "dsn_registry \<Rightarrow> dsn_registry \<Rightarrow> dsn_registry" where
  "registry_register_all ps r = r ++ ps"

definition registry_lookup :: "gostring \<Rightarrow> dsn_registry \<Rightarrow> parser option" where
  "registry_lookup name r = r name"

definition default_registry :: dsn_registry where
  "default_registry = map_of
     [(''postgres'', parse_postgres_dsn), (''postgresql'', parse_postgres_dsn), (''pgx'', parse_postgres_dsn),
      (''lib/pq'', parse_postgres_dsn), (''mysql'', parse_mysql_dsn), (''mariadb'', parse_mysql_dsn),
      (''sqlite3'', parse_sqlite_dsn), (''sqlite'', parse_sqlite_dsn), (''sqlserver'', parse_sqlserver_dsn),
      (''mssql'', parse_sqlserver_dsn), (''clickhouse'', parse_clickhouse_dsn), (''godror'', parse_oracle_dsn),
      (''oracle'', parse_oracle_dsn), (''oci8'', parse_oracle_dsn), (''go-oci8'', parse_oracle_dsn)]"

definition register_dsn_parser :: "gostring \<Rightarrow> parser \<Rightarrow> dsn_registry \<Rightarrow> dsn_registry" where
  "register_dsn_parser driver p r = registry_register driver p r"

definition register_dsn_parsers :: "dsn_registry \<Rightarrow> dsn_registry \<Rightarrow> dsn_registry" where
  "register_dsn_parsers ps r = registry_register_all ps r"

definition parse_dsn :: "dsn_registry \<Rightarrow> gostring \<Rightarrow> parser" where
  "parse_dsn r driver dsn =
     (case registry_lookup driver r of Some p \<Rightarrow> p dsn | None \<Rightarrow> best_effort_parse dsn)"

definition legacy_parse_dsn :: "dsn_registry \<Rightarrow> gostring \<Rightarrow> gostring \<Rightarrow> gostring option" where
  "legacy_parse_dsn r driver dsn =
     do { info \<leftarrow> parse_dsn r driver dsn;
          addr \<leftarrow> dsn_addr info;
          Some (if addr \<noteq> [] then addr else driver) }"

end
