(* ===== verification/Dsn_Total.thy ===== *)
theory Dsn_Total
  imports Dsn_Parse
begin

text \<open>
  The contract of \<open>DSNParser\<close> ("implementations must never panic") as a locale, its
  consequences for the address, and its interpretation by every built-in parser.
\<close>

lemma trim_host_brackets_total: "\<exists>h. trim_host_brackets s = Some h"
  by (simp add: trim_host_brackets_def byte_at_def)

lemma trim_host_brackets_free: "bracket_free s \<Longrightarrow> trim_host_brackets s = Some s"
  by (cases s) (auto simp: trim_host_brackets_def byte_at_def bracket_free_def)

lemma trim_host_brackets_bracketed: "h \<noteq> [] \<Longrightarrow> trim_host_brackets (''['' @ h @ '']'') = Some h"
  by (simp add: trim_host_brackets_def byte_at_def nth_append)

lemma dsn_addr_total: "\<exists>a. dsn_addr d = Some a"
  using trim_host_brackets_total [of "dsn_host d"] by (auto simp: dsn_addr_def)

locale dsn_parser =
  fixes parse :: "gostring \<Rightarrow> dsn_info option"
  assumes never_panics: "\<exists>d. parse s = Some d"
begin

lemma addr_total: "\<exists>a. parse s \<bind> dsn_addr = Some a"
  using never_panics [of s] dsn_addr_total by auto

end

text \<open>Slicing at the result of a search is always in range.\<close>

lemma slice_at_index [simp]:
  "index_byte s c = Some i \<Longrightarrow> slice_to s i = Some (take i s)"
  "index_byte s c = Some i \<Longrightarrow> slice_from s i = Some (drop i s)"
  "index_byte s c = Some i \<Longrightarrow> slice_from s (Suc i) = Some (drop (Suc i) s)"
  "index_any s cs = Some i \<Longrightarrow> slice_to s i = Some (take i s)"
  "index_any s cs = Some i \<Longrightarrow> slice_from s i = Some (drop i s)"
  "last_index_byte s c = Some i \<Longrightarrow> slice_to s i = Some (take i s)"
  "last_index_byte s c = Some i \<Longrightarrow> slice_from s (Suc i) = Some (drop (Suc i) s)"
  "has_prefix s p \<Longrightarrow> slice_from s (length p) = Some (drop (length p) s)"
  by (auto dest: go_bounds has_prefix_length simp: slice_to_def slice_from_def)

lemma index_byte_nth: "index_byte s c = Some i \<Longrightarrow> s ! i = c"
  by (auto simp: index_byte_def dest: find_idx_SomeD)

lemma libpq_value_total: "\<exists>r. libpq_value s = Some r"
proof (cases "has_prefix s [CHR 0x27]")
  case True
  then show ?thesis using has_prefix_length [OF True] by (simp add: libpq_value_def)
next
  case False
  then show ?thesis
    by (cases "index_any s libpq_space") (simp_all add: libpq_value_def)
qed

lemma libpq_set_total: "\<exists>r. libpq_set k v i = Some r"
  using trim_host_brackets_total [of v] by (auto simp: libpq_set_def)

lemma libpq_loop_total: "\<exists>d. libpq_loop s i = Some d"
proof (induction s i rule: libpq_loop.induct)
  case (1 rest0 info)
  let ?rest = "trim_left_set rest0 libpq_space"
  show ?case
  proof (cases "rest0 = [] \<or> ?rest = []")
    case True
    then show ?thesis by (subst libpq_loop.simps) (simp add: Let_def)
  next
    case ne: False
    show ?thesis
    proof (cases "index_byte ?rest CHR ''=''")
      case None
      then show ?thesis using ne by (subst libpq_loop.simps) (simp add: Let_def)
    next
      case (Some e)
      obtain v r where v: "libpq_value (drop (Suc e) ?rest) = Some (v, r)"
        using libpq_value_total by (metis surj_pair)
      obtain i' where i': "libpq_set (trim_space (take e ?rest)) v info = Some i'"
        using libpq_set_total by blast
      have "\<exists>d. libpq_loop r i' = Some d"
        using 1 [OF refl ne Some, of "take e ?rest" "drop (Suc e) ?rest" "(v, r)" i'] Some v i' by simp
      then show ?thesis using ne Some v i' by (subst libpq_loop.simps) (simp add: Let_def)
    qed
  qed
qed

lemma libpq_kv_total: "\<exists>d. parse_libpq_kv s = Some d"
  using libpq_loop_total by (simp add: parse_libpq_kv_def)

interpretation pg: dsn_parser parse_postgres_dsn
  by unfold_locales (use libpq_kv_total in \<open>auto simp: parse_postgres_dsn_def split: option.splits\<close>)

lemma split_bracketed_total:
  assumes "has_prefix s ''[''" "last_index_byte s CHR '']'' = Some rb"
  shows "go_slice s 1 rb = Some (drop 1 (take rb s))"
proof -
  have "rb \<noteq> 0" using assms last_index_byte_split [OF assms(2)] by (cases s; cases rb) auto
  then show ?thesis using assms(2) last_index_byte_bound [OF assms(2)] by simp
qed

lemma mysql_split_addr_total: "\<exists>r. mysql_split_addr s = Some r"
proof (cases "if has_prefix s ''['' then last_index_byte s CHR '']'' else None")
  case None
  then show ?thesis
    by (cases "last_index_byte s CHR '':''")
      (auto simp: mysql_split_addr_def)
next
  case (Some rb)
  then have "has_prefix s ''[''" "last_index_byte s CHR '']'' = Some rb" by (auto split: if_splits)
  then show ?thesis
    using split_bracketed_total [of s rb] has_prefix_length [of "drop (Suc rb) s" "'':''"]
    by (auto simp: mysql_split_addr_def)
qed

lemma oracle_split_total: "\<exists>r. oracle_split_host_port s = Some r"
proof (cases "if has_prefix s ''['' then last_index_byte s CHR '']'' else None")
  case None
  then show ?thesis
    by (cases "last_index_byte s CHR '':''")
      (auto simp: oracle_split_host_port_def)
next
  case (Some rb)
  then have "has_prefix s ''[''" "last_index_byte s CHR '']'' = Some rb" by (auto split: if_splits)
  then show ?thesis
    using split_bracketed_total [of s rb] has_prefix_length [of "drop (Suc rb) s" "'':''"]
    by (auto simp: oracle_split_host_port_def)
qed

lemma mysql_strip_protocol_total: "\<exists>r. mysql_strip_protocol s = Some r"
  by (auto simp: mysql_strip_protocol_def split: option.splits)

lemma mysql_db_name_total: "\<exists>r. mysql_db_name s = Some r"
  by (auto simp: mysql_db_name_def Let_def split: option.splits)

lemma is_mysql_unix_total: "\<exists>b. is_mysql_unix_addr s = Some b"
  by (auto simp: is_mysql_unix_addr_def split: option.splits)

lemma mysql_parts_total: "\<exists>r. mysql_parts s = Some r"
proof (cases "index_byte s CHR ''(''")
  case (Some lp)
  show ?thesis
  proof (cases "index_byte (drop lp s) CHR '')''")
    case rp: (Some rp)
    have "rp < length s - lp" using index_byte_bound [OF rp] by simp
    moreover have "rp \<noteq> 0"
      using index_byte_nth [OF rp] index_byte_nth [OF Some] index_byte_bound [OF Some] by (cases rp) auto
    ultimately show ?thesis using Some rp by (simp add: mysql_parts_def)
  qed (use Some in \<open>simp add: mysql_parts_def\<close>)
next
  case None
  obtain b where b: "is_mysql_unix_addr s = Some b" using is_mysql_unix_total by blast
  define sl where "sl = (if b then (case index_byte s CHR ''?'' of
      Some q \<Rightarrow> last_index_byte (take q s) CHR ''/'' | None \<Rightarrow> last_index_byte s CHR ''/'')
    else index_byte s CHR ''/'')"
  have le: "i \<le> length s" if "sl = Some i" for i
    using that last_index_byte_bound [of _ "CHR ''/''" i] index_byte_bound [of s "CHR ''/''" i]
    by (auto simp: sl_def split: if_splits option.splits dest!: last_index_byte_bound)
  show ?thesis
  proof (cases sl)
    case sn: None
    then show ?thesis using None b mysql_strip_protocol_total [of s]
      by (auto simp: mysql_parts_def sl_def split: if_splits option.splits)
  next
    case (Some i)
    then show ?thesis using None b le [OF Some] mysql_strip_protocol_total [of "take i s"]
      by (auto simp: mysql_parts_def sl_def split: if_splits option.splits)
  qed
qed

interpretation my: dsn_parser parse_mysql_dsn
proof
  fix s
  have at: "i + 1 \<le> n + length s" if "mysql_at_idx n acc s = Some i" "acc = None \<or> (\<exists>j. acc = Some j \<and> j < n)"
    for n acc i s
    using that by (induction n acc s rule: mysql_at_idx.induct) (auto simp: Let_def split: if_splits)
  obtain rest where rest: "(case mysql_at_idx 0 None s of Some i \<Rightarrow> slice_from s (i + 1) | None \<Rightarrow> Some s) = Some rest"
    using at [of 0 None s] by (cases "mysql_at_idx 0 None s") auto
  obtain a d where p: "mysql_parts rest = Some (a, d)" using mysql_parts_total by (metis surj_pair)
  obtain h q where "mysql_split_addr a = Some (h, q)" using mysql_split_addr_total by (metis surj_pair)
  moreover obtain n where "mysql_db_name d = Some n" using mysql_db_name_total by blast
  ultimately show "\<exists>d. parse_mysql_dsn s = Some d"
    using rest p by (simp add: parse_mysql_dsn_def)
qed

lemma base_name_total: "\<exists>r. base_name p = Some r"
  by (cases "last_index_byte p CHR ''/''") (simp_all add: base_name_def)

lemma strip_query_total: "\<exists>r. strip_query p = Some r"
  by (cases "index_byte p CHR ''?''") (simp_all add: strip_query_def)

lemma sqlite_db_name_total: "\<exists>r. sqlite_db_name s = Some r"
proof -
  obtain p q where "strip_query (drop 5 s) = Some p" "strip_query s = Some q"
    using strip_query_total by blast
  moreover obtain bp bq where "base_name p = Some bp" "base_name q = Some bq"
    using base_name_total by blast
  moreover have "has_prefix s ''file:'' \<Longrightarrow> slice_from s 5 = Some (drop 5 s)"
    using slice_at_index(8) [of s "''file:''"] by (simp add: numeral_eq_Suc)
  ultimately show ?thesis by (simp add: sqlite_db_name_def numeral_eq_Suc)
qed

interpretation lite: dsn_parser parse_sqlite_dsn
  by unfold_locales (use sqlite_db_name_total in \<open>auto simp: parse_sqlite_dsn_def\<close>)

lemma sqlserver_pair_total: "\<exists>d. sqlserver_pair p i = Some d"
proof -
  obtain k v ok where c: "str_cut (trim_space p) CHR ''='' = (k, v, ok)" by (metis surj_pair)
  obtain t where t: "\<And>x. trim_host_brackets x = Some (t x)"
    using trim_host_brackets_total by metis
  show ?thesis
    by (cases "index_byte (trim_space v) CHR '',''"; cases "index_byte (trim_space v) CHR 0x5C")
      (simp_all add: sqlserver_pair_def Let_def c t)
qed

lemma sqlserver_loop_total: "\<exists>d. sqlserver_loop ps i = Some d"
proof (induction ps arbitrary: i)
  case (Cons p ps)
  then show ?case using sqlserver_pair_total [of p i] by auto
qed simp

lemma sqlserver_kv_total: "\<exists>d. parse_sqlserver_kv s = Some d"
  using sqlserver_loop_total [of "split_on CHR '';'' s" dsn_zero] by (auto simp: parse_sqlserver_kv_def)

interpretation ms: dsn_parser parse_sqlserver_dsn
  by unfold_locales
    (use sqlserver_kv_total in \<open>auto simp: parse_sqlserver_dsn_def split: option.splits\<close>)

interpretation ch: dsn_parser parse_clickhouse_dsn
  by unfold_locales (simp add: parse_clickhouse_dsn_def)

lemma oracle_plain_total: "\<exists>d. parse_oracle_plain s = Some d"
proof (cases "index_byte s CHR ''@''")
  case (Some i)
  let ?c = "trim_prefix (drop (Suc i) s) ''//''"
  obtain r where r: "\<And>x. oracle_split_host_port x = Some (r x)"
    using oracle_split_total by metis
  show ?thesis
    using Some by (cases "index_byte ?c CHR ''/''") (simp_all add: parse_oracle_plain_def r split_def Let_def)
qed (simp add: parse_oracle_plain_def)

interpretation ora: dsn_parser parse_oracle_dsn
  by unfold_locales (use oracle_plain_total in \<open>auto simp: parse_oracle_dsn_def split: option.splits\<close>)

interpretation fallback: dsn_parser best_effort_parse
  by unfold_locales (simp add: best_effort_parse_def)

text \<open>The registry keeps the contract: it holds only parsers that never panic.\<close>

definition registry_ok :: "dsn_registry \<Rightarrow> bool" where
  "registry_ok r \<longleftrightarrow> (\<forall>name p. r name = Some p \<longrightarrow> dsn_parser p)"

lemma registry_ok_register: "registry_ok r \<Longrightarrow> dsn_parser p \<Longrightarrow> registry_ok (registry_register n p r)"
  by (simp add: registry_ok_def registry_register_def)

lemma registry_ok_register_all: "registry_ok r \<Longrightarrow> registry_ok ps \<Longrightarrow> registry_ok (registry_register_all ps r)"
  by (auto simp: registry_ok_def registry_register_all_def map_add_Some_iff)

lemma default_registry_ok: "registry_ok default_registry"
  unfolding registry_ok_def default_registry_def
  using pg.dsn_parser_axioms my.dsn_parser_axioms lite.dsn_parser_axioms ms.dsn_parser_axioms
    ch.dsn_parser_axioms ora.dsn_parser_axioms
  by (auto split: if_splits)

lemma registry_parse_total: "registry_ok r \<Longrightarrow> dsn_parser (parse_dsn r driver)"
  using fallback.dsn_parser_axioms
  by (cases "r driver")
    (auto simp: registry_ok_def registry_lookup_def dsn_parser_def parse_dsn_def)

lemma parse_db_name_total: "\<exists>d. parse_db_name s = Some d"
  by (cases "last_index_byte s CHR ''/''"; cases "index_any (drop (Suc (the (last_index_byte s CHR ''/''))) s) ''?&''")
    (simp_all add: parse_db_name_def)

text \<open>
  C5: \<open>ParseDSN\<close> and \<open>LegacyParseDSN\<close> never panic, for any driver name and any byte string,
  with the built-in parsers or with any registered ones that keep the contract of
  \<open>DSNParser\<close>; so does \<open>Addr\<close> of the result.
\<close>
theorem parse_dsn_never_panics:
  assumes "\<forall>name p. extra name = Some p \<longrightarrow> (\<forall>s. p s \<noteq> None)"
  shows "\<exists>info addr. parse_dsn (registry_register_all extra default_registry) driver dsn = Some info \<and>
           dsn_addr info = Some addr \<and>
           legacy_parse_dsn (registry_register_all extra default_registry) driver dsn
             = Some (if addr \<noteq> [] then addr else driver)"
proof -
  have "registry_ok extra" using assms by (force simp: registry_ok_def dsn_parser_def)
  then have "registry_ok (registry_register_all extra default_registry)"
    by (rule registry_ok_register_all [OF default_registry_ok])
  then have contract: "dsn_parser (parse_dsn (registry_register_all extra default_registry) driver)"
    by (rule registry_parse_total)
  obtain info where "parse_dsn (registry_register_all extra default_registry) driver dsn = Some info"
    using dsn_parser.never_panics [OF contract] by blast
  moreover obtain addr where "dsn_addr info = Some addr" using dsn_addr_total by blast
  ultimately show ?thesis by (auto simp: legacy_parse_dsn_def)
qed

theorem parse_dsn_never_panics_witness:
  "\<exists>info addr. parse_dsn (registry_register_all [''mydb'' \<mapsto> parse_mysql_dsn] default_registry) ''mydb'' ''(''
     = Some info \<and> dsn_addr info = Some addr"
proof -
  have "\<forall>name p. [''mydb'' \<mapsto> parse_mysql_dsn] name = Some p \<longrightarrow> (\<forall>s. p s \<noteq> None)"
    using my.never_panics by (auto split: if_splits)
  from parse_dsn_never_panics [OF this] show ?thesis by blast
qed

end
