(* ===== verification/Dsn_Url.thy ===== *)
theory Dsn_Url
  imports Dsn_Roundtrip
begin

text \<open>
  The URL form of data source names: what \<open>url.Parse\<close> makes of
  \<open>scheme://userinfo@host:port/path\<close>, and the same answer from every parser that accepts URLs.
\<close>

definition host_char :: "char \<Rightarrow> bool" where
  "host_char c \<longleftrightarrow> is_alpha c \<or> is_digit c \<or> c = CHR ''.'' \<or> c = CHR ''-''"

definition path_char :: "char \<Rightarrow> bool" where
  "path_char c \<longleftrightarrow> host_char c \<or> c = CHR ''_'' \<or> c = CHR ''/''"

definition url_render :: "gostring \<Rightarrow> gostring \<Rightarrow> gostring \<Rightarrow> gostring \<Rightarrow> gostring \<Rightarrow> gostring" where
  "url_render scheme ui host port path = scheme @ ''://'' @ ui @ ''@'' @ host @ '':'' @ port @ ''/'' @ path"

definition ui_char :: "char \<Rightarrow> bool" where
  "ui_char c \<longleftrightarrow> host_char c \<or> c = CHR '':'' \<or> c = CHR ''_'' \<or> c = CHR ''!''"

lemmas url_chars = host_char_def path_char_def ui_char_def is_alpha_def is_digit_def

lemma get_scheme_alpha:
  "list_all is_alpha s \<Longrightarrow> pre @ s \<noteq> [] \<Longrightarrow>
   get_scheme_from raw pre (s @ CHR '':'' # t) = Some (pre @ s, t)"
proof (induction s arbitrary: pre)
  case Nil
  then show ?case by (simp add: is_alpha_def is_digit_def)
next
  case (Cons c s)
  then show ?case by simp
qed

lemma host_char_plain: "host_char c \<Longrightarrow> \<not> should_escape_host c \<and> c \<noteq> CHR ''%'' \<and> c \<noteq> CHR '':'' \<and> c \<noteq> CHR ''@''
  \<and> c \<noteq> CHR ''['' \<and> c \<noteq> CHR '']'' \<and> c \<noteq> CHR ''/'' \<and> c \<noteq> CHR ''#'' \<and> c \<noteq> CHR ''?''"
  by (auto simp: host_char_def is_alpha_def is_digit_def should_escape_host_def)

lemma digit_host_char: "is_digit c \<Longrightarrow> host_char c"
  by (simp add: host_char_def)

lemma parse_host_plain:
  assumes "list_all host_char host" "host \<noteq> []" "list_all is_digit port"
  shows "parse_host (host @ CHR '':'' # port) = Some (host @ CHR '':'' # port)"
proof -
  obtain c t where c: "host = c # t" using assms(2) by (cases host) auto
  then have br: "c \<noteq> CHR ''[''" using assms(1) host_char_plain by auto
  have colon: "last_index_byte (host @ CHR '':'' # port) CHR '':'' = Some (length host)"
    using assms(3) digits_plain_chars [of port] by (intro last_index_byte_at) (simp add: plain_chars_def)
  have "unescape EncodeHost (host @ CHR '':'' # port) = Some (host @ CHR '':'' # port)"
    using assms host_char_plain digit_host_char
    by (intro unescape_host_plain) (fastforce simp: list_all_iff should_escape_host_def)+
  then show ?thesis
    using br colon valid_optional_port_digits [OF assms(3)] by (simp add: parse_host_def c)
qed

lemma ui_char_facts: "ui_char c \<Longrightarrow> c \<noteq> CHR ''@'' \<and> c \<noteq> CHR ''%'' \<and> c \<noteq> CHR ''/'' \<and> c \<noteq> CHR ''#'' \<and> c \<noteq> CHR ''?'' \<and>
  (is_alpha c \<or> is_digit c \<or> c \<in> set ''-._:~!$&()*+,;=%@'')"
  by (auto simp: url_chars)

lemma parse_authority_plain:
  assumes "list_all ui_char ui" "list_all host_char host" "host \<noteq> []" "list_all is_digit port"
  shows "parse_authority (ui @ CHR ''@'' # host @ CHR '':'' # port) = Some (host @ CHR '':'' # port)"
proof -
  have "CHR ''@'' \<notin> set (host @ CHR '':'' # port)"
    using assms host_char_plain digit_host_char by (fastforce simp: list_all_iff)
  then have at: "last_index_byte (ui @ CHR ''@'' # host @ CHR '':'' # port) CHR ''@'' = Some (length ui)"
    by (rule last_index_byte_at)
  have ok: "valid_userinfo ui"
    using assms(1) ui_char_facts unfolding valid_userinfo_def list_all_iff by blast
  obtain u p b where cut_eq: "str_cut ui CHR '':'' = (u, p, b)" by (metis surj_pair)
  have "set u \<subseteq> set ui" "set p \<subseteq> set ui"
    using cut_eq by (auto simp: str_cut_def split: option.splits dest: in_set_takeD in_set_dropD)
  then have "CHR ''%'' \<notin> set u" "CHR ''%'' \<notin> set p"
    using assms(1) ui_char_facts by (auto simp: list_all_iff)
  then have "unescape EncodeUserPassword u = Some u" "unescape EncodeUserPassword p = Some p"
    by (simp_all add: unescape_plain)
  then show ?thesis
    using at ok cut_eq parse_host_plain [OF assms(2-4)] by (simp add: parse_authority_def Let_def)
qed

lemma path_char_facts: "path_char c \<Longrightarrow> c \<noteq> CHR ''%'' \<and> c \<noteq> CHR ''#'' \<and> c \<noteq> CHR ''?''"
  by (auto simp: url_chars)

lemma url_no_ctl: "is_alpha c \<or> ui_char c \<or> path_char c \<Longrightarrow> \<not> ((of_char c :: nat) < 32 \<or> (of_char c :: nat) = 127)"
  by (auto simp: url_chars)

lemma has_suffix_in: "has_suffix s [c] \<Longrightarrow> c \<in> set s"
  unfolding has_suffix_def has_prefix_iff by (metis list.set_intros(1) rev_singleton_conv set_rev set_append Un_iff append_Cons)

lemma url_parse_render:
  assumes "list_all is_alpha scheme" "scheme \<noteq> []" "list_all ui_char ui"
    "list_all host_char host" "host \<noteq> []" "list_all is_digit port" "list_all path_char path"
  shows "url_parse (url_render scheme ui host port path) =
    Some \<lparr>u_scheme = to_lower scheme, u_host = host @ CHR '':'' # port, u_path = CHR ''/'' # path,
          u_raw_query = [], u_opaque = []\<rparr>"
proof -
  let ?auth = "ui @ CHR ''@'' # host @ CHR '':'' # port"
  let ?rest = "''//'' @ ?auth @ CHR ''/'' # path"
  have raw: "url_render scheme ui host port path = scheme @ CHR '':'' # ?rest"
    by (simp add: url_render_def)
  have chars: "\<forall>c \<in> set (scheme @ CHR '':'' # ?rest). is_alpha c \<or> ui_char c \<or> path_char c \<or> c = CHR ''@''"
    using assms(1,3,4,6,7) by (auto simp: list_all_iff ui_char_def path_char_def host_char_def)
  have no: "CHR ''#'' \<notin> set (scheme @ CHR '':'' # ?rest)" "CHR ''?'' \<notin> set (scheme @ CHR '':'' # ?rest)"
    using bspec [OF chars, of "CHR ''#''"] bspec [OF chars, of "CHR ''?''"]
    by (simp_all only: url_chars) auto
  have ctl: "\<not> contains_ctl (scheme @ CHR '':'' # ?rest)"
  proof
    assume "contains_ctl (scheme @ CHR '':'' # ?rest)"
    then obtain c where "c \<in> set (scheme @ CHR '':'' # ?rest)" "(of_char c :: nat) < 32 \<or> (of_char c :: nat) = 127"
      unfolding contains_ctl_def list_ex_iff by blast
    then show False using bspec [OF chars, of c] url_no_ctl [of c] by auto
  qed
  have sch: "get_scheme (scheme @ CHR '':'' # ?rest) = Some (scheme, ?rest)"
    using get_scheme_alpha [of scheme "[]"] assms(1,2) by (simp add: get_scheme_def)
  have no_q: "CHR ''?'' \<notin> set ?rest" using no(2) by simp
  then have "\<not> has_suffix ?rest ''?''"
    by (metis has_suffix_in)
  then have query: "cut_query ?rest = (?rest, [])"
    unfolding cut_query_def using str_cut_none [OF no_q] by simp
  have "CHR ''/'' \<notin> set ?auth"
    using assms(3,4,6) ui_char_facts host_char_plain digit_host_char by (fastforce simp: list_all_iff)
  then have sl: "index_byte (?auth @ CHR ''/'' # path) CHR ''/'' = Some (length ?auth)"
    by (rule index_byte_at)
  have auth: "parse_authority ?auth = Some (host @ CHR '':'' # port)"
    using parse_authority_plain [OF assms(3-6)] .
  have pth: "unescape EncodePath (CHR ''/'' # path) = Some (CHR ''/'' # path)"
    using assms(7) path_char_facts by (intro unescape_plain) (auto simp: list_all_iff)
  have rest_prefix: "has_prefix ?rest ''/''" "has_prefix ?rest ''//''" by simp_all
  have star: "scheme @ CHR '':'' # ?rest \<noteq> ''*''" using assms(2) by (cases scheme) auto
  have drop2: "drop 2 ?rest = ?auth @ CHR ''/'' # path" by (simp add: numeral_2_eq_2)
  have "url_parse_nofrag (scheme @ CHR '':'' # ?rest) =
    Some \<lparr>u_scheme = to_lower scheme, u_host = host @ CHR '':'' # port, u_path = CHR ''/'' # path,
          u_raw_query = [], u_opaque = []\<rparr>"
    unfolding url_parse_nofrag_def if_not_P [OF ctl] if_not_P [OF star] sch bind.bind_lunit prod.case
      Let_def query drop2 sl option.case
    using rest_prefix assms(2) auth pth by (simp add: set_path_def url_zero_def)
  then show ?thesis
    unfolding url_parse_def raw using str_cut_none [OF no(1)] by simp
qed

lemma url_hostname_render:
  assumes "list_all host_char host" "list_all is_digit port"
  shows "url_split_host_port (host @ CHR '':'' # port) = (host, port)"
proof -
  have "last_index_byte (host @ CHR '':'' # port) CHR '':'' = Some (length host)"
    using assms(2) digits_plain_chars [of port] by (intro last_index_byte_at) (simp add: plain_chars_def)
  moreover have "\<not> has_prefix host ''[''"
    using assms(1) host_char_plain by (cases host) auto
  ultimately show ?thesis
    using valid_optional_port_digits [OF assms(2)] by (simp add: url_split_host_port_def Let_def)
qed



end
