(* ===== verification/Db_Sql.thy ===== *)
theory Db_Sql
  imports Dsn_Url Telemetry
begin

text \<open>
  Model of \<open>otelc/dbsemconv/db.go\<close> and \<open>otelc/plugins/dbsql/sql.go\<close>: the attributes of a
  database span, and the hooks on \<open>DB\<close>, \<open>Conn\<close>, \<open>Tx\<close> and \<open>Stmt\<close> with the connection metadata they
  pass from one to the other.  A hook is modelled together with the call it wraps: it gets
  what the original function returned and yields the span (start and calls, \<open>None\<close> when there
  is no span) and the returned object with its metadata fields set.  A nil receiver is \<open>None\<close>.
  \<open>en\<close> is the answer of \<open>hooksupport.Instrumented\<close>.
\<close>

section \<open>Attributes of a database span\<close>

record db_request =
  rq_op_type :: gostring
  rq_sql :: gostring
  rq_endpoint :: gostring
  rq_driver :: gostring
  rq_dsn :: gostring
  rq_dbname :: gostring

definition operation_name :: "gostring \<Rightarrow> gostring" where
  "operation_name query =
     (let t = trim_space query
      in if t = [] then [] else (case str_fields t of f # _ \<Rightarrow> to_upper f | [] \<Rightarrow> []))"

definition db_system_name :: "gostring \<Rightarrow> gostring" where
  "db_system_name d =
     (if d \<in> {''mysql'', ''mariadb''} then ''mysql''
      else if d \<in> {''postgres'', ''postgresql'', ''pgx'', ''lib/pq''} then ''postgresql''
      else if d \<in> {''sqlite3'', ''sqlite''} then ''sqlite''
      else if d = ''clickhouse'' then ''clickhouse''
      else if d \<in> {''godror'', ''oracle'', ''oci8'', ''go-oci8''} then ''oracle.db''
      else if d \<in> {''mssql'', ''sqlserver''} then ''microsoft.sql_server''
      else ''other_sql'')"

definition db_client_request_trace_attrs :: "db_request \<Rightarrow> attrs" where
  "db_client_request_trace_attrs req =
     (let sp = split_host_port (rq_endpoint req);
          host = (case sp of Some (h, _) \<Rightarrow> h | None \<Rightarrow> rq_endpoint req)
      in [(''db.operation.name'', StrV (rq_op_type req)), (''db.namespace'', StrV (rq_dbname req)),
          (''server.address'', StrV host), (''network.transport'', StrV ''tcp''),
          (''db.query.text'', StrV (rq_sql req))]
         @ (case sp of
              None \<Rightarrow> []
            | Some (_, port_str) \<Rightarrow>
                (case go_atoi port_str of
                   Some port \<Rightarrow> if port > 0 then [(''server.port'', IntV port)] else []
                 | None \<Rightarrow> []))
         @ [(''db.system.name'', StrV (db_system_name (rq_driver req)))])"

section \<open>Starting and ending a span\<close>

definition otelc_db_start ::
  "bool \<Rightarrow> gostring \<Rightarrow> gostring \<Rightarrow> gostring \<Rightarrow> gostring \<Rightarrow> gostring \<Rightarrow> gostring \<Rightarrow> span_start option" where
  "otelc_db_start en span_name query endpoint driver dsn dbname =
     (if \<not> en then None
      else let req = \<lparr>rq_op_type = operation_name query, rq_sql = query, rq_endpoint = endpoint,
                      rq_driver = driver, rq_dsn = dsn, rq_dbname = dbname\<rparr>
           in Some (start_span (rq_op_type req) KindClient (db_client_request_trace_attrs req)))"

definition otelc_db_end :: "gostring option \<Rightarrow> span_log" where
  "otelc_db_end err = (case err of Some e \<Rightarrow> [RecordError e, SetStatus StatusError e] | None \<Rightarrow> []) @ [SpanEnd]"

type_synonym traced = "(span_start \<times> span_log) option"

definition traced_op :: "span_start option \<Rightarrow> gostring option \<Rightarrow> traced" where
  "traced_op start err = map_option (\<lambda>s. (s, otelc_db_end err)) start"

section \<open>Objects and their metadata\<close>

record sql_meta =
  m_endpoint :: gostring
  m_dbname :: gostring
  m_driver :: gostring
  m_dsn :: gostring

record sql_stmt =
  st_data :: "(gostring \<rightharpoonup> gostring) option"
  st_driver :: gostring
  st_dsn :: gostring

definition go_lookup :: "(gostring \<rightharpoonup> gostring) \<Rightarrow> gostring \<Rightarrow> gostring" where
  "go_lookup m k = (case m k of Some v \<Rightarrow> v | None \<Rightarrow> [])"

definition meta_start :: "bool \<Rightarrow> gostring \<Rightarrow> gostring \<Rightarrow> sql_meta \<Rightarrow> span_start option" where
  "meta_start en name query m = otelc_db_start en name query (m_endpoint m) (m_driver m) (m_dsn m) (m_dbname m)"

definition otelc_db_open_info :: "dsn_registry \<Rightarrow> gostring \<Rightarrow> gostring \<Rightarrow> (gostring \<rightharpoonup> gostring) option" where
  "otelc_db_open_info r driver dsn =
     do { info \<leftarrow> parse_dsn r driver dsn;
          addr0 \<leftarrow> dsn_addr info;
          let addr = (if addr0 = [] then ''unknown'' else addr0);
          dbname \<leftarrow> (if dsn_dbname info = [] \<and> dsn \<noteq> [] then parse_db_name dsn else Some (dsn_dbname info));
          Some [''endpoint'' \<mapsto> addr, ''driver'' \<mapsto> driver, ''dsn'' \<mapsto> dsn, ''dbName'' \<mapsto> dbname] }"

definition apply_meta :: "(gostring \<rightharpoonup> gostring) \<Rightarrow> sql_meta \<Rightarrow> sql_meta" where
  "apply_meta data m =
     \<lparr>m_endpoint = (case data ''endpoint'' of Some v \<Rightarrow> v | None \<Rightarrow> m_endpoint m),
      m_dbname = (case data ''dbName'' of Some v \<Rightarrow> v | None \<Rightarrow> m_dbname m),
      m_driver = (case data ''driver'' of Some v \<Rightarrow> v | None \<Rightarrow> m_driver m),
      m_dsn = (case data ''dsn'' of Some v \<Rightarrow> v | None \<Rightarrow> m_dsn m)\<rparr>"

definition otelc_db_apply_info :: "sql_meta option \<Rightarrow> (gostring \<rightharpoonup> gostring) option \<Rightarrow> sql_meta option" where
  "otelc_db_apply_info db data = (case data of None \<Rightarrow> db | Some d \<Rightarrow> map_option (apply_meta d) db)"

text \<open>A driver value: the package path (of the pointed-to type) and the type's string.\<close>

definition otelc_db_resolve_driver_name :: "(gostring \<times> gostring) option \<Rightarrow> gostring" where
  "otelc_db_resolve_driver_name d =
     (case d of
        None \<Rightarrow> []
      | Some (pkg, typ) \<Rightarrow>
          if str_contains pkg ''go-sql-driver/mysql'' \<or> str_contains typ ''MySQLDriver'' then ''mysql''
          else if str_contains pkg ''jackc/pgx'' then ''pgx''
          else if str_contains pkg ''lib/pq'' then ''postgres''
          else if str_contains pkg ''mattn/go-sqlite3'' \<or> str_contains pkg ''modernc.org/sqlite''
               \<or> str_contains typ ''SQLiteDriver'' \<or> str_contains typ ''sqlite'' then ''sqlite3''
          else if str_contains pkg ''microsoft/go-mssqldb'' \<or> str_contains pkg ''denisenkom/go-mssqldb'' then ''sqlserver''
          else if str_contains pkg ''ClickHouse/clickhouse-go'' then ''clickhouse''
          else if str_contains pkg ''godror/godror'' \<or> str_contains typ ''godror'' then ''godror''
          else if str_contains pkg ''testdb'' \<or> str_contains typ ''testdb'' \<or> str_contains typ ''testDriver'' then ''mysql''
          else typ)"

definition sql_open :: "dsn_registry \<Rightarrow> gostring \<Rightarrow> gostring \<Rightarrow> sql_meta option \<Rightarrow> sql_meta option option" where
  "sql_open r driver dsn ret = map_option (\<lambda>info. otelc_db_apply_info ret (Some info)) (otelc_db_open_info r driver dsn)"

text \<open>A connector: its driver, and the results of the optional \<open>DSN\<close> and \<open>DataSourceName\<close> methods.\<close>

record connector =
  cn_driver :: "(gostring \<times> gostring) option"
  cn_dsn :: "gostring option"
  cn_source_name :: "gostring option"

definition sql_open_db :: "dsn_registry \<Rightarrow> connector option \<Rightarrow> sql_meta option \<Rightarrow> sql_meta option option" where
  "sql_open_db r c ret =
     (case c of
        None \<Rightarrow> Some (otelc_db_apply_info ret
                  (Some [''endpoint'' \<mapsto> ''unknown'', ''driver'' \<mapsto> [], ''dsn'' \<mapsto> [], ''dbName'' \<mapsto> []]))
      | Some cn \<Rightarrow>
          (let driver = otelc_db_resolve_driver_name (cn_driver cn);
               dsn = (case cn_dsn cn of Some d \<Rightarrow> d
                      | None \<Rightarrow> (case cn_source_name cn of Some d \<Rightarrow> d | None \<Rightarrow> []))
           in sql_open r driver dsn ret))"

section \<open>DB\<close>

definition stmt_data_of :: "sql_meta \<Rightarrow> gostring \<Rightarrow> sql_stmt \<Rightarrow> sql_stmt" where
  "stmt_data_of m query s =
     s\<lparr>st_data := Some [''endpoint'' \<mapsto> m_endpoint m, ''sql'' \<mapsto> query, ''driver'' \<mapsto> m_driver m, ''dbName'' \<mapsto> m_dbname m],
       st_dsn := m_dsn m\<rparr>"

definition db_ping :: "bool \<Rightarrow> sql_meta option \<Rightarrow> gostring option \<Rightarrow> traced" where
  "db_ping en db err = traced_op (Option.bind db (meta_start en ''ping'' ''ping'')) err"

definition db_prepare :: "sql_meta option \<Rightarrow> gostring \<Rightarrow> sql_stmt option \<Rightarrow> sql_stmt option" where
  "db_prepare db query ret = (case db of None \<Rightarrow> ret | Some m \<Rightarrow> map_option (stmt_data_of m query) ret)"

definition db_exec :: "bool \<Rightarrow> sql_meta option \<Rightarrow> gostring \<Rightarrow> gostring option \<Rightarrow> traced" where
  "db_exec en db query err = traced_op (Option.bind db (meta_start en ''exec'' query)) err"

definition db_query :: "bool \<Rightarrow> sql_meta option \<Rightarrow> gostring \<Rightarrow> gostring option \<Rightarrow> traced" where
  "db_query en db query err = traced_op (Option.bind db (meta_start en ''query'' query)) err"

definition copy_meta :: "sql_meta \<Rightarrow> sql_meta \<Rightarrow> sql_meta" where
  "copy_meta m t = t\<lparr>m_endpoint := m_endpoint m, m_driver := m_driver m, m_dsn := m_dsn m, m_dbname := m_dbname m\<rparr>"

definition db_begin_tx ::
  "bool \<Rightarrow> sql_meta option \<Rightarrow> sql_meta option \<Rightarrow> gostring option \<Rightarrow> traced \<times> sql_meta option" where
  "db_begin_tx en db ret err =
     (case db of
        Some m \<Rightarrow>
          if en then
            (case meta_start en ''begin'' ''START TRANSACTION'' m of
               Some s \<Rightarrow> (traced_op (Some s) err, map_option (copy_meta m) ret)
             | None \<Rightarrow> (None, ret))
          else (None, ret)
      | None \<Rightarrow> (None, ret))"

definition db_conn :: "sql_meta option \<Rightarrow> sql_meta option \<Rightarrow> sql_meta option" where
  "db_conn db ret =
     (case db of
        None \<Rightarrow> ret
      | Some m \<Rightarrow>
          map_option (apply_meta [''endpoint'' \<mapsto> m_endpoint m, ''driver'' \<mapsto> m_driver m,
                                  ''dsn'' \<mapsto> m_dsn m, ''dbName'' \<mapsto> m_dbname m]) ret)"

section \<open>Conn\<close>

definition conn_ping :: "bool \<Rightarrow> sql_meta option \<Rightarrow> gostring option \<Rightarrow> traced" where
  "conn_ping en c err = traced_op (Option.bind c (meta_start en ''ping'' ''ping'')) err"

definition conn_prepare :: "sql_meta option \<Rightarrow> gostring \<Rightarrow> sql_stmt option \<Rightarrow> sql_stmt option" where
  "conn_prepare c query ret = (case c of None \<Rightarrow> ret | Some m \<Rightarrow> map_option (stmt_data_of m query) ret)"

definition conn_exec :: "bool \<Rightarrow> sql_meta option \<Rightarrow> gostring \<Rightarrow> gostring option \<Rightarrow> traced" where
  "conn_exec en c query err = traced_op (Option.bind c (meta_start en ''exec'' query)) err"

definition conn_query :: "bool \<Rightarrow> sql_meta option \<Rightarrow> gostring \<Rightarrow> gostring option \<Rightarrow> traced" where
  "conn_query en c query err = traced_op (Option.bind c (meta_start en ''query'' query)) err"

text \<open>Unlike \<open>DB.BeginTx\<close>, this hook leaves the returned transaction as it is.\<close>

definition conn_begin_tx ::
  "bool \<Rightarrow> sql_meta option \<Rightarrow> sql_meta option \<Rightarrow> gostring option \<Rightarrow> traced \<times> sql_meta option" where
  "conn_begin_tx en c ret err = (traced_op (Option.bind c (meta_start en ''start'' ''START TRANSACTION'')) err, ret)"

section \<open>Tx\<close>

definition tx_prepare :: "sql_meta option \<Rightarrow> gostring \<Rightarrow> sql_stmt option \<Rightarrow> sql_stmt option" where
  "tx_prepare tx query ret = (case tx of None \<Rightarrow> ret | Some m \<Rightarrow> map_option (stmt_data_of m query) ret)"

definition copy_key :: "gostring \<Rightarrow> (gostring \<rightharpoonup> gostring) \<Rightarrow> (gostring \<rightharpoonup> gostring) \<Rightarrow> gostring \<rightharpoonup> gostring" where
  "copy_key k src dst = (case src k of Some v \<Rightarrow> dst(k \<mapsto> v) | None \<Rightarrow> dst)"

definition tx_stmt_info :: "sql_stmt option \<Rightarrow> (gostring \<rightharpoonup> gostring) option" where
  "tx_stmt_info stmt =
     do { s \<leftarrow> stmt; d \<leftarrow> st_data s;
          Some [''endpoint'' \<mapsto> go_lookup d ''endpoint'', ''driver'' \<mapsto> go_lookup d ''driver'', ''dsn'' \<mapsto> st_dsn s,
                ''sql'' \<mapsto> go_lookup d ''sql'', ''dbName'' \<mapsto> go_lookup d ''dbName''] }"

definition tx_stmt :: "sql_stmt option \<Rightarrow> sql_stmt option \<Rightarrow> sql_stmt option" where
  "tx_stmt stmt ret =
     (case ret of
        None \<Rightarrow> None
      | Some s \<Rightarrow>
          (case tx_stmt_info stmt of
             None \<Rightarrow> Some (s\<lparr>st_data := Some Map.empty\<rparr>)
           | Some info \<Rightarrow>
               Some (s\<lparr>st_data := Some (copy_key ''dbName'' info (copy_key ''dsn'' info
                        (copy_key ''driver'' info (copy_key ''endpoint'' info Map.empty))))\<rparr>)))"

definition tx_exec :: "bool \<Rightarrow> sql_meta option \<Rightarrow> gostring \<Rightarrow> gostring option \<Rightarrow> traced" where
  "tx_exec en tx query err = traced_op (Option.bind tx (meta_start en ''exec'' query)) err"

definition tx_query :: "bool \<Rightarrow> sql_meta option \<Rightarrow> gostring \<Rightarrow> gostring option \<Rightarrow> traced" where
  "tx_query en tx query err = traced_op (Option.bind tx (meta_start en ''query'' query)) err"

definition tx_commit :: "bool \<Rightarrow> sql_meta option \<Rightarrow> gostring option \<Rightarrow> traced" where
  "tx_commit en tx err = traced_op (Option.bind tx (meta_start en ''commit'' ''COMMIT'')) err"

definition tx_rollback :: "bool \<Rightarrow> sql_meta option \<Rightarrow> gostring option \<Rightarrow> traced" where
  "tx_rollback en tx err = traced_op (Option.bind tx (meta_start en ''rollback'' ''ROLLBACK'')) err"

section \<open>Stmt\<close>

definition stmt_start :: "bool \<Rightarrow> gostring \<Rightarrow> sql_stmt \<Rightarrow> span_start option" where
  "stmt_start en name s =
     (let d = (case st_data s of Some d \<Rightarrow> d | None \<Rightarrow> Map.empty);
          dsn = (case st_data s of Some _ \<Rightarrow> st_dsn s | None \<Rightarrow> [])
      in otelc_db_start en name (go_lookup d ''sql'') (go_lookup d ''endpoint'') (go_lookup d ''driver'') dsn
           (go_lookup d ''dbName''))"

definition stmt_exec :: "bool \<Rightarrow> sql_stmt option \<Rightarrow> gostring option \<Rightarrow> traced" where
  "stmt_exec en s err = traced_op (Option.bind s (stmt_start en ''exec'')) err"

definition stmt_query :: "bool \<Rightarrow> sql_stmt option \<Rightarrow> gostring option \<Rightarrow> traced" where
  "stmt_query en s err = traced_op (Option.bind s (stmt_start en ''query'')) err"

section \<open>Ending\<close>

interpretation db_end: reporting_hook otelc_db_end "\<lambda>err. err \<noteq> None"
  by unfold_locales (auto simp: otelc_db_end_def split: option.splits)

end
