(* ===== verification/Db_Props.thy ===== *)
theory Db_Props
  imports Db_Sql
begin

text \<open>
  Properties of the \<open>database/sql\<close> hooks: from the data source name to the attributes of a
  span, and along the objects derived from a \<open>DB\<close>.
\<close>

section \<open>From the DSN to the span\<close>

lemma server_attrs:
  assumes "rq_endpoint req = join_host_port host (nat_dec port)" "bracket_free host" "0 < port" "port < 2 ^ 63"
  shows "map_of (db_client_request_trace_attrs req) ''server.address'' = Some (StrV host)"
    and "map_of (db_client_request_trace_attrs req) ''server.port'' = Some (IntV (int port))"
proof -
  have "list_all is_digit (nat_dec port)" using nat_dec_digits by (auto simp: list_all_iff)
  then have "split_host_port (rq_endpoint req) = Some (host, nat_dec port)"
    using split_join_host_port [OF assms(2) digits_plain_chars] assms(1) by simp
  moreover have "int port < 2 ^ 63" using assms(4) by (metis of_nat_less_iff of_nat_numeral of_nat_power)
  then have "go_atoi (nat_dec port) = Some (int port)" by (rule go_atoi_nat_dec)
  ultimately show "map_of (db_client_request_trace_attrs req) ''server.address'' = Some (StrV host)"
    "map_of (db_client_request_trace_attrs req) ''server.port'' = Some (IntV (int port))"
    using assms(3) by (simp_all add: db_client_request_trace_attrs_def)
qed

lemma default_mysql: "parse_dsn default_registry ''mysql'' = parse_mysql_dsn"
  by (simp add: parse_dsn_def registry_lookup_def default_registry_def fun_eq_iff)

lemma apply_meta_full [simp]:
  "apply_meta [''endpoint'' \<mapsto> a, ''driver'' \<mapsto> b, ''dsn'' \<mapsto> c, ''dbName'' \<mapsto> d] m =
   \<lparr>m_endpoint = a, m_dbname = d, m_driver = b, m_dsn = c\<rparr>"
  by (simp add: apply_meta_def)

lemma dsn_dbname_mk [simp]: "dsn_dbname (mk_dsn h p d) = d"
  by (simp add: mk_dsn_def)

lemma sql_meta_eta [simp]:
  "\<lparr>m_endpoint = m_endpoint m, m_dbname = m_dbname m, m_driver = m_driver m, m_dsn = m_dsn m\<rparr> = (m :: sql_meta)"
  by (cases m) simp

text \<open>
  End to end for MySQL: after \<open>sql.Open("mysql", "user:pass@proto(host:port)/db?params")\<close>, the
  span of any statement executed on the returned \<open>DB\<close> has the host as \<open>server.address\<close>, the port as
  \<open>server.port\<close> and the database as \<open>db.namespace\<close>, whatever the credentials contain.
\<close>
theorem mysql_open_to_span:
  assumes "CHR ''('' \<notin> set cred" and "CHR ''@'' \<notin> set proto" and "CHR ''('' \<notin> set proto"
    and "host \<noteq> []" and "bracket_free host" and "CHR '')'' \<notin> set host" and "0 < port" and "port < 2 ^ 63"
    and "CHR ''?'' \<notin> set db" and "db \<noteq> []"
  shows "\<exists>m st log.
    sql_open default_registry ''mysql'' (mysql_render cred proto host (nat_dec port) db params) (Some m0) = Some (Some m) \<and>
    db_exec True (Some m) query err = Some (st, log) \<and>
    ss_name st = operation_name query \<and>
    map_of (ss_attrs st) ''server.address'' = Some (StrV host) \<and>
    map_of (ss_attrs st) ''server.port'' = Some (IntV (int port)) \<and>
    map_of (ss_attrs st) ''db.namespace'' = Some (StrV db) \<and>
    map_of (ss_attrs st) ''db.system.name'' = Some (StrV ''mysql'')"
proof -
  let ?dsn = "mysql_render cred proto host (nat_dec port) db params"
  have dig: "list_all is_digit (nat_dec port)" using nat_dec_digits by (auto simp: list_all_iff)
  have "CHR '')'' \<notin> set (nat_dec port)" using nat_dec_digits [of "CHR '')''" port] by (auto simp: is_digit_def)
  then have parse: "parse_mysql_dsn ?dsn = Some (mk_dsn host (nat_dec port) db)"
    using assms digits_plain_chars [OF dig] by (intro mysql_roundtrip)
  have "trim_host_brackets host = Some host" using assms(5) by (rule trim_host_brackets_free)
  then have addr: "dsn_addr (mk_dsn host (nat_dec port) db) = Some (join_host_port host (nat_dec port))"
    using assms(4) by (simp add: dsn_addr_def mk_dsn_def)
  have ne: "join_host_port host (nat_dec port) \<noteq> []" by (simp add: join_host_port_def)
  let ?m = "\<lparr>m_endpoint = join_host_port host (nat_dec port), m_dbname = db, m_driver = ''mysql'', m_dsn = ?dsn\<rparr>"
  have "sql_open default_registry ''mysql'' ?dsn (Some m0) = Some (Some ?m)"
    using ne assms(10) by (simp add: sql_open_def otelc_db_open_info_def default_mysql parse addr Let_def
        otelc_db_apply_info_def)
  moreover let ?req = "\<lparr>rq_op_type = operation_name query, rq_sql = query, rq_endpoint = m_endpoint ?m,
    rq_driver = ''mysql'', rq_dsn = ?dsn, rq_dbname = db\<rparr>"
  have "db_exec True (Some ?m) query err =
    Some (start_span (operation_name query) KindClient (db_client_request_trace_attrs ?req), otelc_db_end err)"
    by (simp add: db_exec_def traced_op_def meta_start_def otelc_db_start_def)
  moreover have "map_of (db_client_request_trace_attrs ?req) ''db.namespace'' = Some (StrV db)"
    "map_of (db_client_request_trace_attrs ?req) ''db.system.name'' = Some (StrV ''mysql'')"
    by (auto simp: db_client_request_trace_attrs_def db_system_name_def Let_def split: option.splits)
  ultimately show ?thesis
    using server_attrs [of ?req host port] assms(5,7,8) by (fastforce simp: start_span_def)
qed

theorem mysql_open_to_span_witness:
  "\<forall>m0. \<exists>m st log. sql_open default_registry ''mysql'' (mysql_render ''u:p@w'' ''tcp'' ''::1'' (nat_dec 3306) ''shop'' []) (Some m0)
     = Some (Some m) \<and> db_exec True (Some m) ''select 1'' None = Some (st, log) \<and>
     map_of (ss_attrs st) ''server.port'' = Some (IntV 3306)"
proof -
  have pre: "CHR ''('' \<notin> set ''u:p@w''" "CHR ''@'' \<notin> set ''tcp''" "CHR ''('' \<notin> set ''tcp''" "''::1'' \<noteq> ([]::gostring)"
    "bracket_free ''::1''" "CHR '')'' \<notin> set ''::1''" "0 < (3306::nat)" "(3306::nat) < 2 ^ 63"
    "CHR ''?'' \<notin> set ''shop''" "''shop'' \<noteq> ([]::gostring)"
    by (simp_all add: bracket_free_def)
  have "int 3306 = 3306" by simp
  then show ?thesis using mysql_open_to_span [OF pre, of "[]" _ "''select 1''" None] by metis
qed

section \<open>Objects derived from a DB\<close>

datatype sql_object = ODb sql_meta | OConn sql_meta | OTx sql_meta | OStmt gostring sql_stmt

text \<open>
  The objects a program can get from a \<open>DB\<close> with metadata \<open>m\<close> by \<open>Conn\<close>, \<open>DB.BeginTx\<close> and the three
  \<open>PrepareContext\<close> methods; a statement remembers the text it was prepared from.
\<close>

inductive sql_derived :: "sql_meta \<Rightarrow> sql_object \<Rightarrow> bool" for m where
  root: "sql_derived m (ODb m)"
| conn: "sql_derived m (ODb d) \<Longrightarrow> db_conn (Some d) (Some r) = Some c \<Longrightarrow> sql_derived m (OConn c)"
| begin_tx: "sql_derived m (ODb d) \<Longrightarrow> db_begin_tx True (Some d) (Some r) err = (t, Some tx) \<Longrightarrow> sql_derived m (OTx tx)"
| db_stmt: "sql_derived m (ODb d) \<Longrightarrow> db_prepare (Some d) q (Some r) = Some s \<Longrightarrow> sql_derived m (OStmt q s)"
| conn_stmt: "sql_derived m (OConn d) \<Longrightarrow> conn_prepare (Some d) q (Some r) = Some s \<Longrightarrow> sql_derived m (OStmt q s)"
| tx_stmt: "sql_derived m (OTx d) \<Longrightarrow> tx_prepare (Some d) q (Some r) = Some s \<Longrightarrow> sql_derived m (OStmt q s)"

fun object_meta :: "sql_meta \<Rightarrow> sql_object \<Rightarrow> bool" where
  "object_meta m (ODb d) = (d = m)"
| "object_meta m (OConn d) = (d = m)"
| "object_meta m (OTx d) = (d = m)"
| "object_meta m (OStmt q s) = (\<exists>s0. s = stmt_data_of m q s0)"

lemma derived_meta: "sql_derived m x \<Longrightarrow> object_meta m x"
proof (induction rule: sql_derived.induct)
  case (conn d r c)
  then show ?case by (simp add: db_conn_def)
next
  case (begin_tx d r err t tx)
  then show ?case
    by (auto simp: db_begin_tx_def copy_meta_def meta_start_def otelc_db_start_def Let_def)
qed (auto simp: db_prepare_def conn_prepare_def tx_prepare_def)

fun object_exec :: "bool \<Rightarrow> sql_object \<Rightarrow> gostring \<Rightarrow> gostring option \<Rightarrow> traced" where
  "object_exec en (ODb d) q err = db_exec en (Some d) q err"
| "object_exec en (OConn d) q err = conn_exec en (Some d) q err"
| "object_exec en (OTx d) q err = tx_exec en (Some d) q err"
| "object_exec en (OStmt t s) q err = stmt_exec en (Some s) err"

fun object_query :: "bool \<Rightarrow> sql_object \<Rightarrow> gostring \<Rightarrow> gostring option \<Rightarrow> traced" where
  "object_query en (ODb d) q err = db_query en (Some d) q err"
| "object_query en (OConn d) q err = conn_query en (Some d) q err"
| "object_query en (OTx d) q err = tx_query en (Some d) q err"
| "object_query en (OStmt t s) q err = stmt_query en (Some s) err"

fun object_text :: "sql_object \<Rightarrow> gostring \<Rightarrow> gostring" where
  "object_text (OStmt t s) q = t"
| "object_text _ q = q"

text \<open>
  C9: Connection metadata follows the objects: a statement run on a connection, a transaction
  begun on the \<open>DB\<close>, or a statement prepared on any of the three produces exactly the span
  that running its text directly on the \<open>DB\<close> would produce.
\<close>
theorem sql_metadata_follows:
  assumes "sql_derived m x"
  shows "object_exec en x q err = db_exec en (Some m) (object_text x q) err \<and>
    object_query en x q err = db_query en (Some m) (object_text x q) err"
  using derived_meta [OF assms]
  by (cases x) (auto simp: db_exec_def conn_exec_def tx_exec_def stmt_exec_def db_query_def conn_query_def
      tx_query_def stmt_query_def meta_start_def stmt_start_def stmt_data_of_def go_lookup_def Let_def
      otelc_db_start_def)

definition demo_meta :: sql_meta where
  "demo_meta = \<lparr>m_endpoint = ''h:1'', m_dbname = ''d'', m_driver = ''mysql'', m_dsn = ''x''\<rparr>"

definition zero_meta :: sql_meta where
  "zero_meta = \<lparr>m_endpoint = [], m_dbname = [], m_driver = [], m_dsn = []\<rparr>"

theorem sql_metadata_follows_witness:
  "object_exec True (OTx demo_meta) ''select 1'' None = db_exec True (Some demo_meta) ''select 1'' None"
proof -
  have "db_begin_tx True (Some demo_meta) (Some zero_meta) None = (fst (db_begin_tx True (Some demo_meta) (Some zero_meta) None), Some demo_meta)"
    by (simp add: db_begin_tx_def meta_start_def otelc_db_start_def copy_meta_def demo_meta_def zero_meta_def Let_def)
  then have "sql_derived demo_meta (OTx demo_meta)" by (rule sql_derived.begin_tx [OF sql_derived.root])
  from sql_metadata_follows [OF this, of True "''select 1''" None] show ?thesis by simp
qed

lemma tx_stmt_no_text: "\<exists>d. tx_stmt (Some s) (Some s0) = Some (s0\<lparr>st_data := Some d\<rparr>) \<and> d ''sql'' = None"
proof (cases "st_data s")
  case None
  then show ?thesis by (intro exI [of _ Map.empty]) (simp add: tx_stmt_def tx_stmt_info_def)
next
  case (Some d)
  then show ?thesis
    by (intro exI [of _ "[''endpoint'' \<mapsto> go_lookup d ''endpoint'', ''driver'' \<mapsto> go_lookup d ''driver'',
          ''dsn'' \<mapsto> st_dsn s, ''dbName'' \<mapsto> go_lookup d ''dbName'']"])
      (simp add: tx_stmt_def tx_stmt_info_def copy_key_def)
qed

text \<open>
  The two places where the metadata does not follow: a transaction begun on a \<open>Conn\<close> keeps the
  fields the driver returned (so its spans have an empty \<open>server.address\<close>), and a statement
  bound to a transaction by \<open>Tx.StmtContext\<close> loses its text, so that its spans have an empty name
  and an empty query text.
\<close>
theorem sql_metadata_lost:
  shows "tx_exec True (snd (conn_begin_tx True (Some c) (Some zero_meta) e)) q err =
      tx_exec True (Some zero_meta) q err \<and>
    map_option (\<lambda>t. map_of (ss_attrs (fst t)) ''server.address'')
      (tx_exec True (snd (conn_begin_tx True (Some c) (Some zero_meta) e)) q err) = Some (Some (StrV [])) \<and>
    map_option (\<lambda>t. (ss_name (fst t), map_of (ss_attrs (fst t)) ''db.query.text''))
      (stmt_exec True (tx_stmt (Some s) (Some s0)) err) = Some ([], Some (StrV []))"
proof -
  have empty: "split_host_port [] = None" "operation_name [] = []"
    by (simp_all add: split_host_port_def last_index_byte_def operation_name_def trim_space_solid)
  have attrs: "map_of (db_client_request_trace_attrs
      \<lparr>rq_op_type = o', rq_sql = t, rq_endpoint = [], rq_driver = d, rq_dsn = n, rq_dbname = b\<rparr>) ''server.address'' = Some (StrV [])"
    for o' t d n b by (simp add: db_client_request_trace_attrs_def empty)
  have qtext: "map_of (db_client_request_trace_attrs
      \<lparr>rq_op_type = o', rq_sql = [], rq_endpoint = p, rq_driver = d, rq_dsn = n, rq_dbname = b\<rparr>) ''db.query.text'' = Some (StrV [])"
    for o' p d n b by (simp add: db_client_request_trace_attrs_def Let_def)
  have tx: "snd (conn_begin_tx True (Some c) (Some zero_meta) e) = Some zero_meta"
    by (simp add: conn_begin_tx_def)
  have addr: "map_option (\<lambda>t. map_of (ss_attrs (fst t)) ''server.address'') (tx_exec True (Some zero_meta) q err)
      = Some (Some (StrV []))"
    by (simp add: tx_exec_def traced_op_def meta_start_def otelc_db_start_def zero_meta_def start_span_def attrs Let_def)
  obtain d where d: "tx_stmt (Some s) (Some s0) = Some (s0\<lparr>st_data := Some d\<rparr>)" "d ''sql'' = None"
    using tx_stmt_no_text by blast
  have "map_option (\<lambda>t. (ss_name (fst t), map_of (ss_attrs (fst t)) ''db.query.text''))
      (stmt_exec True (tx_stmt (Some s) (Some s0)) err) = Some ([], Some (StrV []))"
    using d by (simp add: stmt_exec_def traced_op_def stmt_start_def otelc_db_start_def start_span_def go_lookup_def
        qtext empty Let_def)
  then show ?thesis using tx addr by simp
qed

text \<open>
  Every database span is ended exactly once, as the last call on it, and its status is an
  error exactly when the wrapped operation returned one: nothing recorded is lost.
\<close>
theorem sql_span_finished:
  assumes "t \<in> {db_exec en o1 q err, db_query en o1 q err, db_ping en o1 err, fst (db_begin_tx en o1 r err),
      conn_exec en o1 q err, conn_query en o1 q err, conn_ping en o1 err, fst (conn_begin_tx en o1 r err),
      tx_exec en o1 q err, tx_query en o1 q err, tx_commit en o1 err, tx_rollback en o1 err,
      stmt_exec en o2 err, stmt_query en o2 err}"
    and "t = Some (st, log)"
  shows "count_list log SpanEnd = 1 \<and> last log = SpanEnd \<and>
    span_status log = (if err \<noteq> None then StatusError else StatusUnset)"
proof -
  have tr: "log = otelc_db_end err" if "traced_op s err = Some (st, log)" for s
    using that by (auto simp: traced_op_def)
  have "log = otelc_db_end err"
    using assms tr
    by (auto simp: db_exec_def db_query_def db_ping_def conn_exec_def conn_query_def conn_ping_def conn_begin_tx_def
        tx_exec_def tx_query_def tx_commit_def tx_rollback_def stmt_exec_def stmt_query_def db_begin_tx_def
        split: option.splits if_splits)
  then show ?thesis using db_end.ends_once db_end.ends_last db_end.status by simp
qed

theorem sql_span_finished_witness:
  "span_status (otelc_db_end (Some ''bad'')) = StatusError"
proof -
  obtain st where "db_exec True (Some demo_meta) ''q'' (Some ''bad'') = Some (st, otelc_db_end (Some ''bad''))"
    by (simp add: db_exec_def traced_op_def meta_start_def otelc_db_start_def Let_def)
  then show ?thesis
    using sql_span_finished [of "db_exec True (Some demo_meta) ''q'' (Some ''bad'')" True "Some demo_meta" "''q''"
        "Some ''bad''" None None st] by simp
qed

end
