(* ===== verification/Go_Json.thy ===== *)
theory Go_Json
  imports Go_Prelude
begin

text \<open>
  UTF-8 and JSON as the hooks use them through \<open>unicode/utf8\<close> and \<open>encoding/json\<close>.  A JSON text
  is parsed to a tree in which numbers and strings keep their literal text, so that
  \<open>json.RawMessage\<close> (a subtree) can be decoded again or printed compactly; decoding into a
  struct applies the members in order, matches names by case folding, lets \<open>null\<close> leave a
  field as it is and fails (\<open>None\<close>) on a type mismatch.  Two corners of the package are not
  modelled: the nesting limit of 10000, and the reuse of old slice elements when an array
  key occurs twice in one object.
\<close>

section \<open>UTF-8\<close>

definition cont_byte :: "nat \<Rightarrow> bool" where
  "cont_byte b \<longleftrightarrow> 0x80 \<le> b \<and> b < 0xC0"

text \<open>The length of the valid encoding at the head of the bytes, 0 when there is none.\<close>

fun rune_len :: "nat list \<Rightarrow> nat" where
  "rune_len [] = 0"
| "rune_len (a # r) =
     (if a < 0x80 then 1
      else if 0xC2 \<le> a \<and> a \<le> 0xDF then
        (case r of b # _ \<Rightarrow> if cont_byte b then 2 else 0 | _ \<Rightarrow> 0)
      else if 0xE0 \<le> a \<and> a \<le> 0xEF then
        (case r of
           b # c # _ \<Rightarrow>
             if cont_byte b \<and> cont_byte c \<and> (a = 0xE0 \<longrightarrow> 0xA0 \<le> b) \<and> (a = 0xED \<longrightarrow> b < 0xA0) then 3 else 0
         | _ \<Rightarrow> 0)
      else if 0xF0 \<le> a \<and> a \<le> 0xF4 then
        (case r of
           b # c # d # _ \<Rightarrow>
             if cont_byte b \<and> cont_byte c \<and> cont_byte d \<and> (a = 0xF0 \<longrightarrow> 0x90 \<le> b) \<and> (a = 0xF4 \<longrightarrow> b < 0x90)
             then 4 else 0
         | _ \<Rightarrow> 0)
      else 0)"

definition head_rune_len :: "gostring \<Rightarrow> nat" where
  "head_rune_len s = rune_len (map of_char (take 4 s))"

lemma rune_len_le: "rune_len r \<le> length r"
  by (cases r rule: rune_len.cases) (auto split: list.splits)

lemma head_rune_len_le: "head_rune_len s \<le> length s"
  unfolding head_rune_len_def using rune_len_le [of "map of_char (take 4 s)"] by simp

function valid_utf8 :: "gostring \<Rightarrow> bool" where
  "valid_utf8 s =
     (if s = [] then True else if head_rune_len s = 0 then False else valid_utf8 (drop (head_rune_len s) s))"
  by pat_completeness auto
termination by (relation "measure length") auto

declare valid_utf8.simps [simp del]

text \<open>\<open>json\<close> replaces every byte that is not part of a valid encoding by U+FFFD.\<close>

function to_valid_utf8 :: "gostring \<Rightarrow> gostring" where
  "to_valid_utf8 s =
     (if s = [] then []
      else if head_rune_len s = 0 then [CHR 0xEF, CHR 0xBF, CHR 0xBD] @ to_valid_utf8 (tl s)
      else take (head_rune_len s) s @ to_valid_utf8 (drop (head_rune_len s) s))"
  by pat_completeness auto
termination by (relation "measure length") auto

declare to_valid_utf8.simps [simp del]

definition encode_rune :: "nat \<Rightarrow> gostring" where
  "encode_rune c =
     map char_of
       (if c < 0x80 then [c]
        else if c < 0x800 then [0xC0 + c div 64, 0x80 + c mod 64]
        else if c < 0x10000 then [0xE0 + c div 4096, 0x80 + c div 64 mod 64, 0x80 + c mod 64]
        else [0xF0 + c div 262144, 0x80 + c div 4096 mod 64, 0x80 + c div 64 mod 64, 0x80 + c mod 64])"

section \<open>JSON trees\<close>

datatype json = JNull | JBool bool | JNum gostring | JStr gostring | JArr "json list" | JObj "(gostring \<times> json) list"

definition json_ws :: "char \<Rightarrow> bool" where
  "json_ws c \<longleftrightarrow> c \<in> {CHR 0x20, CHR 0x09, CHR 0x0A, CHR 0x0D}"

definition skip_ws :: "gostring \<Rightarrow> gostring" where
  "skip_ws s = dropWhile json_ws s"

definition hex_digit :: "char \<Rightarrow> bool" where
  "hex_digit c \<longleftrightarrow> is_digit c \<or> (65 \<le> (of_char c :: nat) \<and> (of_char c :: nat) \<le> 70) \<or>
                (97 \<le> (of_char c :: nat) \<and> (of_char c :: nat) \<le> 102)"

definition hex_val :: "char \<Rightarrow> nat" where
  "hex_val c = (if is_digit c then of_char c - 48
               else if 97 \<le> (of_char c :: nat) then of_char c - 87 else of_char c - 55)"

text \<open>A string literal after its opening quote: the raw text and what follows the closing quote.\<close>

fun lex_string :: "gostring \<Rightarrow> gostring \<Rightarrow> (gostring \<times> gostring) option" where
  "lex_string acc [] = None"
| "lex_string acc (c # s) =
     (if c = CHR 0x22 then Some (rev acc, s)
      else if (of_char c :: nat) < 32 then None
      else if c = CHR 0x5C then
        (case s of
           e # t \<Rightarrow>
             if e \<in> set [CHR 0x22, CHR 0x5C, CHR 0x2F, CHR ''b'', CHR ''f'', CHR ''n'', CHR ''r'', CHR ''t'']
             then lex_string (e # c # acc) t
             else if e = CHR ''u'' then
               (case t of
                  h1 # h2 # h3 # h4 # r \<Rightarrow>
                    if list_all hex_digit [h1, h2, h3, h4] then lex_string (h4 # h3 # h2 # h1 # e # c # acc) r else None
                | _ \<Rightarrow> None)
             else None
         | [] \<Rightarrow> None)
      else lex_string (c # acc) s)"

definition lex_digits :: "gostring \<Rightarrow> (gostring \<times> gostring) option" where
  "lex_digits s = (let d = takeWhile is_digit s in if d = [] then None else Some (d, dropWhile is_digit s))"

definition lex_number :: "gostring \<Rightarrow> (gostring \<times> gostring) option" where
  "lex_number s0 =
     (let (sgn, s1) = (case s0 of c # r \<Rightarrow> if c = CHR ''-'' then ([c], r) else ([], s0) | [] \<Rightarrow> ([], s0))
      in do {
        (ip, s2) \<leftarrow> (case s1 of c # r \<Rightarrow> if c = CHR ''0'' then Some ([c], r) else lex_digits s1 | [] \<Rightarrow> None);
        (fp, s3) \<leftarrow> (case s2 of c # r \<Rightarrow> if c = CHR ''.'' then map_option (\<lambda>(d, t). (c # d, t)) (lex_digits r)
                                    else Some ([], s2) | [] \<Rightarrow> Some ([], s2));
        (ep, s4) \<leftarrow> (case s3 of
            c # r \<Rightarrow>
              if c = CHR ''e'' \<or> c = CHR ''E'' then
                (let (es, t) = (case r of x # y \<Rightarrow> if x = CHR ''-'' \<or> x = CHR ''+'' then ([x], y) else ([], r)
                                | [] \<Rightarrow> ([], r))
                 in map_option (\<lambda>(d, u). (c # es @ d, u)) (lex_digits t))
              else Some ([], s3)
          | [] \<Rightarrow> Some ([], s3));
        Some (sgn @ ip @ fp @ ep, s4) })"

definition shorter :: "gostring \<Rightarrow> 'a \<times> gostring \<Rightarrow> ('a \<times> gostring) option" where
  "shorter s r = (if length (snd r) < length s then Some r else None)"

text \<open>
  The recursive descent: a value, the elements after an opening bracket, the members after
  an opening brace.  Each step consumes input; \<open>shorter\<close> states it where the recursion goes on.
\<close>

datatype json_item = ItemVal json | ItemElems "json list" | ItemMembers "(gostring \<times> json) list"

datatype json_goal = GoalVal | GoalElems | GoalMembers

function (sequential) json_rec :: "json_goal \<Rightarrow> gostring \<Rightarrow> (json_item \<times> gostring) option" where
  "json_rec GoalVal s0 =
     (case skip_ws s0 of
        [] \<Rightarrow> None
      | c # s \<Rightarrow>
          if c = CHR ''['' then
            (case skip_ws s of
               d # t \<Rightarrow> if d = CHR '']'' then Some (ItemVal (JArr []), t)
                        else do { (x, r) \<leftarrow> json_rec GoalElems s;
                                  case x of ItemElems xs \<Rightarrow> Some (ItemVal (JArr xs), r) | _ \<Rightarrow> None }
             | [] \<Rightarrow> None)
          else if c = CHR ''{'' then
            (case skip_ws s of
               d # t \<Rightarrow> if d = CHR ''}'' then Some (ItemVal (JObj []), t)
                        else do { (x, r) \<leftarrow> json_rec GoalMembers s;
                                  case x of ItemMembers ms \<Rightarrow> Some (ItemVal (JObj ms), r) | _ \<Rightarrow> None }
             | [] \<Rightarrow> None)
          else if c = CHR 0x22 then map_option (\<lambda>(r, t). (ItemVal (JStr r), t)) (lex_string [] s)
          else if has_prefix (c # s) ''null'' then Some (ItemVal JNull, drop 4 (c # s))
          else if has_prefix (c # s) ''true'' then Some (ItemVal (JBool True), drop 4 (c # s))
          else if has_prefix (c # s) ''false'' then Some (ItemVal (JBool False), drop 5 (c # s))
          else map_option (\<lambda>(n, t). (ItemVal (JNum n), t)) (lex_number (c # s)))"
| "json_rec GoalElems s0 =
     do { r0 \<leftarrow> json_rec GoalVal s0;
          (x, r) \<leftarrow> shorter s0 r0;
          case (x, skip_ws r) of
            (ItemVal v, c # t) \<Rightarrow>
              if c = CHR '']'' then Some (ItemElems [v], t)
              else if c = CHR '','' then
                (if length t < length s0 then
                   do { (y, u) \<leftarrow> json_rec GoalElems t;
                        case y of ItemElems vs \<Rightarrow> Some (ItemElems (v # vs), u) | _ \<Rightarrow> None }
                 else None)
              else None
          | _ \<Rightarrow> None }"
| "json_rec GoalMembers s0 =
     (case skip_ws s0 of
        c # s \<Rightarrow>
          if c \<noteq> CHR 0x22 then None
          else do { (k, s1) \<leftarrow> lex_string [] s;
                    case skip_ws s1 of
                      d # s2 \<Rightarrow>
                        if d = CHR '':'' \<and> length s2 < length s0 then
                          do { r0 \<leftarrow> json_rec GoalVal s2;
                               (x, r) \<leftarrow> shorter s0 r0;
                               case (x, skip_ws r) of
                                 (ItemVal v, e # t) \<Rightarrow>
                                   if e = CHR ''}'' then Some (ItemMembers [(k, v)], t)
                                   else if e = CHR '','' then
                                     (if length t < length s0 then
                                        do { (y, u) \<leftarrow> json_rec GoalMembers t;
                                             case y of ItemMembers ms \<Rightarrow> Some (ItemMembers ((k, v) # ms), u) | _ \<Rightarrow> None }
                                      else None)
                                   else None
                               | _ \<Rightarrow> None }
                        else None
                    | [] \<Rightarrow> None }
      | [] \<Rightarrow> None)"
  by pat_completeness auto
termination
proof (relation "measures [\<lambda>(g, s). length s, \<lambda>(g, s). if g = GoalVal then 0 else 1]", goal_cases)
  case 1
  then show ?case by simp
next
  case (2 s0 c s d t)
  then have "length s < length s0"
    using length_dropWhile_le [of json_ws s0] by (simp add: skip_ws_def)
  then show ?case by simp
next
  case (3 s0 c s d t)
  then have "length s < length s0"
    using length_dropWhile_le [of json_ws s0] by (simp add: skip_ws_def)
  then show ?case by simp
qed auto

declare json_rec.simps [simp del]

definition json_parse :: "gostring \<Rightarrow> json option" where
  "json_parse s =
     (case json_rec GoalVal s of
        Some (ItemVal v, r) \<Rightarrow> if skip_ws r = [] then Some v else None
      | _ \<Rightarrow> None)"

section \<open>Strings, numbers and printing\<close>

definition hex4 :: "gostring \<Rightarrow> nat" where
  "hex4 h = fold (\<lambda>c n. 16 * n + hex_val c) (take 4 h) 0"

definition surrogate_hi :: "nat \<Rightarrow> bool" where "surrogate_hi r \<longleftrightarrow> 0xD800 \<le> r \<and> r < 0xDC00"
definition surrogate_lo :: "nat \<Rightarrow> bool" where "surrogate_lo r \<longleftrightarrow> 0xDC00 \<le> r \<and> r < 0xE000"

function unquote :: "gostring \<Rightarrow> gostring" where
  "unquote s =
     (case s of
        [] \<Rightarrow> []
      | c # r \<Rightarrow>
          if c = CHR 0x5C then
            (case r of
               [] \<Rightarrow> []
             | e # t \<Rightarrow>
                 if e = CHR ''u'' then
                   (let a = hex4 t; u = drop 4 t
                    in if surrogate_hi a \<and> has_prefix u [CHR 0x5C, CHR ''u''] \<and> surrogate_lo (hex4 (drop 2 u))
                       then encode_rune (0x10000 + (a - 0xD800) * 1024 + (hex4 (drop 2 u) - 0xDC00)) @ unquote (drop 6 u)
                       else if surrogate_hi a \<or> surrogate_lo a then encode_rune 0xFFFD @ unquote u
                       else encode_rune a @ unquote u)
                 else (if e = CHR ''b'' then CHR 0x08 else if e = CHR ''f'' then CHR 0x0C
                       else if e = CHR ''n'' then CHR 0x0A else if e = CHR ''r'' then CHR 0x0D
                       else if e = CHR ''t'' then CHR 0x09 else e) # unquote t)
          else if head_rune_len s = 0 then encode_rune 0xFFFD @ unquote r
          else take (head_rune_len s) s @ unquote (drop (head_rune_len s) s))"
  by pat_completeness auto
termination by (relation "measure length") auto

declare unquote.simps [simp del]

text \<open>A number literal fits a float64 when its magnitude rounds to a finite value.\<close>

definition float_limit :: nat where
  "float_limit = 2 ^ 1024 - 2 ^ 970"

fun split_exp :: "gostring \<Rightarrow> gostring \<times> int" where
  "split_exp s =
     (let m = takeWhile (\<lambda>c. c \<noteq> CHR ''e'' \<and> c \<noteq> CHR ''E'') s;
          e = drop (length m + 1) s;
          neg = has_prefix e ''-'';
          d = (if neg \<or> has_prefix e ''+'' then tl e else e)
      in (m, case parse_dec d of None \<Rightarrow> 0 | Some n \<Rightarrow> if neg then - int n else int n))"

definition float_ok :: "gostring \<Rightarrow> bool" where
  "float_ok lit =
     (let (m, e) = split_exp (trim_prefix lit ''-'');
          ip = takeWhile is_digit m;
          fp = drop (length ip + 1) m;
          n = (case parse_dec (ip @ fp) of Some n \<Rightarrow> n | None \<Rightarrow> 0);
          x = e - int (length fp)
      in if x \<ge> 0 then n * 10 ^ nat x < float_limit else n < float_limit * 10 ^ nat (- x))"

text \<open>\<open>json.Marshal\<close> of a raw message: the text without white space, HTML characters escaped.\<close>

function escape_raw :: "gostring \<Rightarrow> gostring" where
  "escape_raw s =
     (case s of
        [] \<Rightarrow> []
      | c # r \<Rightarrow>
          if c = CHR ''<'' then CHR 0x5C # ''u003c'' @ escape_raw r
          else if c = CHR ''>'' then CHR 0x5C # ''u003e'' @ escape_raw r
          else if c = CHR ''&'' then CHR 0x5C # ''u0026'' @ escape_raw r
          else if has_prefix s [CHR 0xE2, CHR 0x80, CHR 0xA8] then CHR 0x5C # ''u2028'' @ escape_raw (drop 3 s)
          else if has_prefix s [CHR 0xE2, CHR 0x80, CHR 0xA9] then CHR 0x5C # ''u2029'' @ escape_raw (drop 3 s)
          else c # escape_raw r)"
  by pat_completeness auto
termination by (relation "measure length") auto

declare escape_raw.simps [simp del]

definition quoted_raw :: "gostring \<Rightarrow> gostring" where
  "quoted_raw r = CHR 0x22 # escape_raw r @ [CHR 0x22]"

fun json_compact :: "json \<Rightarrow> gostring" where
  "json_compact JNull = ''null''"
| "json_compact (JBool b) = (if b then ''true'' else ''false'')"
| "json_compact (JNum n) = n"
| "json_compact (JStr r) = quoted_raw r"
| "json_compact (JArr xs) = ''['' @ str_join '','' (map json_compact xs) @ '']''"
| "json_compact (JObj ms) =
     ''{'' @ str_join '','' (map (\<lambda>(k, v). quoted_raw k @ '':'' @ json_compact v) ms) @ ''}''"

section \<open>Decoding into Go values\<close>

type_synonym 's decoder = "json \<Rightarrow> 's \<Rightarrow> 's option"

definition dec_string :: "gostring decoder" where
  "dec_string j old = (case j of JNull \<Rightarrow> Some old | JStr r \<Rightarrow> Some (unquote r) | _ \<Rightarrow> None)"

definition dec_bool :: "bool decoder" where
  "dec_bool j old = (case j of JNull \<Rightarrow> Some old | JBool b \<Rightarrow> Some b | _ \<Rightarrow> None)"

definition dec_int64 :: "int decoder" where
  "dec_int64 j old = (case j of JNull \<Rightarrow> Some old | JNum n \<Rightarrow> go_atoi n | _ \<Rightarrow> None)"

definition dec_int64_ptr :: "int option decoder" where
  "dec_int64_ptr j old = (case j of JNull \<Rightarrow> Some None | JNum n \<Rightarrow> map_option Some (go_atoi n) | _ \<Rightarrow> None)"

text \<open>A float64 is kept as its literal.\<close>

definition dec_float_ptr :: "gostring option decoder" where
  "dec_float_ptr j old = (case j of JNull \<Rightarrow> Some None | JNum n \<Rightarrow> if float_ok n then Some (Some n) else None | _ \<Rightarrow> None)"

definition dec_raw :: "json option decoder" where
  "dec_raw j old = Some (Some j)"

fun fold_opt :: "('a \<Rightarrow> 's \<Rightarrow> 's option) \<Rightarrow> 'a list \<Rightarrow> 's \<Rightarrow> 's option" where
  "fold_opt f [] s = Some s"
| "fold_opt f (x # xs) s = f x s \<bind> fold_opt f xs"

definition dec_struct :: "(gostring \<times> 's decoder) list \<Rightarrow> 's decoder" where
  "dec_struct fields j s =
     (case j of
        JNull \<Rightarrow> Some s
      | JObj ms \<Rightarrow>
          fold_opt (\<lambda>(k, v) s. case List.find (\<lambda>(n, d). equal_fold_ascii (unquote k) n) fields of
                                 Some (n, d) \<Rightarrow> d v s | None \<Rightarrow> Some s) ms s
      | _ \<Rightarrow> None)"

definition dec_list :: "'a decoder \<Rightarrow> 'a \<Rightarrow> 'a list decoder" where
  "dec_list d z j old =
     (case j of
        JNull \<Rightarrow> Some []
      | JArr xs \<Rightarrow> map_option rev (fold_opt (\<lambda>x acc. map_option (\<lambda>v. v # acc) (d x z)) xs [])
      | _ \<Rightarrow> None)"

text \<open>\<open>map[string]json.RawMessage\<close>, as the list of its entries, the last one for a key first.\<close>

definition dec_raw_map :: "(gostring \<times> json) list decoder" where
  "dec_raw_map j old =
     (case j of JNull \<Rightarrow> Some [] | JObj ms \<Rightarrow> Some (rev (map (\<lambda>(k, v). (unquote k, v)) ms) @ old) | _ \<Rightarrow> None)"

text \<open>A field of a struct: a decoder for the whole from one for the part.\<close>

definition dec_field :: "('s \<Rightarrow> 'f) \<Rightarrow> ('f \<Rightarrow> 's \<Rightarrow> 's) \<Rightarrow> 'f decoder \<Rightarrow> 's decoder" where
  "dec_field get put d j s = map_option (\<lambda>f. put f s) (d j (get s))"

end
