(* ===== verification/Streaming.thy ===== *)
theory Streaming
  imports Go_Json Telemetry
begin

text \<open>
  Model of \<open>otelc/genai/streaming/streaming.go\<close>: the bounded content accumulator and the reader
  that parses the server-sent events of a completion stream while the application reads it.
  The state record follows the \<open>StreamingReader\<close> struct; what the wrapped body returns and the
  clock (in microseconds) are arguments of \<open>Read\<close>; the calls on the span are a log.
\<close>

section \<open>Bounded content\<close>

definition content_capture_limit :: int where
  "content_capture_limit = 16 * 1024"

definition truncated_suffix :: gostring where
  "truncated_suffix = ''... [truncated]''"

definition clamp_content_limit :: "int \<Rightarrow> int" where
  "clamp_content_limit limit =
     (if limit \<le> 0 \<or> limit > content_capture_limit then content_capture_limit
      else if limit < int (length truncated_suffix) then int (length truncated_suffix)
      else limit)"

record accumulator =
  acc_content :: gostring
  acc_limit :: int
  acc_truncated :: bool

definition new_accumulator :: "int \<Rightarrow> accumulator" where
  "new_accumulator limit = \<lparr>acc_content = [], acc_limit = limit, acc_truncated = False\<rparr>"

definition is_cont :: "char \<Rightarrow> bool" where
  "is_cont c \<longleftrightarrow> (of_char c :: nat) div 64 = 2"

text \<open>The loop steps back over continuation bytes; \<open>content[limit]\<close> is in range on entry.\<close>

fun boundary_loop :: "gostring \<Rightarrow> nat \<Rightarrow> nat" where
  "boundary_loop s 0 = 0"
| "boundary_loop s (Suc n) = (if is_cont (s ! Suc n) then boundary_loop s n else Suc n)"

definition truncate_to_utf8_boundary :: "gostring \<Rightarrow> nat \<Rightarrow> gostring" where
  "truncate_to_utf8_boundary s limit =
     (if length s \<le> limit then s else take (boundary_loop s limit) s)"

definition acc_append :: "gostring \<Rightarrow> accumulator \<Rightarrow> accumulator" where
  "acc_append s a =
     (if s = [] \<or> acc_truncated a then a
      else let remaining = acc_limit a - int (length truncated_suffix) - int (length (acc_content a))
           in if remaining \<ge> int (length s) then a\<lparr>acc_content := acc_content a @ s\<rparr>
              else a\<lparr>acc_content := acc_content a
                       @ (if remaining > 0 then truncate_to_utf8_boundary s (nat remaining) else [])
                       @ truncated_suffix,
                     acc_truncated := True\<rparr>)"

definition truncate_content :: "gostring \<Rightarrow> gostring" where
  "truncate_content s = acc_content (acc_append s (new_accumulator (clamp_content_limit content_capture_limit)))"

section \<open>The chunks of a stream\<close>

record chunk_choice =
  cc_index :: "int option"
  cc_finish :: gostring
  cc_text :: gostring

record sse_chunk =
  ck_id :: gostring
  ck_model :: gostring
  ck_choices :: "chunk_choice list"
  ck_prompt :: int
  ck_completion :: int
  ck_total :: int

definition zero_choice :: chunk_choice where
  "zero_choice = \<lparr>cc_index = None, cc_finish = [], cc_text = []\<rparr>"

definition zero_chunk :: sse_chunk where
  "zero_chunk = \<lparr>ck_id = [], ck_model = [], ck_choices = [], ck_prompt = 0, ck_completion = 0, ck_total = 0\<rparr>"

definition dec_usage :: "sse_chunk decoder" where
  "dec_usage = dec_struct
     [(''prompt_tokens'', dec_field ck_prompt (\<lambda>f s. s\<lparr>ck_prompt := f\<rparr>) dec_int64),
      (''completion_tokens'', dec_field ck_completion (\<lambda>f s. s\<lparr>ck_completion := f\<rparr>) dec_int64),
      (''total_tokens'', dec_field ck_total (\<lambda>f s. s\<lparr>ck_total := f\<rparr>) dec_int64)]"

definition dec_chunk :: "chunk_choice decoder \<Rightarrow> sse_chunk decoder" where
  "dec_chunk choice = dec_struct
     [(''id'', dec_field ck_id (\<lambda>f s. s\<lparr>ck_id := f\<rparr>) dec_string),
      (''model'', dec_field ck_model (\<lambda>f s. s\<lparr>ck_model := f\<rparr>) dec_string),
      (''choices'', dec_field ck_choices (\<lambda>f s. s\<lparr>ck_choices := f\<rparr>) (dec_list choice zero_choice)),
      (''usage'', dec_usage)]"

definition dec_chat_choice :: "chunk_choice decoder" where
  "dec_chat_choice = dec_struct
     [(''index'', dec_field cc_index (\<lambda>f s. s\<lparr>cc_index := f\<rparr>) dec_int64_ptr),
      (''finish_reason'', dec_field cc_finish (\<lambda>f s. s\<lparr>cc_finish := f\<rparr>) dec_string),
      (''delta'', dec_struct [(''content'', dec_field cc_text (\<lambda>f s. s\<lparr>cc_text := f\<rparr>) dec_string)])]"

definition dec_completion_choice :: "chunk_choice decoder" where
  "dec_completion_choice = dec_struct
     [(''index'', dec_field cc_index (\<lambda>f s. s\<lparr>cc_index := f\<rparr>) dec_int64_ptr),
      (''finish_reason'', dec_field cc_finish (\<lambda>f s. s\<lparr>cc_finish := f\<rparr>) dec_string),
      (''text'', dec_field cc_text (\<lambda>f s. s\<lparr>cc_text := f\<rparr>) dec_string)]"

datatype stream_op = OpChat | OpCompletion

definition decode_chunk :: "stream_op \<Rightarrow> gostring \<Rightarrow> sse_chunk option" where
  "decode_chunk op payload =
     do { j \<leftarrow> json_parse payload;
          dec_chunk (case op of OpChat \<Rightarrow> dec_chat_choice | OpCompletion \<Rightarrow> dec_completion_choice) j zero_chunk }"

section \<open>The reader\<close>

record reader =
  sr_line :: gostring
  sr_start :: int
  sr_first :: "int option"
  sr_input :: int
  sr_output :: int
  sr_total :: int
  sr_id :: gostring
  sr_model :: gostring
  sr_reasons :: "gostring list"
  sr_op :: stream_op
  sr_capture :: bool
  sr_limit :: int
  sr_done :: bool
  sr_completed :: bool
  sr_captured :: "(int \<times> accumulator) list"
  sr_log :: span_log
  sr_on_done :: nat

definition new_streaming_reader :: "int \<Rightarrow> stream_op \<Rightarrow> bool \<Rightarrow> int \<Rightarrow> reader" where
  "new_streaming_reader start op capture limit =
     \<lparr>sr_line = [], sr_start = start, sr_first = None, sr_input = 0, sr_output = 0, sr_total = 0,
      sr_id = [], sr_model = [], sr_reasons = [], sr_op = op, sr_capture = capture,
      sr_limit = clamp_content_limit limit, sr_done = False, sr_completed = False, sr_captured = [],
      sr_log = [], sr_on_done = 0\<rparr>"

definition choice_index :: "int option \<Rightarrow> nat \<Rightarrow> int" where
  "choice_index index position = (case index of Some i \<Rightarrow> i | None \<Rightarrow> int position)"

definition max_captured :: nat where "max_captured = 16"

fun assoc_update :: "int \<Rightarrow> ('a \<Rightarrow> 'a) \<Rightarrow> (int \<times> 'a) list \<Rightarrow> (int \<times> 'a) list" where
  "assoc_update k f [] = []"
| "assoc_update k f ((k', v) # m) = (if k' = k then (k', f v) # m else (k', v) # assoc_update k f m)"

definition capture_chunk_content :: "int \<Rightarrow> gostring \<Rightarrow> reader \<Rightarrow> reader" where
  "capture_chunk_content index content r =
     (if map_of (sr_captured r) index = None then
        (if length (sr_captured r) \<ge> max_captured then r
         else r\<lparr>sr_captured := sr_captured r @ [(index, acc_append content (new_accumulator (sr_limit r)))]\<rparr>)
      else r\<lparr>sr_captured := assoc_update index (acc_append content) (sr_captured r)\<rparr>)"

definition process_choice :: "nat \<times> chunk_choice \<Rightarrow> reader \<Rightarrow> reader" where
  "process_choice pc r =
     (case pc of (position, c) \<Rightarrow>
        let r1 = (if cc_finish c \<noteq> [] then r\<lparr>sr_reasons := sr_reasons r @ [cc_finish c]\<rparr> else r)
        in if sr_capture r1 \<and> cc_text c \<noteq> []
           then capture_chunk_content (choice_index (cc_index c) position) (cc_text c) r1 else r1)"

text \<open>\<open>processChatChunk\<close> and \<open>processCompletionChunk\<close>, which differ in the decoder only.\<close>

definition apply_chunk :: "sse_chunk \<Rightarrow> reader \<Rightarrow> reader" where
  "apply_chunk c r0 =
     fold process_choice (List.enumerate 0 (ck_choices c))
       (r0\<lparr>sr_id := (if ck_id c \<noteq> [] then ck_id c else sr_id r0),
           sr_model := (if ck_model c \<noteq> [] then ck_model c else sr_model r0),
           sr_input := (if ck_prompt c > 0 then ck_prompt c else sr_input r0),
           sr_output := (if ck_completion c > 0 then ck_completion c else sr_output r0),
           sr_total := (if ck_total c > 0 then ck_total c else sr_total r0)\<rparr>)"

definition process_chunk :: "int \<Rightarrow> gostring \<Rightarrow> reader \<Rightarrow> reader" where
  "process_chunk now payload r0 =
     (let r = r0\<lparr>sr_first := (case sr_first r0 of None \<Rightarrow> Some now | Some t \<Rightarrow> Some t)\<rparr>
      in case decode_chunk (sr_op r) payload of None \<Rightarrow> r | Some c \<Rightarrow> apply_chunk c r)"

datatype sse_line = SseNone | SseDone | SsePayload gostring

definition parse_sse_line :: "gostring \<Rightarrow> sse_line" where
  "parse_sse_line line =
     (if \<not> has_prefix line ''data: '' then SseNone
      else let p = trim_prefix line ''data: '' in if p = ''[DONE]'' then SseDone else SsePayload p)"

definition process_line :: "int \<Rightarrow> gostring \<Rightarrow> reader \<Rightarrow> reader" where
  "process_line now line r =
     (let l = trim_space line
      in if l = [] then r
         else (case parse_sse_line l of
                 SseNone \<Rightarrow> r
               | SseDone \<Rightarrow> r\<lparr>sr_completed := True\<rparr>
               | SsePayload p \<Rightarrow> process_chunk now p r))"

definition newline :: char where "newline = CHR 0x0A"

definition process_sse_lines :: "int \<Rightarrow> gostring \<Rightarrow> reader \<Rightarrow> reader" where
  "process_sse_lines now data r =
     (let lines = split_on newline (sr_line r @ data)
      in (fold (process_line now) (butlast lines) r)\<lparr>sr_line := last lines\<rparr>)"

definition flush_remaining :: "int \<Rightarrow> reader \<Rightarrow> reader" where
  "flush_remaining now r =
     (if sr_line r = [] then r else process_line now (sr_line r) (r\<lparr>sr_line := []\<rparr>))"

definition emit :: "span_call list \<Rightarrow> reader \<Rightarrow> reader" where
  "emit cs r = r\<lparr>sr_log := sr_log r @ cs\<rparr>"

definition captured_events :: "reader \<Rightarrow> span_call list" where
  "captured_events r =
     (if \<not> sr_capture r then []
      else concat (map (\<lambda>i. case map_of (sr_captured r) i of
                              Some a \<Rightarrow> if acc_content a = [] then []
                                        else [AddEvent ''gen_ai.content.completion'' [(''gen_ai.completion'', StrV (acc_content a))]]
                            | None \<Rightarrow> [])
                    (sort (map fst (sr_captured r)))))"

text \<open>A read error: \<open>io.EOF\<close> itself, an error wrapping it, or another one.\<close>

datatype read_err = Eof | WrapsEof gostring | OtherErr gostring

fun err_text :: "read_err \<Rightarrow> gostring" where
  "err_text Eof = ''EOF''" | "err_text (WrapsEof e) = e" | "err_text (OtherErr e) = e"

fun is_eof :: "read_err \<Rightarrow> bool" where
  "is_eof Eof = True" | "is_eof (WrapsEof _) = True" | "is_eof (OtherErr _) = False"

definition stream_completed :: "reader \<Rightarrow> bool" where
  "stream_completed r \<longleftrightarrow> sr_completed r \<or> sr_reasons r \<noteq> []"

definition hard_error :: "read_err option \<Rightarrow> bool" where
  "hard_error err \<longleftrightarrow> (case err of None \<Rightarrow> False | Some e \<Rightarrow> \<not> is_eof e)"

definition status_calls :: "read_err option \<Rightarrow> reader \<Rightarrow> span_call list" where
  "status_calls err r =
     (if \<not> stream_completed r \<or> hard_error err then
        SetStatus StatusError ''stream aborted''
          # (case err of Some e \<Rightarrow> if is_eof e then [] else [RecordError (err_text e)] | None \<Rightarrow> [])
      else [])"

definition result_calls :: "reader \<Rightarrow> span_call list" where
  "result_calls r =
     [SetAttrs [(''gen_ai.response.finish_reasons'', StrsV (sr_reasons r)),
                (''gen_ai.usage.input_tokens'', IntV (sr_input r)),
                (''gen_ai.usage.output_tokens'', IntV (sr_output r)),
                (''gen_ai.usage.total_tokens'', IntV (sr_total r))]]
     @ (if sr_id r \<noteq> [] then [SetAttrs [(''gen_ai.response.id'', StrV (sr_id r))]] else [])
     @ (if sr_model r \<noteq> [] then [SetAttrs [(''gen_ai.response.model'', StrV (sr_model r))]] else [])
     @ (case sr_first r of Some t \<Rightarrow> [SetAttrs [(''gen_ai.response.time_to_first_token'', IntV (t - sr_start r))]] | None \<Rightarrow> [])"

definition stream_finalize :: "int \<Rightarrow> bool \<Rightarrow> read_err option \<Rightarrow> reader \<Rightarrow> reader" where
  "stream_finalize now flush err r0 =
     (let r = (if flush then flush_remaining now r0 else r0);
          r' = (if (\<not> stream_completed r \<or> hard_error err) \<and> sr_reasons r = [] then r\<lparr>sr_reasons := [''error'']\<rparr> else r)
      in (emit (status_calls err r @ result_calls r' @ captured_events r' @ [SpanEnd]) r')\<lparr>sr_on_done := Suc (sr_on_done r')\<rparr>)"

definition stream_read :: "int \<Rightarrow> gostring \<Rightarrow> read_err option \<Rightarrow> reader \<Rightarrow> reader" where
  "stream_read now data err r0 =
     (let r = (if data \<noteq> [] then process_sse_lines now data r0 else r0)
      in case err of
           None \<Rightarrow> r
         | Some e \<Rightarrow> if sr_done r then r else stream_finalize now (e = Eof) (Some e) (r\<lparr>sr_done := True\<rparr>))"

definition stream_close :: "int \<Rightarrow> reader \<Rightarrow> reader" where
  "stream_close now r0 =
     (if sr_done r0 then r0
      else let r = flush_remaining now (r0\<lparr>sr_done := True\<rparr>)
           in if stream_completed r then stream_finalize now False None r
              else stream_finalize now False (Some (OtherErr ''stream aborted'')) r)"

datatype stream_call = CallRead int gostring "read_err option" | CallClose int

fun stream_step :: "stream_call \<Rightarrow> reader \<Rightarrow> reader" where
  "stream_step (CallRead now data err) r = stream_read now data err r"
| "stream_step (CallClose now) r = stream_close now r"

end
