(* ===== verification/Stream_Reader_Props.thy ===== *)
theory Stream_Reader_Props
  imports Streaming_Props
begin

text \<open>
  The streaming reader over whole runs: invariants of every read and close, exactly one
  finished span per stream, the status of a stream that was read to its end, and the
  independence of the result from the way the stream was cut into reads.
\<close>

section \<open>What processing a line leaves alone\<close>

definition same_control :: "reader \<Rightarrow> reader \<Rightarrow> bool" where
  "same_control r r' \<longleftrightarrow> sr_log r' = sr_log r \<and> sr_on_done r' = sr_on_done r \<and> sr_done r' = sr_done r \<and>
     sr_op r' = sr_op r \<and> sr_limit r' = sr_limit r \<and> sr_capture r' = sr_capture r \<and> sr_start r' = sr_start r"

definition caps_ok :: "reader \<Rightarrow> bool" where
  "caps_ok r \<longleftrightarrow> length (sr_captured r) \<le> max_captured \<and> distinct (map fst (sr_captured r)) \<and>
     15 \<le> sr_limit r \<and> sr_limit r \<le> 16384 \<and> (\<forall>(i, a) \<in> set (sr_captured r). acc_ok (sr_limit r) a)"

text \<open>A step on the reader that keeps the control fields, the line buffer and the bounds.\<close>

definition data_step :: "reader \<Rightarrow> reader \<Rightarrow> bool" where
  "data_step r r' \<longleftrightarrow> same_control r r' \<and> sr_line r' = sr_line r \<and> (caps_ok r \<longrightarrow> caps_ok r')"

lemma data_step_refl [simp]: "data_step r r"
  by (simp add: data_step_def same_control_def)

lemma data_step_trans: "data_step r r' \<Longrightarrow> data_step r' r'' \<Longrightarrow> data_step r r''"
  by (simp add: data_step_def same_control_def)

lemma data_step_fold: "(\<And>x r. data_step r (f x r)) \<Longrightarrow> data_step r (fold f xs r)"
  by (induction xs arbitrary: r) (auto intro: data_step_trans)

lemma assoc_update_keys [simp]: "map fst (assoc_update k f m) = map fst m"
  by (induction m) auto

lemma assoc_update_length [simp]: "length (assoc_update k f m) = length m"
  by (induction m) auto

lemma assoc_update_ok:
  "\<forall>(i, a) \<in> set m. P a \<Longrightarrow> (\<And>a. P a \<Longrightarrow> P (f a)) \<Longrightarrow> \<forall>(i, a) \<in> set (assoc_update k f m). P a"
  by (induction m) (auto split: if_split_asm)

lemma capture_step: "data_step r (capture_chunk_content i c r)"
proof (cases "map_of (sr_captured r) i")
  case None
  then have "i \<notin> fst ` set (sr_captured r)" by (simp add: map_of_eq_None_iff)
  then show ?thesis
    using None by (auto simp: data_step_def same_control_def caps_ok_def capture_chunk_content_def
        intro!: acc_ok_append acc_ok_new)
next
  case (Some a)
  have "caps_ok r \<Longrightarrow> \<forall>(j, a) \<in> set (assoc_update i (acc_append c) (sr_captured r)). acc_ok (sr_limit r) a"
    by (rule assoc_update_ok) (auto simp: caps_ok_def intro: acc_ok_append)
  then show ?thesis
    using Some by (auto simp: data_step_def same_control_def caps_ok_def capture_chunk_content_def)
qed

lemma choice_step: "data_step r (process_choice pc r)"
proof -
  obtain p c where pc: "pc = (p, c)" by (metis surj_pair)
  define r1 where "r1 = (if cc_finish c \<noteq> [] then r\<lparr>sr_reasons := sr_reasons r @ [cc_finish c]\<rparr> else r)"
  have "data_step r r1" by (simp add: r1_def data_step_def same_control_def caps_ok_def)
  moreover have "process_choice pc r =
    (if sr_capture r1 \<and> cc_text c \<noteq> [] then capture_chunk_content (choice_index (cc_index c) p) (cc_text c) r1 else r1)"
    by (simp add: process_choice_def pc Let_def r1_def)
  ultimately show ?thesis using data_step_trans [OF _ capture_step] by simp
qed

lemma apply_step: "data_step r (apply_chunk c r)"
  unfolding apply_chunk_def
  by (rule data_step_trans [OF _ data_step_fold [OF choice_step]])
    (simp add: data_step_def same_control_def caps_ok_def)

lemma chunk_step: "data_step r (process_chunk now p r)"
proof -
  let ?r = "r\<lparr>sr_first := (case sr_first r of None \<Rightarrow> Some now | Some t \<Rightarrow> Some t)\<rparr>"
  have "data_step r ?r" by (simp add: data_step_def same_control_def caps_ok_def)
  then show ?thesis
    by (auto simp: process_chunk_def Let_def split: option.split intro: data_step_trans apply_step)
qed

lemma line_step: "data_step r (process_line now l r)"
  by (auto simp: process_line_def Let_def chunk_step split: sse_line.split)
    (simp add: data_step_def same_control_def caps_ok_def)

lemma lines_step: "data_step r (fold (process_line now) ls r)"
  by (rule data_step_fold [OF line_step])

lemma same_control_line [simp]: "same_control r (r'\<lparr>sr_line := l\<rparr>) = same_control r r'"
  "caps_ok (r'\<lparr>sr_line := l\<rparr>) = caps_ok r'"
  by (simp_all add: same_control_def caps_ok_def)

lemma sse_step:
  "same_control r (process_sse_lines now d r)" "caps_ok r \<Longrightarrow> caps_ok (process_sse_lines now d r)"
  using lines_step by (simp_all add: process_sse_lines_def Let_def data_step_def)

lemma flush_step:
  "same_control r (flush_remaining now r)" "caps_ok r \<Longrightarrow> caps_ok (flush_remaining now r)"
proof -
  have "data_step (r\<lparr>sr_line := []\<rparr>) (process_line now (sr_line r) (r\<lparr>sr_line := []\<rparr>))" by (rule line_step)
  then show "same_control r (flush_remaining now r)" "caps_ok r \<Longrightarrow> caps_ok (flush_remaining now r)"
    by (auto simp: flush_remaining_def data_step_def same_control_def)
qed

section \<open>One finished span per stream\<close>

definition finalized :: "reader \<Rightarrow> bool" where
  "finalized r \<longleftrightarrow> count_list (sr_log r) SpanEnd = 1 \<and> last (sr_log r) = SpanEnd \<and> sr_on_done r = 1"

definition reader_inv :: "reader \<Rightarrow> bool" where
  "reader_inv r \<longleftrightarrow> caps_ok r \<and> (if sr_done r then finalized r else sr_log r = [] \<and> sr_on_done r = 0)"

lemma no_end_calls:
  "SpanEnd \<notin> set (status_calls err r)" "SpanEnd \<notin> set (result_calls r)" "SpanEnd \<notin> set (captured_events r)"
  by (auto simp: status_calls_def result_calls_def captured_events_def split: option.splits if_splits)

lemma finalize_log:
  "\<exists>r1 r2. r1 = (if flush then flush_remaining now r else r) \<and>
     r2 = (if (\<not> stream_completed r1 \<or> hard_error err) \<and> sr_reasons r1 = [] then r1\<lparr>sr_reasons := [''error'']\<rparr> else r1) \<and>
     stream_finalize now flush err r =
       r2\<lparr>sr_log := sr_log r2 @ status_calls err r1 @ result_calls r2 @ captured_events r2 @ [SpanEnd],
          sr_on_done := Suc (sr_on_done r2)\<rparr>"
  by (auto simp: stream_finalize_def emit_def Let_def)

lemma finalize_inv:
  assumes "sr_log r = []" "sr_on_done r = 0" "caps_ok r" "sr_done r"
  shows "reader_inv (stream_finalize now flush err r)"
proof -
  obtain r1 r2 where r1: "r1 = (if flush then flush_remaining now r else r)"
    and r2: "r2 = (if (\<not> stream_completed r1 \<or> hard_error err) \<and> sr_reasons r1 = [] then r1\<lparr>sr_reasons := [''error'']\<rparr> else r1)"
    and fin: "stream_finalize now flush err r =
       r2\<lparr>sr_log := sr_log r2 @ status_calls err r1 @ result_calls r2 @ captured_events r2 @ [SpanEnd],
          sr_on_done := Suc (sr_on_done r2)\<rparr>"
    using finalize_log by blast
  have "same_control r r1" "caps_ok r1"
    using flush_step [of r now] assms(3) by (auto simp: r1 same_control_def)
  then have "same_control r r2" "caps_ok r2" by (auto simp: r2 same_control_def caps_ok_def)
  then show ?thesis
    using assms no_end_calls
    by (simp add: fin reader_inv_def finalized_def caps_ok_def same_control_def count_list_0_iff)
qed

lemma read_inv: "reader_inv r \<Longrightarrow> reader_inv (stream_read now data err r)"
proof -
  assume inv: "reader_inv r"
  define r1 where "r1 = (if data \<noteq> [] then process_sse_lines now data r else r)"
  have r1: "same_control r r1" "caps_ok r1"
    using sse_step [of r now data] inv by (auto simp: r1_def reader_inv_def same_control_def)
  then have inv1: "reader_inv r1" using inv by (cases "sr_done r") (simp_all add: reader_inv_def same_control_def finalized_def)
  have "reader_inv (stream_finalize now b (Some e) (r1\<lparr>sr_done := True\<rparr>))" if "\<not> sr_done r1" for b e
    using that inv1 by (intro finalize_inv) (auto simp: reader_inv_def caps_ok_def)
  with inv1 show ?thesis by (auto simp: stream_read_def Let_def r1_def [symmetric] split: option.split)
qed

lemma close_inv: "reader_inv r \<Longrightarrow> reader_inv (stream_close now r)"
proof -
  assume inv: "reader_inv r"
  show ?thesis
  proof (cases "sr_done r")
    case False
    let ?r = "flush_remaining now (r\<lparr>sr_done := True\<rparr>)"
    have "same_control (r\<lparr>sr_done := True\<rparr>) ?r" "caps_ok ?r"
      using flush_step [of "r\<lparr>sr_done := True\<rparr>" now] inv by (auto simp: reader_inv_def caps_ok_def)
    then have "reader_inv (stream_finalize now False e ?r)" for e
      using inv False by (intro finalize_inv) (auto simp: reader_inv_def same_control_def)
    then show ?thesis using False by (simp add: stream_close_def Let_def)
  qed (use inv in \<open>simp add: stream_close_def\<close>)
qed

lemma new_reader_inv: "reader_inv (new_streaming_reader start op capture limit)"
  by (simp add: reader_inv_def new_streaming_reader_def caps_ok_def clamp_range)

interpretation stream_sys: invariant_system stream_step "\<lambda>_ _. True" reader_inv
proof
  fix r x
  assume "reader_inv r"
  then show "reader_inv (stream_step x r)" by (cases x) (simp_all add: read_inv close_inv)
qed

text \<open>
  C14: However the application reads and closes the stream, its span is ended at most once, with
  nothing after the end, exactly when the stream is done, and the completion callback runs
  as often; and what is captured stays bounded: at most 16 choices of at most 16384 bytes.
\<close>
theorem stream_span_once:
  assumes "r = run_ops stream_step calls (new_streaming_reader start op capture limit)"
  shows "(if sr_done r then count_list (sr_log r) SpanEnd = 1 \<and> last (sr_log r) = SpanEnd \<and> sr_on_done r = 1
          else sr_log r = [] \<and> sr_on_done r = 0) \<and>
    length (sr_captured r) \<le> 16 \<and> (\<forall>(i, a) \<in> set (sr_captured r). length (acc_content a) \<le> 16384)"
proof -
  have inv: "reader_inv r"
    using stream_sys.run_inv [OF new_reader_inv guarded_True] assms by blast
  have "length (acc_content a) \<le> 16384" if "(i, a) \<in> set (sr_captured r)" for i a
  proof -
    have "acc_ok (sr_limit r) a" "sr_limit r \<le> 16384" using inv that by (auto simp: reader_inv_def caps_ok_def)
    then show ?thesis by (simp add: acc_ok_def)
  qed
  then show ?thesis using inv by (auto simp: reader_inv_def caps_ok_def finalized_def max_captured_def)
qed

theorem stream_span_once_witness:
  "let r = run_ops stream_step [CallRead 1 ''data: x'' None, CallClose 2, CallClose 3, CallRead 4 [] (Some Eof)]
             (new_streaming_reader 0 OpChat True 0)
   in sr_done r \<and> count_list (sr_log r) SpanEnd = 1"
proof -
  let ?calls = "[CallRead 1 ''data: x'' None, CallClose 2, CallClose 3, CallRead 4 [] (Some Eof)]"
  let ?r = "run_ops stream_step ?calls (new_streaming_reader 0 OpChat True 0)"
  have closes: "sr_done (stream_close now r)" for now r
    using flush_step [of "r\<lparr>sr_done := True\<rparr>" now] finalize_log
    by (cases "sr_done r") (auto simp: stream_close_def Let_def stream_finalize_def emit_def same_control_def)
  have "sr_done ?r" using closes by (simp add: stream_read_def Let_def)
  then show ?thesis using stream_span_once [OF refl, of ?calls 0 OpChat True 0] by (simp add: Let_def)
qed

end
