(* ===== verification/Stream_Semantics.thy ===== *)
theory Stream_Semantics
  imports Stream_Reader_Props
begin

text \<open>
  What a stream means, independently of the reads: the state is the fold of the line
  processor over the lines of the whole text, and the stream is complete when one of its lines
  is the \<open>[DONE]\<close> marker or a chunk with a finish reason.
\<close>

section \<open>Cutting the text\<close>

lemma split_on_append:
  "split_on c (a @ b) = butlast (split_on c a) @ split_on c (last (split_on c a) @ b)"
proof (induction a)
  case Nil
  then show ?case by simp
next
  case (Cons x a)
  show ?case
  proof (cases "x = c")
    case True
    then show ?thesis using Cons by simp
  next
    case False
    show ?thesis
    proof (cases "split_on c a")
      case (Cons p ps)
      show ?thesis
        using Cons.IH False Cons by (cases ps) (auto split: list.split)
    qed simp
  qed
qed

lemma capture_line:
  "capture_chunk_content i c (r\<lparr>sr_line := l\<rparr>) = (capture_chunk_content i c r)\<lparr>sr_line := l\<rparr>"
  by (simp add: capture_chunk_content_def)

lemma choice_line: "process_choice pc (r\<lparr>sr_line := l\<rparr>) = (process_choice pc r)\<lparr>sr_line := l\<rparr>"
proof -
  have comm: "sr_reasons_update (\<lambda>_. x) (sr_line_update (\<lambda>_. l) r) =
    sr_line_update (\<lambda>_. l) (sr_reasons_update (\<lambda>_. x) r)" for x by simp
  show ?thesis
    by (cases pc) (simp add: process_choice_def Let_def capture_line comm)
qed

lemma fold_line:
  "(\<And>x r. f x (r\<lparr>sr_line := l\<rparr>) = (f x r)\<lparr>sr_line := l\<rparr>) \<Longrightarrow> fold f xs (r\<lparr>sr_line := l\<rparr>) = (fold f xs r)\<lparr>sr_line := l\<rparr>"
  by (induction xs arbitrary: r) simp_all

definition chunk_header :: "sse_chunk \<Rightarrow> reader \<Rightarrow> reader" where
  "chunk_header c r0 =
     r0\<lparr>sr_id := (if ck_id c \<noteq> [] then ck_id c else sr_id r0),
        sr_model := (if ck_model c \<noteq> [] then ck_model c else sr_model r0),
        sr_input := (if ck_prompt c > 0 then ck_prompt c else sr_input r0),
        sr_output := (if ck_completion c > 0 then ck_completion c else sr_output r0),
        sr_total := (if ck_total c > 0 then ck_total c else sr_total r0)\<rparr>"

lemma apply_chunk_eq: "apply_chunk c r = fold process_choice (List.enumerate 0 (ck_choices c)) (chunk_header c r)"
  by (simp only: apply_chunk_def chunk_header_def)

lemma apply_line: "apply_chunk c (r\<lparr>sr_line := l\<rparr>) = (apply_chunk c r)\<lparr>sr_line := l\<rparr>"
proof -
  have "chunk_header c (r\<lparr>sr_line := l\<rparr>) = (chunk_header c r)\<lparr>sr_line := l\<rparr>" by (simp add: chunk_header_def)
  then show ?thesis by (simp only: apply_chunk_eq fold_line [of process_choice, OF choice_line])
qed

lemma process_line_line: "process_line now t (r\<lparr>sr_line := l\<rparr>) = (process_line now t r)\<lparr>sr_line := l\<rparr>"
proof -
  have "process_chunk now p (r\<lparr>sr_line := l\<rparr>) = (process_chunk now p r)\<lparr>sr_line := l\<rparr>" for p
  proof -
    have comm: "sr_first_update (\<lambda>_. x) (sr_line_update (\<lambda>_. l) r) =
      sr_line_update (\<lambda>_. l) (sr_first_update (\<lambda>_. x) r)" for x by simp
    show ?thesis by (cases "decode_chunk (sr_op r) p") (simp_all add: process_chunk_def Let_def comm apply_line)
  qed
  then show ?thesis by (simp add: process_line_def Let_def split: sse_line.split)
qed

lemma sse_lines_append:
  "process_sse_lines now d2 (process_sse_lines now d1 r) = process_sse_lines now (d1 @ d2) r"
  using fold_line [of "process_line now", OF process_line_line]
  by (simp add: process_sse_lines_def Let_def split_on_append [of newline "sr_line r @ d1" d2, simplified] butlast_append)

lemma process_sse_Nil: "newline \<notin> set (sr_line r) \<Longrightarrow> process_sse_lines now [] r = r"
  by (simp add: process_sse_lines_def split_on_no_sep)

lemma process_sse_line_clean: "newline \<notin> set (sr_line (process_sse_lines now d r))"
  by (simp add: process_sse_lines_def Let_def split_on_parts [OF last_in_set])

text \<open>Reads without an error, all at the clock reading \<open>now\<close>.\<close>

definition read_all :: "int \<Rightarrow> gostring list \<Rightarrow> reader \<Rightarrow> reader" where
  "read_all now ds r = run_ops stream_step (map (\<lambda>d. CallRead now d None) ds) r"

lemma read_all_eq:
  "newline \<notin> set (sr_line r) \<Longrightarrow> read_all now ds r = process_sse_lines now (concat ds) r"
proof (induction ds arbitrary: r)
  case Nil
  then show ?case by (simp add: read_all_def process_sse_Nil)
next
  case (Cons d ds)
  have "stream_read now d None r = process_sse_lines now d r"
    using Cons.prems process_sse_Nil by (simp add: stream_read_def)
  then show ?case
    using Cons.IH [OF process_sse_line_clean, of now d r] by (simp add: read_all_def sse_lines_append)
qed

lemma new_reader_line [simp]: "sr_line (new_streaming_reader start op capture limit) = []"
  by (simp add: new_streaming_reader_def)

text \<open>
  C15: The result does not depend on how the network cut the stream: two sequences of reads
  that deliver the same bytes leave the reader, and at end of file the whole span (attributes,
  events and status), in the same state (for the same reading of the clock, which only the
  time to the first token uses).
\<close>
theorem stream_chunking_independent:
  assumes "concat ds = concat ds'"
  shows "run_ops stream_step (map (\<lambda>d. CallRead now d None) ds @ [CallRead now [] (Some e)])
      (new_streaming_reader start op capture limit) =
    run_ops stream_step (map (\<lambda>d. CallRead now d None) ds' @ [CallRead now [] (Some e)])
      (new_streaming_reader start op capture limit)"
  using read_all_eq [of "new_streaming_reader start op capture limit" now] assms
  by (simp add: run_ops_append read_all_def)

theorem stream_chunking_independent_witness:
  "run_ops stream_step [CallRead 5 ''data: [D'' None, CallRead 5 ''ONE]'' None, CallRead 5 [] (Some Eof)]
     (new_streaming_reader 0 OpChat False 0) =
   run_ops stream_step [CallRead 5 ''data: [DONE]'' None, CallRead 5 [] (Some Eof)]
     (new_streaming_reader 0 OpChat False 0)"
  using stream_chunking_independent [of "[''data: [D'', ''ONE]'']" "[''data: [DONE]'']" 5 Eof 0 OpChat False 0]
  by simp

section \<open>The status of a stream\<close>

definition line_completes :: "stream_op \<Rightarrow> gostring \<Rightarrow> bool" where
  "line_completes op l =
     (case parse_sse_line (trim_space l) of
        SseNone \<Rightarrow> False
      | SseDone \<Rightarrow> True
      | SsePayload p \<Rightarrow> (case decode_chunk op p of
                           None \<Rightarrow> False | Some c \<Rightarrow> list_ex (\<lambda>x. cc_finish x \<noteq> []) (ck_choices c)))"

definition stream_text_completes :: "stream_op \<Rightarrow> gostring \<Rightarrow> bool" where
  "stream_text_completes op s = list_ex (line_completes op) (split_on newline s)"

lemma stream_completed_upd [simp]:
  "stream_completed (r\<lparr>sr_line := l\<rparr>) = stream_completed r"
  "stream_completed (r\<lparr>sr_first := f\<rparr>) = stream_completed r"
  "stream_completed (r\<lparr>sr_id := a\<rparr>) = stream_completed r"
  "stream_completed (r\<lparr>sr_model := a\<rparr>) = stream_completed r"
  "stream_completed (r\<lparr>sr_input := i\<rparr>) = stream_completed r"
  "stream_completed (r\<lparr>sr_output := i\<rparr>) = stream_completed r"
  "stream_completed (r\<lparr>sr_total := i\<rparr>) = stream_completed r"
  "stream_completed (r\<lparr>sr_done := b\<rparr>) = stream_completed r"
  by (simp_all add: stream_completed_def)

lemma capture_completed: "stream_completed (capture_chunk_content i c r) = stream_completed r"
  by (simp add: capture_chunk_content_def stream_completed_def)

lemma choices_completed:
  "stream_completed (fold process_choice (List.enumerate n cs) r) \<longleftrightarrow>
     stream_completed r \<or> list_ex (\<lambda>x. cc_finish x \<noteq> []) cs"
proof (induction cs arbitrary: n r)
  case (Cons c cs)
  have "stream_completed (process_choice (n, c) r) \<longleftrightarrow> stream_completed r \<or> cc_finish c \<noteq> []"
    by (simp add: process_choice_def Let_def capture_completed) (simp add: stream_completed_def)
  then show ?case by (auto simp: Cons)
qed simp

lemma line_completed:
  "stream_completed (process_line now l r) \<longleftrightarrow> stream_completed r \<or> line_completes (sr_op r) l"
proof -
  have pl: "stream_completed (process_chunk now p r) \<longleftrightarrow>
    stream_completed r \<or> (case decode_chunk (sr_op r) p of None \<Rightarrow> False | Some c \<Rightarrow> list_ex (\<lambda>x. cc_finish x \<noteq> []) (ck_choices c))" for p
    by (cases "decode_chunk (sr_op r) p")
      (simp_all add: process_chunk_def apply_chunk_def choices_completed Let_def)
  have none: "parse_sse_line [] = SseNone" by (simp add: parse_sse_line_def)
  show ?thesis
    by (cases "trim_space l = []"; cases "parse_sse_line (trim_space l)")
      (simp_all add: process_line_def Let_def line_completes_def pl none, simp add: stream_completed_def)
qed

lemma lines_completed:
  "stream_completed (fold (process_line now) ls r) \<longleftrightarrow> stream_completed r \<or> list_ex (line_completes (sr_op r)) ls"
proof (induction ls arbitrary: r)
  case (Cons l ls)
  have "sr_op (process_line now l r) = sr_op r" using line_step [of r now l] by (simp add: data_step_def same_control_def)
  then show ?case by (auto simp: Cons line_completed)
qed simp

lemma flush_completed:
  "stream_completed (flush_remaining now r) \<longleftrightarrow> stream_completed r \<or> line_completes (sr_op r) (sr_line r)"
proof -
  have "\<not> line_completes op []" for op
    by (simp add: line_completes_def parse_sse_line_def trim_space_def trim_left_space_def trim_right_space_def
        trim_left_runes.simps)
  then show ?thesis by (auto simp: flush_remaining_def line_completed)
qed

lemma text_completed:
  assumes "sr_line r = []" "\<not> stream_completed r"
  shows "stream_completed (flush_remaining now (process_sse_lines now s r)) \<longleftrightarrow> stream_text_completes (sr_op r) s"
proof -
  have split_eq: "split_on newline s = butlast (split_on newline s) @ [last (split_on newline s)]" by simp
  have "stream_text_completes (sr_op r) s \<longleftrightarrow>
    list_ex (line_completes (sr_op r)) (butlast (split_on newline s)) \<or> line_completes (sr_op r) (last (split_on newline s))"
    unfolding stream_text_completes_def by (subst (1) split_eq) (simp only: list_ex_append, simp)
  moreover have "sr_op (fold (process_line now) (butlast (split_on newline s)) r) = sr_op r"
    using lines_step [of r now] by (simp add: data_step_def same_control_def)
  ultimately show ?thesis
    using assms by (simp add: flush_completed process_sse_lines_def Let_def lines_completed)
qed

lemma effective_finalized:
  "sr_log r = [] \<Longrightarrow> \<exists>xs. effective (sr_log (stream_finalize now flush err r)) =
     status_calls err (if flush then flush_remaining now r else r) @ xs \<and> (\<forall>c d. SetStatus c d \<notin> set xs)"
proof -
  assume log: "sr_log r = []"
  obtain r1 r2 where r1: "r1 = (if flush then flush_remaining now r else r)"
    and r2: "r2 = (if (\<not> stream_completed r1 \<or> hard_error err) \<and> sr_reasons r1 = [] then r1\<lparr>sr_reasons := [''error'']\<rparr> else r1)"
    and fin: "stream_finalize now flush err r =
       r2\<lparr>sr_log := sr_log r2 @ status_calls err r1 @ result_calls r2 @ captured_events r2 @ [SpanEnd],
          sr_on_done := Suc (sr_on_done r2)\<rparr>"
    using finalize_log by blast
  have "sr_log r2 = []" using log flush_step [of r now] by (auto simp: r1 r2 same_control_def)
  then have "effective (sr_log (stream_finalize now flush err r)) =
    status_calls err r1 @ result_calls r2 @ captured_events r2"
    using no_end_calls effective_append [of "status_calls err r1 @ result_calls r2 @ captured_events r2"]
    by (simp add: fin)
  moreover have "\<forall>c d. SetStatus c d \<notin> set (result_calls r2 @ captured_events r2)"
    by (auto simp: result_calls_def captured_events_def split: option.splits if_splits)
  ultimately show ?thesis using r1 by blast
qed

lemma finalize_status:
  assumes "sr_log r = []"
  shows "span_status (sr_log (stream_finalize now flush err r)) =
    (if \<not> stream_completed (if flush then flush_remaining now r else r) \<or> hard_error err then StatusError else StatusUnset)"
proof -
  obtain xs where "effective (sr_log (stream_finalize now flush err r)) =
     status_calls err (if flush then flush_remaining now r else r) @ xs" "\<forall>c d. SetStatus c d \<notin> set xs"
    using effective_finalized [OF assms] by blast
  then show ?thesis
    by (auto simp: span_status_def status_calls_def status_after_no_status split: option.split)
qed

text \<open>
  The status of a stream that was read to its end or to an error: unset exactly when the text
  received has a \<open>[DONE]\<close> line or a chunk with a finish reason (an unterminated last line counts
  at a clean end of file) and the read ended with \<open>EOF\<close>; an error in every other case.
\<close>
theorem stream_status:
  shows "span_status (sr_log (run_ops stream_step (map (\<lambda>d. CallRead now d None) ds @ [CallRead now [] (Some Eof)])
      (new_streaming_reader start op capture limit))) =
      (if stream_text_completes op (concat ds) then StatusUnset else StatusError) \<and>
    span_status (sr_log (run_ops stream_step (map (\<lambda>d. CallRead now d None) ds @ [CallRead now [] (Some (OtherErr m))])
      (new_streaming_reader start op capture limit))) = StatusError"
proof -
  let ?init = "new_streaming_reader start op capture limit"
  let ?r = "process_sse_lines now (concat ds) ?init"
  have all: "run_ops stream_step (map (\<lambda>d. CallRead now d None) ds) ?init = ?r"
    using read_all_eq [of ?init now ds] unfolding read_all_def by simp
  have run: "run_ops stream_step (map (\<lambda>d. CallRead now d None) ds @ [CallRead now [] (Some e)]) ?init =
    stream_read now [] (Some e) ?r" for e
    unfolding run_ops_append all by simp
  have ctl: "same_control ?init ?r" using sse_step(1) .
  then have fresh: "\<not> sr_done ?r" "sr_log (?r\<lparr>sr_done := True\<rparr>) = []"
    by (simp_all add: same_control_def new_streaming_reader_def)
  have start: "\<not> stream_completed ?init" "sr_op ?init = op" by (simp_all add: stream_completed_def new_streaming_reader_def)
  have flush: "stream_completed (flush_remaining now (?r\<lparr>sr_done := True\<rparr>)) = stream_completed (flush_remaining now ?r)"
    by (simp add: flush_completed)
  show ?thesis
    using finalize_status [OF fresh(2), of now True "Some Eof"] finalize_status [OF fresh(2), of now False "Some (OtherErr m)"]
      text_completed [of ?init now "concat ds"] start fresh(1) flush
    by (simp add: run stream_read_def hard_error_def)
qed

end
