(* ===== verification/GenAI.thy ===== *)
theory GenAI
  imports Stream_Semantics Hook_Support
begin

text \<open>
  Model of \<open>otelc/genai/genai.go\<close> and \<open>anthropic.go\<close>: the HTTP middlewares of the openai-go and
  anthropic-sdk-go clients.  A middleware is modelled as a function of the request and of what
  \<open>next\<close> answers; its result says which span it starts and the calls it makes on it, the
  context flag and body it passes on, the metric points it records, and for an event stream
  the reader that goes on with the span.  A body is the bytes it will deliver and the error
  it delivers at their end (\<open>None\<close> for \<open>EOF\<close>).
\<close>

section \<open>Request and response bodies\<close>

record http_body =
  bd_data :: gostring
  bd_err :: "gostring option"

definition max_request_body_size :: nat where "max_request_body_size = 2 ^ 20"
definition max_response_body_size :: nat where "max_response_body_size = 4 * 2 ^ 20"

text \<open>The bytes read for parsing, the body put back, and the read error.\<close>

definition tee_body :: "http_body \<Rightarrow> nat \<Rightarrow> gostring \<times> http_body \<times> gostring option" where
  "tee_body b limit =
     (let buf = take limit (bd_data b)
      in (buf, b\<lparr>bd_data := buf @ drop limit (bd_data b)\<rparr>, if length (bd_data b) < limit then bd_err b else None))"

section \<open>Shared helpers\<close>

datatype operation_type = OpTypeChat | OpTypeCompletion | OpTypeEmbedding | OpTypeMessages | OpTypeCountTokens | OpTypeUnknown

definition content_capture_from_env :: "gostring \<Rightarrow> bool" where
  "content_capture_from_env v \<longleftrightarrow> to_lower (trim_space v) \<in> {''true'', ''1'', ''yes''}"

definition concat_attrs :: "attrs \<Rightarrow> attrs \<Rightarrow> attrs" where
  "concat_attrs a b = a @ b"

definition record_content_events :: "gostring \<Rightarrow> gostring \<Rightarrow> gostring list \<Rightarrow> span_call list" where
  "record_content_events name key contents =
     map (\<lambda>c. AddEvent name [(key, StrV (truncate_content c))]) (filter (\<lambda>c. c \<noteq> []) contents)"

definition dec_text_part :: "gostring decoder" where
  "dec_text_part = dec_struct [(''text'', dec_string)]"

definition newline_sep :: gostring where "newline_sep = [CHR 0x0A]"

text \<open>A raw message; \<open>None\<close> is an absent (empty) one.\<close>

definition content_from_json :: "json option \<Rightarrow> gostring" where
  "content_from_json content =
     (case content of
        None \<Rightarrow> []
      | Some JNull \<Rightarrow> []
      | Some j \<Rightarrow>
          (case dec_string j [] of
             Some t \<Rightarrow> t
           | None \<Rightarrow>
               (case dec_list dec_text_part [] j [] of
                  Some parts \<Rightarrow> str_join newline_sep (filter (\<lambda>t. t \<noteq> []) parts)
                | None \<Rightarrow> json_compact j)))"

fun first_keyword :: "(gostring \<times> gostring) list \<Rightarrow> gostring \<Rightarrow> gostring \<Rightarrow> gostring" where
  "first_keyword [] host d = d"
| "first_keyword ((k, p) # es) host d = (if str_contains host k then p else first_keyword es host d)"

definition provider_entries :: "(gostring \<times> gostring) list" where
  "provider_entries =
     [(''openai.com'', ''openai''), (''azure.com'', ''azure''), (''anthropic.com'', ''anthropic''),
      (''dashscope.aliyuncs'', ''qwen''), (''volces.com'', ''ark''), (''ark.cn'', ''ark''),
      (''hunyuan'', ''tencent''), (''tencentcloudapi'', ''tencent''), (''googleapis.com'', ''google''),
      (''generativelanguage'', ''google''), (''deepseek.com'', ''deepseek''), (''moonshot'', ''moonshot''),
      (''zhipuai.cn'', ''zhipu''), (''bigmodel.cn'', ''zhipu''), (''baidu.com'', ''baidu''),
      (''minimax'', ''minimax''), (''siliconflow'', ''siliconflow''), (''together'', ''together''),
      (''mistral'', ''mistral''), (''groq.com'', ''groq''), (''ollama'', ''ollama''),
      (''localhost'', ''local''), (''127.0.0.1'', ''local'')]"

definition get_provider_name :: "gostring \<Rightarrow> gostring" where
  "get_provider_name host = first_keyword provider_entries host ''openai''"

definition classify_openai_operation :: "gostring \<Rightarrow> operation_type" where
  "classify_openai_operation path =
     (if has_suffix path ''chat/completions'' then OpTypeChat
      else if has_suffix path ''completions'' then OpTypeCompletion
      else if has_suffix path ''embeddings'' then OpTypeEmbedding
      else OpTypeUnknown)"

fun openai_operation_name :: "operation_type \<Rightarrow> gostring" where
  "openai_operation_name OpTypeChat = ''chat''"
| "openai_operation_name OpTypeCompletion = ''text_completion''"
| "openai_operation_name OpTypeEmbedding = ''embeddings''"
| "openai_operation_name _ = []"

section \<open>Parsing requests\<close>

record genai_request =
  gq_model :: gostring
  gq_stream :: bool
  gq_max_tokens :: "int option"
  gq_max_completion :: "int option"
  gq_top_k :: "int option"
  gq_temperature :: "gostring option"
  gq_top_p :: "gostring option"
  gq_frequency :: "gostring option"
  gq_presence :: "gostring option"

definition zero_request :: genai_request where
  "zero_request = \<lparr>gq_model = [], gq_stream = False, gq_max_tokens = None, gq_max_completion = None, gq_top_k = None,
     gq_temperature = None, gq_top_p = None, gq_frequency = None, gq_presence = None\<rparr>"

definition fld_model :: "gostring \<times> genai_request decoder" where
  "fld_model = (''model'', dec_field gq_model (\<lambda>f s. s\<lparr>gq_model := f\<rparr>) dec_string)"
definition fld_max_tokens :: "gostring \<times> genai_request decoder" where
  "fld_max_tokens = (''max_tokens'', dec_field gq_max_tokens (\<lambda>f s. s\<lparr>gq_max_tokens := f\<rparr>) dec_int64_ptr)"
definition fld_temperature :: "gostring \<times> genai_request decoder" where
  "fld_temperature = (''temperature'', dec_field gq_temperature (\<lambda>f s. s\<lparr>gq_temperature := f\<rparr>) dec_float_ptr)"
definition fld_top_p :: "gostring \<times> genai_request decoder" where
  "fld_top_p = (''top_p'', dec_field gq_top_p (\<lambda>f s. s\<lparr>gq_top_p := f\<rparr>) dec_float_ptr)"
definition fld_frequency :: "gostring \<times> genai_request decoder" where
  "fld_frequency = (''frequency_penalty'', dec_field gq_frequency (\<lambda>f s. s\<lparr>gq_frequency := f\<rparr>) dec_float_ptr)"
definition fld_presence :: "gostring \<times> genai_request decoder" where
  "fld_presence = (''presence_penalty'', dec_field gq_presence (\<lambda>f s. s\<lparr>gq_presence := f\<rparr>) dec_float_ptr)"

definition opt_int :: "gostring \<Rightarrow> int option \<Rightarrow> attrs" where
  "opt_int k v = (case v of Some n \<Rightarrow> [(k, IntV n)] | None \<Rightarrow> [])"
definition opt_float :: "gostring \<Rightarrow> gostring option \<Rightarrow> attrs" where
  "opt_float k v = (case v of Some n \<Rightarrow> [(k, FloatV n)] | None \<Rightarrow> [])"

definition sampling_attrs :: "genai_request \<Rightarrow> attrs" where
  "sampling_attrs q =
     opt_float ''gen_ai.request.temperature'' (gq_temperature q) @ opt_float ''gen_ai.request.top_p'' (gq_top_p q)
     @ opt_float ''gen_ai.request.frequency_penalty'' (gq_frequency q)
     @ opt_float ''gen_ai.request.presence_penalty'' (gq_presence q)"

definition decode_body :: "'s decoder \<Rightarrow> 's \<Rightarrow> gostring \<Rightarrow> 's option" where
  "decode_body d z body = (case json_parse body of Some j \<Rightarrow> d j z | None \<Rightarrow> None)"

definition parse_chat_prompts :: "gostring \<Rightarrow> gostring list" where
  "parse_chat_prompts body =
     (case decode_body (dec_struct [(''messages'', dec_list dec_raw_map [])]) [] body of
        None \<Rightarrow> []
      | Some msgs \<Rightarrow> filter (\<lambda>c. c \<noteq> []) (map (\<lambda>m. content_from_json (map_of m ''content'')) msgs))"

definition parse_completion_prompts :: "gostring \<Rightarrow> gostring list" where
  "parse_completion_prompts body =
     (case decode_body (dec_struct [(''prompt'', dec_raw)]) None body of
        Some (Some j) \<Rightarrow>
          (case dec_string j [] of
             Some p \<Rightarrow> [p]
           | None \<Rightarrow> (case dec_list dec_string [] j [] of Some ps \<Rightarrow> ps | None \<Rightarrow> []))
      | _ \<Rightarrow> [])"

definition parse_chat_request :: "gostring \<Rightarrow> bool \<Rightarrow> gostring \<times> attrs \<times> gostring list" where
  "parse_chat_request body capture =
     (case decode_body (dec_struct [fld_model, fld_max_tokens,
               (''max_completion_tokens'', dec_field gq_max_completion (\<lambda>f s. s\<lparr>gq_max_completion := f\<rparr>) dec_int64_ptr),
               fld_temperature, fld_top_p, fld_frequency, fld_presence]) zero_request body of
        None \<Rightarrow> ([], [], [])
      | Some q \<Rightarrow>
          (gq_model q,
           opt_int ''gen_ai.request.max_tokens'' (case gq_max_completion q of Some n \<Rightarrow> Some n | None \<Rightarrow> gq_max_tokens q)
             @ sampling_attrs q,
           if capture then parse_chat_prompts body else []))"

definition parse_completion_request :: "gostring \<Rightarrow> bool \<Rightarrow> gostring \<times> attrs \<times> gostring list" where
  "parse_completion_request body capture =
     (case decode_body (dec_struct [fld_model, fld_max_tokens, fld_temperature, fld_top_p, fld_frequency, fld_presence])
             zero_request body of
        None \<Rightarrow> ([], [], [])
      | Some q \<Rightarrow>
          (gq_model q, opt_int ''gen_ai.request.max_tokens'' (gq_max_tokens q) @ sampling_attrs q,
           if capture then parse_completion_prompts body else []))"

definition parse_embedding_request :: "gostring \<Rightarrow> gostring \<times> attrs" where
  "parse_embedding_request body =
     (case decode_body (dec_struct [fld_model]) zero_request body of None \<Rightarrow> ([], []) | Some q \<Rightarrow> (gq_model q, []))"

section \<open>Parsing responses\<close>

definition dec_finish_choice :: "chunk_choice decoder" where
  "dec_finish_choice = dec_struct [(''finish_reason'', dec_field cc_finish (\<lambda>f s. s\<lparr>cc_finish := f\<rparr>) dec_string)]"

definition parse_chat_completions :: "gostring \<Rightarrow> gostring list" where
  "parse_chat_completions body =
     (case decode_body (dec_struct [(''choices'', dec_list (dec_struct [(''message'', dec_raw_map)]) [])]) [] body of
        None \<Rightarrow> []
      | Some cs \<Rightarrow> filter (\<lambda>c. c \<noteq> []) (map (\<lambda>m. content_from_json (map_of m ''content'')) cs))"

definition parse_completion_contents :: "gostring \<Rightarrow> gostring list" where
  "parse_completion_contents body =
     (case decode_body (dec_struct [(''choices'', dec_list dec_text_part [])]) [] body of
        None \<Rightarrow> [] | Some cs \<Rightarrow> filter (\<lambda>c. c \<noteq> []) cs)"

definition response_attrs :: "sse_chunk \<Rightarrow> attrs" where
  "response_attrs r =
     [(''gen_ai.response.id'', StrV (ck_id r)), (''gen_ai.response.model'', StrV (ck_model r)),
      (''gen_ai.response.finish_reasons'', StrsV (filter (\<lambda>f. f \<noteq> []) (map cc_finish (ck_choices r)))),
      (''gen_ai.usage.input_tokens'', IntV (ck_prompt r)), (''gen_ai.usage.output_tokens'', IntV (ck_completion r)),
      (''gen_ai.usage.total_tokens'', IntV (ck_total r))]"

definition completion_events :: "bool \<Rightarrow> gostring list \<Rightarrow> span_call list" where
  "completion_events capture contents =
     (if capture then record_content_events ''gen_ai.content.completion'' ''gen_ai.completion'' contents else [])"

definition parse_chat_response :: "gostring \<Rightarrow> bool \<Rightarrow> span_call list" where
  "parse_chat_response body capture =
     (case decode_body (dec_chunk dec_finish_choice) zero_chunk body of
        None \<Rightarrow> []
      | Some r \<Rightarrow> completion_events capture (parse_chat_completions body) @ [SetAttrs (response_attrs r)])"

definition parse_completion_response :: "gostring \<Rightarrow> bool \<Rightarrow> span_call list" where
  "parse_completion_response body capture =
     (case decode_body (dec_chunk dec_finish_choice) zero_chunk body of
        None \<Rightarrow> []
      | Some r \<Rightarrow> completion_events capture (parse_completion_contents body) @ [SetAttrs (response_attrs r)])"

definition parse_embedding_response :: "gostring \<Rightarrow> span_call list" where
  "parse_embedding_response body =
     (case decode_body (dec_struct
              [(''model'', dec_field ck_model (\<lambda>f s. s\<lparr>ck_model := f\<rparr>) dec_string),
               (''usage'', dec_struct
                  [(''prompt_tokens'', dec_field ck_prompt (\<lambda>f s. s\<lparr>ck_prompt := f\<rparr>) dec_int64),
                   (''total_tokens'', dec_field ck_total (\<lambda>f s. s\<lparr>ck_total := f\<rparr>) dec_int64)])]) zero_chunk body of
        None \<Rightarrow> []
      | Some r \<Rightarrow> [SetAttrs [(''gen_ai.response.model'', StrV (ck_model r)),
                            (''gen_ai.usage.input_tokens'', IntV (ck_prompt r)),
                            (''gen_ai.usage.total_tokens'', IntV (ck_total r))]])"

definition handle_openai_non_streaming :: "http_body \<Rightarrow> operation_type \<Rightarrow> bool \<Rightarrow> span_log \<times> http_body" where
  "handle_openai_non_streaming body op capture =
     (case tee_body body max_response_body_size of
        (bytes, back, err) \<Rightarrow>
          ((if err \<noteq> None then []
            else (case op of
                    OpTypeChat \<Rightarrow> parse_chat_response bytes capture
                  | OpTypeCompletion \<Rightarrow> parse_completion_response bytes capture
                  | OpTypeEmbedding \<Rightarrow> parse_embedding_response bytes
                  | _ \<Rightarrow> []))
           @ [SpanEnd], back))"

section \<open>The OpenAI middleware\<close>

record genai_http_request =
  hq_path :: gostring
  hq_host :: gostring
  hq_body :: "http_body option"
  hq_ctx :: go_ctx

datatype next_result =
    NextErr gostring gostring
  | NextResp int gostring gostring "http_body option"

text \<open>What \<open>next\<close> answers: an error with its text and \<open>error.type\<close>, or a response with its status
  code, status line, content type header and body.  (\<open>net/http\<close> promises a non-nil body; the OpenAI
  middleware relies on it, and without one its deferred \<open>End\<close> still runs.)\<close>

record genai_result =
  gr_span :: "(span_start \<times> span_log) option"
  gr_passed_ctx :: go_ctx
  gr_passed_body :: "http_body option"
  gr_metrics :: "attrs list"
  gr_response_body :: "http_body option"
  gr_stream :: "reader option"

definition pass_through :: "genai_http_request \<Rightarrow> http_body option \<Rightarrow> next_result \<Rightarrow> genai_result" where
  "pass_through req body nxt =
     \<lparr>gr_span = None, gr_passed_ctx = hq_ctx req, gr_passed_body = body, gr_metrics = [],
      gr_response_body = (case nxt of NextResp _ _ _ b \<Rightarrow> b | NextErr _ _ \<Rightarrow> None), gr_stream = None\<rparr>"

definition media_type :: "gostring \<Rightarrow> gostring" where
  "media_type ct = trim_space (fst (str_cut ct CHR '';''))"

definition is_event_stream :: "gostring \<Rightarrow> bool" where
  "is_event_stream ct \<longleftrightarrow> equal_fold_ascii (media_type ct) ''text/event-stream''"

definition base_attrs :: "gostring \<Rightarrow> gostring \<Rightarrow> gostring \<Rightarrow> gostring \<Rightarrow> attrs" where
  "base_attrs sys op_name model provider =
     [(''gen_ai.system'', StrV sys), (''gen_ai.operation.name'', StrV op_name),
      (''gen_ai.request.model'', StrV model), (''gen_ai.provider.name'', StrV provider)]"

definition transport_error_calls :: "gostring \<Rightarrow> gostring \<Rightarrow> span_log" where
  "transport_error_calls e typ = [SetStatus StatusError e, RecordError e, SetAttrs [(''error.type'', StrV typ)], SpanEnd]"

definition status_error_calls :: "gostring \<Rightarrow> int \<Rightarrow> span_log" where
  "status_error_calls status code =
     [RecordError status, SetStatus StatusError status, SetAttrs [(''error.type'', StrV (go_itoa code))], SpanEnd]"

definition stream_op_of :: "operation_type \<Rightarrow> stream_op" where
  "stream_op_of op = (if op = OpTypeCompletion then OpCompletion else OpChat)"

definition openai_after_next ::
  "int \<Rightarrow> operation_type \<Rightarrow> bool \<Rightarrow> next_result \<Rightarrow> span_log \<times> attrs \<times> http_body option \<times> reader option" where
  "openai_after_next start op capture nxt =
     (case nxt of
        NextErr e typ \<Rightarrow> (transport_error_calls e typ, [(''error.type'', StrV typ)], None, None)
      | NextResp code status ct body \<Rightarrow>
          if code \<ge> 400 then
            (status_error_calls status code, [(''error.type'', StrV (go_itoa code))], body, None)
          else if is_event_stream ct then
            ([SetAttrs [(''gen_ai.request.is_stream'', BoolV True)]], [], body,
             Some (new_streaming_reader start (stream_op_of op) capture content_capture_limit))
          else (case body of
                  None \<Rightarrow> ([SpanEnd], [], None, None)
                | Some b \<Rightarrow> (case handle_openai_non_streaming b op capture of (log, back) \<Rightarrow> (log, [], Some back, None))))"

definition parse_openai_request :: "operation_type \<Rightarrow> gostring \<Rightarrow> bool \<Rightarrow> gostring \<times> attrs \<times> gostring list" where
  "parse_openai_request op bytes capture =
     (case op of
        OpTypeChat \<Rightarrow> parse_chat_request bytes capture
      | OpTypeCompletion \<Rightarrow> parse_completion_request bytes capture
      | _ \<Rightarrow> (case parse_embedding_request bytes of (m, a) \<Rightarrow> (m, a, [])))"

definition openai_middleware :: "bool \<Rightarrow> int \<Rightarrow> genai_http_request \<Rightarrow> next_result \<Rightarrow> genai_result" where
  "openai_middleware capture start req nxt =
     (case hq_body req of
        None \<Rightarrow> pass_through req None nxt
      | Some body0 \<Rightarrow>
          (let op = classify_openai_operation (hq_path req)
           in if op = OpTypeUnknown then pass_through req (Some body0) nxt
              else (case tee_body body0 max_request_body_size of
                (bytes, body, err) \<Rightarrow>
                  if err \<noteq> None then pass_through req (Some body) nxt
                  else
                    (let (model, req_attrs, prompts) = parse_openai_request op bytes capture
                     in if model = [] then pass_through req (Some body) nxt
                        else
                          (let op_name = openai_operation_name op;
                               base = base_attrs ''openai'' op_name model (get_provider_name (hq_host req));
                               prompt_calls = (if capture then record_content_events ''gen_ai.content.prompt'' ''gen_ai.prompt'' prompts else []);
                               (calls, err_attrs, rbody, rd) = openai_after_next start op capture nxt
                           in \<lparr>gr_span = Some (start_span (op_name @ '' '' @ model) KindClient (base @ req_attrs), prompt_calls @ calls),
                               gr_passed_ctx = suppress_http_client (hq_ctx req), gr_passed_body = Some body,
                               gr_metrics = (if rd = None then [concat_attrs base err_attrs] else []),
                               gr_response_body = rbody, gr_stream = rd\<rparr>)))))"

section \<open>The Anthropic middleware\<close>

definition get_anthropic_provider_name :: "gostring \<Rightarrow> gostring" where
  "get_anthropic_provider_name host =
     first_keyword [(''anthropic.com'', ''anthropic''), (''localhost'', ''local''), (''127.0.0.1'', ''local'')] host ''anthropic''"

definition classify_anthropic_operation :: "gostring \<Rightarrow> operation_type" where
  "classify_anthropic_operation path =
     (if has_suffix path ''/messages/count_tokens'' then OpTypeCountTokens
      else if has_suffix path ''/messages'' then OpTypeMessages else OpTypeUnknown)"

definition anthropic_operation_name :: "operation_type \<Rightarrow> gostring" where
  "anthropic_operation_name op =
     (if op = OpTypeMessages then ''chat'' else if op = OpTypeCountTokens then ''count_tokens'' else [])"

definition parse_messages_request :: "gostring \<Rightarrow> gostring \<times> bool \<times> attrs" where
  "parse_messages_request body =
     (case decode_body (dec_struct [fld_model,
               (''stream'', dec_field gq_stream (\<lambda>f s. s\<lparr>gq_stream := f\<rparr>) dec_bool), fld_max_tokens, fld_temperature, fld_top_p,
               (''top_k'', dec_field gq_top_k (\<lambda>f s. s\<lparr>gq_top_k := f\<rparr>) dec_int64_ptr)]) zero_request body of
        None \<Rightarrow> ([], False, [])
      | Some q \<Rightarrow>
          (gq_model q, gq_stream q,
           opt_int ''gen_ai.request.max_tokens'' (gq_max_tokens q) @ opt_float ''gen_ai.request.temperature'' (gq_temperature q)
             @ opt_float ''gen_ai.request.top_p'' (gq_top_p q) @ opt_int ''gen_ai.request.top_k'' (gq_top_k q)))"

record messages_response =
  mr_id :: gostring
  mr_model :: gostring
  mr_stop :: gostring
  mr_input :: int
  mr_output :: int
  mr_cache_read :: int
  mr_cache_creation :: int

definition zero_messages_response :: messages_response where
  "zero_messages_response = \<lparr>mr_id = [], mr_model = [], mr_stop = [], mr_input = 0, mr_output = 0, mr_cache_read = 0,
     mr_cache_creation = 0\<rparr>"

text \<open>int64 arithmetic wraps around.\<close>

definition wrap64 :: "int \<Rightarrow> int" where
  "wrap64 n = (n + 2 ^ 63) mod 2 ^ 64 - 2 ^ 63"

definition messages_response_attrs :: "messages_response \<Rightarrow> attrs" where
  "messages_response_attrs r =
     (let total_input = wrap64 (wrap64 (mr_input r + mr_cache_read r) + mr_cache_creation r)
      in [(''gen_ai.response.id'', StrV (mr_id r)), (''gen_ai.response.model'', StrV (mr_model r)),
          (''gen_ai.usage.input_tokens'', IntV total_input), (''gen_ai.usage.output_tokens'', IntV (mr_output r)),
          (''gen_ai.usage.total_tokens'', IntV (wrap64 (total_input + mr_output r)))]
         @ (if mr_stop r \<noteq> [] then [(''gen_ai.response.finish_reasons'', StrsV [mr_stop r])] else [])
         @ (if mr_cache_read r > 0 then [(''gen_ai.usage.cache_read.input_tokens'', IntV (mr_cache_read r))] else [])
         @ (if mr_cache_creation r > 0 then [(''gen_ai.usage.cache_creation.input_tokens'', IntV (mr_cache_creation r))] else []))"

definition parse_messages_response :: "gostring \<Rightarrow> span_call list" where
  "parse_messages_response body =
     (case decode_body (dec_struct
              [(''id'', dec_field mr_id (\<lambda>f s. s\<lparr>mr_id := f\<rparr>) dec_string),
               (''model'', dec_field mr_model (\<lambda>f s. s\<lparr>mr_model := f\<rparr>) dec_string),
               (''stop_reason'', dec_field mr_stop (\<lambda>f s. s\<lparr>mr_stop := f\<rparr>) dec_string),
               (''usage'', dec_struct
                  [(''input_tokens'', dec_field mr_input (\<lambda>f s. s\<lparr>mr_input := f\<rparr>) dec_int64),
                   (''output_tokens'', dec_field mr_output (\<lambda>f s. s\<lparr>mr_output := f\<rparr>) dec_int64),
                   (''cache_read_input_tokens'', dec_field mr_cache_read (\<lambda>f s. s\<lparr>mr_cache_read := f\<rparr>) dec_int64),
                   (''cache_creation_input_tokens'', dec_field mr_cache_creation (\<lambda>f s. s\<lparr>mr_cache_creation := f\<rparr>) dec_int64)])])
             zero_messages_response body of
        None \<Rightarrow> [] | Some r \<Rightarrow> [SetAttrs (messages_response_attrs r)])"

definition parse_count_tokens_response :: "gostring \<Rightarrow> span_call list" where
  "parse_count_tokens_response body =
     (case decode_body (dec_struct [(''input_tokens'', dec_int64)]) 0 body of
        None \<Rightarrow> [] | Some n \<Rightarrow> [SetAttrs [(''gen_ai.usage.input_tokens'', IntV n)]])"

definition handle_anthropic_non_streaming :: "http_body option \<Rightarrow> operation_type \<Rightarrow> span_log \<times> http_body option" where
  "handle_anthropic_non_streaming body op =
     (case body of
        None \<Rightarrow> ([SpanEnd], None)
      | Some b \<Rightarrow>
          (case tee_body b max_response_body_size of
             (bytes, back, err) \<Rightarrow>
               ((if err \<noteq> None then []
                 else if op = OpTypeCountTokens then parse_count_tokens_response bytes
                 else parse_messages_response bytes) @ [SpanEnd], Some back)))"

definition anthropic_after_next :: "operation_type \<Rightarrow> next_result \<Rightarrow> span_log \<times> attrs \<times> http_body option" where
  "anthropic_after_next op nxt =
     (case nxt of
        NextErr e typ \<Rightarrow> (transport_error_calls e typ, [(''error.type'', StrV typ)], None)
      | NextResp code status ct body \<Rightarrow>
          if code \<ge> 400 then (status_error_calls status code, [(''error.type'', StrV (go_itoa code))], body)
          else if is_event_stream ct then ([SetAttrs [(''gen_ai.request.is_stream'', BoolV True)], SpanEnd], [], body)
          else (case handle_anthropic_non_streaming body op of (log, back) \<Rightarrow> (log, [], back)))"

definition anthropic_middleware :: "genai_http_request \<Rightarrow> next_result \<Rightarrow> genai_result" where
  "anthropic_middleware req nxt =
     (case hq_body req of
        None \<Rightarrow> pass_through req None nxt
      | Some body0 \<Rightarrow>
          (let op = classify_anthropic_operation (hq_path req)
           in if op = OpTypeUnknown then pass_through req (Some body0) nxt
              else (case tee_body body0 max_request_body_size of
                (bytes, body, err) \<Rightarrow>
                  if err \<noteq> None then pass_through req (Some body) nxt
                  else (case parse_messages_request bytes of
                    (model, is_stream, req_attrs) \<Rightarrow>
                      if model = [] \<or> is_stream then pass_through req (Some body) nxt
                      else
                        (let op_name = anthropic_operation_name op;
                             base = base_attrs ''anthropic'' op_name model (get_anthropic_provider_name (hq_host req));
                             (calls, err_attrs, rbody) = anthropic_after_next op nxt
                         in \<lparr>gr_span = Some (start_span (op_name @ '' '' @ model) KindClient (base @ req_attrs), calls),
                             gr_passed_ctx = suppress_http_client (hq_ctx req), gr_passed_body = Some body,
                             gr_metrics = [concat_attrs base err_attrs], gr_response_body = rbody, gr_stream = None\<rparr>)))))"

end
