(* ===== verification/GenAI_Props.thy ===== *)
theory GenAI_Props
  imports GenAI
begin

text \<open>
  Properties of the GenAI middlewares: they are invisible to the application, account for
  every call exactly once, and record no content unless capture is switched on.
\<close>

lemma tee_body_back: "tee_body b limit = (bytes, back, err) \<Longrightarrow> back = b"
  by (auto simp: tee_body_def Let_def)

lemma tee_body_eq: "\<exists>bytes err. tee_body b limit = (bytes, b, err)"
  by (simp add: tee_body_def Let_def)

section \<open>One accounted span per call\<close>

definition no_end :: "span_log \<Rightarrow> bool" where
  "no_end log \<longleftrightarrow> SpanEnd \<notin> set log"

definition ends_properly :: "span_log \<Rightarrow> bool" where
  "ends_properly log \<longleftrightarrow> count_list log SpanEnd = 1 \<and> last log = SpanEnd"

lemma ends_properly_append: "no_end xs \<Longrightarrow> ends_properly ys \<Longrightarrow> ends_properly (xs @ ys)"
  by (cases "ys = []") (simp_all add: ends_properly_def no_end_def count_list_0_iff)

lemma ends_properly_snoc: "no_end xs \<Longrightarrow> ends_properly (xs @ [SpanEnd])"
  by (simp add: ends_properly_def no_end_def count_list_0_iff)

lemma no_end_events [simp]: "no_end (record_content_events n k cs)" "no_end (completion_events c cs)" "no_end []"
  by (auto simp: no_end_def record_content_events_def completion_events_def)

lemma no_end_append [simp]: "no_end (xs @ ys) \<longleftrightarrow> no_end xs \<and> no_end ys"
  by (simp add: no_end_def)

lemma no_end_attrs [simp]: "no_end [SetAttrs a]"
  by (simp add: no_end_def)

lemma no_end_parse [simp]:
  "no_end (parse_chat_response b c)" "no_end (parse_completion_response b c)" "no_end (parse_embedding_response b)"
  "no_end (parse_count_tokens_response b)" "no_end (parse_messages_response b)"
  by (simp_all add: parse_chat_response_def parse_completion_response_def parse_embedding_response_def
      parse_count_tokens_response_def parse_messages_response_def split: option.split)

lemma error_calls_end: "ends_properly (transport_error_calls e t)" "ends_properly (status_error_calls s c)"
  by (simp_all add: ends_properly_def transport_error_calls_def status_error_calls_def)

lemma handle_openai: "\<exists>xs. handle_openai_non_streaming b op c = (xs @ [SpanEnd], b) \<and> no_end xs"
proof -
  obtain bytes err where "tee_body b max_response_body_size = (bytes, b, err)" using tee_body_eq by blast
  then show ?thesis by (cases op) (simp_all add: handle_openai_non_streaming_def)
qed

lemma handle_anthropic: "\<exists>xs. handle_anthropic_non_streaming b op = (xs @ [SpanEnd], b) \<and> no_end xs"
proof (cases b)
  case (Some x)
  obtain bytes err where "tee_body x max_response_body_size = (bytes, x, err)" using tee_body_eq by blast
  then show ?thesis using Some by (simp add: handle_anthropic_non_streaming_def)
qed (simp add: handle_anthropic_non_streaming_def no_end_def)

fun next_body :: "next_result \<Rightarrow> http_body option" where
  "next_body (NextErr _ _) = None"
| "next_body (NextResp _ _ _ b) = b"

lemma openai_after:
  assumes "openai_after_next start op c nxt = (calls, ea, rb, rd)"
  shows "rb = next_body nxt \<and> (if rd = None then ends_properly calls
    else no_end calls \<and> rd = Some (new_streaming_reader start (stream_op_of op) c content_capture_limit))"
proof (cases nxt)
  case (NextErr e t)
  then show ?thesis using assms error_calls_end by (auto simp: openai_after_next_def)
next
  case (NextResp code status ct body)
  have single: "ends_properly [SpanEnd]" using ends_properly_snoc [of "[]"] by simp
  show ?thesis
  proof (cases body)
    case None
    then show ?thesis using NextResp assms error_calls_end single
      by (auto simp: openai_after_next_def split: if_splits)
  next
    case (Some b)
    obtain xs where "handle_openai_non_streaming b op c = (xs @ [SpanEnd], b)" "no_end xs"
      using handle_openai by blast
    then show ?thesis using NextResp Some assms error_calls_end ends_properly_snoc
      by (auto simp: openai_after_next_def split: if_splits)
  qed
qed

lemma anthropic_after:
  assumes "anthropic_after_next op nxt = (calls, ea, rb)"
  shows "rb = next_body nxt \<and> ends_properly calls"
proof (cases nxt)
  case (NextErr e t)
  then show ?thesis using assms error_calls_end by (auto simp: anthropic_after_next_def)
next
  case (NextResp code status ct body)
  obtain xs where "handle_anthropic_non_streaming body op = (xs @ [SpanEnd], body)" "no_end xs"
    using handle_anthropic by blast
  then show ?thesis using NextResp assms error_calls_end ends_properly_snoc [of xs] ends_properly_snoc [of "[SetAttrs _]"]
    by (auto simp: anthropic_after_next_def split: if_splits)
qed

definition call_accounted :: "genai_http_request \<Rightarrow> next_result \<Rightarrow> bool \<Rightarrow> int \<Rightarrow> genai_result \<Rightarrow> bool" where
  "call_accounted req nxt capture start r \<longleftrightarrow>
     gr_passed_body r = hq_body req \<and> gr_response_body r = next_body nxt \<and>
     (case gr_span r of
        None \<Rightarrow> gr_passed_ctx r = hq_ctx req \<and> gr_metrics r = [] \<and> gr_stream r = None
      | Some (st, log) \<Rightarrow>
          is_http_client_suppressed (gr_passed_ctx r) \<and>
          (case gr_stream r of
             None \<Rightarrow> ends_properly log \<and> length (gr_metrics r) = 1
           | Some rd \<Rightarrow> no_end log \<and> gr_metrics r = [] \<and>
               (\<exists>op. rd = new_streaming_reader start op capture content_capture_limit)))"

lemma pass_through_accounted: "hq_body req = b \<Longrightarrow> call_accounted req nxt capture start (pass_through req b nxt)"
  by (cases nxt) (simp_all add: call_accounted_def pass_through_def)

lemma genai_accounted_openai: "call_accounted req nxt capture start (openai_middleware capture start req nxt)"
proof (cases "hq_body req")
  case (Some body0)
  obtain bytes err where t: "tee_body body0 max_request_body_size = (bytes, body0, err)" using tee_body_eq by blast
  let ?op = "classify_openai_operation (hq_path req)"
  obtain model ra ps where p: "parse_openai_request ?op bytes capture = (model, ra, ps)" by (metis surj_pair)
  obtain calls ea rb rd where a: "openai_after_next start ?op capture nxt = (calls, ea, rb, rd)" by (metis surj_pair)
  note after = openai_after [OF a]
  have prompts: "no_end (if capture then record_content_events ''gen_ai.content.prompt'' ''gen_ai.prompt'' ps else [])" by simp
  show ?thesis
  proof (cases "?op = OpTypeUnknown \<or> err \<noteq> None \<or> model = []")
    case True
    then have "openai_middleware capture start req nxt = pass_through req (Some body0) nxt"
      using Some t p by (auto simp: openai_middleware_def Let_def)
    then show ?thesis using Some pass_through_accounted by simp
  next
    case False
    then show ?thesis
      using Some t p a after prompts ends_properly_append [OF prompts]
      by (cases rd) (auto simp: openai_middleware_def call_accounted_def Let_def suppressed_is_suppressed)
  qed
qed (simp add: openai_middleware_def pass_through_accounted)

lemma genai_accounted_anthropic: "call_accounted req nxt capture start (anthropic_middleware req nxt)"
proof (cases "hq_body req")
  case (Some body0)
  obtain bytes err where t: "tee_body body0 max_request_body_size = (bytes, body0, err)" using tee_body_eq by blast
  let ?op = "classify_anthropic_operation (hq_path req)"
  obtain model sm ra where p: "parse_messages_request bytes = (model, sm, ra)" by (metis surj_pair)
  obtain calls ea rb where a: "anthropic_after_next ?op nxt = (calls, ea, rb)" by (metis surj_pair)
  show ?thesis
  proof (cases "?op = OpTypeUnknown \<or> err \<noteq> None \<or> model = [] \<or> sm")
    case True
    then have "anthropic_middleware req nxt = pass_through req (Some body0) nxt"
      using Some t p by (auto simp: anthropic_middleware_def Let_def)
    then show ?thesis using Some pass_through_accounted by simp
  next
    case False
    then show ?thesis
      using Some t p a anthropic_after [OF a]
      by (auto simp: anthropic_middleware_def call_accounted_def Let_def suppressed_is_suppressed)
  qed
qed (simp add: anthropic_middleware_def pass_through_accounted)

text \<open>
  C17: Both GenAI middlewares account for every call once and leave the traffic alone: the body passed
  on and the body returned are the application's and the server's; without a span nothing changes and nothing is
  recorded; with one, the HTTP client hook is suppressed and either the span is ended exactly
  once with one duration point, or a fresh streaming reader has taken it over.
\<close>
theorem genai_calls_accounted:
  shows "call_accounted req nxt capture start (openai_middleware capture start req nxt) \<and>
    call_accounted req nxt capture start (anthropic_middleware req nxt)"
  using genai_accounted_openai genai_accounted_anthropic by blast

section \<open>No content without capture\<close>

definition no_events :: "span_log \<Rightarrow> bool" where
  "no_events log \<longleftrightarrow> (\<forall>n a. AddEvent n a \<notin> set log)"

lemma no_events_append [simp]: "no_events (xs @ ys) \<longleftrightarrow> no_events xs \<and> no_events ys"
  by (auto simp: no_events_def)

lemma no_events_single [simp]: "no_events []" "no_events [SpanEnd]" "no_events [SetAttrs a]"
  "no_events (transport_error_calls e t)" "no_events (status_error_calls s c)" "no_events (completion_events False cs)"
  by (simp_all add: no_events_def transport_error_calls_def status_error_calls_def completion_events_def)

lemma no_events_parse [simp]:
  "no_events (parse_chat_response b False)" "no_events (parse_completion_response b False)" "no_events (parse_embedding_response b)"
  by (simp_all add: parse_chat_response_def parse_completion_response_def parse_embedding_response_def split: option.split)

lemma no_events_openai_after: "openai_after_next start op False nxt = (calls, ea, rb, rd) \<Longrightarrow> no_events calls"
  by (cases nxt) (auto simp: openai_after_next_def handle_openai_non_streaming_def
      split: if_splits option.splits prod.splits operation_type.splits)

lemma finalize_events:
  assumes "sr_log r = []" "\<not> sr_capture r"
  shows "no_events (sr_log (stream_finalize now flush err r)) \<and> \<not> sr_capture (stream_finalize now flush err r)"
proof -
  obtain r1 r2 where r1: "r1 = (if flush then flush_remaining now r else r)"
    and r2: "r2 = (if (\<not> stream_completed r1 \<or> hard_error err) \<and> sr_reasons r1 = [] then r1\<lparr>sr_reasons := [''error'']\<rparr> else r1)"
    and fin: "stream_finalize now flush err r =
       r2\<lparr>sr_log := sr_log r2 @ status_calls err r1 @ result_calls r2 @ captured_events r2 @ [SpanEnd],
          sr_on_done := Suc (sr_on_done r2)\<rparr>"
    using finalize_log by blast
  have "sr_log r2 = []" "\<not> sr_capture r2" using assms flush_step [of r now] by (auto simp: r1 r2 same_control_def)
  moreover have "no_events (status_calls err r1)" "no_events (result_calls r2)"
    by (auto simp: no_events_def status_calls_def result_calls_def split: option.splits if_splits)
  ultimately show ?thesis by (simp add: fin captured_events_def)
qed

definition private_reader :: "reader \<Rightarrow> bool" where
  "private_reader r \<longleftrightarrow> reader_inv r \<and> \<not> sr_capture r \<and> no_events (sr_log r)"

interpretation private_sys: invariant_system stream_step "\<lambda>_ _. True" private_reader
proof
  fix r x
  assume p: "private_reader r"
  then have inv: "reader_inv (stream_step x r)" using stream_sys.step_inv by (simp add: private_reader_def)
  have "\<not> sr_capture (stream_step x r) \<and> no_events (sr_log (stream_step x r))"
  proof (cases x)
    case (CallRead now data err)
    define r1 where "r1 = (if data \<noteq> [] then process_sse_lines now data r else r)"
    have ctl: "same_control r r1" using sse_step [of r now data] by (auto simp: r1_def same_control_def)
    have "\<not> sr_done r1 \<Longrightarrow> sr_log (r1\<lparr>sr_done := True\<rparr>) = []"
      using ctl p by (auto simp: same_control_def private_reader_def reader_inv_def)
    then show ?thesis
      using CallRead ctl p finalize_events [of "r1\<lparr>sr_done := True\<rparr>"]
      by (auto simp: stream_read_def Let_def r1_def [symmetric] same_control_def private_reader_def split: option.split)
  next
    case (CallClose now)
    show ?thesis
    proof (cases "sr_done r")
      case False
      let ?r = "flush_remaining now (r\<lparr>sr_done := True\<rparr>)"
      have "same_control (r\<lparr>sr_done := True\<rparr>) ?r" using flush_step by blast
      then have "sr_log ?r = []" "\<not> sr_capture ?r"
        using p False by (auto simp: same_control_def private_reader_def reader_inv_def)
      then show ?thesis using CallClose False finalize_events [of ?r] by (simp add: stream_close_def Let_def)
    qed (use p CallClose in \<open>simp add: stream_close_def private_reader_def\<close>)
  qed
  then show "private_reader (stream_step x r)" using inv by (simp add: private_reader_def)
qed

text \<open>
  With content capture off, no prompt and no completion reaches the telemetry: neither the calls of
  the OpenAI middleware nor, for an event stream, any run of the reader that took over the span
  adds an event to it.
\<close>
theorem genai_no_content_without_capture:
  "(case gr_span (openai_middleware False start req nxt) of None \<Rightarrow> True | Some (st, log) \<Rightarrow> no_events log) \<and>
   (case gr_stream (openai_middleware False start req nxt) of None \<Rightarrow> True
    | Some rd \<Rightarrow> \<forall>calls. no_events (sr_log (run_ops stream_step calls rd)))"
proof (rule conjI)
  show "case gr_span (openai_middleware False start req nxt) of None \<Rightarrow> True | Some (st, log) \<Rightarrow> no_events log"
    using no_events_openai_after
    by (auto simp: openai_middleware_def pass_through_def Let_def split: option.splits if_splits prod.splits)
next
  have "no_events (sr_log (run_ops stream_step calls rd))"
    if rd: "gr_stream (openai_middleware False start req nxt) = Some rd" for rd calls
  proof -
    have "call_accounted req nxt False start (openai_middleware False start req nxt)" using genai_accounted_openai .
    then obtain op where "rd = new_streaming_reader start op False content_capture_limit"
      using rd by (auto simp: call_accounted_def split: option.splits)
    then have "private_reader rd"
      using new_reader_inv [of start op False content_capture_limit]
      by (simp add: private_reader_def) (simp add: new_streaming_reader_def)
    then have "private_reader (run_ops stream_step calls rd)" by (rule private_sys.run_inv) simp
    then show ?thesis by (simp add: private_reader_def)
  qed
  then show "case gr_stream (openai_middleware False start req nxt) of None \<Rightarrow> True
    | Some rd \<Rightarrow> \<forall>calls. no_events (sr_log (run_ops stream_step calls rd))" by (simp split: option.split)
qed

end
