(* ===== verification/Amqp.thy ===== *)
theory Amqp
  imports Telemetry Transition_Systems "HOL-Library.AList"
begin

text \<open>
  Model of \<open>otelc/plugins/amqp/amqp.go\<close>: producer spans with the trace context injected into
  a copy of the message headers, and consumer spans that are ended by whatever settles the
  delivery: its acknowledger, the channel it came from, or the end of the consumer.  Channels,
  acknowledgers and tables of pending acknowledgements are numbers into the maps of the state.
\<close>

section \<open>Names and attributes\<close>

definition amqp_destination_name :: "gostring \<Rightarrow> gostring \<Rightarrow> gostring \<Rightarrow> gostring \<Rightarrow> gostring" where
  "amqp_destination_name exchange routing_key queue operation =
     (if (operation = ''receive'' \<or> operation = ''process'') \<and> trim_space queue \<noteq> [] then trim_space queue
      else if trim_space exchange \<noteq> [] then trim_space exchange
      else ''(default)'')"

definition amqp_span_name :: "gostring \<Rightarrow> gostring \<Rightarrow> gostring \<Rightarrow> gostring \<Rightarrow> gostring" where
  "amqp_span_name exchange routing_key queue operation =
     amqp_destination_name exchange routing_key queue operation @ '' '' @ operation"

definition amqp_trace_attrs :: "gostring \<Rightarrow> gostring \<Rightarrow> gostring \<Rightarrow> gostring \<Rightarrow> int \<Rightarrow> attrs" where
  "amqp_trace_attrs exchange routing_key queue operation body_size =
     [(''messaging.system'', StrV ''rabbitmq''), (''messaging.operation.name'', StrV operation),
      (''messaging.destination.name'', StrV (amqp_destination_name exchange routing_key queue operation))]
     @ (if operation \<in> {''send'', ''receive'', ''process''} then [(''messaging.operation.type'', StrV operation)] else [])
     @ (if trim_space routing_key \<noteq> [] then [(''messaging.rabbitmq.destination.routing_key'', StrV (trim_space routing_key))] else [])
     @ (if trim_space queue \<noteq> [] \<and> operation \<noteq> ''send''
        then [(''messaging.destination.subscription.name'', StrV (trim_space queue))] else [])
     @ (if body_size > 0 then [(''messaging.message.body.size'', IntV body_size)] else [])"

definition amqp_start_span :: "gostring \<Rightarrow> gostring \<Rightarrow> gostring \<Rightarrow> gostring \<Rightarrow> int \<Rightarrow> span_kind \<Rightarrow> span_start" where
  "amqp_start_span exchange routing_key queue operation body_size kind =
     start_span (amqp_span_name exchange routing_key queue operation) kind
       (amqp_trace_attrs exchange routing_key queue operation body_size)"

section \<open>The header table as a carrier\<close>

datatype table_value = TabStr gostring | TabOther nat

type_synonym amqp_table = "(gostring \<rightharpoonup> table_value) option"

definition table_get :: "amqp_table \<Rightarrow> gostring \<Rightarrow> gostring" where
  "table_get t key =
     (case t of
        None \<Rightarrow> []
      | Some m \<Rightarrow> (case m key of Some (TabStr s) \<Rightarrow> s | _ \<Rightarrow> []))"

definition table_set :: "gostring \<Rightarrow> gostring \<Rightarrow> amqp_table \<Rightarrow> amqp_table" where
  "table_set key value t = Some ((case t of None \<Rightarrow> Map.empty | Some m \<Rightarrow> m)(key \<mapsto> TabStr value))"

definition table_keys :: "amqp_table \<Rightarrow> gostring set" where
  "table_keys t = (case t of None \<Rightarrow> {} | Some m \<Rightarrow> dom m)"

definition clone_table :: "amqp_table \<Rightarrow> amqp_table" where
  "clone_table t = Some (case t of None \<Rightarrow> Map.empty | Some m \<Rightarrow> m)"

interpretation amqp_carrier: text_map_carrier table_get table_set "\<lambda>k. k"
  by unfold_locales (auto simp: table_get_def table_set_def split: option.splits)

section \<open>Acknowledgements\<close>

datatype inner_ack = InnerNil | InnerChannel nat | InnerOther

record settler =
  sg_inner :: inner_ack
  sg_once :: bool
  sg_log :: span_log
  sg_local :: "nat option"
  sg_channel :: "nat option"

record amqp_state =
  am_pending :: "nat \<Rightarrow> (nat \<times> nat) list"
  am_next_pending :: nat
  am_settlers :: "nat \<Rightarrow> settler"
  am_next_settler :: nat
  am_channel_acks :: "nat \<rightharpoonup> nat"
  am_parents :: "nat \<rightharpoonup> nat option"

definition zero_settler :: settler where
  "zero_settler = \<lparr>sg_inner = InnerNil, sg_once = False, sg_log = [], sg_local = None, sg_channel = None\<rparr>"

definition amqp_init :: amqp_state where
  "amqp_init = \<lparr>am_pending = (\<lambda>_. []), am_next_pending = 0, am_settlers = (\<lambda>_. zero_settler), am_next_settler = 0,
     am_channel_acks = Map.empty, am_parents = Map.empty\<rparr>"

definition amqp_end_calls :: "gostring option \<Rightarrow> span_log" where
  "amqp_end_calls err = (case err of Some e \<Rightarrow> [RecordError e, SetStatus StatusError e] | None \<Rightarrow> []) @ [SpanEnd]"

text \<open>\<open>End\<close> of an acknowledger, guarded by its \<open>sync.Once\<close>.\<close>

definition settler_end :: "gostring option \<Rightarrow> settler \<Rightarrow> settler" where
  "settler_end err s = (if sg_once s then s else s\<lparr>sg_once := True, sg_log := sg_log s @ amqp_end_calls err\<rparr>)"

definition end_settler :: "gostring option \<Rightarrow> nat \<Rightarrow> amqp_state \<Rightarrow> amqp_state" where
  "end_settler err i st = st\<lparr>am_settlers := (am_settlers st)(i := settler_end err (am_settlers st i))\<rparr>"

definition pending_add :: "nat \<Rightarrow> nat \<Rightarrow> nat \<Rightarrow> amqp_state \<Rightarrow> amqp_state" where
  "pending_add p tag s st = st\<lparr>am_pending := (am_pending st)(p := AList.update tag s (am_pending st p))\<rparr>"

definition pending_settle :: "nat \<Rightarrow> nat \<Rightarrow> bool \<Rightarrow> gostring option \<Rightarrow> amqp_state \<Rightarrow> amqp_state" where
  "pending_settle p tag multiple err st =
     (let hit = (\<lambda>t. if multiple then t \<le> tag else t = tag);
          to_end = map snd (filter (\<lambda>(t, s). hit t) (am_pending st p))
      in fold (end_settler err) to_end
           (st\<lparr>am_pending := (am_pending st)(p := filter (\<lambda>(t, s). \<not> hit t) (am_pending st p))\<rparr>))"

definition pending_end_all :: "nat \<Rightarrow> amqp_state \<Rightarrow> amqp_state" where
  "pending_end_all p st =
     fold (end_settler None) (map snd (am_pending st p)) (st\<lparr>am_pending := (am_pending st)(p := [])\<rparr>)"

definition acks_for :: "nat \<Rightarrow> amqp_state \<Rightarrow> nat \<times> amqp_state" where
  "acks_for ch st =
     (case am_channel_acks st ch of
        Some p \<Rightarrow> (p, st)
      | None \<Rightarrow> (let p = am_next_pending st
                 in (p, st\<lparr>am_channel_acks := (am_channel_acks st)(ch \<mapsto> p), am_next_pending := Suc p,
                           am_pending := (am_pending st)(p := [])\<rparr>)))"

definition acks_lookup :: "nat option \<Rightarrow> amqp_state \<Rightarrow> nat option" where
  "acks_lookup ch st = (case ch of None \<Rightarrow> None | Some c \<Rightarrow> am_channel_acks st c)"

text \<open>The hooks on \<open>Channel.Ack\<close>, \<open>Nack\<close> and \<open>Reject\<close>, after the original returned \<open>err\<close>.\<close>

definition channel_settle :: "bool \<Rightarrow> nat option \<Rightarrow> nat \<Rightarrow> bool \<Rightarrow> gostring option \<Rightarrow> amqp_state \<Rightarrow> amqp_state" where
  "channel_settle en ch tag multiple err st =
     (if \<not> en then st
      else (case acks_lookup ch st of Some p \<Rightarrow> pending_settle p tag multiple err st | None \<Rightarrow> st))"

definition channel_ack where "channel_ack en ch tag multiple err st = channel_settle en ch tag multiple err st"
definition channel_nack where "channel_nack en ch tag multiple err st = channel_settle en ch tag multiple err st"
definition channel_reject where "channel_reject en ch tag err st = channel_settle en ch tag False err st"

definition not_initialized :: gostring where "not_initialized = ''delivery not initialized''"

text \<open>\<open>callInner\<close>: the error and the state the wrapped acknowledger leaves (a channel's is hooked itself).\<close>

definition call_inner ::
  "bool \<Rightarrow> settler \<Rightarrow> nat \<Rightarrow> bool \<Rightarrow> gostring option \<Rightarrow> amqp_state \<Rightarrow> gostring option \<times> amqp_state" where
  "call_inner en a tag multiple err st =
     (case sg_inner a of
        InnerNil \<Rightarrow> (Some not_initialized, st)
      | InnerChannel ch \<Rightarrow> (err, channel_settle en (Some ch) tag multiple err st)
      | InnerOther \<Rightarrow> (err, st))"

definition settler_finish :: "nat \<Rightarrow> nat \<Rightarrow> bool \<Rightarrow> gostring option \<Rightarrow> amqp_state \<Rightarrow> amqp_state" where
  "settler_finish i tag multiple err st =
     (let a = am_settlers st i;
          st1 = (case sg_local a of Some p \<Rightarrow> pending_settle p tag multiple err st | None \<Rightarrow> st);
          st2 = (case sg_channel a of Some p \<Rightarrow> pending_settle p tag multiple err st1 | None \<Rightarrow> st1)
      in if sg_local a = None \<and> sg_channel a = None then end_settler err i st2 else st2)"

definition settler_settle ::
  "bool \<Rightarrow> nat \<Rightarrow> nat \<Rightarrow> bool \<Rightarrow> gostring option \<Rightarrow> amqp_state \<Rightarrow> gostring option \<times> amqp_state" where
  "settler_settle en i tag multiple err0 st =
     (let (err, st1) = call_inner en (am_settlers st i) tag multiple err0 st
      in (err, settler_finish i tag multiple err st1))"

definition settler_ack where "settler_ack en i tag multiple err st = settler_settle en i tag multiple err st"
definition settler_nack where "settler_nack en i tag multiple err st = settler_settle en i tag multiple err st"
definition settler_reject where "settler_reject en i tag err st = settler_settle en i tag False err st"

section \<open>Deliveries\<close>

record delivery =
  dl_tag :: nat
  dl_exchange :: gostring
  dl_key :: gostring
  dl_body_size :: int
  dl_headers :: amqp_table
  dl_inner :: inner_ack

text \<open>
  The parent context is what the propagator reads from the headers for its fields.  The
  result is the parent, the span, and either its calls (auto-ack) or its acknowledger.
\<close>

definition extract_parent :: "gostring list \<Rightarrow> amqp_table \<Rightarrow> gostring list" where
  "extract_parent flds h = map (table_get h) flds"

definition start_delivery_span ::
  "gostring list \<Rightarrow> nat option \<Rightarrow> gostring \<Rightarrow> bool \<Rightarrow> delivery \<Rightarrow> nat option \<Rightarrow> amqp_state \<Rightarrow>
   (gostring list \<times> span_start \<times> span_log \<times> nat option) \<times> amqp_state" where
  "start_delivery_span flds ch queue auto_ack d local st0 =
     (let op = (if auto_ack then ''receive'' else ''process'');
          parent = extract_parent flds (dl_headers d);
          span = amqp_start_span (dl_exchange d) (dl_key d) queue op (dl_body_size d) KindConsumer
      in if auto_ack then ((parent, span, [SpanEnd], None), st0)
         else
           (let i = am_next_settler st0;
                (chp, st1) = (case ch of None \<Rightarrow> (None, st0)
                              | Some c \<Rightarrow> (case acks_for c st0 of (p, st') \<Rightarrow> (Some p, st')));
                s = \<lparr>sg_inner = dl_inner d, sg_once = False, sg_log = [], sg_local = local, sg_channel = chp\<rparr>;
                st2 = st1\<lparr>am_settlers := (am_settlers st1)(i := s), am_next_settler := Suc i\<rparr>;
                st3 = (case local of Some p \<Rightarrow> pending_add p (dl_tag d) i st2 | None \<Rightarrow> st2);
                st4 = (case chp of Some p \<Rightarrow> pending_add p (dl_tag d) i st3 | None \<Rightarrow> st3)
            in ((parent, span, [], Some i), st4)))"

text \<open>\<open>wrapDeliveries\<close>: a fresh local table per consumer, ended when the library closes its channel.\<close>

definition new_consumer :: "amqp_state \<Rightarrow> nat \<times> amqp_state" where
  "new_consumer st =
     (let p = am_next_pending st in (p, st\<lparr>am_next_pending := Suc p, am_pending := (am_pending st)(p := [])\<rparr>))"

definition amqp_consume :: "bool \<Rightarrow> nat option \<Rightarrow> gostring option \<Rightarrow> bool \<Rightarrow> amqp_state \<Rightarrow> nat option \<times> amqp_state" where
  "amqp_consume en ch err has_deliveries st =
     (if en \<and> ch \<noteq> None \<and> err = None \<and> has_deliveries
      then (case new_consumer st of (p, st') \<Rightarrow> (Some p, st')) else (None, st))"

definition amqp_get ::
  "bool \<Rightarrow> gostring list \<Rightarrow> nat option \<Rightarrow> gostring \<Rightarrow> bool \<Rightarrow> delivery \<Rightarrow> bool \<Rightarrow> gostring option \<Rightarrow> amqp_state \<Rightarrow>
   (gostring list \<times> span_start \<times> span_log \<times> nat option) option \<times> amqp_state" where
  "amqp_get en flds ch queue auto_ack d ok err st =
     (if en \<and> ch \<noteq> None \<and> err = None \<and> ok
      then (case start_delivery_span flds ch queue auto_ack d None st of (r, st') \<Rightarrow> (Some r, st'))
      else (None, st))"

section \<open>Publishing\<close>

text \<open>A context is its valid span, if any; \<open>gls\<close> is the valid span of the goroutine's stack.\<close>

definition stash_publish_parent :: "bool \<Rightarrow> nat option \<Rightarrow> nat option option \<Rightarrow> amqp_state \<Rightarrow> amqp_state" where
  "stash_publish_parent en ch ctx st =
     (case (ch, ctx) of
        (Some c, Some x) \<Rightarrow> if en then st\<lparr>am_parents := (am_parents st)(c \<mapsto> x)\<rparr> else st
      | _ \<Rightarrow> st)"

definition parent_context :: "nat option \<Rightarrow> nat option \<Rightarrow> amqp_state \<Rightarrow> nat option \<times> amqp_state" where
  "parent_context ch gls st =
     (case ch of
        None \<Rightarrow> (gls, st)
      | Some c \<Rightarrow>
          (let st' = st\<lparr>am_parents := (am_parents st)(c := None)\<rparr>
           in (case am_parents st c of Some (Some x) \<Rightarrow> Some x | _ \<Rightarrow> gls, st')))"

record publishing =
  pb_headers :: amqp_table
  pb_body_size :: int

text \<open>
  The publish hook: \<open>inject\<close> gives the key/value pairs the propagator writes for the new span.
  The result is the parent, the span with its calls, and the message handed to the library.
\<close>

definition publish_with_deferred_confirm ::
  "bool \<Rightarrow> (gostring \<times> gostring) list \<Rightarrow> nat option \<Rightarrow> nat option \<Rightarrow> gostring \<Rightarrow> gostring \<Rightarrow> publishing \<Rightarrow> gostring option \<Rightarrow>
   amqp_state \<Rightarrow> ((nat option \<times> span_start \<times> span_log) option \<times> publishing) \<times> amqp_state" where
  "publish_with_deferred_confirm en inject ch gls exchange key msg err st =
     (if \<not> en then ((None, msg), st)
      else (case parent_context ch gls st of
        (ctx, st') \<Rightarrow>
          ((Some (ctx, amqp_start_span exchange key [] ''send'' (pb_body_size msg) KindProducer, amqp_end_calls err),
            msg\<lparr>pb_headers := fold (\<lambda>(k, v). table_set k v) inject (clone_table (pb_headers msg))\<rparr>), st')))"

interpretation amqp_end: reporting_hook amqp_end_calls "\<lambda>err. err \<noteq> None"
  by unfold_locales (auto simp: amqp_end_calls_def split: option.splits)

section \<open>Runs\<close>

datatype amqp_op =
    OpConsume "nat option" "gostring option" bool
  | OpDeliver "nat option" gostring bool delivery nat
  | OpGet "nat option" gostring bool delivery bool "gostring option"
  | OpChannelSettle "nat option" nat bool "gostring option"
  | OpSettle nat nat bool "gostring option"
  | OpConsumerClosed nat
  | OpStash "nat option" "nat option option"
  | OpPublish "nat option" "nat option" gostring gostring publishing "gostring option"

fun amqp_step :: "bool \<Rightarrow> amqp_op \<Rightarrow> amqp_state \<Rightarrow> amqp_state" where
  "amqp_step en (OpConsume ch err has) st = snd (amqp_consume en ch err has st)"
| "amqp_step en (OpDeliver ch q auto d p) st = snd (start_delivery_span [] ch q auto d (Some p) st)"
| "amqp_step en (OpGet ch q auto d ok err) st = snd (amqp_get en [] ch q auto d ok err st)"
| "amqp_step en (OpChannelSettle ch tag m err) st = channel_settle en ch tag m err st"
| "amqp_step en (OpSettle i tag m err) st = snd (settler_settle en i tag m err st)"
| "amqp_step en (OpConsumerClosed p) st = pending_end_all p st"
| "amqp_step en (OpStash ch ctx) st = stash_publish_parent en ch ctx st"
| "amqp_step en (OpPublish ch gls ex key msg err) st = snd (publish_with_deferred_confirm en [] ch gls ex key msg err st)"

end
