(* ===== verification/Amqp_Props.thy ===== *)
theory Amqp_Props
  imports Amqp
begin

text \<open>
  Properties of the AMQP hooks: a delivery span is ended exactly once, by whichever of its
  acknowledger, its channel or the end of its consumer settles it first, and a consumer
  sees the trace context its producer injected.
\<close>

section \<open>Ending acknowledgers\<close>

lemma settler_end_idem [simp]: "settler_end e (settler_end e' s) = settler_end e' s"
  by (simp add: settler_end_def)

lemma end_settler_sel [simp]:
  "am_pending (end_settler e i st) = am_pending st" "am_next_pending (end_settler e i st) = am_next_pending st"
  "am_next_settler (end_settler e i st) = am_next_settler st"
  "am_channel_acks (end_settler e i st) = am_channel_acks st"
  by (simp_all add: end_settler_def)

lemma fold_end_sel [simp]:
  "am_pending (fold (end_settler e) xs st) = am_pending st"
  "am_next_pending (fold (end_settler e) xs st) = am_next_pending st"
  "am_next_settler (fold (end_settler e) xs st) = am_next_settler st"
  "am_channel_acks (fold (end_settler e) xs st) = am_channel_acks st"
  by (induction xs arbitrary: st) simp_all

lemma fold_end_settlers:
  "am_settlers (fold (end_settler e) xs st) j =
     (if j \<in> set xs then settler_end e (am_settlers st j) else am_settlers st j)"
  by (induction xs arbitrary: st) (auto simp: end_settler_def)

definition settler_ok :: "settler \<Rightarrow> bool" where
  "settler_ok s \<longleftrightarrow> (if sg_once s then (\<exists>e. sg_log s = amqp_end_calls e) else sg_log s = [])"

lemma settler_end_ok: "settler_ok s \<Longrightarrow> settler_ok (settler_end e s)"
  by (auto simp: settler_ok_def settler_end_def)

lemma settler_end_sel [simp]:
  "sg_once (settler_end e s)" "sg_local (settler_end e s) = sg_local s" "sg_channel (settler_end e s) = sg_channel s"
  by (simp_all add: settler_end_def)

section \<open>A tracked delivery\<close>

text \<open>
  The delivery with acknowledger \<open>i\<close> and tag \<open>t\<close>, of the consumer with table \<open>p\<close> on channel \<open>c\<close>
  with table \<open>q\<close>, is ended or registered in both tables.
\<close>

definition tracked_delivery :: "nat \<Rightarrow> nat \<Rightarrow> nat \<Rightarrow> nat \<Rightarrow> nat \<Rightarrow> amqp_state \<Rightarrow> bool" where
  "tracked_delivery i t p c q st \<longleftrightarrow>
     i < am_next_settler st \<and> p < am_next_pending st \<and> q < am_next_pending st \<and>
     am_channel_acks st c = Some q \<and>
     sg_local (am_settlers st i) = Some p \<and> sg_channel (am_settlers st i) = Some q \<and>
     (sg_once (am_settlers st i) \<or> map_of (am_pending st p) t = Some i \<and> map_of (am_pending st q) t = Some i)"

definition amqp_inv :: "amqp_state \<Rightarrow> bool" where
  "amqp_inv st \<longleftrightarrow> (\<forall>i. settler_ok (am_settlers st i)) \<and>
     (\<forall>c q. am_channel_acks st c = Some q \<longrightarrow> q < am_next_pending st)"

lemma map_of_filter_key: "map_of (filter (\<lambda>(t, s). P t) xs) t = (if P t then map_of xs t else None)"
  by (induction xs) auto

lemma pending_settle_sel [simp]:
  "am_next_pending (pending_settle p t m e st) = am_next_pending st"
  "am_next_settler (pending_settle p t m e st) = am_next_settler st"
  "am_channel_acks (pending_settle p t m e st) = am_channel_acks st"
  by (simp_all add: pending_settle_def Let_def)

lemma pending_settle_pending:
  "map_of (am_pending (pending_settle p tag m e st) p') t =
     (if p' = p \<and> (if m then t \<le> tag else t = tag) then None else map_of (am_pending st p') t)"
  by (simp add: pending_settle_def Let_def map_of_filter_key)

lemma pending_settle_settlers:
  "am_settlers (pending_settle p tag m e st) j =
     (if \<exists>t. (t, j) \<in> set (am_pending st p) \<and> (if m then t \<le> tag else t = tag)
      then settler_end e (am_settlers st j) else am_settlers st j)"
  by (auto simp: pending_settle_def Let_def fold_end_settlers image_iff split: if_splits)

lemma settle_hits:
  "map_of (am_pending st p) t = Some i \<Longrightarrow> (if m then t \<le> tag else t = tag) \<Longrightarrow>
   am_settlers (pending_settle p tag m e st) i = settler_end e (am_settlers st i)"
  by (metis map_of_SomeD pending_settle_settlers)

lemma settle_keeps:
  "sg_local (am_settlers (pending_settle p tag m e st) i) = sg_local (am_settlers st i)"
  "sg_channel (am_settlers (pending_settle p tag m e st) i) = sg_channel (am_settlers st i)"
  "sg_once (am_settlers st i) \<Longrightarrow> sg_once (am_settlers (pending_settle p tag m e st) i)"
  by (simp_all add: pending_settle_settlers)

lemma settle_inv: "amqp_inv st \<Longrightarrow> amqp_inv (pending_settle p tag m e st)"
  by (auto simp: amqp_inv_def pending_settle_settlers settler_end_ok)

lemma settle_tracked:
  "tracked_delivery i t p c q st \<Longrightarrow> tracked_delivery i t p c q (pending_settle p' tag m e st)"
proof -
  assume tr: "tracked_delivery i t p c q st"
  let ?st = "pending_settle p' tag m e st"
  have "sg_once (am_settlers ?st i) \<or> map_of (am_pending ?st p) t = Some i \<and> map_of (am_pending ?st q) t = Some i"
  proof (cases "sg_once (am_settlers st i)")
    case False
    then have maps: "map_of (am_pending st p) t = Some i" "map_of (am_pending st q) t = Some i"
      using tr by (auto simp: tracked_delivery_def)
    show ?thesis
    proof (cases "(p' = p \<or> p' = q) \<and> (if m then t \<le> tag else t = tag)")
      case True
      then have "am_settlers ?st i = settler_end e (am_settlers st i)"
        using maps by (intro settle_hits [of st p' t i m tag e]) auto
      then show ?thesis by simp
    next
      case False
      then show ?thesis unfolding pending_settle_pending using maps by auto
    qed
  qed (simp add: settle_keeps)
  then show "tracked_delivery i t p c q ?st" using tr by (simp add: tracked_delivery_def settle_keeps)
qed

lemma end_all_pending: "am_pending (pending_end_all p st) p' = (if p' = p then [] else am_pending st p')"
  by (simp add: pending_end_all_def)

lemma end_all_settlers:
  "am_settlers (pending_end_all p st) j =
     (if j \<in> snd ` set (am_pending st p) then settler_end None (am_settlers st j) else am_settlers st j)"
  by (simp add: pending_end_all_def fold_end_settlers)

lemma end_all_sel [simp]:
  "am_next_pending (pending_end_all p st) = am_next_pending st"
  "am_next_settler (pending_end_all p st) = am_next_settler st"
  "am_channel_acks (pending_end_all p st) = am_channel_acks st"
  by (simp_all add: pending_end_all_def)

lemma end_all_inv: "amqp_inv st \<Longrightarrow> amqp_inv (pending_end_all p st)"
  by (auto simp: amqp_inv_def end_all_settlers settler_end_ok)

lemma end_all_hits: "map_of (am_pending st p) t = Some i \<Longrightarrow> sg_once (am_settlers (pending_end_all p st) i)"
  by (force simp: end_all_settlers dest: map_of_SomeD)

lemma end_all_tracked: "tracked_delivery i t p c q st \<Longrightarrow> tracked_delivery i t p c q (pending_end_all p' st)"
  using end_all_hits [of st p' t i] by (auto simp: tracked_delivery_def end_all_settlers end_all_pending)

section \<open>Steps that neither settle nor reuse the tag\<close>

lemma acks_for_props:
  assumes "acks_for c st = (q, st')" "amqp_inv st"
  shows "am_settlers st' = am_settlers st" "am_next_settler st' = am_next_settler st" "am_channel_acks st' c = Some q"
    "amqp_inv st'" "q < am_next_pending st'" "am_next_pending st \<le> am_next_pending st'"
    "p < am_next_pending st \<Longrightarrow> am_pending st' p = am_pending st p"
    "am_channel_acks st c' = Some q' \<Longrightarrow> am_channel_acks st' c' = Some q'"
  using assms by (auto simp: acks_for_def Let_def amqp_inv_def less_Suc_eq split: option.splits if_splits)

definition fresh_settler :: "delivery \<Rightarrow> nat option \<Rightarrow> nat option \<Rightarrow> settler" where
  "fresh_settler d local chp = \<lparr>sg_inner = dl_inner d, sg_once = False, sg_log = [], sg_local = local, sg_channel = chp\<rparr>"

lemma start_delivery_cases:
  assumes "start_delivery_span f ch queue auto d local st = (r, st')" "amqp_inv st"
  obtains (auto_ack) "st' = st"
  | (tracked) chp st1 where
    "r = (extract_parent f (dl_headers d), amqp_start_span (dl_exchange d) (dl_key d) queue ''process'' (dl_body_size d) KindConsumer,
          [], Some (am_next_settler st))"
    "am_settlers st1 = am_settlers st" "amqp_inv st1" "am_next_pending st \<le> am_next_pending st1"
    "\<And>p. p < am_next_pending st \<Longrightarrow> am_pending st1 p = am_pending st p"
    "\<And>c q. am_channel_acks st c = Some q \<Longrightarrow> am_channel_acks st1 c = Some q"
    "case (ch, chp) of (None, None) \<Rightarrow> True | (Some c, Some q) \<Rightarrow> am_channel_acks st1 c = Some q \<and> q < am_next_pending st1 | _ \<Rightarrow> False"
    "am_settlers st' = (am_settlers st)(am_next_settler st := fresh_settler d local chp)"
    "am_next_settler st' = Suc (am_next_settler st)"
    "am_next_pending st' = am_next_pending st1" "am_channel_acks st' = am_channel_acks st1"
    "\<And>p t. map_of (am_pending st' p) t =
       (if t = dl_tag d \<and> (local = Some p \<or> chp = Some p) then Some (am_next_settler st) else map_of (am_pending st1 p) t)"
proof (cases auto)
  case True
  then show ?thesis using assms auto_ack by (simp add: start_delivery_span_def Let_def)
next
  case False
  obtain chp st1 where acks: "(case ch of None \<Rightarrow> (None, st) | Some c \<Rightarrow> (case acks_for c st of (p, st') \<Rightarrow> (Some p, st'))) = (chp, st1)"
    by (metis surj_pair)
  have chp: "(ch = None \<and> chp = None \<and> st1 = st) \<or> (\<exists>c q. ch = Some c \<and> chp = Some q \<and> acks_for c st = (q, st1))"
    using acks by (auto split: option.splits prod.splits)
  let ?i = "am_next_settler st"
  let ?st2 = "st1\<lparr>am_settlers := (am_settlers st1)(?i := fresh_settler d local chp), am_next_settler := Suc ?i\<rparr>"
  let ?st3 = "case local of Some p \<Rightarrow> pending_add p (dl_tag d) ?i ?st2 | None \<Rightarrow> ?st2"
  let ?st4 = "case chp of Some p \<Rightarrow> pending_add p (dl_tag d) ?i ?st3 | None \<Rightarrow> ?st3"
  have res: "r = (extract_parent f (dl_headers d), amqp_start_span (dl_exchange d) (dl_key d) queue ''process'' (dl_body_size d) KindConsumer,
          [], Some ?i)" "st' = ?st4"
    using assms(1) False unfolding start_delivery_span_def Let_def acks fresh_settler_def by simp_all
  have st1: "am_settlers st1 = am_settlers st" "amqp_inv st1" "am_next_pending st \<le> am_next_pending st1"
    "\<And>p. p < am_next_pending st \<Longrightarrow> am_pending st1 p = am_pending st p"
    "\<And>c q. am_channel_acks st c = Some q \<Longrightarrow> am_channel_acks st1 c = Some q"
    "case (ch, chp) of (None, None) \<Rightarrow> True | (Some c, Some q) \<Rightarrow> am_channel_acks st1 c = Some q \<and> q < am_next_pending st1 | _ \<Rightarrow> False"
    using chp acks_for_props [OF _ assms(2)] assms(2) by (auto split: option.splits)
  have fin: "am_settlers st' = (am_settlers st)(?i := fresh_settler d local chp)" "am_next_settler st' = Suc ?i"
    "am_next_pending st' = am_next_pending st1" "am_channel_acks st' = am_channel_acks st1"
    "\<And>p t. map_of (am_pending st' p) t =
       (if t = dl_tag d \<and> (local = Some p \<or> chp = Some p) then Some ?i else map_of (am_pending st1 p) t)"
    using res(2) st1(1) by (cases local; cases chp; auto simp: pending_add_def update_conv)+
  show ?thesis by (rule tracked [OF res(1) st1 fin])
qed

lemma start_delivery_inv:
  assumes "amqp_inv st"
  shows "amqp_inv (snd (start_delivery_span f ch queue auto d local st))"
proof -
  obtain r st' where eq: "start_delivery_span f ch queue auto d local st = (r, st')" by (metis surj_pair)
  show ?thesis
  proof (cases rule: start_delivery_cases [OF eq assms, case_names auto_ack tracked])
    case auto_ack
    then show ?thesis using eq assms by simp
  next
    case (tracked chp st1)
    have "settler_ok (fresh_settler d local chp)" by (simp add: settler_ok_def fresh_settler_def)
    then show ?thesis using eq tracked assms by (auto simp: amqp_inv_def)
  qed
qed

lemma start_delivery_tracked:
  assumes "amqp_inv st" "tracked_delivery i t p c q st" "auto \<or> dl_tag d \<noteq> t"
  shows "tracked_delivery i t p c q (snd (start_delivery_span f ch queue auto d local st))"
proof -
  obtain r st' where eq: "start_delivery_span f ch queue auto d local st = (r, st')" by (metis surj_pair)
  show ?thesis
  proof (cases "auto")
    case True
    then show ?thesis using eq assms(2) by (auto simp: start_delivery_span_def Let_def)
  next
    case False
    then have ne: "t \<noteq> dl_tag d" using assms(3) by auto
    show ?thesis
    proof (cases rule: start_delivery_cases [OF eq assms(1), case_names auto_ack tracked])
      case auto_ack
      then show ?thesis using eq assms(2) by simp
    next
      case (tracked chp st1)
      have "am_pending st1 p = am_pending st p" "am_pending st1 q = am_pending st q" "am_channel_acks st1 c = Some q"
        "p < am_next_pending st1" "q < am_next_pending st1" "i \<noteq> am_next_settler st"
        using tracked(4-6) assms(2) by (auto simp: tracked_delivery_def)
      then show ?thesis using eq tracked(8-12) assms(2) ne by (simp add: tracked_delivery_def)
    qed
  qed
qed

lemma consume_tracked:
  "tracked_delivery i t p c q st \<Longrightarrow> tracked_delivery i t p c q (snd (amqp_consume en ch e h st))"
  by (auto simp: amqp_consume_def new_consumer_def Let_def tracked_delivery_def)

lemma channel_settle_inv: "amqp_inv st \<Longrightarrow> amqp_inv (channel_settle en ch tag m e st)"
  by (auto simp: channel_settle_def settle_inv split: option.split)

lemma channel_settle_tracked:
  "tracked_delivery i t p c q st \<Longrightarrow> tracked_delivery i t p c q (channel_settle en ch tag m e st)"
  by (auto simp: channel_settle_def settle_tracked split: option.split)

lemma end_settler_inv: "amqp_inv st \<Longrightarrow> amqp_inv (end_settler e j st)"
  by (auto simp: amqp_inv_def end_settler_def settler_end_ok)

lemma end_settler_tracked: "tracked_delivery i t p c q st \<Longrightarrow> tracked_delivery i t p c q (end_settler e j st)"
  by (auto simp: tracked_delivery_def end_settler_def)

lemma finish_inv: "amqp_inv st \<Longrightarrow> amqp_inv (settler_finish j tag m e st)"
  by (auto simp: settler_finish_def Let_def intro!: settle_inv end_settler_inv split: option.split)

lemma finish_tracked: "tracked_delivery i t p c q st \<Longrightarrow> tracked_delivery i t p c q (settler_finish j tag m e st)"
  by (auto simp: settler_finish_def Let_def intro!: settle_tracked end_settler_tracked split: option.split)

lemma settler_settle_eq:
  "\<exists>e' st1. settler_settle en j tag m e st = (e', settler_finish j tag m e' st1) \<and>
     (st1 = st \<or> (\<exists>ch. st1 = channel_settle en (Some ch) tag m e st)) \<and>
     (sg_inner (am_settlers st j) \<noteq> InnerNil \<longrightarrow> e' = e)"
  by (cases "sg_inner (am_settlers st j)") (auto simp: settler_settle_def call_inner_def)

lemma settler_settle_inv: "amqp_inv st \<Longrightarrow> amqp_inv (snd (settler_settle en j tag m e st))"
  using settler_settle_eq [of en j tag m e st] by (auto simp: finish_inv channel_settle_inv)

lemma settler_settle_tracked:
  "tracked_delivery i t p c q st \<Longrightarrow> tracked_delivery i t p c q (snd (settler_settle en j tag m e st))"
  using settler_settle_eq [of en j tag m e st] by (auto simp: finish_tracked channel_settle_tracked)

fun reuses_tag :: "nat \<Rightarrow> amqp_op \<Rightarrow> bool" where
  "reuses_tag t (OpDeliver ch q auto d p) = (dl_tag d = t)"
| "reuses_tag t (OpGet ch q auto d ok e) = (dl_tag d = t)"
| "reuses_tag t _ = False"

lemma amqp_step_inv: "amqp_inv st \<Longrightarrow> amqp_inv (amqp_step en x st)"
proof (cases x)
  case (OpConsume ch e h)
  then show "amqp_inv st \<Longrightarrow> ?thesis"
    by (auto simp: amqp_consume_def new_consumer_def Let_def amqp_inv_def less_Suc_eq)
next
  case (OpGet ch q auto d ok e)
  assume "amqp_inv st"
  then show ?thesis
    using OpGet start_delivery_inv [of st "[]" ch q auto d None] by (auto simp: amqp_get_def split: prod.split)
next
  case (OpStash ch ctx)
  then show "amqp_inv st \<Longrightarrow> ?thesis"
    by (auto simp: stash_publish_parent_def amqp_inv_def split: option.split)
next
  case (OpPublish ch gls ex key msg e)
  then show "amqp_inv st \<Longrightarrow> ?thesis"
    by (auto simp: publish_with_deferred_confirm_def parent_context_def Let_def amqp_inv_def split: option.split)
qed (simp_all add: start_delivery_inv channel_settle_inv settler_settle_inv end_all_inv)

lemma amqp_step_tracked:
  assumes "amqp_inv st" "tracked_delivery i t p c q st" "\<not> reuses_tag t x"
  shows "tracked_delivery i t p c q (amqp_step en x st)"
proof (cases x)
  case (OpGet ch q' auto d ok e)
  then show ?thesis
    using assms start_delivery_tracked [of st i t p c q auto d "[]" ch q' None]
    by (auto simp: amqp_get_def split: prod.split)
next
  case (OpStash ch ctx)
  then show ?thesis using assms
    by (auto simp: stash_publish_parent_def tracked_delivery_def split: option.split)
next
  case (OpPublish ch gls ex key msg e)
  then show ?thesis using assms
    by (auto simp: publish_with_deferred_confirm_def parent_context_def Let_def tracked_delivery_def split: option.split)
qed (use assms in \<open>simp_all add: start_delivery_tracked channel_settle_tracked settler_settle_tracked
  end_all_tracked consume_tracked\<close>)

interpretation amqp_sys: invariant_system "amqp_step en" "\<lambda>_ _. True" amqp_inv
  by unfold_locales (rule amqp_step_inv)

interpretation amqp_track: invariant_system "amqp_step en" "\<lambda>x _. \<not> reuses_tag t x"
  "\<lambda>st. amqp_inv st \<and> tracked_delivery i t p c q st"
  by unfold_locales (simp add: amqp_step_inv amqp_step_tracked)

lemma amqp_init_inv: "amqp_inv amqp_init"
  by (simp add: amqp_inv_def amqp_init_def settler_ok_def zero_settler_def)

section \<open>Deliveries are settled\<close>

lemma finish_ends_own:
  assumes "tracked_delivery i t p c q st"
  shows "sg_once (am_settlers (settler_finish i t m e st) i)"
proof -
  let ?st1 = "pending_settle p t m e st"
  have "sg_once (am_settlers ?st1 i)"
    using assms settle_hits [of st p t i m t e] by (auto simp: tracked_delivery_def settle_keeps split: if_splits)
  then show ?thesis using assms by (simp add: settler_finish_def Let_def tracked_delivery_def settle_keeps)
qed

lemma start_delivery_starts_tracking:
  assumes "start_delivery_span f (Some c) queue False d (Some p) st = ((par, sp, lg, Some i), st')" "amqp_inv st"
    "p < am_next_pending st"
  shows "\<exists>q. tracked_delivery i (dl_tag d) p c q st'"
proof (cases rule: start_delivery_cases [OF assms(1,2), case_names auto_ack tracked])
  case auto_ack
  then have "am_next_settler st' = am_next_settler st" by simp
  moreover have "am_next_settler st' = Suc (am_next_settler st)"
    using assms(1) by (auto simp: start_delivery_span_def Let_def acks_for_def pending_add_def split: option.splits prod.splits)
  ultimately show ?thesis by simp
next
  case (tracked chp st1)
  then obtain q where q: "chp = Some q" "am_channel_acks st1 c = Some q" "q < am_next_pending st1"
    by (cases chp) auto
  then have "tracked_delivery (am_next_settler st) (dl_tag d) p c q st'"
    using tracked(4,8-12) assms(3) by (simp add: tracked_delivery_def fresh_settler_def)
  then show ?thesis using tracked(1) by auto
qed


definition demo_delivery :: delivery where
  "demo_delivery = \<lparr>dl_tag = 1, dl_exchange = [], dl_key = ''k'', dl_body_size = 0, dl_headers = None, dl_inner = InnerOther\<rparr>"


text \<open>
  An acknowledgement of everything outstanding, which AMQP 0-9-1 writes as tag 0 with the multiple flag, settles
  nothing: the hook only ends deliveries whose tag is at most 0, and tags start at 1, so all
  spans pending on the channel stay open.
\<close>
theorem amqp_ack_all_settles_nothing:
  assumes "am_channel_acks st c = Some q" and "\<forall>(t, s) \<in> set (am_pending st q). t \<noteq> 0"
  shows "channel_ack True (Some c) 0 True err st = st"
proof -
  have "filter (\<lambda>(t, s). t \<le> 0) (am_pending st q) = []" "filter (\<lambda>(t, s). \<not> t \<le> 0) (am_pending st q) = am_pending st q"
    using assms(2) by (auto simp: filter_empty_conv intro!: filter_True)
  then show ?thesis
    using assms(1) by (simp add: channel_ack_def channel_settle_def acks_lookup_def pending_settle_def Let_def)
qed

theorem amqp_ack_all_settles_nothing_witness:
  "let st = amqp_init\<lparr>am_channel_acks := [7 \<mapsto> 0], am_pending := (\<lambda>_. [(1, 0)])\<rparr>
   in channel_ack True (Some 7) 0 True None st = st"
  using amqp_ack_all_settles_nothing [of "amqp_init\<lparr>am_channel_acks := [7 \<mapsto> 0], am_pending := (\<lambda>_. [(1, 0)])\<rparr>" 7 0 None]
  by simp

text \<open>
  What a producer injects a consumer extracts: for the distinct keys its propagator writes, a
  delivery with the headers of the published message has exactly those values as its parent,
  and every other header is the caller's.
\<close>
theorem amqp_context_propagates:
  assumes "distinct (map fst inject)"
    and "publish_with_deferred_confirm True inject ch gls exchange key msg err st = ((r, msg'), st')"
  shows "extract_parent (map fst inject) (pb_headers msg') = map snd inject \<and>
    (\<forall>k. k \<notin> fst ` set inject \<longrightarrow> table_get (pb_headers msg') k = table_get (pb_headers msg) k)"
proof -
  have h: "pb_headers msg' = fold (\<lambda>(k, v). table_set k v) inject (clone_table (pb_headers msg))"
    using assms(2) by (auto simp: publish_with_deferred_confirm_def split: prod.splits)
  have "table_get (clone_table (pb_headers msg)) k = table_get (pb_headers msg) k" for k
    by (cases "pb_headers msg") (simp_all add: table_get_def clone_table_def)
  then show ?thesis
    using assms(1) amqp_carrier.extract_inject [of inject] amqp_carrier.get_inject_other [of _ inject]
    by (simp add: h extract_parent_def comp_def)
qed

theorem amqp_context_propagates_witness:
  "extract_parent [''traceparent''] (pb_headers (snd (fst (publish_with_deferred_confirm True [(''traceparent'', ''00-1'')]
      None None ''e'' ''k'' \<lparr>pb_headers = None, pb_body_size = 3\<rparr> None amqp_init)))) = [''00-1'']"
proof -
  let ?p = "publish_with_deferred_confirm True [(''traceparent'', ''00-1'')] None None ''e'' ''k''
    \<lparr>pb_headers = None, pb_body_size = 3\<rparr> None amqp_init"
  have "?p = ((fst (fst ?p), snd (fst ?p)), snd ?p)" by simp
  from amqp_context_propagates [OF _ this] show ?thesis by simp
qed

end
