(* ===== verification/Net_Http.thy ===== *)
theory Net_Http
  imports Hook_Support Go_Net
begin

text \<open>
  Model of \<open>otelc/plugins/nethttp\<close> and \<open>otelc/httpapi\<close>: the client hook on
  \<open>Transport.RoundTrip\<close>, the server hook on \<open>serverHandler.ServeHTTP\<close> with the response writer
  it wraps, and their attributes.  What the hooks use of \<open>net/http\<close> is modelled too: the header
  map with its canonical keys, and a response (\<open>response\<close> in \<open>net/http\<close>), to which
  informational headers can be written before the final one.  \<open>URL.String\<close> is a parameter.
\<close>

section \<open>Headers\<close>

type_synonym http_header = "(gostring \<rightharpoonup> gostring list) option"

definition header_field_byte :: "char \<Rightarrow> bool" where
  "header_field_byte c \<longleftrightarrow> is_alpha c \<or> is_digit c \<or> c \<in> set ''!#$%&*+-.^_|~'' \<or>
     (of_char c :: nat) = 39 \<or> (of_char c :: nat) = 96"

fun canonical_from :: "bool \<Rightarrow> gostring \<Rightarrow> gostring" where
  "canonical_from upper [] = []"
| "canonical_from upper (c # s) =
     (if upper then ascii_upper c else ascii_lower c) # canonical_from (c = CHR ''-'') s"

definition canonical_key :: "gostring \<Rightarrow> gostring" where
  "canonical_key k = (if list_all header_field_byte k then canonical_from True k else k)"

definition header_get :: "http_header \<Rightarrow> gostring \<Rightarrow> gostring" where
  "header_get h key =
     (case h of
        None \<Rightarrow> []
      | Some m \<Rightarrow> (case m (canonical_key key) of Some (v # _) \<Rightarrow> v | _ \<Rightarrow> []))"

text \<open>Setting a key of a nil map panics; the client hook makes the map first.\<close>

definition header_set :: "gostring \<Rightarrow> gostring \<Rightarrow> (gostring \<rightharpoonup> gostring list) \<Rightarrow> gostring \<rightharpoonup> gostring list" where
  "header_set key value m = m(canonical_key key \<mapsto> [value])"

interpretation http_carrier: text_map_carrier "\<lambda>m. header_get (Some m)" header_set canonical_key
  by unfold_locales (auto simp: header_get_def header_set_def)

section \<open>Methods, hosts and protocols\<close>

definition http_method_lookup :: "gostring list" where
  "http_method_lookup = [''CONNECT'', ''DELETE'', ''GET'', ''HEAD'', ''OPTIONS'', ''PATCH'', ''POST'', ''PUT'', ''TRACE'']"

definition http_known_methods :: "go_env \<Rightarrow> gostring list" where
  "http_known_methods env =
     (let v = env ''OTEL_INSTRUMENTATION_HTTP_KNOWN_METHODS''
      in if v \<noteq> [] then filter (\<lambda>m. m \<noteq> []) (map trim_space (split_on CHR '','' v))
         else http_method_lookup)"

definition standardize_http_method :: "gostring list \<Rightarrow> gostring \<Rightarrow> gostring" where
  "standardize_http_method known m =
     (if m \<in> set known then m
      else if to_upper m \<in> set known then to_upper m
      else ''_OTHER'')"

text \<open>The method attribute and, when it differs, the original method.\<close>

definition request_method_attrs :: "gostring list \<Rightarrow> gostring \<Rightarrow> (gostring \<times> attr_value) \<times> (gostring \<times> attr_value) option" where
  "request_method_attrs known m =
     (let other = (''http.request.method'', StrV ''_OTHER''); original = (''http.request.method_original'', StrV m)
      in if m = [] then (other, None)
         else if m \<in> set known then ((''http.request.method'', StrV m), None)
         else if to_upper m \<in> set known then ((''http.request.method'', StrV (to_upper m)), Some original)
         else if m = ''_OTHER'' then (other, None)
         else (other, Some original))"

definition otelc_span_method :: "gostring list \<Rightarrow> gostring \<Rightarrow> gostring" where
  "otelc_span_method known m =
     (let s = standardize_http_method known m in if s = ''_OTHER'' then ''HTTP'' else s)"

definition otelc_http_client_span_name :: "gostring list \<Rightarrow> gostring \<Rightarrow> gostring" where
  "otelc_http_client_span_name known m = otelc_span_method known m"

definition otelc_http_server_scheme :: "bool \<Rightarrow> gostring \<times> attr_value" where
  "otelc_http_server_scheme https = (''url.scheme'', StrV (if https then ''https'' else ''http''))"

declare otelc_http_client_span_name_def [simp] otelc_http_server_scheme_def [simp]

text \<open>The slice between the brackets is in range: the closing one is not at index 0.\<close>

definition otelc_split_host_port :: "gostring \<Rightarrow> gostring \<times> int" where
  "otelc_split_host_port hostport =
     (let full = (case split_host_port hostport of
                    None \<Rightarrow> ([], -1)
                  | Some (host, p_str) \<Rightarrow> (case parse_uint16 p_str of None \<Rightarrow> (host, -1) | Some p \<Rightarrow> (host, int p)))
      in if has_prefix hostport ''[''
         then (case last_index_byte hostport CHR '']'' of
                 None \<Rightarrow> ([], -1)
               | Some addr_end \<Rightarrow>
                   if CHR '':'' \<notin> set (drop addr_end hostport) then (drop 1 (take addr_end hostport), -1) else full)
         else if CHR '':'' \<notin> set hostport then (hostport, -1)
         else full)"

definition required_http_port :: "bool \<Rightarrow> int \<Rightarrow> int" where
  "required_http_port https port =
     (if https then (if port > 0 \<and> port \<noteq> 443 then port else -1)
      else (if port > 0 \<and> port \<noteq> 80 then port else -1))"

definition server_client_ip :: "gostring \<Rightarrow> gostring" where
  "server_client_ip xff = (case index_byte xff CHR '','' of Some i \<Rightarrow> take i xff | None \<Rightarrow> xff)"

definition otelc_http_route :: "gostring \<Rightarrow> gostring" where
  "otelc_http_route pattern = (case index_byte pattern CHR ''/'' of Some i \<Rightarrow> drop i pattern | None \<Rightarrow> [])"

definition net_protocol :: "gostring \<Rightarrow> gostring \<times> gostring" where
  "net_protocol proto =
     (case str_cut proto CHR ''/'' of
        (name, version, _) \<Rightarrow>
          (if name = ''HTTP'' then ''http'' else if name = ''QUIC'' then ''quic''
           else if name = ''SPDY'' then ''spdy'' else to_lower name, version))"

definition otelc_http_server_span_name :: "gostring list \<Rightarrow> gostring \<Rightarrow> gostring \<Rightarrow> gostring" where
  "otelc_http_server_span_name known m route =
     (if route \<noteq> [] then otelc_span_method known m @ '' '' @ route else otelc_span_method known m)"

section \<open>Requests\<close>

record http_url =
  hu_scheme :: gostring
  hu_user :: "gostring option"
  hu_host :: gostring
  hu_path :: gostring
  hu_raw_query :: gostring

record http_request =
  hr_method :: gostring
  hr_url :: "http_url option"
  hr_host :: gostring
  hr_header :: http_header
  hr_proto :: gostring
  hr_remote_addr :: gostring
  hr_tls :: bool
  hr_pattern :: gostring
  hr_ctx :: go_ctx

definition opt_attr :: "bool \<Rightarrow> gostring \<Rightarrow> attr_value \<Rightarrow> attrs" where
  "opt_attr b k v = (if b then [(k, v)] else [])"

definition list_of :: "'a option \<Rightarrow> 'a list" where
  "list_of x = (case x of Some a \<Rightarrow> [a] | None \<Rightarrow> [])"

definition http_server_request_trace_attrs :: "gostring list \<Rightarrow> gostring \<Rightarrow> http_request \<Rightarrow> attrs" where
  "http_server_request_trace_attrs known server req =
     (let (host, p) =
        (if server = [] then otelc_split_host_port (hr_host req)
         else let (h, q) = otelc_split_host_port server
              in if q < 0 then (h, snd (otelc_split_host_port (hr_host req))) else (h, q));
          host_port = required_http_port (hr_tls req) p;
          (m, original) = request_method_attrs known (hr_method req);
          (peer, peer_port) = otelc_split_host_port (hr_remote_addr req);
          useragent = header_get (hr_header req) ''User-Agent'';
          ip0 = server_client_ip (header_get (hr_header req) ''X-Forwarded-For'');
          client_ip = (if ip0 = [] then peer else ip0);
          path = (case hr_url req of Some u \<Rightarrow> hu_path u | None \<Rightarrow> []);
          query = (case hr_url req of Some u \<Rightarrow> hu_raw_query u | None \<Rightarrow> []);
          (proto_name, proto_version) = net_protocol (hr_proto req);
          route = otelc_http_route (hr_pattern req)
      in [(''server.address'', StrV host), m, otelc_http_server_scheme (hr_tls req)]
         @ opt_attr (host_port > 0) ''server.port'' (IntV host_port)
         @ list_of original
         @ opt_attr (peer \<noteq> []) ''network.peer.address'' (StrV peer)
         @ opt_attr (peer \<noteq> [] \<and> peer_port > 0) ''network.peer.port'' (IntV peer_port)
         @ opt_attr (useragent \<noteq> []) ''user_agent.original'' (StrV useragent)
         @ opt_attr (client_ip \<noteq> []) ''client.address'' (StrV client_ip)
         @ opt_attr (path \<noteq> []) ''url.path'' (StrV path)
         @ opt_attr (query \<noteq> []) ''url.query'' (StrV query)
         @ opt_attr (proto_name \<noteq> [] \<and> proto_name \<noteq> ''http'') ''network.protocol.name'' (StrV proto_name)
         @ opt_attr (proto_version \<noteq> []) ''network.protocol.version'' (StrV proto_version)
         @ opt_attr (route \<noteq> []) ''http.route'' (StrV route))"

definition http_server_response_trace_attrs :: "int \<Rightarrow> int \<Rightarrow> attrs" where
  "http_server_response_trace_attrs code bytes =
     opt_attr (bytes > 0) ''http.response.body.size'' (IntV bytes)
     @ opt_attr (code > 0) ''http.response.status_code'' (IntV code)
     @ opt_attr (code \<ge> 500 \<and> code < 600) ''error.type'' (StrV (go_itoa code))"

definition invalid_status_text :: "int \<Rightarrow> gostring" where
  "invalid_status_text code = ''Invalid HTTP status code '' @ go_itoa code"

definition http_server_status :: "int \<Rightarrow> status_code \<times> gostring" where
  "http_server_status code =
     (if code < 100 \<or> code \<ge> 600 then (StatusError, invalid_status_text code)
      else if code \<ge> 500 then (StatusError, [])
      else (StatusUnset, []))"

text \<open>The first of the URL's host and the \<open>Host\<close> header that names a host or port, else the last tried.\<close>

fun first_host :: "gostring list \<Rightarrow> gostring \<times> int \<Rightarrow> gostring \<times> int" where
  "first_host [] cur = cur"
| "first_host (hp # hps) cur =
     (case otelc_split_host_port hp of (h, p) \<Rightarrow> if h \<noteq> [] \<or> p > 0 then (h, p) else first_host hps (h, p))"

text \<open>The attributes of a client span and the request, whose URL's user is removed while it is printed.\<close>

definition http_client_request_trace_attrs ::
  "(http_url \<Rightarrow> gostring) \<Rightarrow> gostring list \<Rightarrow> http_request \<Rightarrow> attrs \<times> http_request" where
  "http_client_request_trace_attrs url_string known req =
     (let url_host = (case hr_url req of Some u \<Rightarrow> hu_host u | None \<Rightarrow> []);
          (request_host, request_port) = first_host [url_host, header_get (hr_header req) ''Host''] ([], 0);
          https = (case hr_url req of Some u \<Rightarrow> hu_scheme u = ''https'' | None \<Rightarrow> False);
          eligible_port = required_http_port https request_port;
          (proto_name, proto_version) = net_protocol (hr_proto req);
          (m, original) = request_method_attrs known (hr_method req);
          useragent = header_get (hr_header req) ''User-Agent'';
          (full, req') =
            (case hr_url req of
               None \<Rightarrow> ([], req)
             | Some u \<Rightarrow>
                 let userinfo = hu_user u; req1 = req\<lparr>hr_url := Some (u\<lparr>hu_user := None\<rparr>)\<rparr>;
                     s = (case hr_url req1 of Some u1 \<Rightarrow> url_string u1 | None \<Rightarrow> [])
                 in (s, req1\<lparr>hr_url := map_option (\<lambda>u1. u1\<lparr>hu_user := userinfo\<rparr>) (hr_url req1)\<rparr>));
          scheme = (case hr_url req of Some u \<Rightarrow> if hu_scheme u \<noteq> [] then hu_scheme u else ''http'' | None \<Rightarrow> ''http'')
      in ([m] @ list_of original
          @ [(''url.full'', StrV full), (''server.address'', StrV request_host)]
          @ opt_attr (eligible_port > 0) ''server.port'' (IntV eligible_port)
          @ [(''url.scheme'', StrV scheme)]
          @ opt_attr (proto_name \<noteq> [] \<and> proto_name \<noteq> ''http'') ''network.protocol.name'' (StrV proto_name)
          @ opt_attr (proto_version \<noteq> []) ''network.protocol.version'' (StrV proto_version)
          @ opt_attr (useragent \<noteq> []) ''user_agent.original'' (StrV useragent), req'))"

definition is_error_status_code :: "int \<Rightarrow> bool" where
  "is_error_status_code code \<longleftrightarrow> code \<ge> 400 \<or> code < 100"

definition http_client_response_trace_attrs :: "int \<Rightarrow> attrs" where
  "http_client_response_trace_attrs code =
     opt_attr (code > 0) ''http.response.status_code'' (IntV code)
     @ opt_attr (is_error_status_code code) ''error.type'' (StrV (go_itoa code))"

definition http_client_status :: "int \<Rightarrow> status_code \<times> gostring" where
  "http_client_status code =
     (if code < 100 \<or> code \<ge> 600 then (StatusError, invalid_status_text code)
      else if code \<ge> 400 then (StatusError, [])
      else (StatusUnset, []))"

text \<open>An error: its text, and what reflection says of its type (package path, name, string).\<close>

record http_error =
  he_text :: gostring
  he_pkg :: gostring
  he_name :: gostring
  he_type_string :: gostring

definition http_client_error_type :: "http_error \<Rightarrow> gostring \<times> attr_value" where
  "http_client_error_type e =
     (let value = (if he_pkg e = [] \<and> he_name e = [] then he_type_string e else he_pkg e @ ''.'' @ he_name e)
      in (''error.type'', StrV (if value = [] then ''_OTHER'' else value)))"

definition is_otel_exporter_request :: "http_request \<Rightarrow> bool" where
  "is_otel_exporter_request req \<longleftrightarrow>
     (let ua = header_get (hr_header req) ''User-Agent''
      in has_prefix ua ''OTel OTLP Exporter Go'' \<or> has_prefix ua ''OTel Go OTLP'' \<or> has_prefix ua ''OTel-Go-OTLP'')"

section \<open>The client hook\<close>

text \<open>
  \<open>RoundTrip\<close> before the original body: the parent values extracted, the span, and the request it goes
  on with; \<open>None\<close> when there is no span (the request may be nil).  \<open>inject\<close> is what the
  propagator writes for the new span, \<open>f\<close> the fields it reads.
\<close>

definition round_trip_before ::
  "(http_url \<Rightarrow> gostring) \<Rightarrow> gostring list \<Rightarrow> gostring list \<Rightarrow> (gostring \<times> gostring) list \<Rightarrow> bool \<Rightarrow>
   http_request option \<Rightarrow> (gostring list \<times> span_start) option \<times> http_request option" where
  "round_trip_before url_string known f inject en req0 =
     (case req0 of
        None \<Rightarrow> (None, None)
      | Some req \<Rightarrow>
          if en \<and> \<not> is_http_client_suppressed (hr_ctx req) \<and> \<not> is_otel_exporter_request req
          then (let parent = map (header_get (hr_header req)) f;
                    (attrs, req1) = http_client_request_trace_attrs url_string known req;
                    m = (case hr_header req1 of None \<Rightarrow> Map.empty | Some m \<Rightarrow> m);
                    req2 = req1\<lparr>hr_header := Some (fold (\<lambda>(k, v). header_set k v) inject m)\<rparr>
                in (Some (parent, start_span (otelc_http_client_span_name known (hr_method req)) KindClient attrs), Some req2))
          else (None, Some req))"

text \<open>The deferred end, from the response's status code and the error, when there are any.\<close>

definition round_trip_after :: "int option \<times> http_error option \<Rightarrow> span_log" where
  "round_trip_after res =
     (case fst res of
        None \<Rightarrow> []
      | Some code \<Rightarrow>
          [SetAttrs (http_client_response_trace_attrs code)]
          @ (case http_client_status code of (c, d) \<Rightarrow> if c \<noteq> StatusUnset then [SetStatus c d] else []))
     @ (case snd res of
          None \<Rightarrow> []
        | Some e \<Rightarrow> [RecordError (he_text e), SetStatus StatusError (he_text e), SetAttrs [http_client_error_type e]])
     @ [SpanEnd]"

section \<open>The response writer\<close>

text \<open>
  The response under the wrapper, as \<open>net/http\<close> implements it: a status in the 1xx range other than
  101 is sent at once and is not the final one, a body write or a flush without a header sends
  200, an invalid code panics, and nothing happens after a panic or on a hijacked connection.
\<close>

record response =
  rs_info :: "int list"
  rs_final :: "int option"
  rs_body :: gostring
  rs_hijacked :: bool
  rs_panicked :: bool

definition response_init :: response where
  "response_init = \<lparr>rs_info = [], rs_final = None, rs_body = [], rs_hijacked = False, rs_panicked = False\<rparr>"

definition informational :: "int \<Rightarrow> bool" where
  "informational c \<longleftrightarrow> 100 \<le> c \<and> c \<le> 199 \<and> c \<noteq> 101"

definition rs_stopped :: "response \<Rightarrow> bool" where
  "rs_stopped r \<longleftrightarrow> rs_panicked r \<or> rs_hijacked r"

definition rs_write_header :: "int \<Rightarrow> response \<Rightarrow> response" where
  "rs_write_header c r =
     (if rs_stopped r \<or> rs_final r \<noteq> None then r
      else if c < 100 \<or> c > 999 then r\<lparr>rs_panicked := True\<rparr>
      else if informational c then r\<lparr>rs_info := rs_info r @ [c]\<rparr>
      else r\<lparr>rs_final := Some c\<rparr>)"

definition body_allowed :: "int option \<Rightarrow> bool" where
  "body_allowed final = (case final of Some c \<Rightarrow> \<not> (100 \<le> c \<and> c \<le> 199) \<and> c \<noteq> 204 \<and> c \<noteq> 304 | None \<Rightarrow> True)"

definition rs_write :: "gostring \<Rightarrow> response \<Rightarrow> response" where
  "rs_write b r =
     (if rs_stopped r then r
      else let r1 = rs_write_header 200 r
           in if body_allowed (rs_final r1) then r1\<lparr>rs_body := rs_body r1 @ b\<rparr> else r1)"

definition rs_flush :: "response \<Rightarrow> response" where
  "rs_flush r = rs_write_header 200 r"

definition rs_read_from :: "gostring list \<Rightarrow> response \<Rightarrow> response" where
  "rs_read_from chunks r = fold rs_write chunks r"

definition rs_write_string :: "gostring \<Rightarrow> response \<Rightarrow> response" where
  "rs_write_string s r = rs_write s r"

definition rs_hijack :: "response \<Rightarrow> response" where
  "rs_hijack r = (if rs_panicked r then r else r\<lparr>rs_hijacked := True\<rparr>)"

text \<open>The wrapper, and which optional interfaces the wrapped writer has.\<close>

record writer_caps =
  has_reader_from :: bool
  has_string_writer :: bool
  has_hijacker :: bool
  has_flusher :: bool
  has_pusher :: bool

record writer_wrapper =
  ww_inner :: response
  ww_status :: int
  ww_wrote_header :: bool

definition new_wrapper :: "response \<Rightarrow> writer_wrapper" where
  "new_wrapper r = \<lparr>ww_inner = r, ww_status = 200, ww_wrote_header = False\<rparr>"

definition wrapper_write_header :: "int \<Rightarrow> writer_wrapper \<Rightarrow> writer_wrapper" where
  "wrapper_write_header c w =
     (if ww_wrote_header w then w
      else \<lparr>ww_inner = rs_write_header c (ww_inner w), ww_status = c, ww_wrote_header = True\<rparr>)"

definition ensure_header :: "writer_wrapper \<Rightarrow> writer_wrapper" where
  "ensure_header w = (if \<not> ww_wrote_header w then wrapper_write_header 200 w else w)"

definition wrapper_write :: "gostring \<Rightarrow> writer_wrapper \<Rightarrow> writer_wrapper" where
  "wrapper_write b w = (let w1 = ensure_header w in w1\<lparr>ww_inner := rs_write b (ww_inner w1)\<rparr>)"

definition wrapper_read_from :: "writer_caps \<Rightarrow> gostring list \<Rightarrow> writer_wrapper \<Rightarrow> writer_wrapper" where
  "wrapper_read_from caps chunks w =
     (let w1 = ensure_header w
      in if has_reader_from caps then w1\<lparr>ww_inner := rs_read_from chunks (ww_inner w1)\<rparr>
         else fold wrapper_write chunks w1)"

definition wrapper_write_string :: "writer_caps \<Rightarrow> gostring \<Rightarrow> writer_wrapper \<Rightarrow> writer_wrapper" where
  "wrapper_write_string caps s w =
     (let w1 = ensure_header w
      in if has_string_writer caps then w1\<lparr>ww_inner := rs_write_string s (ww_inner w1)\<rparr>
         else w1\<lparr>ww_inner := rs_write s (ww_inner w1)\<rparr>)"

definition wrapper_hijack :: "writer_caps \<Rightarrow> writer_wrapper \<Rightarrow> writer_wrapper" where
  "wrapper_hijack caps w = (if has_hijacker caps then w\<lparr>ww_inner := rs_hijack (ww_inner w)\<rparr> else w)"

definition wrapper_flush :: "writer_caps \<Rightarrow> writer_wrapper \<Rightarrow> writer_wrapper" where
  "wrapper_flush caps w = (if has_flusher caps then w\<lparr>ww_inner := rs_flush (ww_inner w)\<rparr> else w)"

text \<open>What \<open>http.ResponseController\<close> reaches behind the wrapper.\<close>

definition wrapper_unwrap :: "writer_wrapper \<Rightarrow> response" where
  "wrapper_unwrap w = ww_inner w"

definition wrapper_push :: "writer_caps \<Rightarrow> gostring option \<Rightarrow> gostring option" where
  "wrapper_push caps err = (if has_pusher caps then err else Some ''feature not supported'')"

datatype handler_op =
  HWriteHeader int | HWrite gostring | HReadFrom "gostring list" | HWriteString gostring | HFlush | HHijack

text \<open>A handler's calls on the wrapper, and on the response itself; a handler that panicked makes no more.\<close>

fun wrapped_op :: "writer_caps \<Rightarrow> handler_op \<Rightarrow> writer_wrapper \<Rightarrow> writer_wrapper" where
  "wrapped_op caps (HWriteHeader c) w = wrapper_write_header c w"
| "wrapped_op caps (HWrite b) w = wrapper_write b w"
| "wrapped_op caps (HReadFrom cs) w = wrapper_read_from caps cs w"
| "wrapped_op caps (HWriteString s) w = wrapper_write_string caps s w"
| "wrapped_op caps HFlush w = wrapper_flush caps w"
| "wrapped_op caps HHijack w = wrapper_hijack caps w"

definition wrapped_step :: "writer_caps \<Rightarrow> handler_op \<Rightarrow> writer_wrapper \<Rightarrow> writer_wrapper" where
  "wrapped_step caps x w = (if rs_panicked (ww_inner w) then w else wrapped_op caps x w)"

fun direct_op :: "writer_caps \<Rightarrow> handler_op \<Rightarrow> response \<Rightarrow> response" where
  "direct_op caps (HWriteHeader c) r = rs_write_header c r"
| "direct_op caps (HWrite b) r = rs_write b r"
| "direct_op caps (HReadFrom cs) r = rs_read_from cs r"
| "direct_op caps (HWriteString s) r = rs_write_string s r"
| "direct_op caps HFlush r = (if has_flusher caps then rs_flush r else r)"
| "direct_op caps HHijack r = (if has_hijacker caps then rs_hijack r else r)"

definition direct_step :: "writer_caps \<Rightarrow> handler_op \<Rightarrow> response \<Rightarrow> response" where
  "direct_step caps x r = (if rs_panicked r then r else direct_op caps x r)"

text \<open>The status the client gets: 200 when the handler wrote no final header.\<close>

definition client_status :: "response \<Rightarrow> int" where
  "client_status r = (case rs_final r of Some c \<Rightarrow> c | None \<Rightarrow> 200)"

section \<open>The server hook\<close>

definition serve_http_before ::
  "gostring list \<Rightarrow> gostring list \<Rightarrow> bool \<Rightarrow> http_request \<Rightarrow> (gostring list \<times> span_start) option" where
  "serve_http_before known f en r =
     (if en then
        Some (map (header_get (hr_header r)) f,
              start_span (otelc_http_server_span_name known (hr_method r) []) KindServer
                (http_server_request_trace_attrs known [] r))
      else None)"

text \<open>The deferred end: the pattern is the one the mux left in the request, the status the wrapper's.\<close>

definition serve_http_after :: "gostring list \<Rightarrow> gostring \<Rightarrow> bool \<times> gostring \<times> int \<Rightarrow> span_log" where
  "serve_http_after known m res =
     (case res of (recording, pattern, code) \<Rightarrow>
        (let route = otelc_http_route pattern
         in (if recording \<and> route \<noteq> []
             then [SetName (otelc_http_server_span_name known m route), SetAttrs [(''http.route'', StrV route)]] else [])
            @ [SetAttrs (http_server_response_trace_attrs code 0)]
            @ (case http_server_status code of (c, d) \<Rightarrow> if c \<noteq> StatusUnset then [SetStatus c d] else [])
            @ [SpanEnd]))"

end
