(* ===== verification/Net_Http_Props.thy ===== *)
theory Net_Http_Props
  imports Net_Http
begin

text \<open>
  Properties of the net/http hooks: the response writer wrapper does not change the response,
  the recorded status is the one the client gets, both hooks end their span once with the
  right status, and a server's span has the client's as its parent.
\<close>

section \<open>The wrapped writer\<close>

text \<open>
  The calls a handler may make for the wrapper to be invisible: no informational header
  (they take the place of the final one), and no read of nothing (the wrapper sends 200).
\<close>

fun plain_op :: "handler_op \<Rightarrow> bool" where
  "plain_op (HWriteHeader c) = (\<not> informational c)"
| "plain_op (HReadFrom cs) = (cs \<noteq> [])"
| "plain_op _ = True"

definition wrapper_inv :: "writer_wrapper \<Rightarrow> bool" where
  "wrapper_inv w \<longleftrightarrow> (ww_wrote_header w \<longrightarrow> rs_final (ww_inner w) \<noteq> None \<or> rs_stopped (ww_inner w))"

definition settled :: "response \<Rightarrow> bool" where
  "settled r \<longleftrightarrow> rs_final r \<noteq> None \<or> rs_stopped r"

lemma settled_header [simp]: "settled r \<Longrightarrow> rs_write_header c r = r"
  by (auto simp: settled_def rs_write_header_def)

lemma header_settles: "\<not> informational c \<Longrightarrow> settled (rs_write_header c r)"
  by (auto simp: settled_def rs_write_header_def rs_stopped_def)

lemma header_200_settles [simp]: "settled (rs_write_header 200 r)"
  by (rule header_settles) (simp add: informational_def)

lemma write_settles: "settled (rs_write b r)"
proof (cases "rs_stopped r")
  case False
  have "settled (rs_write_header 200 r)" by simp
  then show ?thesis using False by (auto simp: rs_write_def Let_def settled_def rs_stopped_def)
qed (simp add: rs_write_def settled_def)

lemma write_after_header: "rs_write b (rs_write_header 200 r) = rs_write b r"
proof (cases "rs_stopped r")
  case False
  then have "\<not> rs_stopped (rs_write_header 200 r)"
    by (simp add: rs_write_header_def rs_stopped_def informational_def)
  then show ?thesis using False by (simp add: rs_write_def Let_def)
qed (simp add: rs_write_header_def)

lemma fold_write_after_header: "cs \<noteq> [] \<Longrightarrow> fold rs_write cs (rs_write_header 200 r) = fold rs_write cs r"
  by (cases cs) (simp_all add: write_after_header)

lemma fold_write_settles: "settled r \<Longrightarrow> settled (fold rs_write cs r)"
  by (induction cs arbitrary: r) (simp_all add: write_settles)

lemma ensure_header_inner:
  "wrapper_inv w \<Longrightarrow> ww_inner (ensure_header w) = rs_write_header 200 (ww_inner w)"
  by (auto simp: wrapper_inv_def ensure_header_def wrapper_write_header_def rs_write_header_def)

lemma ensure_header_wrote [simp]: "ww_wrote_header (ensure_header w)"
  by (simp add: ensure_header_def wrapper_write_header_def)

lemma wrapper_write_inner:
  "wrapper_inv w \<Longrightarrow> ww_inner (wrapper_write b w) = rs_write b (ww_inner w)"
  "wrapper_inv (wrapper_write b w)"
  "ww_wrote_header (wrapper_write b w)"
  using write_settles [of b "ww_inner (ensure_header w)"]
  by (auto simp: wrapper_write_def Let_def ensure_header_inner write_after_header wrapper_inv_def settled_def)

lemma fold_wrapper_wrote: "ww_wrote_header w \<Longrightarrow> ww_wrote_header (fold wrapper_write cs w)"
  by (induction cs arbitrary: w) (simp_all add: wrapper_write_inner)

lemma fold_wrapper_write:
  "wrapper_inv w \<Longrightarrow> ww_inner (fold wrapper_write cs w) = fold rs_write cs (ww_inner w) \<and> wrapper_inv (fold wrapper_write cs w)"
  by (induction cs arbitrary: w) (simp_all add: wrapper_write_inner)

lemma ensure_header_inv: "wrapper_inv w \<Longrightarrow> wrapper_inv (ensure_header w)"
  using header_200_settles [of "ww_inner w"] by (simp add: wrapper_inv_def [of "ensure_header w"] ensure_header_inner settled_def)

lemma hijack_settled: "settled r \<Longrightarrow> settled (rs_hijack r)"
  by (auto simp: settled_def rs_hijack_def rs_stopped_def)

lemma wrapped_op_direct:
  assumes "wrapper_inv w" "plain_op x"
  shows "wrapper_inv (wrapped_op caps x w) \<and> ww_inner (wrapped_op caps x w) = direct_op caps x (ww_inner w)"
proof (cases x)
  case (HWriteHeader c)
  then have "settled (rs_write_header c (ww_inner w))" using assms(2) header_settles by simp
  then show ?thesis
    using HWriteHeader assms(1) by (auto simp: wrapper_write_header_def wrapper_inv_def settled_def rs_write_header_def)
next
  case (HWrite b)
  then show ?thesis using assms(1) by (simp add: wrapper_write_inner)
next
  case (HReadFrom cs)
  then have ne: "cs \<noteq> []" using assms(2) by simp
  have "settled (fold rs_write cs (rs_write_header 200 (ww_inner w)))" by (rule fold_write_settles) simp
  then show ?thesis
    using HReadFrom assms(1) ensure_header_inv [OF assms(1)] fold_write_after_header [OF ne]
      fold_wrapper_write [of "ensure_header w" cs]
    by (auto simp: wrapper_read_from_def Let_def ensure_header_inner rs_read_from_def wrapper_inv_def settled_def)
next
  case (HWriteString s)
  have "settled (rs_write s (ww_inner w))" by (rule write_settles)
  then show ?thesis
    using HWriteString assms(1)
    by (auto simp: wrapper_write_string_def Let_def ensure_header_inner write_after_header rs_write_string_def
        wrapper_inv_def settled_def)
next
  case HFlush
  then show ?thesis
    using assms(1) header_200_settles [of "ww_inner w"]
    by (auto simp: wrapper_flush_def rs_flush_def wrapper_inv_def settled_def)
next
  case HHijack
  then show ?thesis
    using assms(1) hijack_settled [of "ww_inner w"] by (auto simp: wrapper_hijack_def wrapper_inv_def settled_def)
qed

interpretation http_writer: refinement_system "wrapped_step caps" "\<lambda>x _. plain_op x" wrapper_inv ww_inner "direct_step caps"
  by unfold_locales (auto simp: wrapped_step_def direct_step_def wrapped_op_direct)

section \<open>The recorded status\<close>

definition status_inv :: "writer_wrapper \<Rightarrow> bool" where
  "status_inv w \<longleftrightarrow> \<not> rs_hijacked (ww_inner w) \<and>
     (if ww_wrote_header w
      then (if rs_panicked (ww_inner w) then ww_status w < 100 \<or> ww_status w > 999
            else rs_final (ww_inner w) = Some (ww_status w))
      else rs_final (ww_inner w) = None \<and> \<not> rs_panicked (ww_inner w) \<and> ww_status w = 200)"

definition status_ok :: "handler_op \<Rightarrow> writer_wrapper \<Rightarrow> bool" where
  "status_ok x w \<longleftrightarrow> plain_op x \<and> x \<noteq> HHijack \<and> (x = HFlush \<longrightarrow> ww_wrote_header w)"

lemma rs_write_final:
  "rs_final r = Some c \<Longrightarrow> rs_final (rs_write b r) = Some c"
  "rs_panicked (rs_write b r) = rs_panicked r" "rs_hijacked (rs_write b r) = rs_hijacked r"
  by (auto simp: rs_write_def rs_write_header_def Let_def informational_def)

lemma fold_write_final:
  "rs_final r = Some c \<Longrightarrow> rs_final (fold rs_write cs r) = Some c"
  "rs_panicked (fold rs_write cs r) = rs_panicked r" "rs_hijacked (fold rs_write cs r) = rs_hijacked r"
  by (induction cs arbitrary: r) (auto simp: rs_write_final)

lemma status_inv_wrapper_inv: "status_inv w \<Longrightarrow> wrapper_inv w"
  by (auto simp: status_inv_def wrapper_inv_def rs_stopped_def split: if_splits)

lemma write_header_status:
  "status_inv w \<Longrightarrow> \<not> informational c \<Longrightarrow> status_inv (wrapper_write_header c w)"
  by (auto simp: status_inv_def wrapper_write_header_def rs_write_header_def rs_stopped_def)

lemma ensure_header_status: "status_inv w \<Longrightarrow> status_inv (ensure_header w)"
  using write_header_status [of w 200] by (simp add: ensure_header_def informational_def)

lemma inner_write_status:
  "status_inv w \<Longrightarrow> ww_wrote_header w \<Longrightarrow> status_inv (w\<lparr>ww_inner := fold rs_write cs (ww_inner w)\<rparr>)"
  by (auto simp: status_inv_def fold_write_final split: if_splits)

lemma wrapper_write_status: "status_inv w \<Longrightarrow> status_inv (wrapper_write b w)"
  using inner_write_status [of "ensure_header w" "[b]"] by (simp add: wrapper_write_def Let_def ensure_header_status)

lemma fold_wrapper_write_status: "status_inv w \<Longrightarrow> status_inv (fold wrapper_write cs w)"
  by (induction cs arbitrary: w) (simp_all add: wrapper_write_status)

lemma wrapped_op_status:
  assumes "status_inv w" "status_ok x w"
  shows "status_inv (wrapped_op caps x w)"
proof (cases x)
  case (HWriteHeader c)
  then show ?thesis using assms by (simp add: write_header_status status_ok_def)
next
  case (HWrite b)
  then show ?thesis using assms(1) by (simp add: wrapper_write_status)
next
  case (HReadFrom cs)
  then show ?thesis
    using assms(1) inner_write_status [of "ensure_header w" cs]
    by (simp add: wrapper_read_from_def Let_def ensure_header_status fold_wrapper_write_status rs_read_from_def)
next
  case (HWriteString s)
  then show ?thesis
    using assms(1) inner_write_status [of "ensure_header w" "[s]"]
    by (simp add: wrapper_write_string_def Let_def ensure_header_status rs_write_string_def)
next
  case HFlush
  then have "ww_wrote_header w" using assms(2) by (simp add: status_ok_def)
  then have "settled (ww_inner w)"
    using status_inv_wrapper_inv [OF assms(1)] by (simp add: wrapper_inv_def settled_def)
  then show ?thesis using HFlush assms(1) by (simp add: wrapper_flush_def rs_flush_def)
qed (use assms(2) in \<open>simp add: status_ok_def\<close>)

lemma wrapped_step_status: "status_inv w \<Longrightarrow> status_ok x w \<Longrightarrow> status_inv (wrapped_step caps x w)"
  by (simp add: wrapped_step_def wrapped_op_status)

interpretation http_status: invariant_system "wrapped_step caps" status_ok status_inv
  by unfold_locales (rule wrapped_step_status)

lemma new_wrapper_status: "status_inv (new_wrapper response_init)"
  by (simp add: status_inv_def new_wrapper_def response_init_def)

lemma wrapped_step_wrote:
  "plain_op x \<Longrightarrow> x \<noteq> HFlush \<Longrightarrow> x \<noteq> HHijack \<Longrightarrow> \<not> rs_panicked (ww_inner w) \<Longrightarrow>
   ww_wrote_header (wrapped_step caps x w)"
  by (cases x) (auto simp: wrapped_step_def wrapper_write_header_def wrapper_write_inner wrapper_read_from_def
      wrapper_write_string_def Let_def fold_wrapper_wrote)

lemma wrapped_step_keeps_wrote: "ww_wrote_header w \<Longrightarrow> ww_wrote_header (wrapped_step caps x w)"
  by (cases x) (auto simp: wrapped_step_def wrapper_write_header_def wrapper_write_inner wrapper_read_from_def
      wrapper_write_string_def wrapper_flush_def wrapper_hijack_def Let_def fold_wrapper_wrote)

lemma guarded_once_wrote:
  "ww_wrote_header w \<Longrightarrow> \<forall>x \<in> set xs. plain_op x \<and> x \<noteq> HHijack \<Longrightarrow> guarded (wrapped_step caps) status_ok xs w"
  by (induction xs arbitrary: w) (auto simp: status_ok_def wrapped_step_keeps_wrote)

lemma guarded_from_start:
  assumes "\<forall>x \<in> set xs. plain_op x \<and> x \<noteq> HHijack" "xs = [] \<or> hd xs \<noteq> HFlush"
  shows "guarded (wrapped_step caps) status_ok xs (new_wrapper response_init)"
proof (cases xs)
  case (Cons x ys)
  then have "ww_wrote_header (wrapped_step caps x (new_wrapper response_init))"
    using assms wrapped_step_wrote [of x "new_wrapper response_init" caps] by (simp add: new_wrapper_def response_init_def)
  then show ?thesis using Cons assms guarded_once_wrote by (auto simp: status_ok_def)
qed simp

text \<open>
  C22: The server hook's response writer does not change the response: without informational headers and
  reads of nothing, the client gets what it would get without the wrapper, whichever
  optional interfaces the writer below has.  If moreover the handler does not hijack the connection or start by
  flushing, the recorded status is the one the client gets, and a status that
  makes \<open>net/http\<close> panic is recorded as an error.
\<close>
theorem http_response_observed:
  assumes "\<forall>x \<in> set ops. plain_op x" and "w = run_ops (wrapped_step caps) ops (new_wrapper response_init)"
  shows "ww_inner w = run_ops (direct_step caps) ops response_init \<and>
    (HHijack \<notin> set ops \<and> (ops = [] \<or> hd ops \<noteq> HFlush) \<longrightarrow>
       (if rs_panicked (ww_inner w) then fst (http_server_status (ww_status w)) = StatusError
        else ww_status w = client_status (ww_inner w)))"
proof (intro conjI impI)
  have "guarded (wrapped_step caps) (\<lambda>x _. plain_op x) ops st" for st
    using assms(1) by (induction ops arbitrary: st) auto
  moreover have "wrapper_inv (new_wrapper response_init)" by (simp add: wrapper_inv_def new_wrapper_def)
  ultimately show "ww_inner w = run_ops (direct_step caps) ops response_init"
    using http_writer.run_abs [of "new_wrapper response_init" caps ops] by (simp add: assms(2) new_wrapper_def)
next
  assume "HHijack \<notin> set ops \<and> (ops = [] \<or> hd ops \<noteq> HFlush)"
  then have "guarded (wrapped_step caps) status_ok ops (new_wrapper response_init)"
    using assms(1) by (intro guarded_from_start) auto
  then have "status_inv w" using http_status.run_inv [OF new_wrapper_status] by (simp add: assms(2))
  then show "if rs_panicked (ww_inner w) then fst (http_server_status (ww_status w)) = StatusError
        else ww_status w = client_status (ww_inner w)"
    by (auto simp: status_inv_def client_status_def http_server_status_def split: if_splits)
qed

theorem http_response_observed_witness:
  "let caps = \<lparr>has_reader_from = False, has_string_writer = True, has_hijacker = True, has_flusher = True, has_pusher = False\<rparr>;
       w = run_ops (wrapped_step caps) [HWriteHeader 404, HReadFrom [''no'', ''ne''], HFlush, HWriteHeader 500] (new_wrapper response_init)
   in ww_status w = 404 \<and> rs_final (ww_inner w) = Some 404 \<and> rs_body (ww_inner w) = ''none''"
proof -
  let ?caps = "\<lparr>has_reader_from = False, has_string_writer = True, has_hijacker = True, has_flusher = True, has_pusher = False\<rparr>"
  let ?ops = "[HWriteHeader 404, HReadFrom [''no'', ''ne''], HFlush, HWriteHeader 500]"
  have "\<forall>x \<in> set ?ops. plain_op x" by (simp add: informational_def)
  define w where "w = run_ops (wrapped_step ?caps) ?ops (new_wrapper response_init)"
  have "run_ops (direct_step ?caps) ?ops response_init
      = \<lparr>rs_info = [], rs_final = Some 404, rs_body = ''none'', rs_hijacked = False, rs_panicked = False\<rparr>"
    by (simp add: direct_step_def response_init_def rs_write_header_def rs_stopped_def informational_def rs_read_from_def
        rs_write_def body_allowed_def rs_flush_def Let_def)
  with http_response_observed [OF \<open>\<forall>x \<in> set ?ops. plain_op x\<close> w_def] have "ww_status w = 404" "rs_final (ww_inner w) = Some 404"
    "rs_body (ww_inner w) = ''none''"
    by (simp_all add: client_status_def)
  then show ?thesis unfolding Let_def w_def by simp
qed

text \<open>
  Without the first condition it does: after an informational header the handler's final
  status is dropped, and the client gets 200 instead.
\<close>

theorem http_early_hints_drop_status:
  "let ops = [HWriteHeader 103, HWriteHeader 404]
   in client_status (run_ops (direct_step caps) ops response_init) = 404 \<and>
      client_status (ww_inner (run_ops (wrapped_step caps) ops (new_wrapper response_init))) = 200"
  by (simp add: direct_step_def wrapped_step_def new_wrapper_def response_init_def rs_write_header_def rs_stopped_def
      informational_def wrapper_write_header_def client_status_def Let_def)

section \<open>Both hooks finish their span\<close>

definition client_failed :: "int option \<times> http_error option \<Rightarrow> bool" where
  "client_failed res \<longleftrightarrow> snd res \<noteq> None \<or> (case fst res of Some c \<Rightarrow> c < 100 \<or> c \<ge> 400 | None \<Rightarrow> False)"

lemma status_calls:
  "(case http_client_status code of (c, d) \<Rightarrow> if c \<noteq> StatusUnset then [SetStatus c d] else []) =
     (if code < 100 \<or> code \<ge> 400 then [SetStatus StatusError (snd (http_client_status code))] else [])"
  "(case http_server_status code of (c, d) \<Rightarrow> if c \<noteq> StatusUnset then [SetStatus c d] else []) =
     (if code < 100 \<or> code \<ge> 500 then [SetStatus StatusError (snd (http_server_status code))] else [])"
  by (simp_all add: http_client_status_def http_server_status_def)

interpretation http_client_end: reporting_hook round_trip_after client_failed
  by unfold_locales (auto simp: round_trip_after_def client_failed_def status_calls split: option.splits)

interpretation http_server_end: reporting_hook "serve_http_after known m" "\<lambda>(_, _, c). c < 100 \<or> c \<ge> 500"
  by unfold_locales (auto simp: serve_http_after_def status_calls Let_def)

text \<open>
  Both HTTP hooks finish their span once, as its last call.  A client span is an error exactly for a
  transport error or a status below 100 or from 400 on, a server span for one below 100 or from
  500 on; a recording server span is renamed to the route exactly when the mux matched one.
\<close>
theorem http_spans_finished:
  "span_status (round_trip_after res) = (if client_failed res then StatusError else StatusUnset) \<and>
   count_list (round_trip_after res) SpanEnd = 1 \<and> last (round_trip_after res) = SpanEnd \<and>
   span_status (serve_http_after known m (rec, pattern, code))
     = (if code < 100 \<or> code \<ge> 500 then StatusError else StatusUnset) \<and>
   count_list (serve_http_after known m (rec, pattern, code)) SpanEnd = 1 \<and>
   last (serve_http_after known m (rec, pattern, code)) = SpanEnd \<and>
   (SetName (otelc_http_server_span_name known m (otelc_http_route pattern))
      \<in> set (effective (serve_http_after known m (rec, pattern, code))) \<longleftrightarrow> rec \<and> otelc_http_route pattern \<noteq> [])"
proof -
  have "SetName n \<in> set (effective (serve_http_after known m (rec, pattern, code))) \<longleftrightarrow>
      SetName n \<in> set (serve_http_after known m (rec, pattern, code))" for n
    using http_server_end.shape [of known m "(rec, pattern, code)"] by auto
  moreover have "SetName (otelc_http_server_span_name known m (otelc_http_route pattern))
      \<in> set (serve_http_after known m (rec, pattern, code)) \<longleftrightarrow> rec \<and> otelc_http_route pattern \<noteq> []"
    by (auto simp: serve_http_after_def Let_def split: prod.split)
  ultimately show ?thesis
    using http_client_end.status [of res] http_server_end.status [of known m "(rec, pattern, code)"]
      http_client_end.ends_once http_client_end.ends_last http_server_end.ends_once http_server_end.ends_last
    by simp
qed

section \<open>Propagation\<close>

lemma client_attrs_keep_request [simp]: "snd (http_client_request_trace_attrs us known req) = req"
  by (cases "hr_url req")
    (simp_all add: http_client_request_trace_attrs_def Let_def split: prod.split)

lemma client_attrs_no_user:
  "fst (http_client_request_trace_attrs us known (req\<lparr>hr_url := map_option (\<lambda>u. u\<lparr>hu_user := x\<rparr>) (hr_url req)\<rparr>))
   = fst (http_client_request_trace_attrs us known req)"
  by (cases "hr_url req")
    (simp_all add: http_client_request_trace_attrs_def Let_def split: prod.split)

lemma round_trip_instrumented:
  assumes "\<not> is_http_client_suppressed (hr_ctx req)" "\<not> is_otel_exporter_request req"
  shows "round_trip_before us known f inject True (Some req) =
    (Some (map (header_get (hr_header req)) f,
           start_span (otelc_span_method known (hr_method req)) KindClient (fst (http_client_request_trace_attrs us known req))),
     Some (req\<lparr>hr_header := Some (fold (\<lambda>(k, v). header_set k v) inject
                 (case hr_header req of None \<Rightarrow> Map.empty | Some m \<Rightarrow> m))\<rparr>))"
proof -
  obtain a where a: "http_client_request_trace_attrs us known req = (a, req)"
    by (metis client_attrs_keep_request prod.collapse)
  show ?thesis using assms by (simp add: round_trip_before_def Let_def a)
qed

text \<open>
  C21: The trace crosses the wire: the request a client sends differs from the application's only in the
  propagator's headers, and a server that receives these headers starts a span whose parent
  is exactly what the client injected, so the two spans are connected.  A user and password in the
  URL do not reach the client span, and a request without instrumentation, suppressed
  or of the OTLP exporter itself goes out unchanged, without a span.
\<close>
theorem http_trace_connected:
  assumes "distinct (map (canonical_key \<circ> fst) inject)"
    and "hr_header srv = hr_header req'"
    and "round_trip_before us known f inject en (Some req) = (span, Some req')"
  shows "(if en \<and> \<not> is_http_client_suppressed (hr_ctx req) \<and> \<not> is_otel_exporter_request req
     then span \<noteq> None \<and> req' = req\<lparr>hr_header := hr_header req'\<rparr> \<and>
       (\<forall>k. canonical_key k \<notin> canonical_key ` fst ` set inject \<longrightarrow>
          header_get (hr_header req') k = header_get (hr_header req) k) \<and>
       map_option fst (serve_http_before known (map fst inject) True srv) = Some (map snd inject)
     else span = None \<and> req' = req) \<and>
   (\<forall>x. fst (http_client_request_trace_attrs us known (req\<lparr>hr_url := map_option (\<lambda>u. u\<lparr>hu_user := x\<rparr>) (hr_url req)\<rparr>))
      = fst (http_client_request_trace_attrs us known req))"
proof (cases "en \<and> \<not> is_http_client_suppressed (hr_ctx req) \<and> \<not> is_otel_exporter_request req")
  case False
  then have "span = None \<and> req' = req" using assms(3) by (auto simp: round_trip_before_def split: if_splits)
  then show ?thesis using False client_attrs_no_user by auto
next
  case True
  let ?m = "case hr_header req of None \<Rightarrow> Map.empty | Some m \<Rightarrow> m"
  have req': "req' = req\<lparr>hr_header := Some (fold (\<lambda>(k, v). header_set k v) inject ?m)\<rparr>" and span: "span \<noteq> None"
    using assms(3) True round_trip_instrumented [of req us known f inject] by auto
  have "header_get (Some ?m) k = header_get (hr_header req) k" for k
    by (cases "hr_header req") (simp_all add: header_get_def)
  then have others: "canonical_key k \<notin> canonical_key ` fst ` set inject \<Longrightarrow> header_get (hr_header req') k = header_get (hr_header req) k" for k
    using http_carrier.get_inject_other [of k inject ?m] by (simp add: req')
  have "map (header_get (hr_header req')) (map fst inject) = map snd inject"
    using http_carrier.extract_inject [OF assms(1), of ?m] by (simp add: req')
  then have "map_option fst (serve_http_before known (map fst inject) True srv) = Some (map snd inject)"
    by (simp add: serve_http_before_def assms(2))
  then show ?thesis using True span others client_attrs_no_user by (simp add: req')
qed

definition demo_request :: http_request where
  "demo_request = \<lparr>hr_method = ''GET'', hr_url = None, hr_host = ''h'', hr_header = None, hr_proto = ''HTTP/1.1'',
     hr_remote_addr = [], hr_tls = False, hr_pattern = [], hr_ctx = Map.empty\<rparr>"

lemma demo_instrumented:
  "\<not> is_http_client_suppressed (hr_ctx demo_request)" "\<not> is_otel_exporter_request demo_request"
  by (simp_all add: demo_request_def is_http_client_suppressed_def is_otel_exporter_request_def header_get_def has_prefix_def Let_def)

theorem http_trace_connected_witness:
  "case snd (round_trip_before (\<lambda>_. []) http_method_lookup [] [(''traceparent'', ''00-1'')] True (Some demo_request)) of
     None \<Rightarrow> False
   | Some req' \<Rightarrow> map_option fst (serve_http_before http_method_lookup [''traceparent''] True req') = Some [''00-1'']"
proof -
  obtain span req' where eq: "round_trip_before (\<lambda>_. []) http_method_lookup [] [(''traceparent'', ''00-1'')] True (Some demo_request)
      = (span, Some req')"
    using round_trip_instrumented [of demo_request "\<lambda>_. []" http_method_lookup "[]" "[(''traceparent'', ''00-1'')]"] demo_instrumented
    by simp
  from http_trace_connected [OF _ refl eq] demo_instrumented show ?thesis by (simp add: eq)
qed

text \<open>
  Sending the same request again, as a retry does, makes the first attempt's span the
  parent of the second: the hook reads the parent from the headers it wrote itself.
\<close>

theorem http_retry_nests:
  assumes "distinct (map (canonical_key \<circ> fst) inject)" "\<not> is_http_client_suppressed (hr_ctx req)"
    "\<not> is_otel_exporter_request req" "\<not> is_otel_exporter_request req'"
    "round_trip_before us known (map fst inject) inject True (Some req) = (span, Some req')"
  shows "\<exists>st. fst (round_trip_before us known (map fst inject) inject2 True (Some req')) = Some (map snd inject, st)"
proof -
  let ?m = "case hr_header req of None \<Rightarrow> Map.empty | Some m \<Rightarrow> m"
  have req': "req' = req\<lparr>hr_header := Some (fold (\<lambda>(k, v). header_set k v) inject ?m)\<rparr>"
    using assms(2,3,5) round_trip_instrumented [of req us known "map fst inject" inject] by auto
  then show ?thesis
    using assms(2,4) round_trip_instrumented [of req' us known "map fst inject" inject2]
      http_carrier.extract_inject [OF assms(1), of ?m] by simp
qed

end
