(* ===== verification/Kafka.thy ===== *)
theory Kafka
  imports Hook_Support Go_Net Go_Json
begin

text \<open>
  Model of \<open>otelc/plugins/kafkago\<close>: consumer and producer spans for segmentio/kafka-go, with the
  trace context carried in message headers.  The producer writes into the header slices the
  application passed, so these are slices of a store: a base cell, a length and a capacity.
  How far \<open>append\<close> grows an array is the parameter \<open>grow\<close>.
\<close>

section \<open>Headers as a carrier\<close>

type_synonym kafka_header = "gostring \<times> gostring"

text \<open>\<open>Get\<close>, \<open>Set\<close> and \<open>Keys\<close> on the headers a slice holds.\<close>

fun kafka_get :: "kafka_header list \<Rightarrow> gostring \<Rightarrow> gostring" where
  "kafka_get [] key = []"
| "kafka_get ((k, v) # hs) key = (if k = key then v else kafka_get hs key)"

fun kafka_set :: "gostring \<Rightarrow> gostring \<Rightarrow> kafka_header list \<Rightarrow> kafka_header list" where
  "kafka_set key value [] = [(key, value)]"
| "kafka_set key value ((k, v) # hs) = (if k = key then (k, value) # hs else (k, v) # kafka_set key value hs)"

definition kafka_keys :: "kafka_header list \<Rightarrow> gostring list" where
  "kafka_keys hs = map fst hs"

interpretation kafka_carrier: text_map_carrier kafka_get kafka_set "\<lambda>k. k"
proof
  fix hs k v k'
  show "kafka_get (kafka_set k v hs) k' = (if k' = k then v else kafka_get hs k')"
    by (induction k v hs rule: kafka_set.induct) auto
qed

text \<open>The same \<open>Set\<close> on a slice of the store: in place for a key that is there, else \<open>append\<close>.\<close>

record header_slice =
  hs_base :: nat
  hs_len :: nat
  hs_cap :: nat

record header_store =
  st_cells :: "nat \<Rightarrow> kafka_header"
  st_next :: nat

definition slice_headers :: "header_store \<Rightarrow> header_slice \<Rightarrow> kafka_header list" where
  "slice_headers h s = map (st_cells h) [hs_base s ..< hs_base s + hs_len s]"

fun find_key :: "gostring \<Rightarrow> kafka_header list \<Rightarrow> nat option" where
  "find_key key [] = None"
| "find_key key ((k, v) # hs) = (if k = key then Some 0 else map_option Suc (find_key key hs))"

definition append_header ::
  "(nat \<Rightarrow> nat) \<Rightarrow> kafka_header \<Rightarrow> header_store \<times> header_slice \<Rightarrow> header_store \<times> header_slice" where
  "append_header grow x hs =
     (case hs of (h, s) \<Rightarrow>
        if hs_len s < hs_cap s
        then (h\<lparr>st_cells := (st_cells h)(hs_base s + hs_len s := x)\<rparr>, s\<lparr>hs_len := Suc (hs_len s)\<rparr>)
        else let b = st_next h; c = max (Suc (hs_len s)) (grow (hs_len s));
                 copied = (\<lambda>a. if b \<le> a \<and> a < b + hs_len s then st_cells h (hs_base s + (a - b)) else st_cells h a)
             in (h\<lparr>st_cells := copied(b + hs_len s := x), st_next := b + c\<rparr>,
                 \<lparr>hs_base = b, hs_len = Suc (hs_len s), hs_cap = c\<rparr>))"

definition carrier_set ::
  "(nat \<Rightarrow> nat) \<Rightarrow> gostring \<Rightarrow> gostring \<Rightarrow> header_store \<times> header_slice \<Rightarrow> header_store \<times> header_slice" where
  "carrier_set grow key value hs =
     (case hs of (h, s) \<Rightarrow>
        (case find_key key (slice_headers h s) of
           Some i \<Rightarrow> (h\<lparr>st_cells := (st_cells h)(hs_base s + i := (fst (st_cells h (hs_base s + i)), value))\<rparr>, s)
         | None \<Rightarrow> append_header grow (key, value) (h, s)))"

section \<open>Attributes\<close>

text \<open>\<open>strings.ToValidUTF8\<close> replaces each run of invalid bytes by one U+FFFD.\<close>

function to_valid_utf8_runs :: "bool \<Rightarrow> gostring \<Rightarrow> gostring" where
  "to_valid_utf8_runs bad s =
     (if s = [] then []
      else if head_rune_len s = 0
      then (if bad then [] else [CHR 0xEF, CHR 0xBF, CHR 0xBD]) @ to_valid_utf8_runs True (tl s)
      else take (head_rune_len s) s @ to_valid_utf8_runs False (drop (head_rune_len s) s))"
  by pat_completeness auto
termination
  by (relation "measure (length \<circ> snd)") auto

declare to_valid_utf8_runs.simps [simp del]

definition kafka_message_key :: "gostring \<Rightarrow> gostring" where
  "kafka_message_key key = to_valid_utf8_runs False key"

record kafka_attr_args =
  ka_endpoint :: gostring
  ka_destination :: gostring
  ka_operation :: gostring
  ka_group :: gostring
  ka_key :: gostring
  ka_body_size :: int
  ka_partition :: int
  ka_offset :: int
  ka_has_partition :: bool
  ka_has_offset :: bool
  ka_async :: bool

definition kafka_request_trace_attrs :: "kafka_attr_args \<Rightarrow> attrs" where
  "kafka_request_trace_attrs a =
     [(''messaging.system'', StrV ''kafka''), (''messaging.operation.name'', StrV (ka_operation a)),
      (''messaging.destination.name'', StrV (ka_destination a))]
     @ (if ka_operation a = ''send''
        then [(''messaging.operation.type'', StrV ''send'')]
             @ (if ka_async a then [(''messaging.kafka.async'', BoolV True)] else [])
        else if ka_operation a = ''receive'' then [(''messaging.operation.type'', StrV ''receive'')]
        else [])
     @ (if ka_endpoint a \<noteq> []
        then (case split_host_port (ka_endpoint a) of
                None \<Rightarrow> [(''server.address'', StrV (ka_endpoint a))]
              | Some (host, port_str) \<Rightarrow>
                  [(''server.address'', StrV host)]
                  @ (case go_atoi port_str of
                       Some port \<Rightarrow> if port > 0 then [(''server.port'', IntV port)] else []
                     | None \<Rightarrow> []))
        else [])
     @ (if ka_group a \<noteq> [] then [(''messaging.consumer.group.name'', StrV (ka_group a))] else [])
     @ (if ka_key a \<noteq> [] then [(''messaging.kafka.message.key'', StrV (ka_key a))] else [])
     @ (if ka_body_size a > 0 then [(''messaging.message.body.size'', IntV (ka_body_size a))] else [])
     @ (if ka_has_partition a then [(''messaging.destination.partition.id'', StrV (go_itoa (ka_partition a)))] else [])
     @ (if ka_has_offset a then [(''messaging.kafka.offset'', IntV (ka_offset a))] else [])"

section \<open>Consumer\<close>

record 'h kafka_message =
  km_topic :: gostring
  km_key :: gostring
  km_value :: gostring
  km_partition :: int
  km_offset :: int
  km_headers :: 'h

record kafka_config =
  kc_brokers :: "gostring list"
  kc_topic :: gostring
  kc_group :: gostring

text \<open>A receive span: the values extracted from the headers as its parent, its start and its calls.\<close>

type_synonym receive_span = "gostring list \<times> span_start \<times> span_log"

definition kafka_end_calls :: "gostring option \<Rightarrow> span_log" where
  "kafka_end_calls err = (case err of Some e \<Rightarrow> [RecordError e, SetStatus StatusError e] | None \<Rightarrow> []) @ [SpanEnd]"

definition receive_span ::
  "gostring list \<Rightarrow> kafka_config \<Rightarrow> kafka_header list kafka_message \<Rightarrow> gostring option \<Rightarrow> receive_span" where
  "receive_span f cfg msg err =
     (let endpoint = (case kc_brokers cfg of b # _ \<Rightarrow> b | [] \<Rightarrow> []);
          topic = (if km_topic msg = [] then kc_topic cfg else km_topic msg)
      in (map (kafka_get (km_headers msg)) f,
          start_span (topic @ '' receive'') KindConsumer
            (kafka_request_trace_attrs
               \<lparr>ka_endpoint = endpoint, ka_destination = topic, ka_operation = ''receive'', ka_group = kc_group cfg,
                ka_key = kafka_message_key (km_key msg), ka_body_size = int (length (km_value msg)),
                ka_partition = km_partition msg, ka_offset = km_offset msg,
                ka_has_partition = (err = None), ka_has_offset = (err = None), ka_async = False\<rparr>),
          kafka_end_calls err))"

definition fetch_call_key :: gostring where "fetch_call_key = ''otelcKafkaFetchCallKey''"

text \<open>
  The hooked \<open>FetchMessage\<close> and \<open>ReadMessage\<close>, from the context (\<open>None\<close> is a nil one), the
  reader's configuration (\<open>None\<close> is a nil reader) and the original body, a function of the
  context; the result is the body's with the spans made on the way.
\<close>

type_synonym fetched = "kafka_header list kafka_message \<times> gostring option"

definition kafka_fetch_message ::
  "gostring list \<Rightarrow> bool \<Rightarrow> kafka_config option \<Rightarrow> (go_ctx option \<Rightarrow> fetched \<times> receive_span list) \<Rightarrow>
   go_ctx option \<Rightarrow> fetched \<times> receive_span list" where
  "kafka_fetch_message f en r body ctx =
     (let nested = (case ctx of Some c \<Rightarrow> c fetch_call_key \<noteq> None | None \<Rightarrow> False)
      in case body ctx of
           ((msg, err), spans) \<Rightarrow>
             ((msg, err),
              (case r of
                 Some cfg \<Rightarrow> if \<not> nested \<and> en then spans @ [receive_span f cfg msg err] else spans
               | None \<Rightarrow> spans)))"

definition kafka_read_message ::
  "gostring list \<Rightarrow> bool \<Rightarrow> kafka_config option \<Rightarrow> (go_ctx option \<Rightarrow> fetched \<times> receive_span list) \<Rightarrow>
   go_ctx option \<Rightarrow> fetched \<times> receive_span list" where
  "kafka_read_message f en r body ctx0 =
     (case (if en then r else None) of
        Some cfg \<Rightarrow>
          (let ctx = (case ctx0 of Some c \<Rightarrow> c | None \<Rightarrow> Map.empty)(fetch_call_key \<mapsto> True)
           in case body (Some ctx) of
                ((msg, err), spans) \<Rightarrow> ((msg, err), spans @ [receive_span f cfg msg err]))
      | None \<Rightarrow> body ctx0)"

section \<open>Producer\<close>

datatype completion = CompletionNil | CompletionUser nat | CompletionLogging completion

record kafka_writer =
  kw_id :: nat
  kw_async :: bool
  kw_addr :: "gostring option"
  kw_topic :: gostring
  kw_completion :: completion

text \<open>The wrapped callback: what it logs and the user callbacks it runs.\<close>

fun run_completion :: "completion \<Rightarrow> nat \<Rightarrow> gostring option \<Rightarrow> (gostring \<times> nat) list \<times> nat list" where
  "run_completion CompletionNil n err = ([], [])"
| "run_completion (CompletionUser u) n err = ([], [u])"
| "run_completion (CompletionLogging c) n err =
     (case run_completion c n err of (l, us) \<Rightarrow> ((case err of Some e \<Rightarrow> [(e, n)] | None \<Rightarrow> []) @ l, us))"

definition ensure_async_failure_logging :: "kafka_writer \<Rightarrow> nat set \<Rightarrow> kafka_writer \<times> nat set" where
  "ensure_async_failure_logging w onces =
     (if kw_id w \<in> onces then (w, onces)
      else (w\<lparr>kw_completion := CompletionLogging (kw_completion w)\<rparr>, insert (kw_id w) onces))"

datatype write_error = WriteErrors "gostring option list" | WriteFailed gostring

type_synonym slice_message = "header_slice kafka_message"

definition send_start :: "kafka_writer \<Rightarrow> slice_message \<Rightarrow> span_start" where
  "send_start w msg =
     (let endpoint = (case kw_addr w of Some a \<Rightarrow> a | None \<Rightarrow> []);
          topic = (if km_topic msg = [] then kw_topic w else km_topic msg)
      in start_span (topic @ '' send'') KindProducer
           (kafka_request_trace_attrs
              \<lparr>ka_endpoint = endpoint, ka_destination = topic, ka_operation = ''send'', ka_group = [],
               ka_key = kafka_message_key (km_key msg), ka_body_size = int (length (km_value msg)),
               ka_partition = 0, ka_offset = 0, ka_has_partition = False, ka_has_offset = False,
               ka_async = kw_async w\<rparr>))"

text \<open>The loop over the messages: \<open>inject i\<close> is what the propagator writes for the \<open>i\<close>-th span.\<close>

fun send_loop ::
  "(nat \<Rightarrow> nat) \<Rightarrow> (nat \<Rightarrow> kafka_header list) \<Rightarrow> kafka_writer \<Rightarrow> nat \<Rightarrow> slice_message list \<Rightarrow> header_store \<Rightarrow>
   span_start list \<times> slice_message list \<times> header_store" where
  "send_loop grow inject w i [] h = ([], [], h)"
| "send_loop grow inject w i (m # ms) h =
     (let (h1, s1) = fold (\<lambda>(k, v). carrier_set grow k v) (inject i) (h, km_headers m);
          (starts, ms', h2) = send_loop grow inject w (Suc i) ms h1
      in (send_start w m # starts, m\<lparr>km_headers := s1\<rparr> # ms', h2))"

definition send_error :: "write_error option \<Rightarrow> nat \<Rightarrow> gostring option" where
  "send_error err i =
     (case err of
        Some (WriteErrors es) \<Rightarrow> if i < length es then es ! i else None
      | Some (WriteFailed e) \<Rightarrow> Some e
      | None \<Rightarrow> None)"

fun end_spans :: "nat \<Rightarrow> write_error option \<Rightarrow> span_start list \<Rightarrow> (span_start \<times> span_log) list" where
  "end_spans i err [] = []"
| "end_spans i err (s # ss) = (s, kafka_end_calls (send_error err i)) # end_spans (Suc i) err ss"

text \<open>
  \<open>WriteMessages\<close>: the hook's start, the original body on the messages it left (a function of
  them giving the error), and its deferred end.
\<close>

definition kafka_write_messages where
  "kafka_write_messages grow inject en w0 onces msgs h0 body =
     (case (if en \<and> msgs \<noteq> [] then w0 else None) of
        Some w \<Rightarrow>
          (let (w', onces') = (if kw_async w then ensure_async_failure_logging w onces else (w, onces));
               (starts, msgs', h') = send_loop grow inject w' 0 msgs h0;
               err = body msgs' h'
           in (err, end_spans 0 err starts, msgs', h', Some w', onces'))
      | None \<Rightarrow> (body msgs h0, [], msgs, h0, w0, onces))"

interpretation kafka_end: reporting_hook kafka_end_calls "\<lambda>err. err \<noteq> None"
  by unfold_locales (auto simp: kafka_end_calls_def split: option.splits)

end
