(* ===== verification/Kafka_Props.thy ===== *)
theory Kafka_Props
  imports Kafka
begin

text \<open>
  Properties of the Kafka hooks: in the store, \<open>Set\<close> on a header slice does what it does on a
  list and leaves every other array alone, so that messages with arrays of their own each
  carry the context of their own span; messages that share an array do not.
\<close>

section \<open>Headers in the store\<close>

definition slice_range :: "header_slice \<Rightarrow> nat set" where
  "slice_range s = {hs_base s ..< hs_base s + hs_cap s}"

definition slice_ok :: "header_store \<Rightarrow> header_slice \<Rightarrow> bool" where
  "slice_ok h s \<longleftrightarrow> hs_len s \<le> hs_cap s \<and> hs_base s + hs_cap s \<le> st_next h"

text \<open>What a write to the slice \<open>s\<close> may change: nothing allocated outside its array.\<close>

definition writes_only :: "header_slice \<Rightarrow> header_store \<Rightarrow> header_slice \<Rightarrow> header_store \<Rightarrow> bool" where
  "writes_only s h s' h' \<longleftrightarrow> slice_ok h' s' \<and> st_next h \<le> st_next h' \<and>
     slice_range s' \<subseteq> slice_range s \<union> {st_next h ..< st_next h'} \<and>
     (\<forall>a. a < st_next h \<and> a \<notin> slice_range s \<longrightarrow> st_cells h' a = st_cells h a)"

lemma slice_headers_cong:
  assumes "slice_ok h s" "\<And>a. a \<in> slice_range s \<Longrightarrow> st_cells h' a = st_cells h a"
  shows "slice_headers h' s = slice_headers h s"
  using assms by (auto simp: slice_headers_def slice_range_def slice_ok_def)

lemma length_slice_headers [simp]: "length (slice_headers h s) = hs_len s"
  by (simp add: slice_headers_def)

lemma nth_slice_headers: "i < hs_len s \<Longrightarrow> slice_headers h s ! i = st_cells h (hs_base s + i)"
  by (simp add: slice_headers_def)

lemma find_key_Some: "find_key k hs = Some i \<Longrightarrow> i < length hs \<and> kafka_set k v hs = hs[i := (fst (hs ! i), v)]"
  by (induction k hs arbitrary: i rule: find_key.induct) (auto split: if_splits)

lemma find_key_None: "find_key k hs = None \<Longrightarrow> kafka_set k v hs = hs @ [(k, v)]"
  by (induction k hs rule: find_key.induct) (auto split: if_splits)

lemma append_header_spec:
  assumes "append_header grow x (h, s) = (h', s')" "slice_ok h s"
  shows "slice_headers h' s' = slice_headers h s @ [x]" "writes_only s h s' h'"
proof -
  show "slice_headers h' s' = slice_headers h s @ [x]"
    using assms
    by (auto simp: append_header_def slice_ok_def Let_def slice_headers_def list_eq_iff_nth_eq nth_append less_Suc_eq
        split: if_splits)
  show "writes_only s h s' h'"
    using assms
    by (auto simp: append_header_def slice_ok_def Let_def writes_only_def slice_range_def split: if_splits)
qed

lemma carrier_set_spec:
  assumes "carrier_set grow k v (h, s) = (h', s')" "slice_ok h s"
  shows "slice_headers h' s' = kafka_set k v (slice_headers h s)" "writes_only s h s' h'"
proof (atomize (full), cases "find_key k (slice_headers h s)")
  case None
  then show "slice_headers h' s' = kafka_set k v (slice_headers h s) \<and> writes_only s h s' h'"
    using assms append_header_spec [of grow "(k, v)" h s h' s'] find_key_None [OF None, of v]
    by (simp add: carrier_set_def)
next
  case (Some i)
  have i: "i < hs_len s" "kafka_set k v (slice_headers h s) = (slice_headers h s)[i := (fst (slice_headers h s ! i), v)]"
    using find_key_Some [OF Some, of v] by simp_all
  have eq: "h' = h\<lparr>st_cells := (st_cells h)(hs_base s + i := (fst (st_cells h (hs_base s + i)), v))\<rparr>" "s' = s"
    using assms(1) Some by (auto simp: carrier_set_def)
  have "slice_headers h' s' = (slice_headers h s)[i := (fst (slice_headers h s ! i), v)]"
    using i(1) by (auto simp: eq list_eq_iff_nth_eq nth_slice_headers nth_list_update)
  then show "slice_headers h' s' = kafka_set k v (slice_headers h s) \<and> writes_only s h s' h'"
    using i assms(2) by (auto simp: eq writes_only_def slice_range_def slice_ok_def)
qed

lemma writes_only_refl: "slice_ok h s \<Longrightarrow> writes_only s h s h"
  by (simp add: writes_only_def)

lemma writes_only_trans:
  assumes "writes_only s h s1 h1" "writes_only s1 h1 s2 h2"
  shows "writes_only s h s2 h2"
proof -
  have n: "st_next h \<le> st_next h1" "st_next h1 \<le> st_next h2" and ok: "slice_ok h2 s2"
    and r1: "slice_range s1 \<subseteq> slice_range s \<union> {st_next h ..< st_next h1}"
    and r2: "slice_range s2 \<subseteq> slice_range s1 \<union> {st_next h1 ..< st_next h2}"
    and c1: "\<And>a. a < st_next h \<Longrightarrow> a \<notin> slice_range s \<Longrightarrow> st_cells h1 a = st_cells h a"
    and c2: "\<And>a. a < st_next h1 \<Longrightarrow> a \<notin> slice_range s1 \<Longrightarrow> st_cells h2 a = st_cells h1 a"
    using assms by (simp_all add: writes_only_def)
  have "slice_range s2 \<subseteq> slice_range s \<union> {st_next h ..< st_next h2}"
  proof
    fix a assume "a \<in> slice_range s2"
    then have "a \<in> slice_range s1 \<or> (st_next h1 \<le> a \<and> a < st_next h2)" using r2 by auto
    then have "a \<in> slice_range s \<or> (st_next h \<le> a \<and> a < st_next h1) \<or> (st_next h1 \<le> a \<and> a < st_next h2)"
      using r1 by auto
    then show "a \<in> slice_range s \<union> {st_next h ..< st_next h2}" using n by auto
  qed
  moreover have "st_cells h2 a = st_cells h a" if "a < st_next h" "a \<notin> slice_range s" for a
  proof -
    have "a \<notin> slice_range s1" using that r1 by auto
    then show ?thesis using c1 [OF that] c2 [of a] that(1) n(1) by simp
  qed
  ultimately show ?thesis using n ok by (simp add: writes_only_def)
qed

lemma inject_spec:
  assumes "fold (\<lambda>(k, v). carrier_set grow k v) kvs (h, s) = (h', s')" "slice_ok h s"
  shows "slice_headers h' s' = fold (\<lambda>(k, v). kafka_set k v) kvs (slice_headers h s) \<and> writes_only s h s' h'"
  using assms
proof (induction kvs arbitrary: h s)
  case (Cons kv kvs)
  obtain k v where kv: "kv = (k, v)" by fastforce
  obtain h1 s1 where step: "carrier_set grow k v (h, s) = (h1, s1)" by fastforce
  note one = carrier_set_spec [OF step Cons.prems(2)]
  then have "slice_ok h1 s1" by (simp add: writes_only_def)
  with Cons.IH [of h1 s1] Cons.prems(1) step kv one show ?case
    by (auto intro: writes_only_trans)
qed (auto simp: writes_only_refl)

section \<open>One context per message\<close>

definition separate :: "slice_message list \<Rightarrow> bool" where
  "separate ms \<longleftrightarrow> sorted_wrt (\<lambda>m m'. slice_range (km_headers m) \<inter> slice_range (km_headers m') = {}) ms"

lemma send_loop_starts: "send_loop grow inject w i ms h = (starts, ms', h') \<Longrightarrow> starts = map (send_start w) ms"
  by (induction ms arbitrary: i h starts ms' h') (auto simp: Let_def split: prod.splits)

lemma send_loop_length: "send_loop grow inject w i ms h = (starts, ms', h') \<Longrightarrow> length ms' = length ms"
  by (induction ms arbitrary: i h starts ms' h') (auto simp: Let_def split: prod.splits)

lemma send_loop_spec:
  assumes "send_loop grow inject w i ms h = (starts, ms', h')" "separate ms" "\<forall>m \<in> set ms. slice_ok h (km_headers m)"
  shows "st_next h \<le> st_next h' \<and>
    (\<forall>a. a < st_next h \<and> (\<forall>m \<in> set ms. a \<notin> slice_range (km_headers m)) \<longrightarrow> st_cells h' a = st_cells h a) \<and>
    (\<forall>j < length ms. slice_headers h' (km_headers (ms' ! j)) =
       fold (\<lambda>(k, v). kafka_set k v) (inject (i + j)) (slice_headers h (km_headers (ms ! j))))"
  using assms
proof (induction ms arbitrary: i h starts ms')
  case (Cons m ms)
  let ?s = "km_headers m"
  obtain h1 s1 where inj: "fold (\<lambda>(k, v). carrier_set grow k v) (inject i) (h, ?s) = (h1, s1)" by fastforce
  obtain starts2 ms2 where rest: "send_loop grow inject w (Suc i) ms h1 = (starts2, ms2, h')"
    and res: "ms' = m\<lparr>km_headers := s1\<rparr> # ms2"
    using Cons.prems(1) inj by (auto simp: Let_def split: prod.splits)
  have ok: "slice_ok h ?s" using Cons.prems(3) by simp
  have spec: "slice_headers h1 s1 = fold (\<lambda>(k, v). kafka_set k v) (inject i) (slice_headers h ?s)"
    and wo: "writes_only ?s h s1 h1"
    using inject_spec [OF inj ok] by simp_all
  have others: "slice_range (km_headers x) \<inter> slice_range ?s = {} \<and> slice_ok h (km_headers x)" if "x \<in> set ms" for x
    using Cons.prems(2,3) that by (auto simp: separate_def)
  have low: "a < st_next h" if "x \<in> set ms" "a \<in> slice_range (km_headers x)" for x a
    using others [OF that(1)] that(2) by (auto simp: slice_ok_def slice_range_def)
  have ok1: "slice_ok h1 (km_headers x)" "slice_headers h1 (km_headers x) = slice_headers h (km_headers x)"
    if "x \<in> set ms" for x
  proof -
    show "slice_ok h1 (km_headers x)" using others [OF that] wo by (auto simp: writes_only_def slice_ok_def)
    show "slice_headers h1 (km_headers x) = slice_headers h (km_headers x)"
      using others [OF that] low [OF that] wo by (intro slice_headers_cong) (auto simp: writes_only_def)
  qed
  note IH = Cons.IH [OF rest _ ballI [OF ok1(1)]]
  have IH': "st_next h1 \<le> st_next h'"
    "\<And>a. a < st_next h1 \<Longrightarrow> \<forall>x \<in> set ms. a \<notin> slice_range (km_headers x) \<Longrightarrow> st_cells h' a = st_cells h1 a"
    "\<And>j. j < length ms \<Longrightarrow> slice_headers h' (km_headers (ms2 ! j)) =
       fold (\<lambda>(k, v). kafka_set k v) (inject (Suc (i + j))) (slice_headers h1 (km_headers (ms ! j)))"
    using IH Cons.prems(2) by (simp_all add: separate_def)
  have "slice_headers h' s1 = slice_headers h1 s1"
  proof (rule slice_headers_cong)
    show "slice_ok h1 s1" using wo by (simp add: writes_only_def)
    fix a assume "a \<in> slice_range s1"
    then have a: "a < st_next h1" "a \<in> slice_range ?s \<or> st_next h \<le> a"
      using wo by (auto simp: writes_only_def slice_ok_def slice_range_def subset_iff)
    have "a \<notin> slice_range (km_headers x)" if "x \<in> set ms" for x
      using a(2) others [OF that] low [OF that, of a] by auto
    then show "st_cells h' a = st_cells h1 a" using IH'(2) a(1) by blast
  qed
  then have first: "slice_headers h' (km_headers (ms' ! 0)) = fold (\<lambda>(k, v). kafka_set k v) (inject i) (slice_headers h ?s)"
    by (simp add: res spec)
  have "slice_headers h' (km_headers (ms' ! j)) =
       fold (\<lambda>(k, v). kafka_set k v) (inject (i + j)) (slice_headers h (km_headers ((m # ms) ! j)))"
    if "j < length (m # ms)" for j
  proof (cases j)
    case (Suc j')
    then show ?thesis using that IH'(3) [of j'] ok1(2) [of "ms ! j'"] by (simp add: res)
  qed (use first in simp)
  moreover have "st_next h \<le> st_next h'" using IH'(1) wo by (simp add: writes_only_def)
  moreover have "st_cells h' a = st_cells h a"
    if "a < st_next h" "\<forall>x \<in> set (m # ms). a \<notin> slice_range (km_headers x)" for a
    using that IH'(2) [of a] wo by (auto simp: writes_only_def)
  ultimately show ?case by simp
qed simp

lemma end_spans_nth:
  "i < length ss \<Longrightarrow> end_spans n err ss ! i = (ss ! i, kafka_end_calls (send_error err (n + i)))"
  by (induction n err ss arbitrary: i rule: end_spans.induct) (auto simp: nth_Cons split: nat.split)

lemma length_end_spans [simp]: "length (end_spans n err ss) = length ss"
  by (induction n err ss rule: end_spans.induct) auto


definition demo_headers :: header_store where
  "demo_headers = \<lparr>st_cells = (\<lambda>_. (''tp'', ''old'')), st_next = 3\<rparr>"

definition demo_message :: "nat \<Rightarrow> slice_message" where
  "demo_message b = \<lparr>km_topic = [], km_key = [], km_value = [], km_partition = 0, km_offset = 0,
     km_headers = \<lparr>hs_base = b, hs_len = 1, hs_cap = 1\<rparr>\<rparr>"

definition demo_inject :: "nat \<Rightarrow> kafka_header list" where
  "demo_inject i = [(''tp'', if i = 0 then ''first'' else ''second'')]"

definition demo_writer :: kafka_writer where
  "demo_writer = \<lparr>kw_id = 0, kw_async = False, kw_addr = None, kw_topic = ''t'', kw_completion = CompletionNil\<rparr>"

definition demo_write :: "slice_message list \<Rightarrow> slice_message list \<times> header_store" where
  "demo_write msgs =
     (case kafka_write_messages Suc demo_inject True (Some demo_writer) {} msgs demo_headers (\<lambda>_ _. None) of
        (err, spans, msgs', h', r) \<Rightarrow> (msgs', h'))"


text \<open>
  The condition on the arrays is needed: two messages sent with the same header slice
  both carry the context of the last span.
\<close>

theorem kafka_shared_headers_mixed:
  "let (msgs', h') = demo_write [demo_message 0, demo_message 0]
   in kafka_get (slice_headers h' (km_headers (msgs' ! 0))) ''tp'' = ''second''"
  by (simp add: demo_write_def kafka_write_messages_def demo_message_def demo_headers_def demo_writer_def demo_inject_def
      carrier_set_def slice_headers_def Let_def)

section \<open>One span per read\<close>

text \<open>
  A reader's \<open>ReadMessage\<close>, whose body calls the hooked \<open>FetchMessage\<close>, makes exactly one receive
  span, for the message and the error it returns; so does \<open>FetchMessage\<close> called by the
  application, in any context that is not one of a running \<open>ReadMessage\<close>.
\<close>
theorem kafka_read_once:
  assumes "case ctx of Some c \<Rightarrow> c fetch_call_key = None | None \<Rightarrow> True"
  shows "kafka_read_message f True (Some cfg) (kafka_fetch_message f True (Some cfg) (\<lambda>c. (orig c, []))) ctx
     = (let c = (case ctx of Some c \<Rightarrow> c | None \<Rightarrow> Map.empty)(fetch_call_key \<mapsto> True)
        in (orig (Some c), [receive_span f cfg (fst (orig (Some c))) (snd (orig (Some c)))])) \<and>
    kafka_fetch_message f True (Some cfg) (\<lambda>c. (orig c, [])) ctx
     = (orig ctx, [receive_span f cfg (fst (orig ctx)) (snd (orig ctx))])"
  using assms by (auto simp: kafka_read_message_def kafka_fetch_message_def Let_def split: prod.split option.split)

theorem kafka_read_once_witness:
  "\<forall>f cfg orig. snd (kafka_read_message f True (Some cfg) (kafka_fetch_message f True (Some cfg) (\<lambda>c. (orig c, []))) None)
     = [receive_span f cfg (fst (orig (Some [fetch_call_key \<mapsto> True]))) (snd (orig (Some [fetch_call_key \<mapsto> True])))]"
  using kafka_read_once [of None] by (simp add: Let_def)

end
