(* ===== verification/Redis.thy ===== *)
theory Redis
  imports Hook_Support Go_Net Go_Json
begin

text \<open>
  Model of \<open>otelc/plugins/redisv9\<close>: the go-redis hook that puts a client span around every
  command and pipeline, and the statement text it records, in which the credentials of
  \<open>AUTH\<close> and \<open>HELLO\<close> are replaced.  A command is what the hook reads of go-redis' \<open>Cmder\<close>
  interface: its name, its full name, its arguments and its error.  An error is its text, with the flag that
  \<open>errors.Is\<close> finds go-redis' \<open>Nil\<close> in it.  Numbers that are not integers and times come as the
  text the standard library formats them to.
\<close>

section \<open>Commands\<close>

datatype redis_arg =
    ArgNil | ArgStr gostring | ArgBytes gostring | ArgInt int | ArgUint nat
  | ArgFloat gostring | ArgBool bool | ArgTime gostring | ArgOther

type_synonym redis_error = "bool \<times> gostring"

record redis_cmd =
  rc_name :: gostring
  rc_full_name :: gostring
  rc_args :: "redis_arg list"
  rc_err :: "redis_error option"

text \<open>\<open>err != nil && !errors.Is(err, Nil)\<close>\<close>

fun real_error :: "redis_error option \<Rightarrow> gostring option" where
  "real_error None = None"
| "real_error (Some (is_nil, e)) = (if is_nil then None else Some e)"

definition redis_arg_equal_fold :: "redis_arg \<Rightarrow> gostring \<Rightarrow> bool" where
  "redis_arg_equal_fold v s =
     (case v of ArgStr a \<Rightarrow> equal_fold_ascii a s | ArgBytes a \<Rightarrow> equal_fold_ascii a s | _ \<Rightarrow> False)"

definition redis_append_arg :: "gostring \<Rightarrow> redis_arg \<Rightarrow> gostring" where
  "redis_append_arg b v =
     b @ (case v of
            ArgNil \<Rightarrow> ''<nil>''
          | ArgStr s \<Rightarrow> if valid_utf8 s then s else ''<string>''
          | ArgBytes s \<Rightarrow> if valid_utf8 s then s else ''<byte>''
          | ArgInt n \<Rightarrow> go_itoa n
          | ArgUint n \<Rightarrow> nat_dec n
          | ArgFloat s \<Rightarrow> s
          | ArgBool x \<Rightarrow> if x then ''true'' else ''false''
          | ArgTime s \<Rightarrow> s
          | ArgOther \<Rightarrow> ''not_support_type'')"

section \<open>Redaction\<close>

text \<open>The loop of \<open>otelcRedisHelloAuthIndex\<close> at index \<open>i\<close>, after the argument \<open>prev\<close>.\<close>

fun hello_auth_from :: "nat \<Rightarrow> redis_arg \<Rightarrow> redis_arg list \<Rightarrow> nat option" where
  "hello_auth_from i prev [] = None"
| "hello_auth_from i prev (a # as) =
     (if \<not> redis_arg_equal_fold a ''auth'' then hello_auth_from (Suc i) a as
      else if i > 1 \<and> redis_arg_equal_fold prev ''setname'' then hello_auth_from (Suc i) a as
      else Some i)"

definition redis_hello_auth_index :: "redis_arg list \<Rightarrow> nat option" where
  "redis_hello_auth_index args = (case args of [] \<Rightarrow> None | a # as \<Rightarrow> hello_auth_from 1 a as)"

definition redis_hello_auth_arg_n :: nat where "redis_hello_auth_arg_n = 2"

definition redis_credential_redact_range :: "gostring \<Rightarrow> redis_arg list \<Rightarrow> nat \<times> nat" where
  "redis_credential_redact_range name args =
     (if name = ''auth'' then (if length args > 1 then (1, length args) else (0, 0))
      else if name = ''hello'' then
        (case redis_hello_auth_index args of
           Some i \<Rightarrow> (i + 1, min (i + 1 + redis_hello_auth_arg_n) (length args))
         | None \<Rightarrow> (0, 0))
      else (0, 0))"

fun redis_statement_loop :: "nat \<Rightarrow> nat \<Rightarrow> nat \<Rightarrow> redis_arg list \<Rightarrow> gostring \<Rightarrow> gostring" where
  "redis_statement_loop lo hi i [] b = b"
| "redis_statement_loop lo hi i (a # as) b =
     (let b1 = (if i > 0 then b @ '' '' else b)
      in redis_statement_loop lo hi (Suc i) as
           (if lo \<le> i \<and> i < hi then b1 @ ''?'' else redis_append_arg b1 a))"

definition redis_statement :: "redis_cmd \<Rightarrow> gostring" where
  "redis_statement c =
     (let (lo, hi) = redis_credential_redact_range (rc_name c) (rc_args c);
          b = redis_statement_loop lo hi 0 (rc_args c) []
      in case real_error (rc_err c) of Some e \<Rightarrow> b @ '': '' @ e | None \<Rightarrow> b)"

section \<open>The hooks\<close>

definition redis_request_trace_attrs :: "gostring \<Rightarrow> gostring \<Rightarrow> gostring \<Rightarrow> attrs" where
  "redis_request_trace_attrs endpoint full_name statement =
     (let sp = split_host_port endpoint;
          host = (case sp of Some (h, _) \<Rightarrow> h | None \<Rightarrow> endpoint)
      in [(''db.system.name'', StrV ''redis''), (''db.operation.name'', StrV full_name),
          (''server.address'', StrV host), (''network.transport'', StrV ''tcp''),
          (''db.query.text'', StrV statement)]
         @ (case sp of
              None \<Rightarrow> []
            | Some (_, port_str) \<Rightarrow>
                (case go_atoi port_str of
                   Some port \<Rightarrow> if port > 0 then [(''server.port'', IntV port)] else []
                 | None \<Rightarrow> [])))"

text \<open>
  A hook's run: the error it returns (that of \<open>next\<close>), and the span with its calls, \<open>None\<close>
  when the instrumentation is off.
\<close>

type_synonym redis_run = "redis_error option \<times> (span_start \<times> span_log) option"

definition redis_finish :: "redis_error option \<Rightarrow> span_log" where
  "redis_finish err =
     (case real_error err of Some e \<Rightarrow> [RecordError e, SetStatus StatusError e] | None \<Rightarrow> []) @ [SpanEnd]"

definition redis_process_hook :: "bool \<Rightarrow> gostring \<Rightarrow> redis_cmd \<Rightarrow> redis_error option \<Rightarrow> redis_run" where
  "redis_process_hook en addr cmd err =
     (if \<not> en then (err, None)
      else (err, Some (start_span (rc_full_name cmd) KindClient
                         (redis_request_trace_attrs addr (rc_full_name cmd) (redis_statement cmd)),
                       redis_finish err)))"

fun pipeline_summary :: "redis_cmd list \<Rightarrow> gostring" where
  "pipeline_summary [] = []"
| "pipeline_summary (c # cs) = rc_full_name c @ ''/'' @ pipeline_summary cs"

text \<open>\<open>new_cmd\<close> is go-redis' \<open>NewCmd\<close> on two string arguments.\<close>

definition redis_process_pipeline_hook ::
  "(gostring \<Rightarrow> gostring \<Rightarrow> redis_cmd) \<Rightarrow> bool \<Rightarrow> gostring \<Rightarrow> redis_cmd list \<Rightarrow> redis_error option \<Rightarrow> redis_run" where
  "redis_process_pipeline_hook new_cmd en addr cmds err =
     (if \<not> en then (err, None)
      else let summary = pipeline_summary (if length cmds > 10 then take 10 cmds else cmds)
                           @ (if length cmds > 10 then ''...'' else []);
               cmd = new_cmd ''pipeline'' summary
           in (err, Some (start_span (rc_full_name cmd) KindClient
                            (redis_request_trace_attrs addr (rc_full_name cmd) (redis_statement cmd)),
                          redis_finish err)))"

definition redis_dial_hook :: "'conn \<Rightarrow> redis_error option \<Rightarrow> 'conn option \<times> redis_error option" where
  "redis_dial_hook conn err = (case err of Some e \<Rightarrow> (None, Some e) | None \<Rightarrow> (Some conn, err))"

text \<open>
  The constructors: a client (its address and hooks) gets one hook on its own address when it
  was created; a ring or cluster client has one added to every node it opens.
\<close>

record redis_client =
  cl_addr :: gostring
  cl_hooks :: "gostring list"

definition redis_new_client :: "redis_client option \<Rightarrow> redis_client option" where
  "redis_new_client c = map_option (\<lambda>c. c\<lparr>cl_hooks := cl_hooks c @ [cl_addr c]\<rparr>) c"

definition redis_new_node :: "redis_client \<Rightarrow> redis_client" where
  "redis_new_node rdb = rdb\<lparr>cl_hooks := cl_hooks rdb @ [cl_addr rdb]\<rparr>"

definition redis_new_failover_client :: "redis_client option \<Rightarrow> redis_client option" where
  "redis_new_failover_client c = map_option (\<lambda>c. c\<lparr>cl_hooks := cl_hooks c @ [cl_addr c]\<rparr>) c"

text \<open>A cluster client adds the hook to the nodes it opens; the others name themselves by their \<open>String\<close>.\<close>

definition redis_new_cluster_node :: "redis_client \<Rightarrow> redis_client" where
  "redis_new_cluster_node rdb = rdb\<lparr>cl_hooks := cl_hooks rdb @ [cl_addr rdb]\<rparr>"

definition redis_new_sentinel_client :: "(redis_client \<Rightarrow> gostring) \<Rightarrow> redis_client option \<Rightarrow> redis_client option" where
  "redis_new_sentinel_client str c = map_option (\<lambda>c. c\<lparr>cl_hooks := cl_hooks c @ [str c]\<rparr>) c"

definition redis_conn :: "(redis_client \<Rightarrow> gostring) \<Rightarrow> redis_client option \<Rightarrow> redis_client option" where
  "redis_conn str c = map_option (\<lambda>c. c\<lparr>cl_hooks := cl_hooks c @ [str c]\<rparr>) c"

interpretation redis_end: reporting_hook redis_finish "\<lambda>err. real_error err \<noteq> None"
  by unfold_locales (auto simp: redis_finish_def split: option.splits dest: sym)

section \<open>Credentials\<close>

text \<open>
  Two commands that differ only in their credentials: any argument of \<open>AUTH\<close>; and, for
  \<open>HELLO version [SETNAME name] AUTH user password ...\<close>, the user and the password, where
  the version is not an option name and the client is not itself called \<open>setname\<close>.
\<close>

inductive same_but_credentials :: "gostring \<Rightarrow> redis_arg list \<Rightarrow> redis_arg list \<Rightarrow> bool" where
  auth: "length creds = length creds' \<Longrightarrow> same_but_credentials ''auth'' (a # creds) (a # creds')"
| hello: "\<not> redis_arg_equal_fold ver ''auth'' \<Longrightarrow> \<not> redis_arg_equal_fold ver ''setname'' \<Longrightarrow>
    redis_arg_equal_fold kw ''auth'' \<Longrightarrow>
    same_but_credentials ''hello'' (a # ver # kw # user # pass # rest) (a # ver # kw # user' # pass' # rest)"
| hello_named: "\<not> redis_arg_equal_fold ver ''auth'' \<Longrightarrow>
    redis_arg_equal_fold sn ''setname'' \<Longrightarrow> \<not> redis_arg_equal_fold client ''setname'' \<Longrightarrow>
    redis_arg_equal_fold kw ''auth'' \<Longrightarrow>
    same_but_credentials ''hello'' (a # ver # sn # client # kw # user # pass # rest)
      (a # ver # sn # client # kw # user' # pass' # rest)"
| other: "same_but_credentials name args args"

lemma statement_loop_redacted:
  "length xs = length ys \<Longrightarrow> lo \<le> i \<Longrightarrow> i + length xs \<le> hi \<Longrightarrow>
   redis_statement_loop lo hi i (xs @ rest) b = redis_statement_loop lo hi i (ys @ rest) b"
  by (induction xs ys arbitrary: i b rule: list_induct2) (auto simp: Let_def)

lemma auth_not_setname: "redis_arg_equal_fold a ''setname'' \<Longrightarrow> \<not> redis_arg_equal_fold a ''auth''"
  by (auto simp: redis_arg_equal_fold_def equal_fold_ascii_def to_lower_def ascii_lower_def split: redis_arg.splits)

lemma statement_hides:
  "same_but_credentials name args args' \<Longrightarrow>
   (case redis_credential_redact_range name args of (lo, hi) \<Rightarrow> redis_statement_loop lo hi 0 args []) =
   (case redis_credential_redact_range name args' of (lo, hi) \<Rightarrow> redis_statement_loop lo hi 0 args' [])"
proof (induction rule: same_but_credentials.induct)
  case (auth creds creds' a)
  then show ?case
    using statement_loop_redacted [of creds creds' 1 1 "Suc (length creds)" "[]"]
    by (auto simp: redis_credential_redact_range_def Let_def)
next
  case (hello ver kw a user pass rest user' pass')
  then show ?case
    by (simp add: redis_credential_redact_range_def redis_hello_auth_index_def redis_hello_auth_arg_n_def Let_def)
next
  case (hello_named ver sn client kw a user pass rest user' pass')
  then show ?case
    using auth_not_setname [of sn]
    by (simp add: redis_credential_redact_range_def redis_hello_auth_index_def redis_hello_auth_arg_n_def Let_def)
qed simp



text \<open>
  The condition on the client's name is needed: for a client called \<open>setname\<close> the
  \<open>AUTH\<close> option is taken for its name, and the password is recorded.
\<close>

theorem redis_hello_setname_leaks:
  "redis_statement \<lparr>rc_name = ''hello'', rc_full_name = ''hello'',
      rc_args = [ArgStr ''hello'', ArgInt 3, ArgStr ''SETNAME'', ArgStr ''setname'', ArgStr ''AUTH'', ArgStr ''bob'', ArgStr ''pw1''],
      rc_err = None\<rparr> = ''hello 3 SETNAME setname AUTH bob pw1''"
  by code_simp

end
