(* ===== verification/Grpc.thy ===== *)
theory Grpc
  imports Net_Http
begin

text \<open>
  Model of \<open>otelc/plugins/grpc/grpc.go\<close>: the stats handlers put on client connections and
  servers.  \<open>TagRPC\<close> starts a span and puts a fresh record of counters into the RPC's context,
  \<open>HandleRPC\<close> reacts to the events of the RPC, which for different RPCs come in any order.
  Spans and counter records are numbers into the maps of the state; a context is what the
  handlers read of it.  What \<open>status.FromError\<close> makes of an error is part of the error.
\<close>

section \<open>Names, status and addresses\<close>

definition grpc_is_exporter_path :: "gostring \<Rightarrow> bool" where
  "grpc_is_exporter_path m \<longleftrightarrow>
     m = ''/opentelemetry.proto.collector.trace.v1.TraceService/Export'' \<or>
     m = ''/opentelemetry.proto.collector.metrics.v1.MetricsService/Export'' \<or>
     m = ''/opentelemetry.proto.collector.logs.v1.LogsService/Export''"

definition grpc_parse_full_method :: "gostring \<Rightarrow> gostring \<times> attrs" where
  "grpc_parse_full_method full =
     (let sys = [(''rpc.system'', StrV ''grpc'')]
      in if \<not> has_prefix full ''/'' then (full, sys)
         else (let name = drop 1 full
               in case last_index_byte name CHR ''/'' of
                    None \<Rightarrow> (name, sys)
                  | Some pos \<Rightarrow>
                      (let service = take pos name; m = drop (pos + 1) name
                       in (name, sys @ opt_attr (service \<noteq> []) ''rpc.service'' (StrV service)
                                 @ opt_attr (m \<noteq> []) ''rpc.method'' (StrV m)))))"

definition grpc_status_code_attr :: "int \<Rightarrow> gostring \<times> attr_value" where
  "grpc_status_code_attr code = (''rpc.grpc.status_code'', IntV code)"

record grpc_status =
  gt_code :: int
  gt_message :: gostring

definition grpc_server_status :: "grpc_status \<Rightarrow> status_code \<times> gostring" where
  "grpc_server_status s =
     (if gt_code s \<in> {0, 1, 3, 5, 6, 7, 8, 9, 10, 11, 16} then (StatusUnset, [])
      else if gt_code s \<in> {2, 4, 12, 13, 14, 15} then (StatusError, gt_message s)
      else (StatusError, gt_message s))"

definition grpc_client_status :: "grpc_status \<Rightarrow> status_code \<times> gostring" where
  "grpc_client_status s = (if gt_code s = 0 then (StatusUnset, []) else (StatusError, gt_message s))"

definition grpc_split_host_port :: "gostring \<Rightarrow> gostring \<times> int" where
  "grpc_split_host_port hostport =
     (let full = (case split_host_port hostport of
                    None \<Rightarrow> ([], -1)
                  | Some (host, p_str) \<Rightarrow> (case parse_uint16 p_str of None \<Rightarrow> (host, -1) | Some p \<Rightarrow> (host, int p)))
      in if has_prefix hostport ''[''
         then (case last_index_byte hostport CHR '']'' of
                 None \<Rightarrow> ([], -1)
               | Some addr_end \<Rightarrow>
                   if CHR '':'' \<notin> set (drop addr_end hostport) then (drop 1 (take addr_end hostport), -1) else full)
         else if CHR '':'' \<notin> set hostport then (hostport, -1)
         else full)"

definition grpc_server_addr_attrs :: "gostring \<Rightarrow> attrs" where
  "grpc_server_addr_attrs addr =
     (case grpc_split_host_port addr of
        (host, port) \<Rightarrow> opt_attr (host \<noteq> []) ''server.address'' (StrV host) @ opt_attr (port > 0) ''server.port'' (IntV port))"

definition grpc_client_addr_attrs :: "gostring \<Rightarrow> attrs" where
  "grpc_client_addr_attrs addr =
     (case grpc_split_host_port addr of
        (host, port) \<Rightarrow> opt_attr (host \<noteq> []) ''client.address'' (StrV host) @ opt_attr (port > 0) ''client.port'' (IntV port))"

section \<open>Metadata\<close>

type_synonym grpc_md = "gostring \<rightharpoonup> gostring list"

definition md_get :: "grpc_md \<Rightarrow> gostring \<Rightarrow> gostring" where
  "md_get md key = (case md (to_lower key) of Some (v # _) \<Rightarrow> v | _ \<Rightarrow> [])"

definition md_set :: "gostring \<Rightarrow> gostring \<Rightarrow> grpc_md \<Rightarrow> grpc_md" where
  "md_set key value md = md(to_lower key \<mapsto> [value])"

definition md_keys :: "grpc_md \<Rightarrow> gostring set" where
  "md_keys md = dom md"

interpretation grpc_carrier: text_map_carrier md_get md_set to_lower
  by unfold_locales (auto simp: md_get_def md_set_def)

section \<open>State and contexts\<close>

record grpc_counters =
  gx_in :: int
  gx_out :: int
  gx_attrs :: attrs

record grpc_span =
  gp_parent :: "gostring list"
  gp_start :: span_start
  gp_sampled :: bool
  gp_log :: span_log

datatype instrument = Duration | RequestSize | ResponseSize | RequestsPerRpc | ResponsesPerRpc

text \<open>A data point: the counters of the RPC whose context it is recorded with, instrument, value, attributes.\<close>

type_synonym data_point = "nat \<times> instrument \<times> int \<times> attrs"

record grpc_state =
  gs_spans :: "nat \<Rightarrow> grpc_span"
  gs_next_span :: nat
  gs_counters :: "nat \<Rightarrow> grpc_counters"
  gs_next_counters :: nat
  gs_points :: "data_point list"

record grpc_ctx =
  cx_span :: "nat option"
  cx_counters :: "nat option"
  cx_outgoing :: "grpc_md option"
  cx_incoming :: "grpc_md option"
  cx_peer :: "gostring option"

definition start_rpc_span :: "gostring list \<Rightarrow> span_start \<Rightarrow> bool \<Rightarrow> grpc_state \<Rightarrow> nat \<times> grpc_state" where
  "start_rpc_span parent start sampled st =
     (gs_next_span st,
      st\<lparr>gs_spans := (gs_spans st)(gs_next_span st := \<lparr>gp_parent = parent, gp_start = start, gp_sampled = sampled, gp_log = []\<rparr>),
         gs_next_span := Suc (gs_next_span st)\<rparr>)"

definition new_counters :: "attrs \<Rightarrow> grpc_state \<Rightarrow> nat \<times> grpc_state" where
  "new_counters a st =
     (gs_next_counters st,
      st\<lparr>gs_counters := (gs_counters st)(gs_next_counters st := \<lparr>gx_in = 0, gx_out = 0, gx_attrs = a\<rparr>),
         gs_next_counters := Suc (gs_next_counters st)\<rparr>)"

definition grpc_inject :: "(gostring \<times> gostring) list \<Rightarrow> grpc_ctx \<Rightarrow> grpc_ctx" where
  "grpc_inject kvs ctx =
     (let md = (case cx_outgoing ctx of Some md \<Rightarrow> md | None \<Rightarrow> Map.empty)
      in ctx\<lparr>cx_outgoing := Some (fold (\<lambda>(k, v). md_set k v) kvs md)\<rparr>)"

definition grpc_extract :: "gostring list \<Rightarrow> grpc_ctx \<Rightarrow> gostring list" where
  "grpc_extract f ctx = map (md_get (case cx_incoming ctx of Some md \<Rightarrow> md | None \<Rightarrow> Map.empty)) f"

text \<open>
  \<open>TagRPC\<close> of the two handlers.  A client span has the span of the context as its parent, which is
  not followed here; \<open>kvs\<close> is what the propagator writes for the new span, \<open>f\<close> the fields
  it reads, \<open>sampled\<close> the sampler's decision.
\<close>

definition client_tag_rpc ::
  "(gostring \<times> gostring) list \<Rightarrow> bool \<Rightarrow> gostring \<Rightarrow> grpc_ctx \<Rightarrow> grpc_state \<Rightarrow> grpc_ctx \<times> grpc_state" where
  "client_tag_rpc kvs sampled full ctx st =
     (if grpc_is_exporter_path full then (ctx, st)
      else let (name, attrs) = grpc_parse_full_method full;
               (s, st1) = start_rpc_span [] (start_span name KindClient attrs) sampled st;
               ctx1 = grpc_inject kvs (ctx\<lparr>cx_span := Some s\<rparr>);
               (g, st2) = new_counters attrs st1
           in (ctx1\<lparr>cx_counters := Some g\<rparr>, st2))"

definition server_tag_rpc ::
  "gostring list \<Rightarrow> bool \<Rightarrow> gostring \<Rightarrow> grpc_ctx \<Rightarrow> grpc_state \<Rightarrow> grpc_ctx \<times> grpc_state" where
  "server_tag_rpc f sampled full ctx st =
     (if grpc_is_exporter_path full then (ctx, st)
      else let parent = grpc_extract f ctx;
               (name, attrs) = grpc_parse_full_method full;
               (s, st1) = start_rpc_span parent (start_span name KindServer attrs) sampled st;
               (g, st2) = new_counters attrs st1
           in (ctx\<lparr>cx_span := Some s, cx_counters := Some g\<rparr>, st2))"

section \<open>Events\<close>

record grpc_error =
  ge_text :: gostring
  ge_status :: grpc_status

datatype rpc_stats =
    StatsBegin | StatsOutPayload int | StatsInPayload int | StatsOutHeader
  | StatsEnd "grpc_error option" int | StatsOther

definition span_recording :: "grpc_ctx \<Rightarrow> grpc_state \<Rightarrow> bool" where
  "span_recording ctx st =
     (case cx_span ctx of
        None \<Rightarrow> False
      | Some s \<Rightarrow> gp_sampled (gs_spans st s) \<and> SpanEnd \<notin> set (gp_log (gs_spans st s)))"

definition span_calls :: "span_log \<Rightarrow> grpc_ctx \<Rightarrow> grpc_state \<Rightarrow> grpc_state" where
  "span_calls log ctx st =
     (case cx_span ctx of
        None \<Rightarrow> st
      | Some s \<Rightarrow> st\<lparr>gs_spans := (gs_spans st)(s := (gs_spans st s)\<lparr>gp_log := gp_log (gs_spans st s) @ log\<rparr>)\<rparr>)"

definition record_point :: "(instrument \<Rightarrow> bool) \<Rightarrow> nat \<Rightarrow> instrument \<Rightarrow> int \<Rightarrow> attrs \<Rightarrow> grpc_state \<Rightarrow> grpc_state" where
  "record_point has g i v a st = (if has i then st\<lparr>gs_points := gs_points st @ [(g, i, v, a)]\<rparr> else st)"

text \<open>The \<open>End\<close> event, common to both handlers but for the status mapping and which count is whose.\<close>

definition end_span_calls :: "(grpc_status \<Rightarrow> status_code \<times> gostring) \<Rightarrow> grpc_error option \<Rightarrow> span_log" where
  "end_span_calls to_status err =
     (let s = (case err of Some e \<Rightarrow> ge_status e | None \<Rightarrow> \<lparr>gt_code = 0, gt_message = []\<rparr>)
      in (case to_status s of (code, msg) \<Rightarrow> [SetStatus code msg])
         @ (case err of Some e \<Rightarrow> [RecordError (ge_text e)] | None \<Rightarrow> [])
         @ [SetAttrs [grpc_status_code_attr (gt_code s)], SpanEnd])"

definition handle_end ::
  "(instrument \<Rightarrow> bool) \<Rightarrow> (grpc_status \<Rightarrow> status_code \<times> gostring) \<Rightarrow> (grpc_counters \<Rightarrow> int) \<Rightarrow> (grpc_counters \<Rightarrow> int) \<Rightarrow>
   grpc_error option \<Rightarrow> int \<Rightarrow> nat \<Rightarrow> grpc_ctx \<Rightarrow> grpc_state \<Rightarrow> grpc_state" where
  "handle_end has to_status requests responses err ms g ctx st =
     (let code = (case err of Some e \<Rightarrow> gt_code (ge_status e) | None \<Rightarrow> 0);
          st1 = (if span_recording ctx st then span_calls (end_span_calls to_status err) ctx st else st);
          a = gx_attrs (gs_counters st1 g) @ [grpc_status_code_attr code];
          st2 = record_point has g Duration ms a st1;
          st3 = record_point has g RequestsPerRpc (requests (gs_counters st2 g)) a st2
      in record_point has g ResponsesPerRpc (responses (gs_counters st3 g)) a st3)"

definition count_out :: "nat \<Rightarrow> grpc_state \<Rightarrow> grpc_state" where
  "count_out g st = st\<lparr>gs_counters := (gs_counters st)(g := (gs_counters st g)\<lparr>gx_out := gx_out (gs_counters st g) + 1\<rparr>)\<rparr>"

definition count_in :: "nat \<Rightarrow> grpc_state \<Rightarrow> grpc_state" where
  "count_in g st = st\<lparr>gs_counters := (gs_counters st)(g := (gs_counters st g)\<lparr>gx_in := gx_in (gs_counters st g) + 1\<rparr>)\<rparr>"

definition client_handle_rpc :: "(instrument \<Rightarrow> bool) \<Rightarrow> grpc_ctx \<Rightarrow> rpc_stats \<Rightarrow> grpc_state \<Rightarrow> grpc_state" where
  "client_handle_rpc has ctx rs st =
     (case cx_counters ctx of
        None \<Rightarrow> st
      | Some g \<Rightarrow>
          (case rs of
             StatsOutPayload len \<Rightarrow>
               (let st1 = count_out g st in record_point has g RequestSize len (gx_attrs (gs_counters st1 g)) st1)
           | StatsInPayload len \<Rightarrow>
               (let st1 = count_in g st in record_point has g ResponseSize len (gx_attrs (gs_counters st1 g)) st1)
           | StatsOutHeader \<Rightarrow>
               (if span_recording ctx st
                then (case cx_peer ctx of Some p \<Rightarrow> span_calls [SetAttrs (grpc_server_addr_attrs p)] ctx st | None \<Rightarrow> st)
                else st)
           | StatsEnd err ms \<Rightarrow> handle_end has grpc_client_status gx_out gx_in err ms g ctx st
           | _ \<Rightarrow> st))"

definition server_handle_rpc :: "(instrument \<Rightarrow> bool) \<Rightarrow> grpc_ctx \<Rightarrow> rpc_stats \<Rightarrow> grpc_state \<Rightarrow> grpc_state" where
  "server_handle_rpc has ctx rs st =
     (case cx_counters ctx of
        None \<Rightarrow> st
      | Some g \<Rightarrow>
          (case rs of
             StatsInPayload len \<Rightarrow>
               (let st1 = count_in g st in record_point has g RequestSize len (gx_attrs (gs_counters st1 g)) st1)
           | StatsOutPayload len \<Rightarrow>
               (let st1 = count_out g st in record_point has g ResponseSize len (gx_attrs (gs_counters st1 g)) st1)
           | StatsOutHeader \<Rightarrow>
               (if span_recording ctx st
                then (case cx_peer ctx of Some p \<Rightarrow> span_calls [SetAttrs (grpc_client_addr_attrs p)] ctx st | None \<Rightarrow> st)
                else st)
           | StatsEnd err ms \<Rightarrow> handle_end has grpc_server_status gx_in gx_out err ms g ctx st
           | _ \<Rightarrow> st))"

text \<open>The constructors prepend a handler to the options.\<close>

definition grpc_new_client :: "bool \<Rightarrow> 'opt \<Rightarrow> 'opt list \<Rightarrow> 'opt list" where
  "grpc_new_client en handler opts = (if en then handler # opts else opts)"

definition grpc_dial_context :: "bool \<Rightarrow> 'opt \<Rightarrow> 'opt list \<Rightarrow> 'opt list" where
  "grpc_dial_context en handler opts = (if en then handler # opts else opts)"

definition grpc_new_server :: "bool \<Rightarrow> 'opt \<Rightarrow> 'opt list \<Rightarrow> 'opt list" where
  "grpc_new_server en handler opts = (if en then handler # opts else opts)"

lemma grpc_split_is_http: "grpc_split_host_port = otelc_split_host_port"
  by (rule ext) (simp add: grpc_split_host_port_def otelc_split_host_port_def)

interpretation grpc_end: finishing_hook "end_span_calls to_status"
  by unfold_locales (auto simp: end_span_calls_def Let_def split: option.split prod.split)

section \<open>Runs of many RPCs\<close>

text \<open>
  The RPCs of a process in the order they were tagged: whether a client or server handler has it, and the
  context \<open>TagRPC\<close> gave it.  A run is any sequence of taggings and events in which every event
  comes with the context of an RPC tagged before; the trace lists the events with the number of
  their RPC.  An RPC of the OTLP exporter is not tagged: its context is
  the one it was called with, which must not be that of a traced RPC.
\<close>

type_synonym grpc_world = "grpc_state \<times> (bool \<times> grpc_ctx) list"

type_synonym grpc_trace = "(nat \<times> rpc_stats) list"

definition grpc_init :: grpc_state where
  "grpc_init = \<lparr>gs_spans = (\<lambda>_. \<lparr>gp_parent = [], gp_start = start_span [] KindInternal [], gp_sampled = False, gp_log = []\<rparr>),
     gs_next_span = 0, gs_counters = (\<lambda>_. \<lparr>gx_in = 0, gx_out = 0, gx_attrs = []\<rparr>), gs_next_counters = 0, gs_points = []\<rparr>"

inductive grpc_runs :: "(instrument \<Rightarrow> bool) \<Rightarrow> grpc_trace \<Rightarrow> grpc_world \<Rightarrow> bool"
  for has :: "instrument \<Rightarrow> bool" where
  start: "grpc_runs has [] (grpc_init, [])"
| tag_client: "grpc_runs has tr (st, rpcs) \<Longrightarrow> grpc_is_exporter_path full \<longrightarrow> cx_counters base = None \<Longrightarrow>
    client_tag_rpc kvs sampled full base st = (c, st') \<Longrightarrow> grpc_runs has tr (st', rpcs @ [(True, c)])"
| tag_server: "grpc_runs has tr (st, rpcs) \<Longrightarrow> grpc_is_exporter_path full \<longrightarrow> cx_counters base = None \<Longrightarrow>
    server_tag_rpc f sampled full base st = (c, st') \<Longrightarrow> grpc_runs has tr (st', rpcs @ [(False, c)])"
| handle_client: "grpc_runs has tr (st, rpcs) \<Longrightarrow> i < length rpcs \<Longrightarrow> rpcs ! i = (True, c) \<Longrightarrow>
    grpc_runs has (tr @ [(i, rs)]) (client_handle_rpc has c rs st, rpcs)"
| handle_server: "grpc_runs has tr (st, rpcs) \<Longrightarrow> i < length rpcs \<Longrightarrow> rpcs ! i = (False, c) \<Longrightarrow>
    grpc_runs has (tr @ [(i, rs)]) (server_handle_rpc has c rs st, rpcs)"

lemmas grpc_runs_induct = grpc_runs.induct [split_format (complete), case_names start tag_client tag_server handle_client handle_server]

definition own_events :: "nat \<Rightarrow> grpc_trace \<Rightarrow> rpc_stats list" where
  "own_events i tr = map snd (filter (\<lambda>e. fst e = i) tr)"

section \<open>The account of one RPC\<close>

text \<open>What one RPC's own events should amount to: the calls on its span, its counts and data points.\<close>

record rpc_account =
  ra_log :: span_log
  ra_out :: int
  ra_in :: int
  ra_points :: "(instrument \<times> int \<times> attrs) list"

definition account_init :: rpc_account where
  "account_init = \<lparr>ra_log = [], ra_out = 0, ra_in = 0, ra_points = []\<rparr>"

definition points_if :: "(instrument \<Rightarrow> bool) \<Rightarrow> (instrument \<times> int \<times> attrs) list \<Rightarrow> (instrument \<times> int \<times> attrs) list" where
  "points_if has ps = filter (\<lambda>(i, v, a). has i) ps"

definition account_calls :: "bool \<Rightarrow> span_log \<Rightarrow> rpc_account \<Rightarrow> rpc_account" where
  "account_calls sampled calls x =
     (if sampled \<and> SpanEnd \<notin> set (ra_log x) then x\<lparr>ra_log := ra_log x @ calls\<rparr> else x)"

fun account_step ::
  "(instrument \<Rightarrow> bool) \<Rightarrow> bool \<Rightarrow> gostring option \<Rightarrow> bool \<Rightarrow> attrs \<Rightarrow> rpc_stats \<Rightarrow> rpc_account \<Rightarrow> rpc_account" where
  "account_step has client peer sampled a (StatsOutPayload len) x =
     x\<lparr>ra_out := ra_out x + 1, ra_points := ra_points x @ points_if has [(if client then RequestSize else ResponseSize, len, a)]\<rparr>"
| "account_step has client peer sampled a (StatsInPayload len) x =
     x\<lparr>ra_in := ra_in x + 1, ra_points := ra_points x @ points_if has [(if client then ResponseSize else RequestSize, len, a)]\<rparr>"
| "account_step has client peer sampled a StatsOutHeader x =
     (case peer of
        Some p \<Rightarrow> account_calls sampled [SetAttrs (if client then grpc_server_addr_attrs p else grpc_client_addr_attrs p)] x
      | None \<Rightarrow> x)"
| "account_step has client peer sampled a (StatsEnd err ms) x =
     (let a' = a @ [grpc_status_code_attr (case err of Some e \<Rightarrow> gt_code (ge_status e) | None \<Rightarrow> 0)];
          x' = account_calls sampled (end_span_calls (if client then grpc_client_status else grpc_server_status) err) x
      in x'\<lparr>ra_points := ra_points x' @ points_if has
             [(Duration, ms, a'), (RequestsPerRpc, if client then ra_out x else ra_in x, a'),
              (ResponsesPerRpc, if client then ra_in x else ra_out x, a')]\<rparr>)"
| "account_step has client peer sampled a _ x = x"

definition account_of :: "nat \<Rightarrow> nat \<Rightarrow> grpc_state \<Rightarrow> rpc_account" where
  "account_of s g st = \<lparr>ra_log = gp_log (gs_spans st s), ra_out = gx_out (gs_counters st g), ra_in = gx_in (gs_counters st g),
     ra_points = map snd (filter (\<lambda>p. fst p = g) (gs_points st))\<rparr>"

end
