(* ===== verification/Grpc_Props.thy ===== *)
theory Grpc_Props
  imports Grpc
begin

text \<open>
  Properties of the gRPC handlers: whatever the interleaving of RPCs, the shared state holds for
  each RPC exactly what its own events amount to, and a server's span continues the trace of
  the client that called it.
\<close>

section \<open>One event\<close>

lemma span_calls_sel [simp]:
  "gs_counters (span_calls l c st) = gs_counters st" "gs_points (span_calls l c st) = gs_points st"
  "gs_next_span (span_calls l c st) = gs_next_span st" "gs_next_counters (span_calls l c st) = gs_next_counters st"
  by (auto simp: span_calls_def split: option.split)

lemma span_calls_spans:
  "gs_spans (span_calls l c st) s =
     (if cx_span c = Some s then (gs_spans st s)\<lparr>gp_log := gp_log (gs_spans st s) @ l\<rparr> else gs_spans st s)"
  by (auto simp: span_calls_def split: option.split)

lemma record_point_sel [simp]:
  "gs_counters (record_point has g i v a st) = gs_counters st" "gs_spans (record_point has g i v a st) = gs_spans st"
  "gs_next_span (record_point has g i v a st) = gs_next_span st"
  "gs_next_counters (record_point has g i v a st) = gs_next_counters st"
  by (simp_all add: record_point_def)

lemma record_point_points: "gs_points (record_point has g i v a st) = gs_points st @ (if has i then [(g, i, v, a)] else [])"
  by (simp add: record_point_def)

lemma count_sel [simp]:
  "gs_spans (count_out g st) = gs_spans st" "gs_points (count_out g st) = gs_points st"
  "gs_next_span (count_out g st) = gs_next_span st" "gs_next_counters (count_out g st) = gs_next_counters st"
  "gs_spans (count_in g st) = gs_spans st" "gs_points (count_in g st) = gs_points st"
  "gs_next_span (count_in g st) = gs_next_span st" "gs_next_counters (count_in g st) = gs_next_counters st"
  by (simp_all add: count_out_def count_in_def)

lemma count_counters:
  "gs_counters (count_out g st) h = (if h = g then (gs_counters st g)\<lparr>gx_out := gx_out (gs_counters st g) + 1\<rparr> else gs_counters st h)"
  "gs_counters (count_in g st) h = (if h = g then (gs_counters st g)\<lparr>gx_in := gx_in (gs_counters st g) + 1\<rparr> else gs_counters st h)"
  by (simp_all add: count_out_def count_in_def)

text \<open>The part of the state no event changes.\<close>

definition fixed_part :: "grpc_state \<Rightarrow> (nat \<Rightarrow> gostring list \<times> span_start \<times> bool) \<times> (nat \<Rightarrow> attrs) \<times> nat \<times> nat" where
  "fixed_part st = (\<lambda>s. (gp_parent (gs_spans st s), gp_start (gs_spans st s), gp_sampled (gs_spans st s)),
     \<lambda>g. gx_attrs (gs_counters st g), gs_next_span st, gs_next_counters st)"

lemmas event_simps = span_calls_spans record_point_points count_counters

lemma fixed_simps [simp]:
  "fixed_part (span_calls l c st) = fixed_part st" "fixed_part (record_point has g i v a st) = fixed_part st"
  "fixed_part (count_out g st) = fixed_part st" "fixed_part (count_in g st) = fixed_part st"
  by (auto simp: fixed_part_def event_simps fun_eq_iff)

lemma handle_fixed:
  "fixed_part (client_handle_rpc has c rs st) = fixed_part st"
  "fixed_part (server_handle_rpc has c rs st) = fixed_part st"
  by (auto simp: client_handle_rpc_def server_handle_rpc_def handle_end_def Let_def split: option.split rpc_stats.split)

lemma fixed_partD:
  assumes "fixed_part st' = fixed_part st"
  shows "gp_sampled (gs_spans st' s) = gp_sampled (gs_spans st s)" "gp_start (gs_spans st' s) = gp_start (gs_spans st s)"
    "gp_parent (gs_spans st' s) = gp_parent (gs_spans st s)"
    "gx_attrs (gs_counters st' g) = gx_attrs (gs_counters st g)"
    "gs_next_span st' = gs_next_span st" "gs_next_counters st' = gs_next_counters st"
  using assms by (auto simp: fixed_part_def dest: fun_cong)

lemma handle_end_other:
  "cx_span c \<noteq> Some s \<Longrightarrow> h \<noteq> g \<Longrightarrow> account_of s h (handle_end has f q p err ms g c st) = account_of s h st"
  by (simp add: handle_end_def Let_def account_of_def event_simps)

lemma handle_other:
  assumes "cx_span c \<noteq> Some s" "cx_counters c \<noteq> Some h"
  shows "account_of s h (client_handle_rpc has c rs st) = account_of s h st"
    "account_of s h (server_handle_rpc has c rs st) = account_of s h st"
  using assms
  by (cases "cx_counters c"; cases rs; cases "cx_peer c";
      simp add: client_handle_rpc_def server_handle_rpc_def handle_end_other Let_def;
      simp add: account_of_def event_simps)+

lemma span_calls_own:
  assumes "cx_span c = Some s"
  shows "account_of s g (if span_recording c st then span_calls l c st else st) =
    account_calls (gp_sampled (gs_spans st s)) l (account_of s g st)"
  using assms by (simp add: account_of_def account_calls_def span_recording_def span_calls_spans)

lemma handle_end_own:
  assumes "cx_span c = Some s"
  shows "account_of s g (handle_end has f q p err ms g c st) =
    (let a' = gx_attrs (gs_counters st g) @ [grpc_status_code_attr (case err of Some e \<Rightarrow> gt_code (ge_status e) | None \<Rightarrow> 0)];
         x' = account_calls (gp_sampled (gs_spans st s)) (end_span_calls f err) (account_of s g st)
     in x'\<lparr>ra_points := ra_points x' @ points_if has
           [(Duration, ms, a'), (RequestsPerRpc, q (gs_counters st g), a'), (ResponsesPerRpc, p (gs_counters st g), a')]\<rparr>)"
  using assms
  by (simp add: handle_end_def Let_def account_of_def account_calls_def span_recording_def event_simps points_if_def)

lemma handle_own:
  assumes "cx_span c = Some s" "cx_counters c = Some g"
  shows "account_of s g (client_handle_rpc has c rs st) =
      account_step has True (cx_peer c) (gp_sampled (gs_spans st s)) (gx_attrs (gs_counters st g)) rs (account_of s g st)"
    "account_of s g (server_handle_rpc has c rs st) =
      account_step has False (cx_peer c) (gp_sampled (gs_spans st s)) (gx_attrs (gs_counters st g)) rs (account_of s g st)"
proof -
  have end_eq: "account_of s g (handle_end has f gx_out gx_in err ms g c st) =
      account_step has True (cx_peer c) (gp_sampled (gs_spans st s)) (gx_attrs (gs_counters st g)) (StatsEnd err ms) (account_of s g st)"
    if "f = grpc_client_status" for f err ms
    using that unfolding handle_end_own [OF assms(1)] by (simp add: Let_def account_of_def)
  have end_eq': "account_of s g (handle_end has f gx_in gx_out err ms g c st) =
      account_step has False (cx_peer c) (gp_sampled (gs_spans st s)) (gx_attrs (gs_counters st g)) (StatsEnd err ms) (account_of s g st)"
    if "f = grpc_server_status" for f err ms
    using that unfolding handle_end_own [OF assms(1)] by (simp add: Let_def account_of_def)
  show "account_of s g (client_handle_rpc has c rs st) =
      account_step has True (cx_peer c) (gp_sampled (gs_spans st s)) (gx_attrs (gs_counters st g)) rs (account_of s g st)"
  proof (cases rs)
    case StatsOutHeader
    then show ?thesis
      using assms span_calls_own [OF assms(1), of g st]
      by (cases "cx_peer c") (auto simp: client_handle_rpc_def account_calls_def)
  qed (simp_all add: client_handle_rpc_def assms Let_def end_eq del: account_step.simps(4),
      simp_all add: account_of_def event_simps points_if_def)
  show "account_of s g (server_handle_rpc has c rs st) =
      account_step has False (cx_peer c) (gp_sampled (gs_spans st s)) (gx_attrs (gs_counters st g)) rs (account_of s g st)"
  proof (cases rs)
    case StatsOutHeader
    then show ?thesis
      using assms span_calls_own [OF assms(1), of g st]
      by (cases "cx_peer c") (auto simp: server_handle_rpc_def account_calls_def)
  qed (simp_all add: server_handle_rpc_def assms Let_def end_eq' del: account_step.simps(4),
      simp_all add: account_of_def event_simps points_if_def)
qed

section \<open>Runs\<close>

definition tagged :: "grpc_ctx \<Rightarrow> grpc_state \<Rightarrow> grpc_state \<Rightarrow> bool" where
  "tagged c st st' \<longleftrightarrow> cx_span c = Some (gs_next_span st) \<and> cx_counters c = Some (gs_next_counters st) \<and>
     gs_next_span st' = Suc (gs_next_span st) \<and> gs_next_counters st' = Suc (gs_next_counters st) \<and>
     gs_points st' = gs_points st \<and>
     (\<forall>s < gs_next_span st. gs_spans st' s = gs_spans st s) \<and>
     (\<forall>g < gs_next_counters st. gs_counters st' g = gs_counters st g) \<and>
     gp_log (gs_spans st' (gs_next_span st)) = [] \<and>
     gx_out (gs_counters st' (gs_next_counters st)) = 0 \<and> gx_in (gs_counters st' (gs_next_counters st)) = 0"

lemma tag_spec:
  "client_tag_rpc kvs sampled full base st = (c, st') \<Longrightarrow>
     (if grpc_is_exporter_path full then c = base \<and> st' = st else tagged c st st')"
  "server_tag_rpc f sampled full base st = (c, st') \<Longrightarrow>
     (if grpc_is_exporter_path full then c = base \<and> st' = st else tagged c st st')"
  by (auto simp: client_tag_rpc_def server_tag_rpc_def start_rpc_span_def new_counters_def grpc_inject_def tagged_def Let_def
      split: if_splits prod.splits)

definition rpc_ok :: "(instrument \<Rightarrow> bool) \<Rightarrow> rpc_stats list \<Rightarrow> grpc_state \<Rightarrow> bool \<times> grpc_ctx \<Rightarrow> bool" where
  "rpc_ok has es st rpc \<longleftrightarrow> (case rpc of (client, c) \<Rightarrow>
     \<forall>g. cx_counters c = Some g \<longrightarrow>
       (\<exists>s. cx_span c = Some s \<and> s < gs_next_span st \<and> g < gs_next_counters st \<and>
          account_of s g st =
            fold (account_step has client (cx_peer c) (gp_sampled (gs_spans st s)) (gx_attrs (gs_counters st g))) es account_init))"

definition apart :: "grpc_ctx \<Rightarrow> grpc_ctx \<Rightarrow> bool" where
  "apart c c' \<longleftrightarrow> cx_counters c = None \<or> cx_counters c' = None \<or>
     cx_counters c \<noteq> cx_counters c' \<and> cx_span c \<noteq> cx_span c'"

definition runs_inv :: "(instrument \<Rightarrow> bool) \<Rightarrow> grpc_trace \<Rightarrow> grpc_state \<Rightarrow> (bool \<times> grpc_ctx) list \<Rightarrow> bool" where
  "runs_inv has tr st rpcs \<longleftrightarrow>
     (\<forall>e \<in> set tr. fst e < length rpcs) \<and> (\<forall>p \<in> set (gs_points st). fst p < gs_next_counters st) \<and>
     (\<forall>i < length rpcs. rpc_ok has (own_events i tr) st (rpcs ! i)) \<and>
     (\<forall>i < length rpcs. \<forall>j < length rpcs. i \<noteq> j \<longrightarrow> apart (snd (rpcs ! i)) (snd (rpcs ! j)))"

lemma own_events_snoc: "own_events i (tr @ [(j, rs)]) = own_events i tr @ (if i = j then [rs] else [])"
  by (simp add: own_events_def)

lemma own_events_none: "\<forall>e \<in> set tr. fst e < n \<Longrightarrow> own_events n tr = []"
  by (auto simp: own_events_def filter_empty_conv)

lemma tag_rpc_ok:
  assumes "tagged c st st'" "rpc_ok has es st rpc"
  shows "rpc_ok has es st' rpc"
  using assms by (auto simp: rpc_ok_def tagged_def account_of_def split: prod.splits)

lemma tag_runs_inv:
  assumes "runs_inv has tr st rpcs" "if e then cx_counters c = None \<and> st' = st else tagged c st st'"
  shows "runs_inv has tr st' (rpcs @ [(client, c)])"
proof (cases e)
  case True
  then have c: "cx_counters c = None" "st' = st" using assms(2) by auto
  then show ?thesis
    using assms(1) by (auto simp: runs_inv_def nth_append rpc_ok_def apart_def less_Suc_eq)
next
  case False
  then have t: "tagged c st st'" using assms(2) by simp
  have new: "rpc_ok has (own_events (length rpcs) tr) st' (client, c)"
  proof -
    have "own_events (length rpcs) tr = []" using assms(1) by (intro own_events_none) (simp add: runs_inv_def)
    moreover have "filter (\<lambda>p. fst p = gs_next_counters st) (gs_points st) = []"
      using assms(1) by (auto simp: runs_inv_def filter_empty_conv)
    ultimately show ?thesis using t by (simp add: rpc_ok_def tagged_def account_of_def account_init_def)
  qed
  have old: "rpc_ok has (own_events i tr) st' (rpcs ! i) \<and> apart (snd (rpcs ! i)) c \<and> apart c (snd (rpcs ! i))"
    if "i < length rpcs" for i
  proof -
    have ok: "rpc_ok has (own_events i tr) st (rpcs ! i)" using assms(1) that by (simp add: runs_inv_def)
    then have "apart (snd (rpcs ! i)) c \<and> apart c (snd (rpcs ! i))"
      using t by (fastforce simp: rpc_ok_def tagged_def apart_def split: prod.splits)
    then show ?thesis using tag_rpc_ok [OF t ok] by simp
  qed
  show ?thesis
    using assms(1) old new t
    by (auto simp: runs_inv_def nth_append less_Suc_eq tagged_def)
qed

text \<open>An event, by either handler: the account of its own RPC takes a step, the others stay.\<close>

lemma event_runs_inv:
  assumes inv: "runs_inv has tr st rpcs" and i: "i < length rpcs" "rpcs ! i = (client, c)"
    and st': "st' = (if client then client_handle_rpc has c rs st else server_handle_rpc has c rs st)"
    and points: "\<forall>p \<in> set (gs_points st'). fst p < gs_next_counters st'"
  shows "runs_inv has (tr @ [(i, rs)]) st' rpcs"
proof -
  have fixed: "fixed_part st' = fixed_part st" by (simp add: st' handle_fixed)
  note same = fixed_partD [OF fixed]
  have "rpc_ok has (own_events j (tr @ [(i, rs)])) st' (rpcs ! j)" if j: "j < length rpcs" for j
  proof -
    obtain client' c' where rpc: "rpcs ! j = (client', c')" by fastforce
    have ok: "rpc_ok has (own_events j tr) st (client', c')" using inv j rpc by (auto simp: runs_inv_def)
    show ?thesis
    proof (cases "cx_counters c'")
      case (Some g)
      then obtain s where s: "cx_span c' = Some s" "s < gs_next_span st" "g < gs_next_counters st"
        "account_of s g st = fold (account_step has client' (cx_peer c') (gp_sampled (gs_spans st s)) (gx_attrs (gs_counters st g)))
           (own_events j tr) account_init"
        using ok by (auto simp: rpc_ok_def)
      have "account_of s g st' = fold (account_step has client' (cx_peer c') (gp_sampled (gs_spans st s)) (gx_attrs (gs_counters st g)))
           (own_events j (tr @ [(i, rs)])) account_init"
      proof (cases "j = i")
        case True
        then show ?thesis using rpc i s Some handle_own [OF s(1) Some, of has rs st] by (simp add: own_events_snoc st')
      next
        case False
        then have "apart c c'" using inv i j rpc by (force simp: runs_inv_def)
        then have "cx_counters c = None \<or> cx_span c \<noteq> Some s \<and> cx_counters c \<noteq> Some g"
          using Some s(1) by (auto simp: apart_def)
        then have "account_of s g st' = account_of s g st"
        proof
          assume "cx_counters c = None"
          then show ?thesis by (simp add: st' client_handle_rpc_def server_handle_rpc_def)
        next
          assume "cx_span c \<noteq> Some s \<and> cx_counters c \<noteq> Some g"
          then show ?thesis using handle_other [of c s g has rs st] by (simp add: st')
        qed
        then show ?thesis using False s(4) by (simp add: own_events_snoc)
      qed
      then show ?thesis using rpc Some s(1-3) same by (simp add: rpc_ok_def)
    qed (simp add: rpc rpc_ok_def)
  qed
  then show ?thesis using inv i(1) points by (auto simp: runs_inv_def)
qed

lemma handle_points:
  assumes "\<forall>p \<in> set (gs_points st). fst p < gs_next_counters st" "\<And>g. cx_counters c = Some g \<Longrightarrow> g < gs_next_counters st"
  shows "\<forall>p \<in> set (gs_points (client_handle_rpc has c rs st)). fst p < gs_next_counters (client_handle_rpc has c rs st)"
    "\<forall>p \<in> set (gs_points (server_handle_rpc has c rs st)). fst p < gs_next_counters (server_handle_rpc has c rs st)"
  using assms
  by (auto simp: client_handle_rpc_def server_handle_rpc_def handle_end_def Let_def record_point_points
      split: option.splits rpc_stats.splits if_splits)

lemma runs_inv: "grpc_runs has tr (st, rpcs) \<Longrightarrow> runs_inv has tr st rpcs"
proof (induction rule: grpc_runs_induct)
  case start
  then show ?case by (simp add: runs_inv_def grpc_init_def)
next
  case (tag_client tr st rpcs full base kvs sampled c st')
  then show ?case
    using tag_spec(1) [OF tag_client.hyps(3)] by (intro tag_runs_inv [where e = "grpc_is_exporter_path full"]) auto
next
  case (tag_server tr st rpcs full base f sampled c st')
  then show ?case
    using tag_spec(2) [OF tag_server.hyps(3)] by (intro tag_runs_inv [where e = "grpc_is_exporter_path full"]) auto
next
  case (handle_client tr st rpcs i c rs)
  have "cx_counters c = Some g \<Longrightarrow> g < gs_next_counters st" for g
    using handle_client by (force simp: runs_inv_def rpc_ok_def)
  then show ?case
    using handle_client handle_points(1) [of st c has rs]
    by (intro event_runs_inv [of _ _ _ _ _ True c]) (auto simp: runs_inv_def)
next
  case (handle_server tr st rpcs i c rs)
  have "cx_counters c = Some g \<Longrightarrow> g < gs_next_counters st" for g
    using handle_server by (force simp: runs_inv_def rpc_ok_def)
  then show ?case
    using handle_server handle_points(2) [of st c has rs]
    by (intro event_runs_inv [of _ _ _ _ _ False c]) (auto simp: runs_inv_def)
qed

section \<open>A whole RPC\<close>

fun is_out :: "rpc_stats \<Rightarrow> bool" where
  "is_out (StatsOutPayload n) = True" | "is_out _ = False"

fun is_in :: "rpc_stats \<Rightarrow> bool" where
  "is_in (StatsInPayload n) = True" | "is_in _ = False"

fun is_end :: "rpc_stats \<Rightarrow> bool" where
  "is_end (StatsEnd e ms) = True" | "is_end _ = False"

definition attr_log :: "span_log \<Rightarrow> bool" where
  "attr_log log \<longleftrightarrow> (\<forall>c \<in> set log. \<exists>a. c = SetAttrs a)"

definition point_values :: "instrument \<Rightarrow> (instrument \<times> int \<times> attrs) list \<Rightarrow> int list" where
  "point_values k ps = map (fst \<circ> snd) (filter (\<lambda>p. fst p = k) ps)"

lemma point_values_simps [simp]:
  "point_values k (ps @ qs) = point_values k ps @ point_values k qs" "point_values k [] = []"
  by (simp_all add: point_values_def)

lemma account_open:
  assumes "\<forall>rs \<in> set es. \<not> is_end rs"
  shows "ra_out (fold (account_step has client p sm a) es account_init) = int (length (filter is_out es)) \<and>
    ra_in (fold (account_step has client p sm a) es account_init) = int (length (filter is_in es)) \<and>
    attr_log (ra_log (fold (account_step has client p sm a) es account_init)) \<and>
    (k \<in> {RequestsPerRpc, ResponsesPerRpc, Duration} \<longrightarrow>
       point_values k (ra_points (fold (account_step has client p sm a) es account_init)) = [])"
  using assms
proof (induction es rule: rev_induct)
  case (snoc rs es)
  then show ?case
    by (cases rs; cases p) (auto simp: account_calls_def attr_log_def points_if_def point_values_def)
qed (simp add: account_init_def attr_log_def)

lemma attr_log_no_end: "attr_log log \<Longrightarrow> SpanEnd \<notin> set log \<and> count_list log SpanEnd = 0"
  by (auto simp: attr_log_def count_list_0_iff)

lemma status_after_attrs: "attr_log xs \<Longrightarrow> status_after c (xs @ ys) = status_after c ys"
  by (induction xs) (auto simp: attr_log_def)

lemma effective_attrs: "attr_log xs \<Longrightarrow> effective (xs @ ys) = xs @ effective ys"
  by (induction xs) (auto simp: attr_log_def effective_def)

definition rpc_failed :: "bool \<Rightarrow> grpc_error option \<Rightarrow> bool" where
  "rpc_failed client err \<longleftrightarrow>
     (let code = (case err of Some e \<Rightarrow> gt_code (ge_status e) | None \<Rightarrow> 0)
      in if client then code \<noteq> 0 else code \<notin> {0, 1, 3, 5, 6, 7, 8, 9, 10, 11, 16})"

lemma end_log_status:
  assumes "attr_log xs"
  shows "span_status (xs @ end_span_calls (if client then grpc_client_status else grpc_server_status) err) =
    (if rpc_failed client err then StatusError else StatusUnset)"
  using assms
  by (auto simp: span_status_def effective_attrs status_after_attrs end_span_calls_def rpc_failed_def grpc_client_status_def
      grpc_server_status_def Let_def split: option.split)

text \<open>
  C25: In any interleaving of any number of RPCs, a traced RPC that has ended is accounted for by its own events
  alone: its span, when sampled, was ended exactly once, as its last call, with an error
  exactly for a failing status (any but OK for a client, the server-side codes for a server); and one
  data point each gives the messages sent as requests and responses of this RPC.
\<close>
theorem grpc_rpc_accounted:
  assumes "grpc_runs has tr (st, rpcs)" and "i < length rpcs" and "rpcs ! i = (client, c)" and "cx_counters c = Some g"
    and "own_events i tr = es @ [StatsEnd err ms]" and "\<forall>rs \<in> set es. \<not> is_end rs"
  shows "\<exists>s. cx_span c = Some s \<and>
    (gp_sampled (gs_spans st s) \<longrightarrow>
       count_list (gp_log (gs_spans st s)) SpanEnd = 1 \<and> last (gp_log (gs_spans st s)) = SpanEnd \<and>
       span_status (gp_log (gs_spans st s)) = (if rpc_failed client err then StatusError else StatusUnset)) \<and>
    point_values RequestsPerRpc (map snd (filter (\<lambda>p. fst p = g) (gs_points st))) =
      (if has RequestsPerRpc then [int (length (filter (if client then is_out else is_in) es))] else []) \<and>
    point_values ResponsesPerRpc (map snd (filter (\<lambda>p. fst p = g) (gs_points st))) =
      (if has ResponsesPerRpc then [int (length (filter (if client then is_in else is_out) es))] else [])"
proof -
  have "rpc_ok has (own_events i tr) st (client, c)"
    using runs_inv [OF assms(1)] assms(2,3) by (auto simp: runs_inv_def)
  then obtain s where s: "cx_span c = Some s" and acc: "account_of s g st =
      fold (account_step has client (cx_peer c) (gp_sampled (gs_spans st s)) (gx_attrs (gs_counters st g)))
        (es @ [StatsEnd err ms]) account_init"
    using assms(4,5) by (auto simp: rpc_ok_def)
  define x where "x = fold (account_step has client (cx_peer c) (gp_sampled (gs_spans st s)) (gx_attrs (gs_counters st g))) es account_init"
  let ?calls = "end_span_calls (if client then grpc_client_status else grpc_server_status) err"
  note open_x = account_open [OF assms(6), of has client "cx_peer c" "gp_sampled (gs_spans st s)" "gx_attrs (gs_counters st g)",
      folded x_def]
  have end_acc: "account_of s g st = account_step has client (cx_peer c) (gp_sampled (gs_spans st s)) (gx_attrs (gs_counters st g))
      (StatsEnd err ms) x"
    by (simp only: acc x_def fold_append fold_simps comp_apply)
  have attr: "attr_log (ra_log x)" using open_x by blast
  have log: "gp_log (gs_spans st s) = ra_log x @ ?calls" if "gp_sampled (gs_spans st s)"
    using arg_cong [OF end_acc, of ra_log] that attr_log_no_end [OF attr]
    by (simp add: account_calls_def Let_def) (simp add: account_of_def)
  have "count_list (ra_log x @ ?calls) SpanEnd = 1 \<and> last (ra_log x @ ?calls) = SpanEnd"
    using attr_log_no_end [OF attr] grpc_end.ends_once grpc_end.ends_last grpc_end.shape
    by (metis add_0 append_is_Nil_conv count_list_append last_appendR not_Cons_self2)
  moreover have "map snd (filter (\<lambda>p. fst p = g) (gs_points st)) = ra_points (account_of s g st)"
    by (simp add: account_of_def)
  moreover have "point_values k (ra_points (account_of s g st)) =
      (if has k then [int (length (filter (if client = (k = RequestsPerRpc) then is_out else is_in) es))] else [])"
    if k: "k = RequestsPerRpc \<or> k = ResponsesPerRpc" for k
    using k open_x [of k] by (auto simp: end_acc account_calls_def Let_def points_if_def point_values_def)
  ultimately show ?thesis
    using s log end_log_status [OF attr] by (intro exI [of _ s]) (auto split: if_splits)
qed

definition demo_rpc :: grpc_ctx where
  "demo_rpc = \<lparr>cx_span = None, cx_counters = None, cx_outgoing = None, cx_incoming = None, cx_peer = None\<rparr>"

definition demo_tagged :: "grpc_ctx \<times> grpc_state" where
  "demo_tagged = client_tag_rpc [] True ''/s/m'' demo_rpc grpc_init"

definition demo_events :: "rpc_stats list" where
  "demo_events = [StatsBegin, StatsOutPayload 3, StatsInPayload 4, StatsOutPayload 5]"

definition demo_run :: "rpc_stats list \<Rightarrow> grpc_state" where
  "demo_run es = fold (client_handle_rpc (\<lambda>_. True) (fst demo_tagged)) es (snd demo_tagged)"

lemma demo_tagged_sel: "cx_span (fst demo_tagged) = Some 0" "cx_counters (fst demo_tagged) = Some 0"
  "gp_sampled (gs_spans (snd demo_tagged) 0)"
  by (simp_all add: demo_tagged_def client_tag_rpc_def grpc_is_exporter_path_def start_rpc_span_def new_counters_def grpc_inject_def
      grpc_init_def demo_rpc_def Let_def split: prod.split)

lemma demo_runs: "grpc_runs (\<lambda>_. True) (map (Pair 0) es) (demo_run es, [(True, fst demo_tagged)])"
proof (induction es rule: rev_induct)
  case Nil
  have "grpc_runs (\<lambda>_. True) [] (snd demo_tagged, [] @ [(True, fst demo_tagged)])"
    by (rule grpc_runs.tag_client [OF grpc_runs.start]) (auto simp: demo_rpc_def demo_tagged_def)
  then show ?case by (simp add: demo_run_def)
next
  case (snoc rs es)
  from grpc_runs.handle_client [OF this, of 0 "fst demo_tagged" rs] show ?case by (simp add: demo_run_def)
qed

lemma demo_run_sampled: "gp_sampled (gs_spans (demo_run es) 0)"
proof (induction es rule: rev_induct)
  case (snoc rs es)
  then show ?case by (simp add: demo_run_def fixed_partD(1) [OF handle_fixed(1)])
qed (simp add: demo_run_def demo_tagged_sel)

theorem grpc_rpc_accounted_witness:
  "let st = demo_run (demo_events @ [StatsEnd None 7])
   in span_status (gp_log (gs_spans st 0)) = StatusUnset \<and>
      point_values RequestsPerRpc (map snd (filter (\<lambda>p. fst p = 0) (gs_points st))) = [2]"
proof -
  have own: "own_events 0 (map (Pair 0) es) = es" for es by (induction es) (auto simp: own_events_def)
  have "\<forall>rs \<in> set demo_events. \<not> is_end rs" by (simp add: demo_events_def)
  from grpc_rpc_accounted [OF demo_runs _ _ demo_tagged_sel(2) own this, of True] demo_tagged_sel(1)
    demo_run_sampled [of "demo_events @ [StatsEnd None 7]"]
  show ?thesis by (auto simp: Let_def rpc_failed_def demo_events_def)
qed

section \<open>Propagation\<close>

text \<open>
  An RPC's trace crosses the process boundary: when a server tags an RPC whose incoming metadata is
  what the client's \<open>TagRPC\<close> put into its outgoing context, the server's span has the client's
  context as its parent, and all other metadata is the application's.
\<close>
theorem grpc_trace_connected:
  assumes "distinct (map (to_lower \<circ> fst) kvs)" and "\<not> grpc_is_exporter_path full" and "\<not> grpc_is_exporter_path full'"
    and "client_tag_rpc kvs sampled full ctx st = (c, st1)" and "cx_incoming sctx = cx_outgoing c"
    and "server_tag_rpc (map fst kvs) sampled' full' sctx st2 = (sc, st3)"
  shows "\<exists>s. cx_span sc = Some s \<and> gp_parent (gs_spans st3 s) = map snd kvs \<and>
    (\<forall>k. to_lower k \<notin> to_lower ` fst ` set kvs \<longrightarrow>
       md_get (case cx_incoming sctx of Some m \<Rightarrow> m | None \<Rightarrow> Map.empty) k =
       md_get (case cx_outgoing ctx of Some m \<Rightarrow> m | None \<Rightarrow> Map.empty) k)"
proof -
  let ?md = "case cx_outgoing ctx of Some m \<Rightarrow> m | None \<Rightarrow> Map.empty"
  have c: "cx_incoming sctx = Some (fold (\<lambda>(k, v). md_set k v) kvs ?md)"
    using assms(2,4,5) by (auto simp: client_tag_rpc_def start_rpc_span_def new_counters_def grpc_inject_def Let_def split: prod.splits)
  have "cx_span sc = Some (gs_next_span st2) \<and> gp_parent (gs_spans st3 (gs_next_span st2)) = grpc_extract (map fst kvs) sctx"
    using assms(3,6) by (auto simp: server_tag_rpc_def start_rpc_span_def new_counters_def Let_def split: prod.splits)
  moreover have "grpc_extract (map fst kvs) sctx = map snd kvs"
    using grpc_carrier.extract_inject [OF assms(1), of ?md] by (simp add: grpc_extract_def c)
  ultimately show ?thesis using grpc_carrier.get_inject_other [of _ kvs ?md] by (simp add: c)
qed

theorem grpc_trace_connected_witness:
  "let c = fst (client_tag_rpc [(''traceparent'', ''00'')] True ''/s/m'' demo_rpc grpc_init);
       (sc, st) = server_tag_rpc [''traceparent''] True ''/s/m'' (demo_rpc\<lparr>cx_incoming := cx_outgoing c\<rparr>) grpc_init
   in map_option (\<lambda>s. gp_parent (gs_spans st s)) (cx_span sc) = Some [''00'']"
proof -
  obtain c st1 where c: "client_tag_rpc [(''traceparent'', ''00'')] True ''/s/m'' demo_rpc grpc_init = (c, st1)" by fastforce
  obtain sc st where sc: "server_tag_rpc (map fst [(''traceparent'', ''00'')]) True ''/s/m'' (demo_rpc\<lparr>cx_incoming := cx_outgoing c\<rparr>) grpc_init = (sc, st)"
    by fastforce
  have "\<not> grpc_is_exporter_path ''/s/m''" by (simp add: grpc_is_exporter_path_def)
  from grpc_trace_connected [OF _ this this c _ sc] have "\<exists>s. cx_span sc = Some s \<and> gp_parent (gs_spans st s) = [''00'']" by fastforce
  then show ?thesis using c sc by auto
qed

text \<open>
  With two handlers on one connection, which is what \<open>DialContext\<close> gives on gRPC versions where it calls
  \<open>NewClient\<close>, both get the events with the second's context: the first span is never ended.
\<close>

theorem grpc_two_handlers_leak:
  assumes "\<not> grpc_is_exporter_path full" and "client_tag_rpc kvs sm full ctx st = (c1, st1)"
    and "client_tag_rpc kvs' sm' full c1 st1 = (c2, st2)"
  shows "\<exists>s. cx_span c1 = Some s \<and>
    gp_log (gs_spans (fold (\<lambda>rs. client_handle_rpc has c2 rs \<circ> client_handle_rpc has c2 rs) es st2) s) = []"
proof -
  have t: "tagged c1 st st1" "tagged c2 st1 st2" using tag_spec(1) [OF assms(2)] tag_spec(1) [OF assms(3)] assms(1) by simp_all
  let ?s = "gs_next_span st" and ?g = "gs_next_counters st"
  have ne: "cx_span c2 \<noteq> Some ?s" "cx_counters c2 \<noteq> Some ?g" using t by (simp_all add: tagged_def)
  have "account_of ?s ?g (fold (\<lambda>rs. client_handle_rpc has c2 rs \<circ> client_handle_rpc has c2 rs) es st2) = account_of ?s ?g st2"
    by (induction es rule: rev_induct) (simp_all add: handle_other(1) [OF ne])
  then have "gp_log (gs_spans (fold (\<lambda>rs. client_handle_rpc has c2 rs \<circ> client_handle_rpc has c2 rs) es st2) ?s)
      = gp_log (gs_spans st2 ?s)"
    by (simp add: account_of_def)
  then show ?thesis using t by (auto simp: tagged_def)
qed

end
