(* ===== verification/Gocql.thy ===== *)
theory Gocql
  imports Hook_Support Go_Net
begin

text \<open>
  Model of \<open>otelc/plugins/gocqlv2/gocql.go\<close>: the observer put on every Cassandra session, which
  records a span for each query, batch and connection the driver reports and passes the
  report on to the application's own observer.  Times are integers, \<open>None\<close> for the zero time;
  an address is its text, \<open>None\<close> when it is empty.
\<close>

section \<open>Attributes and names\<close>

definition gocql_host_attrs :: "gostring option \<Rightarrow> int \<Rightarrow> attrs" where
  "gocql_host_attrs host port =
     (case host of Some h \<Rightarrow> [(''server.address'', StrV h)] | None \<Rightarrow> [])
     @ (if port > 0 then [(''server.port'', IntV port)] else [])"

definition gocql_query_trace_attrs :: "gostring \<Rightarrow> gostring \<Rightarrow> gostring \<Rightarrow> gostring option \<Rightarrow> int \<Rightarrow> attrs" where
  "gocql_query_trace_attrs op stmt keyspace host port =
     [(''db.system.name'', StrV ''cassandra''), (''db.query.text'', StrV stmt)]
     @ (if op \<noteq> [] then [(''db.operation.name'', StrV op)] else [])
     @ (if keyspace \<noteq> [] then [(''db.namespace'', StrV keyspace)] else [])
     @ gocql_host_attrs host port"

definition gocql_batch_trace_attrs :: "gostring \<Rightarrow> int \<Rightarrow> gostring \<Rightarrow> gostring option \<Rightarrow> int \<Rightarrow> attrs" where
  "gocql_batch_trace_attrs stmt n keyspace host port =
     [(''db.system.name'', StrV ''cassandra''), (''db.operation.name'', StrV ''BATCH''),
      (''db.query.text'', StrV stmt), (''db.operation.batch.size'', IntV n)]
     @ (if keyspace \<noteq> [] then [(''db.namespace'', StrV keyspace)] else [])
     @ gocql_host_attrs host port"

definition gocql_connect_trace_attrs :: "gostring option \<Rightarrow> int \<Rightarrow> attrs" where
  "gocql_connect_trace_attrs host port =
     [(''db.system.name'', StrV ''cassandra''), (''db.operation.name'', StrV ''CONNECT'')] @ gocql_host_attrs host port"

definition gocql_query_span_name :: "gostring \<Rightarrow> gostring \<Rightarrow> gostring" where
  "gocql_query_span_name op keyspace =
     (if op \<noteq> [] \<and> keyspace \<noteq> [] then op @ '' '' @ keyspace
      else if op \<noteq> [] then op
      else if keyspace \<noteq> [] then keyspace
      else ''cassandra'')"

definition gocql_batch_span_name :: "gostring \<Rightarrow> gostring" where
  "gocql_batch_span_name keyspace = (if keyspace \<noteq> [] then ''BATCH '' @ keyspace else ''BATCH'')"

definition gocql_connect_span_name :: "gostring option \<Rightarrow> int \<Rightarrow> gostring" where
  "gocql_connect_span_name host port =
     (case host of
        Some addr \<Rightarrow> if port > 0 then ''CONNECT '' @ join_host_port addr (go_itoa port) else ''CONNECT '' @ addr
      | None \<Rightarrow> ''CONNECT'')"

lemma line_end_not_first:
  "has_prefix s ''--'' \<or> has_prefix s ''//'' \<Longrightarrow> index_any s [CHR 0x0D, CHR 0x0A] = Some e \<Longrightarrow> e \<noteq> 0"
  by (cases s) (auto simp: index_any_def split: if_splits)

text \<open>
  The loop over leading comments.  The slices are in range: the end of a block comment is at most two
  characters before the end of the statement, the line end inside it.
\<close>

function gocql_strip_leading_comments :: "gostring \<Rightarrow> gostring" where
  "gocql_strip_leading_comments s =
     (let stmt = trim_space s
      in if has_prefix stmt ''/*'' then
           (case str_index stmt ''*/'' of
              None \<Rightarrow> []
            | Some e \<Rightarrow> gocql_strip_leading_comments (drop (e + 2) stmt))
         else if has_prefix stmt ''--'' \<or> has_prefix stmt ''//'' then
           (case index_any stmt [CHR 0x0D, CHR 0x0A] of
              None \<Rightarrow> []
            | Some e \<Rightarrow> gocql_strip_leading_comments (drop e stmt))
         else stmt)"
  by pat_completeness auto
termination
proof (relation "measure length")
  fix s x e
  assume x: "x = trim_space s" and e: "has_prefix x ''/*''" "str_index x ''*/'' = Some e"
  have "e + 2 \<le> length x" using str_index_bound [OF e(2)] by simp
  then show "(drop (e + 2) x, s) \<in> measure length" using length_trim_space [of s] x by simp
next
  fix s x e
  assume x: "x = trim_space s" and e: "has_prefix x ''--'' \<or> has_prefix x ''//''" "index_any x [CHR 0x0D, CHR 0x0A] = Some e"
  have "e \<noteq> 0" using line_end_not_first [OF e] .
  moreover have "e < length x" using index_any_bound [OF e(2)] .
  ultimately show "(drop e x, s) \<in> measure length" using length_trim_space [of s] x by simp
qed simp

declare gocql_strip_leading_comments.simps [simp del]

definition gocql_parse_op_name :: "gostring \<Rightarrow> gostring" where
  "gocql_parse_op_name stmt0 =
     (let stmt = gocql_strip_leading_comments stmt0
      in if stmt = [] then [] else (case str_fields stmt of f # _ \<Rightarrow> to_upper f | [] \<Rightarrow> []))"

section \<open>The observer\<close>

record gocql_observed =
  ob_keyspace :: gostring
  ob_statements :: "gostring list"
  ob_start :: "int option"
  ob_end :: "int option"
  ob_host :: "(gostring option \<times> int) option"
  ob_err :: "gostring option"

record gocql_span =
  gq_name :: gostring
  gq_start :: int
  gq_end :: int
  gq_log :: span_log

definition time_or :: "int \<Rightarrow> int option \<Rightarrow> int" where
  "time_or now t = (case t of Some v \<Rightarrow> v | None \<Rightarrow> now)"

definition host_port_of :: "gocql_observed \<Rightarrow> gostring option \<times> int" where
  "host_port_of q = (case ob_host q of Some hp \<Rightarrow> hp | None \<Rightarrow> (None, 0))"

definition gocql_finish :: "attrs \<times> gostring option \<Rightarrow> span_log" where
  "gocql_finish r = [SetAttrs (fst r)]
     @ (case snd r of Some e \<Rightarrow> [RecordError e, SetStatus StatusError e] | None \<Rightarrow> []) @ [SpanEnd]"

text \<open>A query report has one statement.  \<open>now\<close> is the clock.\<close>

definition record_query_span :: "int \<Rightarrow> gocql_observed \<Rightarrow> gocql_span" where
  "record_query_span now q =
     (let stmt = (case ob_statements q of s # _ \<Rightarrow> s | [] \<Rightarrow> []);
          op = gocql_parse_op_name stmt; (host, port) = host_port_of q
      in \<lparr>gq_name = gocql_query_span_name op (ob_keyspace q), gq_start = time_or now (ob_start q),
          gq_end = time_or now (ob_end q),
          gq_log = gocql_finish (gocql_query_trace_attrs op stmt (ob_keyspace q) host port, ob_err q)\<rparr>)"

definition record_batch_span :: "int \<Rightarrow> gocql_observed \<Rightarrow> gocql_span" where
  "record_batch_span now b =
     (let (host, port) = host_port_of b
      in \<lparr>gq_name = gocql_batch_span_name (ob_keyspace b), gq_start = time_or now (ob_start b),
          gq_end = time_or now (ob_end b),
          gq_log = gocql_finish (gocql_batch_trace_attrs (str_join ''; '' (ob_statements b))
            (int (length (ob_statements b))) (ob_keyspace b) host port, ob_err b)\<rparr>)"

definition record_connect_span :: "int \<Rightarrow> gocql_observed \<Rightarrow> gocql_span" where
  "record_connect_span now oc =
     (let (host, port) = host_port_of oc
      in \<lparr>gq_name = gocql_connect_span_name host port, gq_start = time_or now (ob_start oc),
          gq_end = time_or now (ob_end oc),
          gq_log = gocql_finish (gocql_connect_trace_attrs host port, ob_err oc)\<rparr>)"

text \<open>
  An observer: none, the application's (by a number), or the hook's around the three of the
  application.  Observing yields the spans and the application's observers that were told.
\<close>

datatype gocql_report = ReportQuery | ReportBatch | ReportConnect

datatype gocql_observer = NoObserver | UserObserver nat | OtelcObserver gocql_observer gocql_observer gocql_observer

function observe :: "bool \<Rightarrow> int \<Rightarrow> gocql_report \<Rightarrow> gocql_observed \<Rightarrow> gocql_observer \<Rightarrow> gocql_span list \<times> nat list" where
  "observe en now k q NoObserver = ([], [])"
| "observe en now k q (UserObserver u) = ([], [u])"
| "observe en now k q (OtelcObserver uq ub uc) =
     (let (spans, told) = observe en now k q (case k of ReportQuery \<Rightarrow> uq | ReportBatch \<Rightarrow> ub | ReportConnect \<Rightarrow> uc)
      in ((if en then [case k of ReportQuery \<Rightarrow> record_query_span now q | ReportBatch \<Rightarrow> record_batch_span now q
                       | ReportConnect \<Rightarrow> record_connect_span now q] else []) @ spans, told))"
  by pat_completeness auto
termination
  by (relation "measure (\<lambda>(en, now, k, q, obs). size obs)") (auto split: gocql_report.split)

record gocql_cluster =
  cl_query :: gocql_observer
  cl_batch :: gocql_observer
  cl_connect :: gocql_observer

definition gocql_new_observer :: "gocql_observer \<Rightarrow> gocql_observer \<Rightarrow> gocql_observer \<Rightarrow> gocql_observer" where
  "gocql_new_observer uq ub uc = OtelcObserver uq ub uc"

definition gocql_new_session :: "bool \<Rightarrow> gocql_cluster \<Rightarrow> gocql_cluster" where
  "gocql_new_session en cfg =
     (if en then
        (case cl_query cfg of
           OtelcObserver _ _ _ \<Rightarrow> cfg
         | _ \<Rightarrow> (let obs = gocql_new_observer (cl_query cfg) (cl_batch cfg) (cl_connect cfg)
                in \<lparr>cl_query = obs, cl_batch = obs, cl_connect = obs\<rparr>))
      else cfg)"

interpretation gocql_end: reporting_hook gocql_finish "\<lambda>r. snd r \<noteq> None"
  by unfold_locales (auto simp: gocql_finish_def split: option.splits)

section \<open>Leading comments are invisible\<close>

text \<open>
  The comments a statement may begin with: a block comment whose end is where CQL has it, a
  line comment without a line end in it.
\<close>

datatype cql_comment = BlockComment gostring | DashComment gostring | SlashComment gostring

fun render_comment :: "cql_comment \<Rightarrow> gostring" where
  "render_comment (BlockComment b) = ''/*'' @ b @ ''*/''"
| "render_comment (DashComment b) = ''--'' @ b @ [CHR 0x0A]"
| "render_comment (SlashComment b) = ''//'' @ b @ [CHR 0x0A]"

fun comment_ok :: "cql_comment \<Rightarrow> bool" where
  "comment_ok (BlockComment b) = (str_index (''*'' @ b @ ''*/'') ''*/'' = Some (Suc (length b)))"
| "comment_ok (DashComment b) = (CHR 0x0D \<notin> set b \<and> CHR 0x0A \<notin> set b)"
| "comment_ok (SlashComment b) = (CHR 0x0D \<notin> set b \<and> CHR 0x0A \<notin> set b)"

definition printable :: "char \<Rightarrow> bool" where
  "printable c \<longleftrightarrow> 33 \<le> (of_char c :: nat) \<and> (of_char c :: nat) \<le> 126"

definition solid :: "gostring \<Rightarrow> bool" where
  "solid s \<longleftrightarrow> s \<noteq> [] \<and> printable (hd s) \<and> printable (last s)"

lemma match_len_printable: "printable c \<Longrightarrow> match_len space_codes (of_char c # s) = 0"
  by (auto simp: match_len_def space_codes_def printable_def)

lemma match_len_rev_printable: "printable c \<Longrightarrow> match_len (map rev space_codes) (of_char c # s) = 0"
  by (auto simp: match_len_def space_codes_def printable_def)

lemma trim_left_solid: "s \<noteq> [] \<Longrightarrow> printable (hd s) \<Longrightarrow> trim_left_space s = s"
  by (cases s) (simp_all add: trim_left_space_def trim_left_runes.simps match_len_printable Let_def)

lemma trim_right_solid: "s \<noteq> [] \<Longrightarrow> printable (last s) \<Longrightarrow> trim_right_space s = s"
  by (cases s rule: rev_cases)
    (simp_all add: trim_right_space_def trim_left_runes.simps match_len_rev_printable Let_def)

lemma trim_solid [simp]: "solid s \<Longrightarrow> trim_space s = s"
  by (simp add: trim_space_def solid_def trim_left_solid trim_right_solid)

lemma trim_newline:
  assumes "solid s"
  shows "trim_space (CHR 0x0A # s) = s"
proof -
  have "match_len space_codes (map of_char (take 3 (CHR 0x0A # s))) = 1"
    by (simp add: match_len_def space_codes_def)
  then have "trim_left_space (CHR 0x0A # s) = trim_left_space s"
    by (simp add: trim_left_space_def trim_left_runes.simps [of space_codes "CHR 0x0A # s"] Let_def)
  then show ?thesis using assms trim_solid [OF assms] by (simp add: trim_space_def)
qed

lemma has_prefix_append_left: "has_prefix u p \<Longrightarrow> has_prefix (u @ v) p"
  by (auto simp: has_prefix_iff)

lemma has_prefix_append_long: "length p \<le> length u \<Longrightarrow> has_prefix (u @ v) p = has_prefix u p"
  by (simp add: has_prefix_def)

lemma str_index_append: "str_index u p = Some i \<Longrightarrow> p \<noteq> [] \<Longrightarrow> str_index (u @ v) p = Some i"
proof (induction u p arbitrary: i rule: str_index.induct)
  case (2 c cs p)
  show ?case
  proof (cases "has_prefix (c # cs) p")
    case True
    then have "has_prefix (c # cs @ v) p" using has_prefix_append_left [of "c # cs" p v] by simp
    then show ?thesis using True "2.prems" by simp
  next
    case False
    then obtain j where j: "str_index cs p = Some j" "i = Suc j" using "2.prems" by auto
    have "length p \<le> length (c # cs)" using str_index_bound [OF j(1)] by simp
    then have "\<not> has_prefix (c # cs @ v) p" using False has_prefix_append_long [of p "c # cs" v] by simp
    then show ?thesis using False 2 j by simp
  qed
qed simp

lemma index_any_skip: "\<forall>c \<in> set u. c \<notin> set cs \<Longrightarrow> c \<in> set cs \<Longrightarrow> index_any (u @ c # v) cs = Some (length u)"
  by (induction u) (auto simp: index_any_def)

lemma solid_comment: "solid s \<Longrightarrow> solid (render_comment c @ s)"
  by (cases c) (auto simp: solid_def printable_def)

lemma strip_trim: "gocql_strip_leading_comments s = gocql_strip_leading_comments (trim_space s)" if "trim_space (trim_space s) = trim_space s"
  using that by (simp add: gocql_strip_leading_comments.simps [of s] gocql_strip_leading_comments.simps [of "trim_space s"])

lemma strip_line:
  assumes "solid x" "solid s" "has_prefix x ''--'' \<or> has_prefix x ''//''" "index_any x [CHR 0x0D, CHR 0x0A] = Some e"
    "drop e x = CHR 0x0A # s"
  shows "gocql_strip_leading_comments x = gocql_strip_leading_comments s"
proof -
  have "\<not> has_prefix x ''/*''" using assms(3) by (auto simp: has_prefix_iff)
  then have "gocql_strip_leading_comments x = gocql_strip_leading_comments (CHR 0x0A # s)"
    using assms by (simp add: gocql_strip_leading_comments.simps [of x])
  then show ?thesis using strip_trim [of "CHR 0x0A # s"] trim_newline [OF assms(2)] assms(2) by simp
qed

lemma strip_comment:
  assumes "comment_ok c" "solid s"
  shows "gocql_strip_leading_comments (render_comment c @ s) = gocql_strip_leading_comments s"
proof (cases c)
  case (BlockComment b)
  have "str_index (''*'' @ b @ ''*/'') ''*/'' = Some (Suc (length b))" using assms(1) BlockComment by simp
  then have "str_index (''*'' @ b @ ''*/'' @ s) ''*/'' = Some (Suc (length b))"
    using str_index_append [of "''*'' @ b @ ''*/''" "''*/''" "Suc (length b)" s] by simp
  then have "str_index (CHR ''/'' # ''*'' @ b @ ''*/'' @ s) ''*/'' = Some (Suc (Suc (length b)))"
    by (simp only: str_index.simps) (simp add: has_prefix_def)
  moreover define x where "x = render_comment c @ s"
  ultimately have "str_index x ''*/'' = Some (Suc (Suc (length b)))" "has_prefix x ''/*''"
    "drop (Suc (Suc (length b)) + 2) x = s" "trim_space x = x"
    using BlockComment trim_solid [OF solid_comment [OF assms(2), of c]] by (simp_all add: has_prefix_def)
  then show ?thesis unfolding x_def [symmetric] by (simp add: gocql_strip_leading_comments.simps [of x])
next
  case (DashComment b)
  then show ?thesis
    using assms(1) strip_line [of "render_comment c @ s" s "length (''--'' @ b)"] assms(2) solid_comment [OF assms(2), of c]
      index_any_skip [of "''--'' @ b" "[CHR 0x0D, CHR 0x0A]" "CHR 0x0A" s]
    by (auto simp: has_prefix_def)
next
  case (SlashComment b)
  then show ?thesis
    using assms(1) strip_line [of "render_comment c @ s" s "length (''//'' @ b)"] assms(2) solid_comment [OF assms(2), of c]
      index_any_skip [of "''//'' @ b" "[CHR 0x0D, CHR 0x0A]" "CHR 0x0A" s]
    by (auto simp: has_prefix_def)
qed

lemma fields_word:
  assumes "\<forall>c \<in> set k. printable c"
  shows "fields_from acc (k @ CHR '' '' # rest) = (if acc = [] \<and> k = [] then [] else [rev acc @ k]) @ fields_from [] rest"
  using assms
proof (induction k arbitrary: acc)
  case Nil
  have "match_len space_codes (map of_char (take 3 (CHR '' '' # rest))) = 1" by (simp add: match_len_def space_codes_def)
  then show ?case by (simp add: fields_from.simps [of acc "CHR '' '' # rest"] Let_def)
next
  case (Cons c k)
  then show ?case by (simp add: fields_from.simps [of acc "c # k @ CHR '' '' # rest"] match_len_printable Let_def)
qed

lemma record_query_log: "\<exists>a. gq_log (record_query_span now q) = gocql_finish (a, ob_err q)"
  by (auto simp: record_query_span_def Let_def split: prod.split)



text \<open>
  The condition on block comments is needed: \<open>/*/\<close> opens a comment in CQL, but the loop takes
  its last two characters for the end.
\<close>

theorem gocql_overlapping_comment:
  "gocql_parse_op_name ''/*/ x */ select 1'' = ''X''"
  by code_simp

end
