(* ===== verification/Elastic.thy ===== *)
theory Elastic
  imports Hook_Support Go_Net
begin

text \<open>
  Model of \<open>otelc/plugins/elasticv7/elastic.go\<close>: one client span for each request, named after the
  operation and index the path is parsed into, with the HTTP client hook suppressed below it.
\<close>

section \<open>Names and attributes\<close>

definition es_span_name :: "gostring \<Rightarrow> gostring \<Rightarrow> gostring" where
  "es_span_name operation index =
     (let op = trim_space operation; idx = trim_space index
      in if op \<noteq> [] \<and> idx \<noteq> [] then op @ '' '' @ idx
         else if op \<noteq> [] then op
         else if idx \<noteq> [] then idx
         else ''elasticsearch'')"

definition es_cut_query :: "gostring \<Rightarrow> gostring" where
  "es_cut_query path = (case index_byte path CHR ''?'' of Some i \<Rightarrow> take i path | None \<Rightarrow> path)"

definition es_unescape_path :: "gostring \<Rightarrow> gostring" where
  "es_unescape_path path = (case path_unescape path of Some u \<Rightarrow> u | None \<Rightarrow> path)"

definition es_normalize_path :: "gostring \<Rightarrow> gostring" where
  "es_normalize_path path0 =
     (let path = es_unescape_path (es_cut_query path0)
      in if path = [] \<or> hd path \<noteq> CHR ''/'' then ''/'' @ path else path)"

definition es_client_trace_attrs :: "gostring \<Rightarrow> gostring \<Rightarrow> gostring \<Rightarrow> gostring \<Rightarrow> attrs" where
  "es_client_trace_attrs meth path operation index =
     (let op = trim_space operation; idx = trim_space index; m = to_upper (trim_space meth); p = es_normalize_path path
      in [(''db.system.name'', StrV ''elasticsearch''), (''network.transport'', StrV ''tcp'')]
         @ (if op \<noteq> [] then [(''db.operation.name'', StrV op)] else [])
         @ (if idx \<noteq> [] then [(''db.collection.name'', StrV idx)] else [])
         @ (if m \<noteq> [] then [(''http.request.method'', StrV m)] else [])
         @ (if p \<noteq> [] then [(''url.path'', StrV p)] else []))"

section \<open>Parsing the path\<close>

definition es_known_actions :: "gostring list" where
  "es_known_actions =
     [''search'', ''msearch'', ''bulk'', ''count'', ''update'', ''update_by_query'', ''delete_by_query'', ''mget'',
      ''refresh'', ''flush'', ''mapping'', ''settings'', ''aliases'', ''scroll'', ''explain'', ''validate'']"

definition es_known_cluster_subs :: "gostring list" where
  "es_known_cluster_subs =
     [''health'', ''stats'', ''info'', ''settings'', ''state'', ''http'', ''allocation'', ''pending_tasks'', ''reroute'',
      ''hot_threads'', ''usage'', ''nodes'', ''plugins'', ''ingest'', ''indices'']"

definition es_split_path :: "gostring \<Rightarrow> gostring list" where
  "es_split_path path0 =
     (let path = trim_space path0 in if path = [] then [] else filter (\<lambda>s. s \<noteq> []) (split_on CHR ''/'' path))"

definition es_last_known_action :: "gostring list \<Rightarrow> gostring" where
  "es_last_known_action segs =
     fold (\<lambda>s found.
       if \<not> has_prefix s ''_'' then found
       else if trim_prefix s ''_'' \<in> set es_known_actions then trim_prefix s ''_''
       else found) segs []"

definition es_has_doc_type :: "gostring list \<Rightarrow> bool" where
  "es_has_doc_type segs \<longleftrightarrow> list_ex (\<lambda>s. s = ''_doc'' \<or> s = ''_create'') segs"

definition es_doc_operation :: "gostring \<Rightarrow> gostring list \<Rightarrow> gostring" where
  "es_doc_operation meth segs =
     (if list_ex (\<lambda>s. s = ''_create'') segs then ''create''
      else if meth = ''GET'' \<or> meth = ''HEAD'' then ''get''
      else if meth = ''DELETE'' then ''delete''
      else ''index'')"

fun es_known_cluster_sub :: "gostring list \<Rightarrow> gostring" where
  "es_known_cluster_sub [] = []"
| "es_known_cluster_sub (s # segs) =
     (if trim_prefix s ''_'' \<in> set es_known_cluster_subs then trim_prefix s ''_'' else es_known_cluster_sub segs)"

definition es_cluster_style_op :: "gostring list \<Rightarrow> gostring" where
  "es_cluster_style_op segs =
     (case segs of
        [] \<Rightarrow> []
      | s # rest \<Rightarrow>
          if \<not> has_prefix s ''_'' then []
          else (let head = trim_prefix s ''_''
                in if head = [] then []
                   else (let sub = es_known_cluster_sub rest in if sub \<noteq> [] then head @ ''.'' @ sub else head)))"

definition es_method_fallback :: "gostring \<Rightarrow> gostring" where
  "es_method_fallback meth =
     (if meth = ''HEAD'' then ''exists'' else if meth = ''PUT'' then ''create''
      else if meth = ''DELETE'' then ''delete'' else if meth = ''GET'' then ''get''
      else if meth = ''POST'' then ''index'' else if meth = [] then [] else to_lower meth)"

definition es_operation_from :: "gostring \<Rightarrow> gostring list \<Rightarrow> gostring" where
  "es_operation_from meth0 segs =
     (let meth = to_upper (trim_space meth0); action = es_last_known_action segs
      in if action \<noteq> [] then action
         else if es_has_doc_type segs then es_doc_operation meth segs
         else let cluster = es_cluster_style_op segs
              in if cluster \<noteq> [] then cluster else es_method_fallback meth)"

definition es_parse_path :: "gostring \<Rightarrow> gostring \<Rightarrow> gostring \<times> gostring" where
  "es_parse_path meth path0 =
     (let segs = es_split_path (es_cut_query (es_unescape_path path0));
          (index, rest) = (case segs of s # r \<Rightarrow> if \<not> has_prefix s ''_'' then (s, r) else ([], segs) | [] \<Rightarrow> ([], []))
      in (es_operation_from meth rest, index))"

section \<open>The hook\<close>

text \<open>
  The end of a request, from the ignored statuses, the response's status code, and the error with
  the status of the \<open>*Error\<close> in it.
\<close>

definition es_contains :: "int list \<Rightarrow> int \<Rightarrow> bool" where
  "es_contains xs v \<longleftrightarrow> list_ex (\<lambda>x. x = v) xs"

definition es_status :: "int option \<times> (gostring \<times> int option) option \<Rightarrow> int" where
  "es_status res =
     (let status = (case fst res of Some c \<Rightarrow> if c > 0 then c else 0 | None \<Rightarrow> 0)
      in case snd res of
           Some (_, Some c) \<Rightarrow> if c > 0 then c else status
         | _ \<Rightarrow> status)"

definition es_finish :: "int list \<times> int option \<times> (gostring \<times> int option) option \<Rightarrow> span_log" where
  "es_finish r =
     (case r of (ignored, resp, err) \<Rightarrow>
        (let status = es_status (resp, err)
         in (case err of
               Some (e, _) \<Rightarrow> [RecordError e, SetStatus StatusError e]
             | None \<Rightarrow> if status \<ge> 400 \<and> \<not> es_contains ignored status then [SetStatus StatusError []] else [])
            @ (if status > 0 then [SetAttrs [(''db.response.status_code'', StrV (go_itoa status))]] else [])
            @ [SpanEnd]))"

text \<open>The span and the context the request goes on with; a nil context is \<open>None\<close>.\<close>

definition es_perform_request ::
  "bool \<Rightarrow> go_ctx option \<Rightarrow> gostring \<Rightarrow> gostring \<Rightarrow> int list \<Rightarrow> int option \<Rightarrow> (gostring \<times> int option) option \<Rightarrow>
   (span_start \<times> span_log) option \<times> go_ctx option" where
  "es_perform_request en ctx meth path ignored resp err =
     (if \<not> en then (None, ctx)
      else (let base = (case ctx of Some c \<Rightarrow> c | None \<Rightarrow> Map.empty);
                (operation, index) = es_parse_path meth path
            in (Some (start_span (es_span_name operation index) KindClient (es_client_trace_attrs meth path operation index),
                      es_finish (ignored, resp, err)),
                Some (suppress_http_client base))))"

definition es_failed :: "int list \<times> int option \<times> (gostring \<times> int option) option \<Rightarrow> bool" where
  "es_failed r \<longleftrightarrow> (case r of (ignored, resp, err) \<Rightarrow>
     err \<noteq> None \<or> (es_status (resp, err) \<ge> 400 \<and> es_status (resp, err) \<notin> set ignored))"

lemma es_finish_status:
  "SetStatus c d \<in> set (es_finish r) \<longleftrightarrow> es_failed r \<and> c = StatusError \<and> d = (case snd (snd r) of Some (e, _) \<Rightarrow> e | None \<Rightarrow> [])"
  by (cases r; cases "snd (snd r)") (auto simp: es_finish_def es_failed_def es_contains_def list_ex_iff Let_def)

interpretation es_end: reporting_hook es_finish es_failed
proof
  fix r
  show "count_list (es_finish r) SpanEnd = 1" "last (es_finish r) = SpanEnd"
    by (cases r; auto simp: es_finish_def Let_def split: option.split prod.split)+
qed (auto simp: es_finish_status)

section \<open>Document requests\<close>

text \<open>A plain path segment: nothing to decode or split at, and visible at its end.\<close>

definition plain_segment :: "gostring \<Rightarrow> bool" where
  "plain_segment s \<longleftrightarrow> s \<noteq> [] \<and> CHR ''/'' \<notin> set s \<and> CHR ''%'' \<notin> set s \<and> CHR ''?'' \<notin> set s \<and>
     33 \<le> (of_char (last s) :: nat) \<and> (of_char (last s) :: nat) \<le> 126"

fun render_path :: "gostring list \<Rightarrow> gostring" where
  "render_path [] = []"
| "render_path (s # segs) = ''/'' @ s @ render_path segs"

lemma trim_path:
  assumes "p = CHR ''/'' # q" "33 \<le> (of_char (last p) :: nat)" "(of_char (last p) :: nat) \<le> 126"
  shows "trim_space p = p"
proof -
  have "match_len space_codes (map of_char (take 3 p)) = 0"
    unfolding assms(1) by (simp add: match_len_def space_codes_def)
  then have "trim_left_space p = p" by (simp add: trim_left_space_def trim_left_runes.simps Let_def)
  moreover have "trim_right_space p = p"
  proof -
    obtain r c where p: "p = r @ [c]" by (metis append_butlast_last_id assms(1) list.distinct(1))
    then have "match_len (map rev space_codes) (map of_char (take 3 (rev p))) = 0"
      using assms(2,3) by (auto simp: match_len_def space_codes_def)
    then show ?thesis using p by (simp add: trim_right_space_def trim_left_runes.simps Let_def)
  qed
  ultimately show ?thesis by (simp add: trim_space_def)
qed

lemma render_path_last: "segs \<noteq> [] \<Longrightarrow> \<forall>s \<in> set segs. plain_segment s \<Longrightarrow> last (render_path segs) = last (last segs)"
proof (induction segs)
  case (Cons s segs)
  then show ?case by (cases segs) (auto simp: plain_segment_def)
qed simp

lemma render_path_chars:
  "\<forall>s \<in> set segs. plain_segment s \<Longrightarrow> CHR ''%'' \<notin> set (render_path segs) \<and> CHR ''?'' \<notin> set (render_path segs)"
  by (induction segs) (auto simp: plain_segment_def)

lemma split_render: "\<forall>s \<in> set segs. plain_segment s \<Longrightarrow> split_on CHR ''/'' (render_path segs) = [] # segs"
proof (induction segs)
  case (Cons s segs)
  have "split_on CHR ''/'' (s @ render_path segs) = s # segs"
  proof (cases segs)
    case Nil
    then show ?thesis using Cons.prems by (simp add: split_on_no_sep plain_segment_def)
  next
    case (Cons t ts)
    have "split_on CHR ''/'' (s @ CHR ''/'' # t @ render_path ts) = split_on CHR ''/'' s @ split_on CHR ''/'' (t @ render_path ts)"
      by (rule split_on_append_sep)
    moreover have "split_on CHR ''/'' (render_path segs) = [] # split_on CHR ''/'' (t @ render_path ts)"
      using Cons by simp
    ultimately show ?thesis
      using Cons Cons.IH Cons.prems by (simp add: split_on_no_sep plain_segment_def)
  qed
  then show ?case by simp
qed simp

lemma es_split_render:
  assumes "\<forall>s \<in> set segs. plain_segment s"
  shows "es_split_path (es_cut_query (es_unescape_path (render_path segs))) = segs"
proof (cases segs)
  case (Cons s r)
  have "es_cut_query (es_unescape_path (render_path segs)) = render_path segs"
    using render_path_chars [OF assms] unescape_plain [of "render_path segs" EncodePath]
      index_byte_None [of "render_path segs" "CHR ''?''"]
    by (simp add: es_unescape_path_def path_unescape_def es_cut_query_def)
  moreover have "trim_space (render_path segs) = render_path segs"
    using render_path_last [OF _ assms] assms Cons by (intro trim_path) (auto simp: plain_segment_def last_in_set)
  moreover have "filter (\<lambda>s. s \<noteq> []) segs = segs" using assms by (auto simp: plain_segment_def intro: filter_True)
  ultimately show ?thesis using split_render [OF assms] Cons by (simp add: es_split_path_def Let_def)
qed (simp add: es_split_path_def es_cut_query_def es_unescape_path_def path_unescape_def trim_space_def trim_left_space_def
    trim_right_space_def trim_left_runes.simps index_byte_def Let_def)

lemma es_words:
  "list_all (\<lambda>m. to_upper (trim_space m) = m) [''GET'', ''HEAD'', ''PUT'', ''POST'', ''DELETE'']"
  "list_all (\<lambda>m. trim_space m = m) [''create'', ''delete'', ''get'', ''index'']"
  by code_simp+



text \<open>
  The path is decoded before it is split, so an encoded slash, as in a date math index
  name, ends the index: here the index is \<open><logs-{now/d}>\<close>.
\<close>

theorem es_date_math_index_cut:
  "es_parse_path ''GET'' ''/%3Clogs-%7Bnow%2Fd%7D%3E/_search'' = (''search'', ''<logs-{now'')"
  by code_simp

end
