(* ===== verification/Linodego.thy ===== *)
theory Linodego
  imports Hook_Support Go_Net
begin

text \<open>
  Model of \<open>otelc/plugins/linodego/linodego.go\<close>: a span for each HTTP call of the client
  (\<open>doRequest\<close>) and one, with a duration, for each of six public methods.  An error is its text,
  with the result of the \<open>StatusCode\<close> method when \<open>errors.As\<close> finds one.
\<close>

section \<open>Names and attributes\<close>

type_synonym linode_error = "gostring \<times> int option"

definition linode_default_server_address :: gostring where
  "linode_default_server_address = ''api.linode.com''"

definition linode_span_name :: "gostring \<Rightarrow> gostring \<Rightarrow> gostring" where
  "linode_span_name meth0 endpoint0 =
     (let m = to_upper (trim_space meth0); endpoint = trim_space endpoint0;
          meth = (if m = [] then ''HTTP'' else m)
      in if endpoint = [] then meth else meth @ '' '' @ endpoint)"

definition linode_operation_span_name :: "gostring \<Rightarrow> gostring" where
  "linode_operation_span_name operation0 =
     (let operation = trim_space operation0
      in if operation = [] then ''linodego.operation'' else ''linodego.'' @ operation)"

definition linode_request_trace_attrs :: "gostring \<Rightarrow> gostring \<Rightarrow> attrs" where
  "linode_request_trace_attrs meth0 endpoint0 =
     (let m = to_upper (trim_space meth0); endpoint = trim_space endpoint0;
          path = (if \<not> has_prefix endpoint ''/'' then ''/'' @ endpoint else endpoint)
      in [(''http.request.method'', StrV (if m = [] then ''HTTP'' else m))]
         @ (if endpoint \<noteq> [] then [(''url.path'', StrV path)] else [])
         @ [(''server.address'', StrV linode_default_server_address)])"

definition linode_operation_trace_attrs :: "gostring \<Rightarrow> attrs" where
  "linode_operation_trace_attrs operation =
     [(''server.address'', StrV linode_default_server_address)]
     @ (let op = trim_space operation in if op \<noteq> [] then [(''code.function.name'', StrV op)] else [])"

definition linode_status_code_from_error :: "linode_error option \<Rightarrow> int option" where
  "linode_status_code_from_error err =
     (case err of
        Some (_, Some code) \<Rightarrow> if code \<ge> 100 \<and> code < 600 then Some code else None
      | _ \<Rightarrow> None)"

definition linode_error_trace_attrs :: "linode_error option \<Rightarrow> attrs" where
  "linode_error_trace_attrs err =
     (case err of
        None \<Rightarrow> []
      | Some _ \<Rightarrow>
          (case linode_status_code_from_error err of
             Some code \<Rightarrow> [(''http.response.status_code'', IntV code)]
               @ (if code \<ge> 400 then [(''error.type'', StrV (go_itoa code))] else [])
           | None \<Rightarrow> []))"

definition linode_http_client_status :: "int \<Rightarrow> status_code \<times> gostring" where
  "linode_http_client_status code =
     (if code < 100 \<or> code \<ge> 600 then (StatusError, ''Invalid HTTP status code '' @ go_itoa code)
      else if code \<ge> 400 then (StatusError, [])
      else (StatusUnset, []))"

definition linode_metric_attrs :: "gostring \<Rightarrow> int \<Rightarrow> attrs" where
  "linode_metric_attrs operation code =
     [(''server.address'', StrV linode_default_server_address)]
     @ (let op = trim_space operation in if op \<noteq> [] then [(''code.function.name'', StrV op)] else [])
     @ (if code > 0 then [(''http.response.status_code'', IntV code)] else [])"

section \<open>Finishing a span\<close>

definition linode_finish_span_with_error :: "linode_error option \<Rightarrow> span_log \<times> int" where
  "linode_finish_span_with_error err =
     (case err of
        None \<Rightarrow> ([], 0)
      | Some (e, _) \<Rightarrow>
          (case linode_status_code_from_error err of
             Some code \<Rightarrow>
               (case linode_http_client_status code of
                  (sc, desc) \<Rightarrow>
                    ([RecordError e, SetAttrs (linode_error_trace_attrs err)]
                       @ (if sc \<noteq> StatusUnset then [SetStatus sc desc] else []), code))
           | None \<Rightarrow> ([RecordError e, SetStatus StatusError e], 0)))"

text \<open>The deferred function of \<open>doRequest\<close>, which ends the span before it uses it.\<close>

definition linode_do_request_end :: "linode_error option \<Rightarrow> span_log" where
  "linode_do_request_end err =
     [SpanEnd]
     @ (case err of
          None \<Rightarrow> []
        | Some (e, _) \<Rightarrow>
            [RecordError e]
            @ (case linode_status_code_from_error err of
                 Some code \<Rightarrow>
                   [SetAttrs (linode_error_trace_attrs err)]
                   @ (case linode_http_client_status code of
                        (sc, desc) \<Rightarrow> if sc \<noteq> StatusUnset then [SetStatus sc desc] else [])
               | None \<Rightarrow> [SetStatus StatusError e]))"

definition linode_do_request ::
  "bool \<Rightarrow> gostring \<Rightarrow> gostring \<Rightarrow> linode_error option \<Rightarrow> (span_start \<times> span_log) option" where
  "linode_do_request en meth endpoint err =
     (if en then
        Some (start_span (linode_span_name meth endpoint) KindClient (linode_request_trace_attrs meth endpoint),
              linode_do_request_end err)
      else None)"

definition linode_start_api_call :: "gostring \<Rightarrow> span_start" where
  "linode_start_api_call operation =
     start_span (linode_operation_span_name operation) KindClient (linode_operation_trace_attrs operation)"

text \<open>A recorded duration is its seconds with the attributes; \<open>has\<close> tells whether there is a histogram.\<close>

definition linode_record_duration :: "bool \<Rightarrow> int \<Rightarrow> gostring \<Rightarrow> int \<Rightarrow> (int \<times> attrs) list" where
  "linode_record_duration has seconds operation code =
     (if has then [(seconds, linode_metric_attrs operation code)] else [])"

definition linode_end_api_call :: "bool \<Rightarrow> int \<Rightarrow> gostring \<Rightarrow> linode_error option \<Rightarrow> span_log \<times> (int \<times> attrs) list" where
  "linode_end_api_call has seconds operation err =
     (case linode_finish_span_with_error err of
        (calls, code) \<Rightarrow> (calls @ [SpanEnd], linode_record_duration has seconds operation code))"

text \<open>The public methods share one shape and differ in the operation's name.\<close>

datatype linode_method = GetAccount | GetInstance | ListRegions | ListVolumes | GetVolume | ListInstances

fun linode_operation :: "linode_method \<Rightarrow> gostring" where
  "linode_operation GetAccount = ''GetAccount''"
| "linode_operation GetInstance = ''GetInstance''"
| "linode_operation ListRegions = ''ListRegions''"
| "linode_operation ListVolumes = ''ListVolumes''"
| "linode_operation GetVolume = ''GetVolume''"
| "linode_operation ListInstances = ''ListInstances''"

definition linode_public_method ::
  "bool \<Rightarrow> bool \<Rightarrow> linode_method \<Rightarrow> int \<Rightarrow> linode_error option \<Rightarrow>
   (span_start \<times> span_log) option \<times> (int \<times> attrs) list" where
  "linode_public_method en has m seconds err =
     (if en then
        (case linode_end_api_call has seconds (linode_operation m) err of
           (log, points) \<Rightarrow> (Some (linode_start_api_call (linode_operation m), log), points))
      else (None, []))"

text \<open>A failure, as the hook sees it: an error whose status, if it has a real one, is at least 400.\<close>

definition linode_failed :: "linode_error option \<Rightarrow> bool" where
  "linode_failed err \<longleftrightarrow> err \<noteq> None \<and> (case linode_status_code_from_error err of Some code \<Rightarrow> code \<ge> 400 | None \<Rightarrow> True)"

lemma status_from_error_range: "linode_status_code_from_error err = Some code \<Longrightarrow> 100 \<le> code \<and> code < 600"
  by (auto simp: linode_status_code_from_error_def split: option.splits if_splits)

lemma finish_span_status:
  "SetStatus c d \<in> set (fst (linode_finish_span_with_error err)) \<Longrightarrow> c = StatusError"
  "linode_failed err \<longleftrightarrow> (\<exists>d. SetStatus StatusError d \<in> set (fst (linode_finish_span_with_error err)))"
  "SpanEnd \<notin> set (fst (linode_finish_span_with_error err))"
  using status_from_error_range [of err]
  by (cases err; cases "linode_status_code_from_error err";
      fastforce simp: linode_finish_span_with_error_def linode_failed_def linode_http_client_status_def split: prod.splits if_splits)+

interpretation linode_end: reporting_hook "\<lambda>err. fst (linode_finish_span_with_error err) @ [SpanEnd]" linode_failed
  using finish_span_status by unfold_locales (auto simp: count_list_0_iff)

text \<open>
  C28: An API call reports its failure, the HTTP call below it does not: the span of a public method is ended
  once, as its last call, and is an error exactly for an error that has no HTTP status or one of at
  least 400, with the status among the attributes of its one duration; the span of
  \<open>doRequest\<close> is ended before the error is recorded, so whatever the error, the exported
  span has neither an error nor any attribute but those it started with.
\<close>
theorem linode_errors_reported:
  "(case linode_public_method True True m seconds err of
      (Some (st, log), points) \<Rightarrow>
        count_list log SpanEnd = 1 \<and> last log = SpanEnd \<and>
        span_status log = (if linode_failed err then StatusError else StatusUnset) \<and>
        points = [(seconds, linode_metric_attrs (linode_operation m)
                    (case linode_status_code_from_error err of Some code \<Rightarrow> code | None \<Rightarrow> 0))]
    | _ \<Rightarrow> False) \<and>
   (case linode_do_request True meth endpoint err of
      Some (st, log) \<Rightarrow> span_status log = StatusUnset \<and> span_attrs st log = ss_attrs st \<and> effective log = []
    | None \<Rightarrow> False)"
proof
  have "snd (linode_finish_span_with_error err) = (case linode_status_code_from_error err of Some code \<Rightarrow> code | None \<Rightarrow> 0)"
    by (cases err; cases "linode_status_code_from_error err")
      (auto simp: linode_finish_span_with_error_def linode_status_code_from_error_def split: prod.splits)
  then show "case linode_public_method True True m seconds err of
      (Some (st, log), points) \<Rightarrow>
        count_list log SpanEnd = 1 \<and> last log = SpanEnd \<and>
        span_status log = (if linode_failed err then StatusError else StatusUnset) \<and>
        points = [(seconds, linode_metric_attrs (linode_operation m)
                    (case linode_status_code_from_error err of Some code \<Rightarrow> code | None \<Rightarrow> 0))]
    | _ \<Rightarrow> False"
    using linode_end.status [of err] linode_end.ends_once [of err]
    by (auto simp: linode_public_method_def linode_end_api_call_def linode_record_duration_def split: prod.splits)
  show "case linode_do_request True meth endpoint err of
      Some (st, log) \<Rightarrow> span_status log = StatusUnset \<and> span_attrs st log = ss_attrs st \<and> effective log = []
    | None \<Rightarrow> False"
    by (simp add: linode_do_request_def linode_do_request_end_def span_status_def span_attrs_def)
qed

end
