(* ===== verification/K8s.thy ===== *)
theory K8s
  imports Hook_Support
begin

text \<open>
  Model of \<open>otelc/k8sapi\<close> and \<open>otelc/plugins/k8sclientgo\<close>: the span around the processing of
  informer deltas, and the event handler wrapper that puts a span around each event.  What the
  hook reads of an object through \<open>meta.Accessor\<close>, the scheme and the typed fields is
  part of the object.
\<close>

section \<open>Attributes of an object\<close>

record k8s_object_info =
  ki_uid :: gostring
  ki_name :: gostring
  ki_namespace :: gostring
  ki_kind :: gostring
  ki_api_version :: gostring
  ki_node :: gostring
  ki_hpa_api_version :: gostring
  ki_hpa_kind :: gostring
  ki_hpa_name :: gostring

definition k8s_uid_name :: "gostring \<Rightarrow> k8s_object_info \<Rightarrow> attrs" where
  "k8s_uid_name kind i = [(''k8s.'' @ kind @ ''.uid'', StrV (ki_uid i)), (''k8s.'' @ kind @ ''.name'', StrV (ki_name i))]"

definition k8s_kind_attrs :: "k8s_object_info \<Rightarrow> attrs" where
  "k8s_kind_attrs i =
     (if ki_kind i = ''Node'' then k8s_uid_name ''node'' i
      else if ki_kind i = ''Namespace'' then [(''k8s.namespace.name'', StrV (ki_name i))]
      else if ki_kind i = ''Pod'' then k8s_uid_name ''pod'' i
        @ (if ki_node i \<noteq> [] then [(''k8s.node.name'', StrV (ki_node i))] else [])
      else if ki_kind i = ''ReplicaSet'' then k8s_uid_name ''replicaset'' i
      else if ki_kind i = ''Deployment'' then k8s_uid_name ''deployment'' i
      else if ki_kind i = ''StatefulSet'' then k8s_uid_name ''statefulset'' i
      else if ki_kind i = ''DaemonSet'' then k8s_uid_name ''daemonset'' i
      else if ki_kind i = ''Job'' then k8s_uid_name ''job'' i
      else if ki_kind i = ''CronJob'' then k8s_uid_name ''cronjob'' i
      else if ki_kind i = ''ReplicationController'' then k8s_uid_name ''replicationcontroller'' i
      else if ki_kind i = ''HorizontalPodAutoscaler'' then k8s_uid_name ''hpa'' i
        @ (if ki_hpa_api_version i \<noteq> [] \<and> ki_hpa_kind i \<noteq> [] \<and> ki_hpa_name i \<noteq> []
           then [(''k8s.hpa.scaletargetref.api_version'', StrV (ki_hpa_api_version i)),
                 (''k8s.hpa.scaletargetref.kind'', StrV (ki_hpa_kind i)), (''k8s.hpa.scaletargetref.name'', StrV (ki_hpa_name i))]
           else [])
      else if ki_kind i = ''ResourceQuota'' then k8s_uid_name ''resourcequota'' i
      else (if ki_uid i \<noteq> [] then [(''k8s.object.uid'', StrV (ki_uid i))] else [])
        @ (if ki_name i \<noteq> [] then [(''k8s.object.name'', StrV (ki_name i))] else []))"

definition k8s_object_info_trace_attrs :: "k8s_object_info \<Rightarrow> attrs" where
  "k8s_object_info_trace_attrs i =
     k8s_kind_attrs i
     @ (if ki_namespace i \<noteq> [] then [(''k8s.namespace.name'', StrV (ki_namespace i))] else [])
     @ (if ki_api_version i \<noteq> [] \<and> ki_kind i \<noteq> []
        then [(''k8s.object.api_version'', StrV (ki_api_version i)), (''k8s.object.kind'', StrV (ki_kind i))] else [])"

definition k8s_objects_attrs :: "int \<Rightarrow> bool \<Rightarrow> attrs" where
  "k8s_objects_attrs n initial = [(''k8s.objects.count'', IntV n), (''k8s.objects.is_in_initial_list'', BoolV initial)]"

section \<open>Objects and events\<close>

datatype k8s_typed = TypedPod gostring | TypedHpa gostring gostring gostring | TypedOther

text \<open>
  An object: its metadata (when it has any), the kinds of the scheme (\<open>None\<close> when it is no runtime
  object or they cannot be determined), its typed fields, and an identity.  A delete may come
  with a tombstone around the object.
\<close>

record k8s_object =
  ko_id :: nat
  ko_meta :: "(gostring \<times> gostring \<times> gostring) option"
  ko_gvks :: "(gostring \<times> gostring) list option"
  ko_typed :: k8s_typed

datatype k8s_any = KObject k8s_object | KTombstone k8s_any

fun k8s_get_object_info :: "k8s_any \<Rightarrow> k8s_object_info" where
  "k8s_get_object_info (KTombstone x) =
     \<lparr>ki_uid = [], ki_name = [], ki_namespace = [], ki_kind = [], ki_api_version = [], ki_node = [],
      ki_hpa_api_version = [], ki_hpa_kind = [], ki_hpa_name = []\<rparr>"
| "k8s_get_object_info (KObject k) =
     (let (uid, name, ns) = (case ko_meta k of Some m \<Rightarrow> m | None \<Rightarrow> ([], [], []));
          i0 = \<lparr>ki_uid = uid, ki_name = name, ki_namespace = ns, ki_kind = [], ki_api_version = [], ki_node = [],
                ki_hpa_api_version = [], ki_hpa_kind = [], ki_hpa_name = []\<rparr>
      in case ko_gvks k of
           Some ((kind, api) # _) \<Rightarrow>
             (let i1 = i0\<lparr>ki_kind := kind, ki_api_version := api\<rparr>
              in if kind \<noteq> ''Pod'' \<and> kind \<noteq> ''HorizontalPodAutoscaler'' then i1
                 else (case ko_typed k of
                         TypedPod node \<Rightarrow> i1\<lparr>ki_node := node\<rparr>
                       | TypedHpa a kd n \<Rightarrow> i1\<lparr>ki_hpa_api_version := a, ki_hpa_kind := kd, ki_hpa_name := n\<rparr>
                       | TypedOther \<Rightarrow> i1))
         | _ \<Rightarrow> i0)"

definition k8s_span_name :: "gostring \<Rightarrow> gostring \<Rightarrow> gostring" where
  "k8s_span_name kind action =
     (if length kind > 0 then ''k8s.informer.'' @ to_lower kind @ ''.'' @ action else ''k8s.informer.object.'' @ action)"

datatype k8s_event = OnAdd k8s_any bool | OnUpdate k8s_any k8s_any | OnDelete k8s_any

text \<open>A handler takes an event and yields the spans it makes and the events that reach the application.\<close>

type_synonym k8s_handler = "k8s_event \<Rightarrow> (span_start \<times> span_log) list \<times> k8s_event list"

definition app_handler :: k8s_handler where
  "app_handler e = ([], [e])"

definition event_span :: "gostring \<Rightarrow> k8s_any \<Rightarrow> span_start \<times> span_log" where
  "event_span action x =
     (let i = k8s_get_object_info x
      in (start_span (k8s_span_name (ki_kind i) action) KindInternal (k8s_object_info_trace_attrs i), [SpanEnd]))"

definition otel_on_add :: "k8s_handler \<Rightarrow> k8s_any \<Rightarrow> bool \<Rightarrow> (span_start \<times> span_log) list \<times> k8s_event list" where
  "otel_on_add h x initial = (case h (OnAdd x initial) of (spans, told) \<Rightarrow> (event_span ''add'' x # spans, told))"

definition otel_on_update :: "k8s_handler \<Rightarrow> k8s_any \<Rightarrow> k8s_any \<Rightarrow> (span_start \<times> span_log) list \<times> k8s_event list" where
  "otel_on_update h old new = (case h (OnUpdate old new) of (spans, told) \<Rightarrow> (event_span ''update'' new # spans, told))"

definition otel_on_delete :: "k8s_handler \<Rightarrow> k8s_any \<Rightarrow> (span_start \<times> span_log) list \<times> k8s_event list" where
  "otel_on_delete h x =
     (let meta_obj = (case x of KTombstone y \<Rightarrow> y | KObject _ \<Rightarrow> x)
      in case h (OnDelete x) of (spans, told) \<Rightarrow> (event_span ''delete'' meta_obj # spans, told))"

fun new_otel_event_handler :: "k8s_handler \<Rightarrow> k8s_handler" where
  "new_otel_event_handler h (OnAdd x initial) = otel_on_add h x initial"
| "new_otel_event_handler h (OnUpdate old new) = otel_on_update h old new"
| "new_otel_event_handler h (OnDelete x) = otel_on_delete h x"

text \<open>
  \<open>processDeltas\<close> and \<open>processDeltasInBatch\<close>: the original body is a function of the handler, with the
  error it returns; the spans are the process span and those made on the way.
\<close>

definition k8s_process_end :: "gostring option \<Rightarrow> span_log" where
  "k8s_process_end err = (case err of Some e \<Rightarrow> [RecordError e, SetStatus StatusError e] | None \<Rightarrow> []) @ [SpanEnd]"

text \<open>The rule has its own copy of the attributes of \<open>k8sapi\<close>.\<close>

definition otelc_k8s_objects_attrs :: "int \<Rightarrow> bool \<Rightarrow> attrs" where
  "otelc_k8s_objects_attrs n initial = [(''k8s.objects.count'', IntV n), (''k8s.objects.is_in_initial_list'', BoolV initial)]"

lemma otelc_k8s_objects_attrs: "otelc_k8s_objects_attrs = k8s_objects_attrs"
  by (simp add: fun_eq_iff otelc_k8s_objects_attrs_def k8s_objects_attrs_def)

definition k8s_process_deltas ::
  "bool \<Rightarrow> k8s_handler \<Rightarrow> int \<Rightarrow> bool \<Rightarrow>
   (k8s_handler \<Rightarrow> gostring option \<times> (span_start \<times> span_log) list \<times> k8s_event list) \<Rightarrow>
   gostring option \<times> (span_start \<times> span_log) list \<times> k8s_event list" where
  "k8s_process_deltas en h n initial body =
     (if en then
        (case body (new_otel_event_handler h) of
           (err, spans, told) \<Rightarrow>
             (err, (start_span ''k8s.informer.objects.process'' KindInternal (otelc_k8s_objects_attrs n initial), k8s_process_end err) # spans,
              told))
      else body h)"

definition k8s_process_deltas_in_batch ::
  "bool \<Rightarrow> k8s_handler \<Rightarrow> int \<Rightarrow> bool \<Rightarrow>
   (k8s_handler \<Rightarrow> gostring option \<times> (span_start \<times> span_log) list \<times> k8s_event list) \<Rightarrow>
   gostring option \<times> (span_start \<times> span_log) list \<times> k8s_event list" where
  "k8s_process_deltas_in_batch en h n initial body =
     (if en then
        (case body (new_otel_event_handler h) of
           (err, spans, told) \<Rightarrow>
             (err, (start_span ''k8s.informer.objects.process'' KindInternal (otelc_k8s_objects_attrs n initial), k8s_process_end err) # spans,
              told))
      else body h)"

interpretation k8s_end: reporting_hook k8s_process_end "\<lambda>err. err \<noteq> None"
  by unfold_locales (auto simp: k8s_process_end_def split: option.splits)

section \<open>The application sees the same events\<close>

text \<open>A body that hands the handler a list of events, as client-go's does with the deltas.\<close>

fun deliver :: "k8s_event list \<Rightarrow> k8s_handler \<Rightarrow> (span_start \<times> span_log) list \<times> k8s_event list" where
  "deliver [] h = ([], [])"
| "deliver (e # es) h = (case h e of (s1, t1) \<Rightarrow> case deliver es h of (s2, t2) \<Rightarrow> (s1 @ s2, t1 @ t2))"

fun event_action :: "k8s_event \<Rightarrow> gostring" where
  "event_action (OnAdd x i) = ''add''" | "event_action (OnUpdate x y) = ''update''" | "event_action (OnDelete x) = ''delete''"

fun event_subject :: "k8s_event \<Rightarrow> k8s_any" where
  "event_subject (OnAdd x i) = x" | "event_subject (OnUpdate x y) = y"
| "event_subject (OnDelete (KTombstone x)) = x" | "event_subject (OnDelete (KObject k)) = KObject k"

lemma wrapped_event: "new_otel_event_handler app_handler e = ([event_span (event_action e) (event_subject e)], [e])"
proof (cases e)
  case (OnDelete x)
  then show ?thesis by (cases x) (simp_all add: otel_on_delete_def app_handler_def)
qed (simp_all add: otel_on_add_def otel_on_update_def app_handler_def)

lemma deliver_wrapped:
  "deliver es (new_otel_event_handler app_handler) = (map (\<lambda>e. event_span (event_action e) (event_subject e)) es, es)"
  by (induction es) (simp_all add: wrapped_event)

lemma deliver_app: "deliver es app_handler = ([], es)"
  by (induction es) (simp_all add: app_handler_def)


end
