(* ===== verification/Log_Hooks.thy ===== *)
theory Log_Hooks
  imports Hook_Support
begin

text \<open>
  Model of the log hooks (\<open>otelc/plugins/logstdlib\<close>, \<open>logslog\<close>, \<open>zap\<close>, \<open>logrus\<close>): each
  adds the trace and span id of the goroutine's current span to what is logged.  \<open>ids\<close> is what
  \<open>hooksupport.GetTraceAndSpanID\<close> returns, empty without a span.
\<close>

type_synonym trace_ids = "gostring \<times> gostring"

section \<open>Package log\<close>

text \<open>
  The closure around the callback that formats the line: the suffix goes before the line ends at the
  end.  The slices of the source are in range, as the index only walks down from the length.
\<close>

definition is_line_end :: "char \<Rightarrow> bool" where
  "is_line_end c \<longleftrightarrow> c = CHR 0x0A \<or> c = CHR 0x0D"

fun line_end_index :: "gostring \<Rightarrow> nat \<Rightarrow> nat" where
  "line_end_index b 0 = 0"
| "line_end_index b (Suc i) = (if is_line_end (b ! i) then line_end_index b i else Suc i)"

definition std_suffix :: "trace_ids \<Rightarrow> gostring" where
  "std_suffix ids = '' trace_id='' @ fst ids @ (if snd ids \<noteq> [] then '' span_id='' @ snd ids else [])"

definition std_append_output :: "trace_ids \<Rightarrow> gostring \<Rightarrow> gostring" where
  "std_append_output ids b =
     (if length b = 0 then b
      else if str_contains b ''trace_id'' then b
      else if fst ids = [] then b
      else let idx = line_end_index b (length b) in take idx b @ std_suffix ids @ drop idx b)"

definition std_output :: "bool \<Rightarrow> trace_ids \<Rightarrow> (gostring \<Rightarrow> gostring) \<Rightarrow> gostring \<Rightarrow> gostring" where
  "std_output en ids inner b = (if en then std_append_output ids (inner b) else inner b)"

section \<open>slog and zap\<close>

definition slog_new_record :: "bool \<Rightarrow> trace_ids \<Rightarrow> attrs \<Rightarrow> attrs" where
  "slog_new_record en ids r =
     (if \<not> en then r
      else if fst ids = [] then r
      else r @ [(''trace_id'', StrV (fst ids))] @ (if snd ids \<noteq> [] then [(''span_id'', StrV (snd ids))] else []))"

definition zap_write :: "bool \<Rightarrow> trace_ids \<Rightarrow> bool \<Rightarrow> attrs \<Rightarrow> attrs" where
  "zap_write en ids nil_entry flds =
     (if en \<and> \<not> nil_entry \<and> fst ids \<noteq> []
      then flds @ [(''trace_id'', StrV (fst ids))] @ (if snd ids \<noteq> [] then [(''span_id'', StrV (snd ids))] else [])
      else flds)"

section \<open>logrus\<close>

text \<open>
  The loggers (by number, with how many trace hooks they carry), the two maps of loggers that got theirs,
  and whether the standard logger has been seen to.
\<close>

record logrus_state =
  lr_hooks :: "nat \<Rightarrow> nat"
  lr_hook_map :: "nat set"
  lr_field_map :: "nat set"
  lr_formatter_init :: bool

definition logrus_init :: logrus_state where
  "logrus_init = \<lparr>lr_hooks = (\<lambda>_. 0), lr_hook_map = {}, lr_field_map = {}, lr_formatter_init = False\<rparr>"

definition logrus_add_hook_locked :: "nat \<Rightarrow> logrus_state \<Rightarrow> logrus_state" where
  "logrus_add_hook_locked l st =
     (if l \<in> lr_hook_map st then st
      else st\<lparr>lr_hooks := (lr_hooks st)(l := Suc (lr_hooks st l)), lr_hook_map := insert l (lr_hook_map st)\<rparr>)"

definition logrus_new :: "bool \<Rightarrow> nat option \<Rightarrow> logrus_state \<Rightarrow> logrus_state" where
  "logrus_new en l st = (case (if en then l else None) of Some l \<Rightarrow> logrus_add_hook_locked l st | None \<Rightarrow> st)"

definition logrus_with_field :: "bool \<Rightarrow> nat option \<Rightarrow> logrus_state \<Rightarrow> logrus_state" where
  "logrus_with_field en l st =
     (case (if en then l else None) of
        None \<Rightarrow> st
      | Some l \<Rightarrow>
          if l \<in> lr_field_map st then st
          else st\<lparr>lr_hooks := (lr_hooks st)(l := Suc (lr_hooks st l)), lr_field_map := insert l (lr_field_map st)\<rparr>)"

definition logrus_set_formatter :: "bool \<Rightarrow> nat \<Rightarrow> logrus_state \<Rightarrow> logrus_state" where
  "logrus_set_formatter en std st =
     (if en \<and> \<not> lr_formatter_init st then (logrus_add_hook_locked std st)\<lparr>lr_formatter_init := True\<rparr> else st)"

definition logrus_fire :: "bool \<Rightarrow> trace_ids \<Rightarrow> (gostring \<rightharpoonup> gostring) \<Rightarrow> (gostring \<rightharpoonup> gostring)" where
  "logrus_fire en ids data =
     (if \<not> en then data
      else let d1 = (if fst ids \<noteq> [] then data(''trace_id'' \<mapsto> fst ids) else data)
           in if snd ids \<noteq> [] then d1(''span_id'' \<mapsto> snd ids) else d1)"

datatype logrus_op = LogrusNew "nat option" | LogrusWithField "nat option" | LogrusSetFormatter nat

fun logrus_step :: "bool \<Rightarrow> logrus_op \<Rightarrow> logrus_state \<Rightarrow> logrus_state" where
  "logrus_step en (LogrusNew l) st = logrus_new en l st"
| "logrus_step en (LogrusWithField l) st = logrus_with_field en l st"
| "logrus_step en (LogrusSetFormatter std) st = logrus_set_formatter en std st"

text \<open>The entry a logger with \<open>n\<close> trace hooks writes.\<close>

definition logrus_log :: "bool \<Rightarrow> trace_ids \<Rightarrow> nat \<Rightarrow> (gostring \<rightharpoonup> gostring) \<Rightarrow> (gostring \<rightharpoonup> gostring)" where
  "logrus_log en ids n data = (logrus_fire en ids ^^ n) data"

section \<open>Properties\<close>

lemma line_end_index_append: "i \<le> length b \<Longrightarrow> line_end_index (b @ xs) i = line_end_index b i"
  by (induction i) (auto simp: nth_append)

lemma line_end_index_all_ends:
  "\<forall>x \<in> set nl. is_line_end x \<Longrightarrow> line_end_index (b @ nl) (length b + length nl) = line_end_index b (length b)"
proof (induction nl rule: rev_induct)
  case Nil
  then show ?case by simp
next
  case (snoc x nl)
  have "line_end_index (b @ nl @ [x]) (length b + length nl) = line_end_index (b @ nl) (length b + length nl)"
    using line_end_index_append [of "length b + length nl" "b @ nl" "[x]"] by simp
  then show ?case using snoc by (simp add: nth_append)
qed

lemma line_end_index_split:
  assumes "\<not> is_line_end c" "\<forall>x \<in> set nl. is_line_end x"
  shows "line_end_index (s @ c # nl) (Suc (length s + length nl)) = Suc (length s)"
  using line_end_index_all_ends [OF assms(2), of "s @ [c]"] assms(1) by (simp add: nth_append)

lemma std_append_output_once:
  assumes "\<not> is_line_end c" "\<forall>x \<in> set nl. is_line_end x" "\<not> str_contains (s @ c # nl) ''trace_id''" "fst ids \<noteq> []"
  shows "std_append_output ids (s @ c # nl) = s @ [c] @ std_suffix ids @ nl"
  using assms line_end_index_split [OF assms(1,2)] by (simp add: std_append_output_def)

lemma std_append_output_twice:
  "std_append_output ids (s @ c # std_suffix ids @ nl) = s @ c # std_suffix ids @ nl"
proof -
  obtain r where "s @ c # std_suffix ids @ nl = (s @ [c, CHR '' '']) @ ''trace_id'' @ r" by (simp add: std_suffix_def)
  then show ?thesis using str_contains_mid by (metis std_append_output_def)
qed

definition logrus_inv :: "logrus_state \<Rightarrow> bool" where
  "logrus_inv st \<longleftrightarrow> (\<forall>l. lr_hooks st l = (if l \<in> lr_hook_map st then 1 else 0) + (if l \<in> lr_field_map st then 1 else 0))"

interpretation logrus_sys: invariant_system "logrus_step en" "\<lambda>_ _. True" logrus_inv
proof
  fix st x
  assume "logrus_inv st"
  then show "logrus_inv (logrus_step en x st)"
    by (cases x)
      (auto simp: logrus_inv_def logrus_new_def logrus_with_field_def logrus_set_formatter_def logrus_add_hook_locked_def
        split: option.split)
qed

lemma logrus_fire_idem: "logrus_fire en ids (logrus_fire en ids d) = logrus_fire en ids d"
  by (auto simp: logrus_fire_def Let_def)

lemma logrus_log_once: "logrus_log en ids n d = (if n = 0 then d else logrus_fire en ids d)"
  by (induction n) (auto simp: logrus_log_def logrus_fire_idem)

lemma logrus_run_inv: "logrus_inv (run_ops (logrus_step en) ops logrus_init)"
  by (rule logrus_sys.run_inv) (simp_all add: logrus_inv_def logrus_init_def)

lemma logrus_new_hooked:
  "logrus_inv st \<Longrightarrow> lr_hooks (logrus_new True (Some l) st) l \<noteq> 0"
  by (auto simp: logrus_inv_def logrus_new_def logrus_add_hook_locked_def)

text \<open>
  A log line carries its span once.  A line of package log that does not name a trace yet gets the ids of
  the current span before its line end and is otherwise unchanged, and formatting it again adds nothing.
  A logrus logger never carries more than two of the hooks whatever calls were made, and once New returned it
  its entries get the ids exactly as from a single hook.
\<close>
theorem logs_carry_span_once:
  assumes "\<not> is_line_end c" and "\<forall>x \<in> set nl. is_line_end x"
    and "\<not> str_contains (s @ c # nl) ''trace_id''" and "fst ids \<noteq> []"
  shows "std_append_output ids (s @ c # nl) = s @ c # std_suffix ids @ nl \<and>
    std_append_output ids (s @ c # std_suffix ids @ nl) = s @ c # std_suffix ids @ nl \<and>
    lr_hooks (run_ops (logrus_step en) ops logrus_init) l \<le> 2 \<and>
    logrus_log True ids (lr_hooks (run_ops (logrus_step True) (ops @ [LogrusNew (Some l)]) logrus_init) l) data
      = logrus_fire True ids data"
proof (intro conjI)
  show "std_append_output ids (s @ c # nl) = s @ c # std_suffix ids @ nl"
    using std_append_output_once [OF assms] by simp
  show "lr_hooks (run_ops (logrus_step en) ops logrus_init) l \<le> 2"
    using logrus_run_inv [of en ops] by (simp add: logrus_inv_def)
  show "logrus_log True ids (lr_hooks (run_ops (logrus_step True) (ops @ [LogrusNew (Some l)]) logrus_init) l) data
      = logrus_fire True ids data"
    using logrus_new_hooked [OF logrus_run_inv [of True ops], of l]
    by (simp only: run_ops_append run_ops.simps logrus_step.simps logrus_log_once if_False)
qed (rule std_append_output_twice)

theorem logs_carry_span_once_witness:
  "std_append_output (''ab'', ''cd'') (''hi'' @ [CHR 0x0A]) = ''hi trace_id=ab span_id=cd'' @ [CHR 0x0A]"
proof -
  have "\<not> is_line_end CHR ''i''" "\<forall>x \<in> set [CHR 0x0A]. is_line_end x"
    "\<not> str_contains (''h'' @ CHR ''i'' # [CHR 0x0A]) ''trace_id''" "fst (''ab'', ''cd'') \<noteq> []"
    by code_simp+
  from logs_carry_span_once [OF this] show ?thesis by (simp add: std_suffix_def)
qed

end
