(* ===== verification/Sw_Tracing.thy ===== *)
theory Sw_Tracing
  imports Go_Prelude Transition_Systems
begin

text \<open>
  The SkyWalking tracing API as the rules under \<open>skywalking/plugins\<close> use it.  The tracer is not
  part of the repository: it is a parameter that says whether a span is created, which headers it hands to an
  injector and which header keys it asks an extractor for.  A span is its start with the calls
  made on it.
\<close>

datatype sw_span_kind = SwEntrySpan | SwExitSpan | SwLocalSpan

datatype sw_layer = LayerDatabase | LayerCache | LayerMQ | LayerHTTP | LayerRPC

text \<open>The tag constants of the API, and the tags the plugins name themselves.\<close>

datatype sw_tag =
    TagDBType | TagDBStatement | TagDBSqlParameters
  | TagCacheType | TagCacheOp | TagCacheCmd | TagCacheKey | TagCacheArgs
  | TagMQBroker | TagMQQueue | TagMQTopic | TagMQMsgID | TagMQStatus
  | TagHTTPMethod | TagURL | TagStatusCode | TagHTTPParams | TagHTTPHeaders
  | TagNamed gostring

datatype sw_option = WithComponent int | WithLayer sw_layer | WithTag sw_tag gostring

record sw_start =
  sx_kind :: sw_span_kind
  sx_op :: gostring
  sx_peer :: gostring
  sx_opts :: "sw_option list"

datatype sw_call =
    SwTag sw_tag gostring
  | SwError "gostring list"
  | SwErrorOccured
  | SwLog "gostring list"
  | SwSetOperationName gostring
  | SwSetPeer gostring
  | SwSetComponent int
  | SwSetSpanLayer sw_layer
  | SwPrepareAsync
  | SwAsyncFinish
  | SwEnd

type_synonym sw_span = "sw_start \<times> sw_call list"

type_synonym headers_list = "(gostring \<times> gostring) list"

record sw_tracer =
  tr_creates :: "sw_start \<Rightarrow> bool"
  tr_headers :: "sw_start \<Rightarrow> headers_list"
  tr_keys :: "gostring list"

definition exit_span :: "gostring \<Rightarrow> gostring \<Rightarrow> sw_option list \<Rightarrow> sw_start" where
  "exit_span nm peer opts = \<lparr>sx_kind = SwExitSpan, sx_op = nm, sx_peer = peer, sx_opts = opts\<rparr>"

definition local_span :: "gostring \<Rightarrow> sw_option list \<Rightarrow> sw_start" where
  "local_span nm opts = \<lparr>sx_kind = SwLocalSpan, sx_op = nm, sx_peer = [], sx_opts = opts\<rparr>"

definition entry_span :: "gostring \<Rightarrow> sw_option list \<Rightarrow> sw_start" where
  "entry_span nm opts = \<lparr>sx_kind = SwEntrySpan, sx_op = nm, sx_peer = [], sx_opts = opts\<rparr>"

text \<open>\<open>if err != nil { span.Error(err.Error()) }; span.End()\<close>, the end of most hooks.\<close>

definition sw_finish :: "gostring option \<Rightarrow> sw_call list" where
  "sw_finish err = (case err of Some e \<Rightarrow> [SwError [e]] | None \<Rightarrow> []) @ [SwEnd]"

fun marks_error :: "sw_call \<Rightarrow> bool" where
  "marks_error (SwError _) = True"
| "marks_error SwErrorOccured = True"
| "marks_error _ = False"

text \<open>What a span has been told when it ends.\<close>

definition sw_reported :: "sw_call list \<Rightarrow> sw_call list" where
  "sw_reported calls = takeWhile (\<lambda>c. c \<noteq> SwEnd) calls"

definition sw_failed :: "sw_call list \<Rightarrow> bool" where
  "sw_failed calls \<longleftrightarrow> list_ex marks_error (sw_reported calls)"

text \<open>A span that was ended exactly once, as the last call on it, as failed or not.\<close>

definition sw_properly_ended :: "sw_call list \<Rightarrow> bool \<Rightarrow> bool" where
  "sw_properly_ended calls failed \<longleftrightarrow>
     count_list calls SwEnd = 1 \<and> last calls = SwEnd \<and> sw_failed calls = failed"

definition quiet :: "sw_call list \<Rightarrow> bool" where
  "quiet calls \<longleftrightarrow> SwEnd \<notin> set calls \<and> (\<forall>c \<in> set calls. \<not> marks_error c)"

lemma quiet_simps [simp]:
  "quiet []" "quiet (c # cs) \<longleftrightarrow> c \<noteq> SwEnd \<and> \<not> marks_error c \<and> quiet cs" "quiet (cs @ ds) \<longleftrightarrow> quiet cs \<and> quiet ds"
  by (auto simp: quiet_def)

section \<open>The contract of finishing a span\<close>

locale sw_finishing =
  fixes calls :: "'a \<Rightarrow> sw_call list" and failed :: "'a \<Rightarrow> bool"
  assumes shape: "\<exists>xs. calls a = xs @ [SwEnd] \<and> SwEnd \<notin> set xs \<and> failed a = list_ex marks_error xs"
begin

text \<open>The end of the hook, after calls that neither end the span nor mark an error.\<close>

lemma properly_after:
  assumes "quiet q"
  shows "sw_properly_ended (q @ calls a) (failed a)"
proof -
  obtain xs where xs: "calls a = xs @ [SwEnd]" "SwEnd \<notin> set xs" "failed a = list_ex marks_error xs"
    using shape by blast
  then have "SwEnd \<notin> set (q @ xs)" using assms by (simp add: quiet_def)
  moreover have "sw_reported (q @ calls a) = q @ xs"
    using xs calculation by (induction q) (auto simp: sw_reported_def takeWhile_append)
  ultimately show ?thesis
    using xs assms by (auto simp: sw_properly_ended_def sw_failed_def quiet_def count_list_0_iff list_ex_iff)
qed

lemma properly: "sw_properly_ended (calls a) (failed a)"
  using properly_after [of "[]"] by simp

end

interpretation sw_plain: sw_finishing sw_finish "\<lambda>err. err \<noteq> None"
  by unfold_locales (auto simp: sw_finish_def split: option.split)

end
