(* ===== verification/Sw_Sql.thy ===== *)
theory Sw_Sql
  imports Sw_Tracing
begin

text \<open>
  Model of \<open>skywalking/plugins/sql\<close>: the database hooks of the SkyWalking port.  The peer of a
  database is published by the driver packages through the runtime context while \<open>sql.Open\<close> waits for
  it, attached to the \<open>DB\<close>, and handed on to every object made from it.
\<close>

record sw_info =
  si_peer :: gostring
  si_component :: int
  si_dbtype :: gostring

section \<open>Opening a database\<close>

text \<open>
  The runtime context belongs to the tracer: its reader and writer are parameters.  The values the rules put
  there are \<open>true\<close> and an instance info.
\<close>

datatype sw_rt_key = SQLNeedInfo | SQLInfo

datatype sw_rt_value = RtNil | RtTrue | RtInfo sw_info

type_synonym 'rt rt_get = "'rt \<Rightarrow> sw_rt_key \<Rightarrow> sw_rt_value"
type_synonym 'rt rt_set = "sw_rt_key \<Rightarrow> sw_rt_value \<Rightarrow> 'rt \<Rightarrow> 'rt"

definition runtime_context_laws :: "'rt rt_get \<Rightarrow> 'rt rt_set \<Rightarrow> bool" where
  "runtime_context_laws get put \<longleftrightarrow> (\<forall>rt k v k'. get (put k v rt) k' = (if k' = k then v else get rt k'))"

definition mysql_db_info :: "gostring \<Rightarrow> sw_info" where
  "mysql_db_info addr = \<lparr>si_peer = addr, si_component = 5012, si_dbtype = ''Mysql''\<rparr>"

text \<open>\<open>mysql.ParseDSN\<close>; \<open>cfg\<close> is the address of the configuration the original returned.\<close>

definition sw_mysql_parse_dsn :: "'rt rt_get \<Rightarrow> 'rt rt_set \<Rightarrow> gostring option \<Rightarrow> 'rt \<Rightarrow> 'rt" where
  "sw_mysql_parse_dsn get put cfg rt =
     (case cfg of
        Some addr \<Rightarrow> if get rt SQLNeedInfo = RtTrue then put SQLInfo (RtInfo (mysql_db_info addr)) rt else rt
      | None \<Rightarrow> rt)"

text \<open>
  The connector of pgx: \<open>parse\<close> is \<open>pgx.ParseConfig\<close>, giving the host and port and the fallbacks, of which
  some may be nil; \<open>peer_of\<close> is \<open>tracing.BuildPostgreSQLPeer\<close>.
\<close>

type_synonym pg_address = "gostring \<times> nat"
type_synonym pg_config = "pg_address \<times> pg_address option list"

definition sw_build_peer_address :: "(pg_address \<Rightarrow> pg_address list \<Rightarrow> gostring) \<Rightarrow> pg_config option \<Rightarrow> gostring" where
  "sw_build_peer_address peer_of cfg =
     (case cfg of
        None \<Rightarrow> []
      | Some (main, fallbacks) \<Rightarrow> peer_of main (List.map_filter (\<lambda>x. x) fallbacks))"

text \<open>What the methods of \<open>*swDBInfo\<close> return for a peer address.\<close>

definition sw_pgx_methods :: "gostring \<Rightarrow> sw_info" where
  "sw_pgx_methods peer = \<lparr>si_peer = peer, si_component = 22, si_dbtype = ''PostgreSQL''\<rparr>"

definition sw_build_db_info_from_conn_config ::
  "(pg_address \<Rightarrow> pg_address list \<Rightarrow> gostring) \<Rightarrow> pg_config option \<Rightarrow> sw_info option" where
  "sw_build_db_info_from_conn_config peer_of cfg =
     (case cfg of
        None \<Rightarrow> None
      | Some c \<Rightarrow>
          let peer = sw_build_peer_address peer_of (Some c)
          in if peer = [] then None else Some (sw_pgx_methods peer))"

definition sw_build_db_info ::
  "(gostring \<Rightarrow> pg_config option) \<Rightarrow> (pg_address \<Rightarrow> pg_address list \<Rightarrow> gostring) \<Rightarrow> gostring \<Rightarrow> sw_info option" where
  "sw_build_db_info parse peer_of name =
     (if name = [] then None
      else case parse name of Some cfg \<Rightarrow> sw_build_db_info_from_conn_config peer_of (Some cfg) | None \<Rightarrow> None)"

definition sw_pgx_open_connector ::
  "'rt rt_get \<Rightarrow> 'rt rt_set \<Rightarrow> (gostring \<Rightarrow> pg_config option) \<Rightarrow> (pg_address \<Rightarrow> pg_address list \<Rightarrow> gostring) \<Rightarrow>
   gostring \<Rightarrow> 'rt \<Rightarrow> 'rt" where
  "sw_pgx_open_connector get put parse peer_of name rt =
     (if get rt SQLNeedInfo \<noteq> RtTrue then rt
      else case sw_build_db_info parse peer_of name of Some i \<Rightarrow> put SQLInfo (RtInfo i) rt | None \<Rightarrow> rt)"

text \<open>
  A pointer to a \<open>DB\<close>, \<open>Stmt\<close>, \<open>Tx\<close> or \<open>Conn\<close> (\<open>None\<close> when nil) with the info attached to it (\<open>None\<close>
  when none is).  The original \<open>Open\<close> runs on the runtime context, as the driver hooks run inside it.
\<close>

type_synonym sw_handle = "sw_info option option"

definition sw_open :: "'rt rt_get \<Rightarrow> 'rt rt_set \<Rightarrow> ('rt \<Rightarrow> 'rt \<times> sw_handle) \<Rightarrow> 'rt \<Rightarrow> 'rt \<times> sw_handle" where
  "sw_open get put body rt0 =
     (case body (put SQLNeedInfo RtTrue rt0) of
        (rt1, db) \<Rightarrow>
          let rt2 = put SQLNeedInfo RtNil rt1;
              rt3 = put SQLInfo RtNil rt2
          in (rt3, case get rt2 SQLInfo of
                     RtInfo i \<Rightarrow> (case db of Some _ \<Rightarrow> Some (Some i) | None \<Rightarrow> None)
                   | _ \<Rightarrow> db))"

section \<open>Spans\<close>

datatype sw_caller = CDB sw_handle | CStmt sw_handle | CTx sw_handle | CConn sw_handle | COther

fun sw_instance_info_of :: "sw_caller \<Rightarrow> sw_info option" where
  "sw_instance_info_of (CDB h) = (case h of None \<Rightarrow> None | Some d \<Rightarrow> d)"
| "sw_instance_info_of (CStmt h) = (case h of None \<Rightarrow> None | Some d \<Rightarrow> d)"
| "sw_instance_info_of (CTx h) = (case h of None \<Rightarrow> None | Some d \<Rightarrow> d)"
| "sw_instance_info_of (CConn h) = (case h of None \<Rightarrow> None | Some d \<Rightarrow> d)"
| "sw_instance_info_of COther = None"

definition sw_db_opts :: "sw_info \<Rightarrow> sw_option list \<Rightarrow> sw_option list" where
  "sw_db_opts i opts = opts @ [WithComponent (si_component i), WithLayer LayerDatabase, WithTag TagDBType (si_dbtype i)]"

definition sw_create_exit_span :: "sw_tracer \<Rightarrow> sw_info option \<Rightarrow> gostring \<Rightarrow> sw_option list \<Rightarrow> sw_start option" where
  "sw_create_exit_span tr info meth opts =
     (case info of
        None \<Rightarrow> None
      | Some i \<Rightarrow>
          let st = exit_span (si_dbtype i @ ''/'' @ meth) (si_peer i) (sw_db_opts i opts)
          in if tr_creates tr st then Some st else None)"

definition sw_create_local_span :: "sw_tracer \<Rightarrow> sw_info option \<Rightarrow> gostring \<Rightarrow> sw_option list \<Rightarrow> sw_start option" where
  "sw_create_local_span tr info meth opts =
     (case info of
        None \<Rightarrow> None
      | Some i \<Rightarrow>
          let st = local_span (si_dbtype i @ ''/'' @ meth) (sw_db_opts i opts)
          in if tr_creates tr st then Some st else None)"

text \<open>Arguments as \<open>fmt.Sprintf("%v", arg)\<close> prints them.\<close>

definition sw_args_to_string :: "gostring list \<Rightarrow> gostring" where
  "sw_args_to_string args =
     (case args of
        [] \<Rightarrow> []
      | [a] \<Rightarrow> a
      | a # rest \<Rightarrow> fold (\<lambda>x res. res @ '', '' @ x) rest a)"

text \<open>
  What the hooks have in common: the parameters when they are collected, and the end of a span
  that was created.
\<close>

definition sw_param_calls :: "bool \<Rightarrow> gostring list \<Rightarrow> sw_call list" where
  "sw_param_calls collect args =
     (if collect \<and> length args > 0 then [SwTag TagDBSqlParameters (sw_args_to_string args)] else [])"

definition sw_traced :: "sw_start option \<Rightarrow> sw_call list \<Rightarrow> gostring option \<Rightarrow> sw_span option" where
  "sw_traced st calls err = map_option (\<lambda>s. (s, calls @ sw_finish err)) st"

definition sw_propagated :: "sw_start option \<Rightarrow> sw_info option \<Rightarrow> sw_handle \<Rightarrow> sw_handle" where
  "sw_propagated st info h = (case (st, h) of (Some _, Some _) \<Rightarrow> Some info | _ \<Rightarrow> h)"

definition sw_statement :: "gostring \<Rightarrow> sw_option list" where
  "sw_statement query = [WithTag TagDBStatement query]"

text \<open>
  The hooks: \<open>h\<close> is the receiver, \<open>res\<close> the object the original returned, \<open>err\<close> its error.  Those that make
  an object yield it with the info attached.
\<close>

definition sw_db_ping_context :: "sw_tracer \<Rightarrow> sw_handle \<Rightarrow> gostring option \<Rightarrow> sw_span option" where
  "sw_db_ping_context tr h err = sw_traced (sw_create_exit_span tr (sw_instance_info_of (CDB h)) ''Ping'' []) [] err"

definition sw_db_prepare_context :: "sw_tracer \<Rightarrow> sw_handle \<Rightarrow> gostring \<Rightarrow> sw_handle \<Rightarrow> gostring option \<Rightarrow> sw_span option \<times> sw_handle" where
  "sw_db_prepare_context tr h query res err =
     (let info = sw_instance_info_of (CDB h);
          st = sw_create_local_span tr info ''Prepare'' (sw_statement query)
      in (sw_traced st [] err, sw_propagated st info res))"

definition sw_db_exec_context :: "sw_tracer \<Rightarrow> bool \<Rightarrow> sw_handle \<Rightarrow> gostring \<Rightarrow> gostring list \<Rightarrow> gostring option \<Rightarrow> sw_span option" where
  "sw_db_exec_context tr collect h query args err =
     sw_traced (sw_create_exit_span tr (sw_instance_info_of (CDB h)) ''Exec'' (sw_statement query)) (sw_param_calls collect args) err"

definition sw_db_query_context :: "sw_tracer \<Rightarrow> bool \<Rightarrow> sw_handle \<Rightarrow> gostring \<Rightarrow> gostring list \<Rightarrow> gostring option \<Rightarrow> sw_span option" where
  "sw_db_query_context tr collect h query args err =
     sw_traced (sw_create_exit_span tr (sw_instance_info_of (CDB h)) ''Query'' (sw_statement query)) (sw_param_calls collect args) err"

definition sw_db_begin_tx :: "sw_tracer \<Rightarrow> sw_handle \<Rightarrow> sw_handle \<Rightarrow> gostring option \<Rightarrow> sw_span option \<times> sw_handle" where
  "sw_db_begin_tx tr h res err =
     (let info = sw_instance_info_of (CDB h);
          st = sw_create_local_span tr info ''BeginTx'' []
      in (sw_traced st [] err, sw_propagated st info res))"

definition sw_db_conn :: "sw_tracer \<Rightarrow> sw_handle \<Rightarrow> sw_handle \<Rightarrow> gostring option \<Rightarrow> sw_span option \<times> sw_handle" where
  "sw_db_conn tr h res err =
     (let info = sw_instance_info_of (CDB h);
          st = sw_create_local_span tr info ''Conn'' []
      in (sw_traced st [] err, sw_propagated st info res))"

definition sw_conn_ping_context :: "sw_tracer \<Rightarrow> sw_handle \<Rightarrow> gostring option \<Rightarrow> sw_span option" where
  "sw_conn_ping_context tr h err = sw_traced (sw_create_exit_span tr (sw_instance_info_of (CConn h)) ''Conn/Ping'' []) [] err"

definition sw_conn_prepare_context :: "sw_tracer \<Rightarrow> sw_handle \<Rightarrow> gostring \<Rightarrow> sw_handle \<Rightarrow> gostring option \<Rightarrow> sw_span option \<times> sw_handle" where
  "sw_conn_prepare_context tr h query res err =
     (let info = sw_instance_info_of (CConn h);
          st = sw_create_local_span tr info ''Conn/Prepare'' (sw_statement query)
      in (sw_traced st [] err, sw_propagated st info res))"

definition sw_conn_exec_context :: "sw_tracer \<Rightarrow> bool \<Rightarrow> sw_handle \<Rightarrow> gostring \<Rightarrow> gostring list \<Rightarrow> gostring option \<Rightarrow> sw_span option" where
  "sw_conn_exec_context tr collect h query args err =
     sw_traced (sw_create_exit_span tr (sw_instance_info_of (CConn h)) ''Conn/Exec'' (sw_statement query)) (sw_param_calls collect args) err"

definition sw_conn_query_context :: "sw_tracer \<Rightarrow> bool \<Rightarrow> sw_handle \<Rightarrow> gostring \<Rightarrow> gostring list \<Rightarrow> gostring option \<Rightarrow> sw_span option" where
  "sw_conn_query_context tr collect h query args err =
     sw_traced (sw_create_exit_span tr (sw_instance_info_of (CConn h)) ''Conn/Query'' (sw_statement query)) (sw_param_calls collect args) err"

text \<open>\<open>Conn.Raw\<close> leaves its span open, whatever the error.\<close>

definition sw_conn_raw :: "sw_tracer \<Rightarrow> sw_handle \<Rightarrow> gostring option \<Rightarrow> sw_span option" where
  "sw_conn_raw tr h err = map_option (\<lambda>s. (s, [])) (sw_create_exit_span tr (sw_instance_info_of (CConn h)) ''Conn/Raw'' [])"

definition sw_conn_begin_tx :: "sw_tracer \<Rightarrow> sw_handle \<Rightarrow> sw_handle \<Rightarrow> gostring option \<Rightarrow> sw_span option \<times> sw_handle" where
  "sw_conn_begin_tx tr h res err =
     (let info = sw_instance_info_of (CConn h);
          st = sw_create_local_span tr info ''Conn/BeginTx'' []
      in (sw_traced st [] err, sw_propagated st info res))"

definition sw_tx_commit :: "sw_tracer \<Rightarrow> sw_handle \<Rightarrow> gostring option \<Rightarrow> sw_span option" where
  "sw_tx_commit tr h err = sw_traced (sw_create_exit_span tr (sw_instance_info_of (CTx h)) ''Tx/Commit'' []) [] err"

definition sw_tx_rollback :: "sw_tracer \<Rightarrow> sw_handle \<Rightarrow> gostring option \<Rightarrow> sw_span option" where
  "sw_tx_rollback tr h err = sw_traced (sw_create_exit_span tr (sw_instance_info_of (CTx h)) ''Tx/Rollback'' []) [] err"

definition sw_tx_prepare_context :: "sw_tracer \<Rightarrow> sw_handle \<Rightarrow> gostring \<Rightarrow> sw_handle \<Rightarrow> gostring option \<Rightarrow> sw_span option \<times> sw_handle" where
  "sw_tx_prepare_context tr h query res err =
     (let info = sw_instance_info_of (CTx h);
          st = sw_create_local_span tr info ''Tx/Prepare'' (sw_statement query)
      in (sw_traced st [] err, sw_propagated st info res))"

definition sw_tx_stmt_context :: "sw_handle \<Rightarrow> sw_handle \<Rightarrow> sw_handle" where
  "sw_tx_stmt_context h res = (case res of Some _ \<Rightarrow> Some (sw_instance_info_of (CTx h)) | None \<Rightarrow> None)"

definition sw_tx_exec_context :: "sw_tracer \<Rightarrow> bool \<Rightarrow> sw_handle \<Rightarrow> gostring \<Rightarrow> gostring list \<Rightarrow> gostring option \<Rightarrow> sw_span option" where
  "sw_tx_exec_context tr collect h query args err =
     sw_traced (sw_create_exit_span tr (sw_instance_info_of (CTx h)) ''Tx/Exec'' (sw_statement query)) (sw_param_calls collect args) err"

definition sw_tx_query_context :: "sw_tracer \<Rightarrow> bool \<Rightarrow> sw_handle \<Rightarrow> gostring \<Rightarrow> gostring list \<Rightarrow> gostring option \<Rightarrow> sw_span option" where
  "sw_tx_query_context tr collect h query args err =
     sw_traced (sw_create_exit_span tr (sw_instance_info_of (CTx h)) ''Tx/Query'' (sw_statement query)) (sw_param_calls collect args) err"

definition sw_stmt_exec_context :: "sw_tracer \<Rightarrow> bool \<Rightarrow> sw_handle \<Rightarrow> gostring list \<Rightarrow> gostring option \<Rightarrow> sw_span option" where
  "sw_stmt_exec_context tr collect h args err =
     sw_traced (sw_create_exit_span tr (sw_instance_info_of (CStmt h)) ''Stmt/Exec'' []) (sw_param_calls collect args) err"

definition sw_stmt_query_context :: "sw_tracer \<Rightarrow> bool \<Rightarrow> sw_handle \<Rightarrow> gostring list \<Rightarrow> gostring option \<Rightarrow> sw_span option" where
  "sw_stmt_query_context tr collect h args err =
     sw_traced (sw_create_exit_span tr (sw_instance_info_of (CStmt h)) ''Stmt/Query'' []) (sw_param_calls collect args) err"

end
