(* ===== verification/Sw_Sql_Props.thy ===== *)
theory Sw_Sql_Props
  imports Sw_Sql
begin

text \<open>
  Properties of the SkyWalking database hooks: every span is finished, and the peer published while the
  database was opened follows every object made from it.
\<close>

section \<open>Every span is finished\<close>

lemma quiet_param_calls [simp]: "quiet (sw_param_calls collect args)"
  by (simp add: sw_param_calls_def)

lemma traced_ended: "sw_traced st calls err = Some (s, log) \<Longrightarrow> quiet calls \<Longrightarrow> sw_properly_ended log (err \<noteq> None)"
  using sw_plain.properly_after by (auto simp: sw_traced_def)

datatype sw_sql_call =
    SqlPing | SqlPrepare gostring | SqlExec gostring "gostring list" | SqlQuery gostring "gostring list"
  | SqlBegin | SqlConn | SqlCommit | SqlRollback

text \<open>The span of a method called on an object; combinations Go's types exclude have none.\<close>

fun sw_sql_span :: "sw_tracer \<Rightarrow> bool \<Rightarrow> sw_caller \<Rightarrow> sw_sql_call \<Rightarrow> sw_handle \<Rightarrow> gostring option \<Rightarrow> sw_span option" where
  "sw_sql_span tr p (CDB h) SqlPing res err = sw_db_ping_context tr h err"
| "sw_sql_span tr p (CDB h) (SqlPrepare q) res err = fst (sw_db_prepare_context tr h q res err)"
| "sw_sql_span tr p (CDB h) (SqlExec q as) res err = sw_db_exec_context tr p h q as err"
| "sw_sql_span tr p (CDB h) (SqlQuery q as) res err = sw_db_query_context tr p h q as err"
| "sw_sql_span tr p (CDB h) SqlBegin res err = fst (sw_db_begin_tx tr h res err)"
| "sw_sql_span tr p (CDB h) SqlConn res err = fst (sw_db_conn tr h res err)"
| "sw_sql_span tr p (CConn h) SqlPing res err = sw_conn_ping_context tr h err"
| "sw_sql_span tr p (CConn h) (SqlPrepare q) res err = fst (sw_conn_prepare_context tr h q res err)"
| "sw_sql_span tr p (CConn h) (SqlExec q as) res err = sw_conn_exec_context tr p h q as err"
| "sw_sql_span tr p (CConn h) (SqlQuery q as) res err = sw_conn_query_context tr p h q as err"
| "sw_sql_span tr p (CConn h) SqlBegin res err = fst (sw_conn_begin_tx tr h res err)"
| "sw_sql_span tr p (CTx h) SqlCommit res err = sw_tx_commit tr h err"
| "sw_sql_span tr p (CTx h) SqlRollback res err = sw_tx_rollback tr h err"
| "sw_sql_span tr p (CTx h) (SqlPrepare q) res err = fst (sw_tx_prepare_context tr h q res err)"
| "sw_sql_span tr p (CTx h) (SqlExec q as) res err = sw_tx_exec_context tr p h q as err"
| "sw_sql_span tr p (CTx h) (SqlQuery q as) res err = sw_tx_query_context tr p h q as err"
| "sw_sql_span tr p (CStmt h) (SqlExec q as) res err = sw_stmt_exec_context tr p h as err"
| "sw_sql_span tr p (CStmt h) (SqlQuery q as) res err = sw_stmt_query_context tr p h as err"
| "sw_sql_span tr p _ _ res err = None"

lemmas sw_sql_hooks =
  sw_db_ping_context_def sw_db_prepare_context_def sw_db_exec_context_def sw_db_query_context_def sw_db_begin_tx_def
  sw_db_conn_def sw_conn_ping_context_def sw_conn_prepare_context_def sw_conn_exec_context_def sw_conn_query_context_def
  sw_conn_begin_tx_def sw_tx_commit_def sw_tx_rollback_def sw_tx_prepare_context_def sw_tx_exec_context_def
  sw_tx_query_context_def sw_stmt_exec_context_def sw_stmt_query_context_def

lemma sql_span_traced:
  "sw_sql_span tr p c k res err = None \<or> (\<exists>st calls. sw_sql_span tr p c k res err = sw_traced st calls err \<and> quiet calls)"
  by (induction tr p c k res err rule: sw_sql_span.induct) (fastforce simp: sw_sql_hooks Let_def)+

lemma sql_span_ended: "sw_sql_span tr p c k res err = Some (st, log) \<Longrightarrow> sw_properly_ended log (err \<noteq> None)"
  using sql_span_traced [of tr p c k res err] traced_ended by fastforce

lemma sql_span_of:
  "sw_sql_span tr p c k res err = Some (st, log) \<Longrightarrow>
   \<exists>j. sw_instance_info_of c = Some j \<and> has_prefix (sx_op st) (si_dbtype j @ ''/'') \<and> (sx_kind st = SwExitSpan \<longrightarrow> sx_peer st = si_peer j)"
  by (induction tr p c k res err rule: sw_sql_span.induct)
    (auto simp: sw_sql_hooks sw_traced_def sw_create_exit_span_def sw_create_local_span_def exit_span_def local_span_def
      has_prefix_iff Let_def split: option.splits if_splits)

lemma sql_exec_span:
  "sw_instance_info_of c = Some j \<Longrightarrow> \<forall>st. tr_creates tr st \<Longrightarrow> sw_sql_span tr p c (SqlExec q as) res err \<noteq> None"
  by (cases c) (auto simp: sw_sql_hooks sw_traced_def sw_create_exit_span_def Let_def)

section \<open>The peer follows\<close>

text \<open>The objects made from a database; the original methods return a fresh object or nil.\<close>

inductive sw_derived :: "sw_tracer \<Rightarrow> sw_handle \<Rightarrow> sw_caller \<Rightarrow> bool" for tr root where
  root: "sw_derived tr root (CDB root)"
| db_prepare: "sw_derived tr root (CDB h) \<Longrightarrow> h \<noteq> None \<Longrightarrow> r \<in> {None, Some None} \<Longrightarrow> sw_derived tr root (CStmt (snd (sw_db_prepare_context tr h q r err)))"
| db_begin: "sw_derived tr root (CDB h) \<Longrightarrow> h \<noteq> None \<Longrightarrow> r \<in> {None, Some None} \<Longrightarrow> sw_derived tr root (CTx (snd (sw_db_begin_tx tr h r err)))"
| db_conn: "sw_derived tr root (CDB h) \<Longrightarrow> h \<noteq> None \<Longrightarrow> r \<in> {None, Some None} \<Longrightarrow> sw_derived tr root (CConn (snd (sw_db_conn tr h r err)))"
| conn_prepare: "sw_derived tr root (CConn h) \<Longrightarrow> h \<noteq> None \<Longrightarrow> r \<in> {None, Some None} \<Longrightarrow> sw_derived tr root (CStmt (snd (sw_conn_prepare_context tr h q r err)))"
| conn_begin: "sw_derived tr root (CConn h) \<Longrightarrow> h \<noteq> None \<Longrightarrow> r \<in> {None, Some None} \<Longrightarrow> sw_derived tr root (CTx (snd (sw_conn_begin_tx tr h r err)))"
| tx_prepare: "sw_derived tr root (CTx h) \<Longrightarrow> h \<noteq> None \<Longrightarrow> r \<in> {None, Some None} \<Longrightarrow> sw_derived tr root (CStmt (snd (sw_tx_prepare_context tr h q r err)))"
| tx_stmt: "sw_derived tr root (CTx h) \<Longrightarrow> h \<noteq> None \<Longrightarrow> sw_derived tr root (CStmt (sw_tx_stmt_context h r))"

fun handle_of :: "sw_caller \<Rightarrow> sw_handle" where
  "handle_of (CDB h) = h" | "handle_of (CStmt h) = h" | "handle_of (CTx h) = h" | "handle_of (CConn h) = h" | "handle_of COther = None"

text \<open>What a handle made from one with the info of the root can carry.\<close>

definition follows :: "sw_tracer \<Rightarrow> sw_info \<Rightarrow> sw_handle \<Rightarrow> bool" where
  "follows tr i h \<longleftrightarrow> h \<in> {None, Some (Some i)} \<or> h = Some None \<and> (\<exists>st. \<not> tr_creates tr st)"

lemma propagated_follows:
  assumes "follows tr i h" "h \<noteq> None \<or> r = None" "r \<in> {None, Some None}" "info = (case h of None \<Rightarrow> None | Some d \<Rightarrow> d)"
  shows "follows tr i (sw_propagated (sw_create_local_span tr info m opts) info r)"
  using assms by (auto simp: follows_def sw_propagated_def sw_create_local_span_def Let_def split: option.splits)

lemma sql_made:
  "snd (sw_db_prepare_context tr h q r err)
     = sw_propagated (sw_create_local_span tr (sw_instance_info_of (CDB h)) ''Prepare'' (sw_statement q)) (sw_instance_info_of (CDB h)) r"
  "snd (sw_db_begin_tx tr h r err)
     = sw_propagated (sw_create_local_span tr (sw_instance_info_of (CDB h)) ''BeginTx'' []) (sw_instance_info_of (CDB h)) r"
  "snd (sw_db_conn tr h r err)
     = sw_propagated (sw_create_local_span tr (sw_instance_info_of (CDB h)) ''Conn'' []) (sw_instance_info_of (CDB h)) r"
  "snd (sw_conn_prepare_context tr h q r err)
     = sw_propagated (sw_create_local_span tr (sw_instance_info_of (CConn h)) ''Conn/Prepare'' (sw_statement q)) (sw_instance_info_of (CConn h)) r"
  "snd (sw_conn_begin_tx tr h r err)
     = sw_propagated (sw_create_local_span tr (sw_instance_info_of (CConn h)) ''Conn/BeginTx'' []) (sw_instance_info_of (CConn h)) r"
  "snd (sw_tx_prepare_context tr h q r err)
     = sw_propagated (sw_create_local_span tr (sw_instance_info_of (CTx h)) ''Tx/Prepare'' (sw_statement q)) (sw_instance_info_of (CTx h)) r"
  by (simp_all add: sw_sql_hooks Let_def)

lemma derived_follows: "sw_derived tr (Some (Some i)) c \<Longrightarrow> follows tr i (handle_of c)"
proof (induction rule: sw_derived.induct)
  case root
  show ?case by (simp add: follows_def)
next
  case (tx_stmt h r)
  then show ?case by (auto simp: follows_def sw_tx_stmt_context_def split: option.splits)
qed (unfold sql_made handle_of.simps, (rule propagated_follows; simp)+)

section \<open>From Open to the spans\<close>

text \<open>The drivers' hooks that run inside \<open>sql.Open\<close>, and what they publish last.\<close>

datatype sw_driver_call = MysqlParse "gostring option" | PgxConnect gostring

fun sw_driver_hook ::
  "'rt rt_get \<Rightarrow> 'rt rt_set \<Rightarrow> (gostring \<Rightarrow> pg_config option) \<Rightarrow> (pg_address \<Rightarrow> pg_address list \<Rightarrow> gostring) \<Rightarrow>
   sw_driver_call \<Rightarrow> 'rt \<Rightarrow> 'rt" where
  "sw_driver_hook get put parse peer_of (MysqlParse cfg) rt = sw_mysql_parse_dsn get put cfg rt"
| "sw_driver_hook get put parse peer_of (PgxConnect name) rt = sw_pgx_open_connector get put parse peer_of name rt"

fun sw_published ::
  "(gostring \<Rightarrow> pg_config option) \<Rightarrow> (pg_address \<Rightarrow> pg_address list \<Rightarrow> gostring) \<Rightarrow> sw_driver_call \<Rightarrow> sw_info option" where
  "sw_published parse peer_of (MysqlParse cfg) = map_option mysql_db_info cfg"
| "sw_published parse peer_of (PgxConnect name) = sw_build_db_info parse peer_of name"

lemma driver_hook_waiting:
  assumes "runtime_context_laws get put" "get rt SQLNeedInfo = RtTrue"
  shows "get (sw_driver_hook get put parse peer_of d rt) SQLNeedInfo = RtTrue"
    and "get (sw_driver_hook get put parse peer_of d rt) SQLInfo
      = (case sw_published parse peer_of d of Some i \<Rightarrow> RtInfo i | None \<Rightarrow> get rt SQLInfo)"
  using assms by (cases d; simp add: runtime_context_laws_def sw_mysql_parse_dsn_def sw_pgx_open_connector_def split: option.split)+

lemma driver_hooks_waiting:
  assumes "runtime_context_laws get put" "get rt SQLNeedInfo = RtTrue"
  shows "get (fold (sw_driver_hook get put parse peer_of) ds rt) SQLInfo
    = (case List.map_filter (sw_published parse peer_of) (rev ds) of i # _ \<Rightarrow> RtInfo i | [] \<Rightarrow> get rt SQLInfo)"
  using assms(2)
proof (induction ds arbitrary: rt)
  case (Cons d ds)
  then show ?case
    using driver_hook_waiting [OF assms(1)]
    by (auto simp: List.map_filter_simps map_filter_def split: list.split option.split)
qed (simp add: List.map_filter_simps)



end
