(* ===== verification/Sw_Redis.thy ===== *)
theory Sw_Redis
  imports Sw_Tracing
begin

text \<open>
  Model of \<open>skywalking/plugins/go-redisv9\<close>: the hook added to every client, which puts an exit
  span around each command and pipeline.  A hook is a function of the rest of the chain.
\<close>

section \<open>Commands\<close>

definition sw_write_operation :: "gostring list" where
  "sw_write_operation =
    [''getset'', ''set'', ''setbit'', ''setex'', ''setnx'', ''setrange'', ''strlen'', ''mset'', ''msetnx'', ''psetex'',
     ''incr'', ''incrby'', ''incrbyfloat'', ''decr'', ''decrby'', ''append'', ''hmset'', ''hset'', ''hsetnx'',
     ''hincrby'', ''hincrbyfloat'', ''hdel'', ''rpoplpush'', ''rpush'', ''rpushx'', ''lpush'', ''lpushx'', ''lrem'',
     ''ltrim'', ''lset'', ''brpoplpush'', ''linsert'', ''sadd'', ''sdiff'', ''sdiffstore'', ''sinterstore'',
     ''sismember'', ''srem'', ''sunion'', ''sunionstore'', ''sinter'', ''zadd'', ''zincrby'', ''zinterstore'',
     ''zrange'', ''zrangebylex'', ''zrangebyscore'', ''zrank'', ''zrem'', ''zremrangebylex'', ''zremrangebyrank'',
     ''zremrangebyscore'', ''zrevrange'', ''zrevrangebyscore'', ''zrevrank'', ''zunionstore'', ''xadd'', ''xdel'',
     ''del'', ''xtrim'']"

definition sw_read_operation :: "gostring list" where
  "sw_read_operation =
    [''keys'', ''scan'', ''getrange'', ''getbit'', ''mget'', ''hvals'', ''hkeys'', ''hlen'', ''hscan'', ''hexists'',
     ''hget'', ''hgetall'', ''hmget'', ''blpop'', ''brpop'', ''lindex'', ''llen'', ''lpop'', ''lrange'', ''rpop'',
     ''scard'', ''srandmember'', ''spop'', ''sscan'', ''smove'', ''zlexcount'', ''zscore'', ''zscan'', ''zcard'',
     ''zcount'', ''xget'', ''get'', ''xread'', ''xlen'', ''xrange'', ''xrevrange'']"

definition sw_get_cache_op :: "gostring \<Rightarrow> gostring" where
  "sw_get_cache_op cmd =
     (if cmd \<in> set sw_read_operation then ''read'' else if cmd \<in> set sw_write_operation then ''write'' else [])"

text \<open>The arguments of a command: a string, or a value of another type; \<open>rc_text\<close> is \<open>cmd.String()\<close>.\<close>

datatype sw_redis_arg = RString gostring | ROther

record sw_redis_cmd =
  rc_full_name :: gostring
  rc_args :: "sw_redis_arg list"
  rc_text :: gostring

definition sw_get_key :: "sw_redis_arg list \<Rightarrow> gostring" where
  "sw_get_key args =
     (if length args \<ge> 2 then (case args ! 1 of RString v \<Rightarrow> v | ROther \<Rightarrow> []) else [])"

definition sw_max_string :: "gostring \<Rightarrow> int \<Rightarrow> gostring" where
  "sw_max_string s n = (if n \<le> 0 then s else if int (length s) > n then take (nat n) s else s)"

definition sw_redis_max_args_bytes :: "gostring \<Rightarrow> int" where
  "sw_redis_max_args_bytes v = (if v \<noteq> [] then (case go_atoi v of Some n \<Rightarrow> n | None \<Rightarrow> 1024) else 1024)"

text \<open>The error \<open>Nil\<close> of the client, and any other.\<close>

datatype sw_redis_error = RedisNil | RedisFailed gostring

fun sw_redis_reported :: "sw_redis_error option \<Rightarrow> gostring option" where
  "sw_redis_reported (Some (RedisFailed e)) = Some e"
| "sw_redis_reported _ = None"

definition sw_record_error :: "sw_redis_error option \<Rightarrow> sw_call list" where
  "sw_record_error err = (case err of Some (RedisFailed e) \<Rightarrow> [SwError [e]] | _ \<Rightarrow> [])"

section \<open>The hooks\<close>

text \<open>
  What running (part of) a chain gives: the error returned, the spans, and how many times the
  command reached the server.  \<open>refusal\<close> is the error text of the tracer when it creates no span.
\<close>

record sw_redis_result =
  rr_err :: "sw_redis_error option"
  rr_spans :: "sw_span list"
  rr_sent :: nat

definition sw_redis_refused :: "gostring \<Rightarrow> sw_redis_result" where
  "sw_redis_refused refusal =
     \<lparr>rr_err = Some (RedisFailed (''go-redis :skyWalking failed to create exit span, got error: '' @ refusal)),
      rr_spans = [], rr_sent = 0\<rparr>"

definition sw_redis_around :: "sw_start \<Rightarrow> sw_redis_result \<Rightarrow> sw_redis_result" where
  "sw_redis_around st r = r\<lparr>rr_spans := (st, sw_record_error (rr_err r) @ [SwEnd]) # rr_spans r\<rparr>"

definition sw_redis_opts :: "sw_option list" where
  "sw_redis_opts = [WithComponent 5014, WithLayer LayerCache, WithTag TagCacheType ''redis'']"

text \<open>The dial hook starts its span whatever the address.\<close>

definition sw_dial_hook :: "sw_tracer \<Rightarrow> gostring \<Rightarrow> gostring \<Rightarrow> sw_redis_result \<Rightarrow> sw_redis_result" where
  "sw_dial_hook tr refusal addr next =
     (let st = exit_span ''redis/dial'' addr sw_redis_opts
      in if tr_creates tr st then sw_redis_around st next else sw_redis_refused refusal)"

definition sw_process_start :: "int \<Rightarrow> gostring \<Rightarrow> sw_redis_cmd \<Rightarrow> sw_start" where
  "sw_process_start maxb addr cmd =
     exit_span (''redis/'' @ rc_full_name cmd) addr
       (sw_redis_opts @
        [WithTag TagCacheOp (sw_get_cache_op (rc_full_name cmd)), WithTag TagCacheCmd (rc_full_name cmd),
         WithTag TagCacheKey (sw_get_key (rc_args cmd)), WithTag TagCacheArgs (sw_max_string (rc_text cmd) maxb)])"

definition sw_process_hook ::
  "sw_tracer \<Rightarrow> gostring \<Rightarrow> int \<Rightarrow> gostring \<Rightarrow> sw_redis_cmd \<Rightarrow> sw_redis_result \<Rightarrow> sw_redis_result" where
  "sw_process_hook tr refusal maxb addr cmd next =
     (if addr \<noteq> [] then
        (let st = sw_process_start maxb addr cmd
         in if tr_creates tr st then sw_redis_around st next else sw_redis_refused refusal)
      else next)"

definition sw_pipeline_summary :: "sw_redis_cmd list \<Rightarrow> gostring" where
  "sw_pipeline_summary cmds =
     (let first = (if length cmds > 10 then take 10 cmds else cmds)
      in fold (\<lambda>c acc. acc @ rc_full_name c @ ''/'') first [] @ (if length cmds > 10 then ''...'' else []))"

definition sw_process_pipeline_hook ::
  "sw_tracer \<Rightarrow> gostring \<Rightarrow> gostring \<Rightarrow> sw_redis_cmd list \<Rightarrow> sw_redis_result \<Rightarrow> sw_redis_result" where
  "sw_process_pipeline_hook tr refusal addr cmds next =
     (if addr \<noteq> [] then
        (let st = exit_span ''redis/pipeline'' addr
               (sw_redis_opts @ [WithTag TagCacheCmd (''pipeline:'' @ trim_right_set (sw_pipeline_summary cmds) ''/'')])
         in if tr_creates tr st then sw_redis_around st next else sw_redis_refused refusal)
      else next)"

section \<open>Installing the hook\<close>

text \<open>
  A client with the addresses of its tracing hooks, outermost first, and how many hooks each node it
  discovers gets.  The original constructor may have called another that installed a hook already.
\<close>

datatype sw_redis_type = RedisClient gostring | RedisCluster | RedisRing | RedisOtherClient | RedisNoClient

record sw_redis_client =
  cl_type :: sw_redis_type
  cl_hooks :: "gostring list"
  cl_node_hooks :: nat

definition sw_install_hook :: "sw_redis_client \<Rightarrow> sw_redis_client" where
  "sw_install_hook c =
     (case cl_type c of
        RedisClient addr \<Rightarrow> c\<lparr>cl_hooks := cl_hooks c @ [addr]\<rparr>
      | RedisCluster \<Rightarrow> c\<lparr>cl_hooks := cl_hooks c @ [[]], cl_node_hooks := Suc (cl_node_hooks c)\<rparr>
      | RedisRing \<Rightarrow> c\<lparr>cl_hooks := cl_hooks c @ [[]], cl_node_hooks := Suc (cl_node_hooks c)\<rparr>
      | RedisOtherClient \<Rightarrow> c
      | RedisNoClient \<Rightarrow> c)"

definition sw_redis_new_client :: "sw_redis_client \<Rightarrow> sw_redis_client" where
  "sw_redis_new_client rdb = sw_install_hook rdb"

definition sw_redis_new_failover_client :: "sw_redis_client \<Rightarrow> sw_redis_client" where
  "sw_redis_new_failover_client rdb = sw_install_hook rdb"

definition sw_redis_new_cluster_client :: "sw_redis_client \<Rightarrow> sw_redis_client" where
  "sw_redis_new_cluster_client rdb = sw_install_hook rdb"

definition sw_redis_new_ring :: "sw_redis_client \<Rightarrow> sw_redis_client" where
  "sw_redis_new_ring rdb = sw_install_hook rdb"

definition sw_redis_new_universal_client :: "sw_redis_client \<Rightarrow> sw_redis_client" where
  "sw_redis_new_universal_client rdb = sw_install_hook rdb"

text \<open>A command on a client goes through its hooks in order and then to the server.\<close>

fun sw_redis_run :: "sw_tracer \<Rightarrow> gostring \<Rightarrow> int \<Rightarrow> gostring list \<Rightarrow> sw_redis_cmd \<Rightarrow> sw_redis_error option \<Rightarrow> sw_redis_result" where
  "sw_redis_run tr refusal maxb [] cmd err = \<lparr>rr_err = err, rr_spans = [], rr_sent = 1\<rparr>"
| "sw_redis_run tr refusal maxb (addr # hooks) cmd err =
     sw_process_hook tr refusal maxb addr cmd (sw_redis_run tr refusal maxb hooks cmd err)"

section \<open>Properties\<close>

interpretation sw_redis_end: sw_finishing "\<lambda>err. sw_record_error err @ [SwEnd]" "\<lambda>err. sw_redis_reported err \<noteq> None"
proof
  fix err
  show "\<exists>xs. sw_record_error err @ [SwEnd] = xs @ [SwEnd] \<and> SwEnd \<notin> set xs \<and>
      (sw_redis_reported err \<noteq> None) = list_ex marks_error xs"
  proof (cases err)
    case (Some e)
    then show ?thesis by (cases e) (auto simp: sw_record_error_def)
  qed (simp add: sw_record_error_def)
qed

definition all_created :: "sw_tracer \<Rightarrow> int \<Rightarrow> sw_redis_cmd \<Rightarrow> gostring list \<Rightarrow> bool" where
  "all_created tr maxb cmd hooks = list_all (\<lambda>a. a = [] \<or> tr_creates tr (sw_process_start maxb a cmd)) hooks"

definition redis_ended :: "sw_redis_result \<Rightarrow> bool" where
  "redis_ended r = list_all (\<lambda>(st, log). sw_properly_ended log (sw_redis_reported (rr_err r) \<noteq> None)) (rr_spans r)"

lemma around_ended: "redis_ended (sw_redis_around st r) \<longleftrightarrow> redis_ended r"
  using sw_redis_end.properly by (simp add: redis_ended_def sw_redis_around_def)

lemma refused_ended: "redis_ended (sw_redis_refused refusal)"
  by (simp add: redis_ended_def sw_redis_refused_def)

lemma run_ended: "redis_ended (sw_redis_run tr refusal maxb hooks cmd err)"
  by (induction hooks) (auto simp: sw_process_hook_def around_ended refused_ended Let_def redis_ended_def [of "\<lparr>rr_err = _, rr_spans = [], rr_sent = _\<rparr>"])

lemma run_created:
  "all_created tr maxb cmd hooks \<Longrightarrow>
   rr_err (sw_redis_run tr refusal maxb hooks cmd err) = err \<and> rr_sent (sw_redis_run tr refusal maxb hooks cmd err) = 1 \<and>
   map fst (rr_spans (sw_redis_run tr refusal maxb hooks cmd err))
     = map (\<lambda>a. sw_process_start maxb a cmd) (filter (\<lambda>a. a \<noteq> []) hooks)"
  by (induction hooks) (auto simp: all_created_def sw_process_hook_def sw_redis_around_def Let_def)

lemma run_refused:
  "\<not> all_created tr maxb cmd hooks \<Longrightarrow>
   sw_redis_reported (rr_err (sw_redis_run tr refusal maxb hooks cmd err)) \<noteq> None \<and>
   rr_sent (sw_redis_run tr refusal maxb hooks cmd err) = 0"
  by (induction hooks) (auto simp: all_created_def sw_process_hook_def sw_redis_around_def sw_redis_refused_def Let_def)

text \<open>
  C35: A command through a client's tracing hooks, however many were installed: if the tracer creates the
  spans, the command reaches the server once, its error is returned as it is, and there is one span for each
  hook with an address, outermost first; if it refuses one, the command is never sent
  and the application gets an error.  Either way every span that was started is ended once,
  as an error exactly when the caller gets an error other than \<open>Nil\<close>.
\<close>
theorem sw_redis_command_traced:
  "(let r = sw_redis_run tr refusal maxb hooks cmd err
    in list_all (\<lambda>(st, log). sw_properly_ended log (sw_redis_reported (rr_err r) \<noteq> None)) (rr_spans r) \<and>
       (if list_all (\<lambda>a. a = [] \<or> tr_creates tr (sw_process_start maxb a cmd)) hooks
        then rr_err r = err \<and> rr_sent r = 1 \<and>
          map fst (rr_spans r) = map (\<lambda>a. sw_process_start maxb a cmd) (filter (\<lambda>a. a \<noteq> []) hooks)
        else rr_sent r = 0 \<and> sw_redis_reported (rr_err r) \<noteq> None))"
  using run_ended [of tr refusal maxb hooks cmd err] run_created [of tr maxb cmd hooks refusal err]
    run_refused [of tr maxb cmd hooks refusal err]
  by (simp add: redis_ended_def all_created_def Let_def)

text \<open>
  \<open>NewUniversalClient\<close> builds its client with a constructor that has installed the hook, and installs it again:
  each command then has two spans.
\<close>

theorem sw_redis_universal_two_spans:
  "\<forall>addr cmd. addr \<noteq> [] \<longrightarrow>
     length (rr_spans (sw_redis_run \<lparr>tr_creates = (\<lambda>_. True), tr_headers = (\<lambda>_. []), tr_keys = []\<rparr> [] 1024
       (cl_hooks (sw_redis_new_universal_client (sw_redis_new_client
          \<lparr>cl_type = RedisClient addr, cl_hooks = [], cl_node_hooks = 0\<rparr>))) cmd None)) = 2"
  by (simp add: sw_redis_new_universal_client_def sw_redis_new_client_def sw_install_hook_def sw_process_hook_def
      sw_redis_around_def Let_def)

end
