(* ===== verification/Sw_Carriers.thy ===== *)
theory Sw_Carriers
  imports Sw_Tracing Telemetry Net_Http Grpc
begin

text \<open>
  The carriers the SkyWalking rules inject headers into and extract them from.  Some replace the value of
  a key; others add one, and a reader sees the first.  The contract both meet is that a header put
  under a key the carrier does not have yet is what a reader sees.
\<close>

locale fresh_carrier =
  fixes cget :: "'c \<Rightarrow> gostring \<Rightarrow> gostring"
    and cput :: "gostring \<Rightarrow> gostring \<Rightarrow> 'c \<Rightarrow> 'c"
    and norm :: "gostring \<Rightarrow> gostring"
    and taken :: "'c \<Rightarrow> gostring \<Rightarrow> bool"
  assumes put_own: "\<not> taken c k \<Longrightarrow> norm k' = norm k \<Longrightarrow> cget (cput k v c) k' = v"
    and put_other: "norm k' \<noteq> norm k \<Longrightarrow> cget (cput k v c) k' = cget c k'"
    and taken_other: "norm k' \<noteq> norm k \<Longrightarrow> taken (cput k v c) k' = taken c k'"
begin

lemma put_others: "norm k \<notin> norm ` fst ` set kvs \<Longrightarrow> cget (fold (\<lambda>(k, v). cput k v) kvs c) k = cget c k"
  by (induction kvs arbitrary: c) (auto simp: put_other)

lemma put_all:
  assumes "distinct (map (norm \<circ> fst) kvs)" "\<forall>(k, v) \<in> set kvs. \<not> taken c k" "(k, v) \<in> set kvs"
  shows "cget (fold (\<lambda>(k, v). cput k v) kvs c) k = v"
  using assms
proof (induction kvs arbitrary: c)
  case (Cons kv kvs)
  obtain k1 v1 where kv: "kv = (k1, v1)" by fastforce
  have notin: "norm k1 \<notin> norm ` fst ` set kvs" using Cons.prems(1) by (auto simp: kv image_comp)
  have fresh: "\<forall>(k, v) \<in> set kvs. \<not> taken (cput k1 v1 c) k"
  proof safe
    fix k' v' assume "(k', v') \<in> set kvs" and t: "taken (cput k1 v1 c) k'"
    then have "norm k' \<in> norm ` fst ` set kvs" by force
    then have "norm k' \<noteq> norm k1" using notin by metis
    then show False using t taken_other Cons.prems(2) \<open>(k', v') \<in> set kvs\<close> by fastforce
  qed
  show ?case
  proof (cases "(k, v) = (k1, v1)")
    case True
    then show ?thesis using put_others [OF notin] put_own Cons.prems(2) by (simp add: kv)
  next
    case False
    then show ?thesis using Cons.IH [OF _ fresh] Cons.prems by (auto simp: kv)
  qed
qed simp

text \<open>What an extractor that asks for the injected keys sees.\<close>

lemma read_back:
  assumes "distinct (map (norm \<circ> fst) kvs)" "\<forall>(k, v) \<in> set kvs. \<not> taken c k"
  shows "map (cget (fold (\<lambda>(k, v). cput k v) kvs c)) (map fst kvs) = map snd kvs"
  using put_all [OF assms] by (fastforce intro: map_cong)

end

text \<open>An extractor's answers, key by key.\<close>

lemma zip_read: "map f (map fst hs) = map snd hs \<Longrightarrow> map (\<lambda>k. (k, f k)) (map fst hs) = hs"
  by (induction hs) auto

text \<open>A carrier that replaces values meets the contract whatever it holds.\<close>

sublocale text_map_carrier \<subseteq> replacing: fresh_carrier cget cset norm "\<lambda>_ _. False"
  by unfold_locales (simp_all add: get_set)

section \<open>Properties of a message, and attachments\<close>

type_synonym properties = "gostring \<rightharpoonup> gostring"

definition property_get :: "properties \<Rightarrow> gostring \<Rightarrow> gostring" where
  "property_get m k = (case m k of Some v \<Rightarrow> v | None \<Rightarrow> [])"

definition property_set :: "gostring \<Rightarrow> gostring \<Rightarrow> properties \<Rightarrow> properties" where
  "property_set k v m = m(k \<mapsto> v)"

interpretation properties: text_map_carrier property_get property_set id
  by unfold_locales (auto simp: property_get_def property_set_def)

section \<open>HTTP headers and outgoing metadata, added to\<close>

definition header_add :: "gostring \<Rightarrow> gostring \<Rightarrow> (gostring \<rightharpoonup> gostring list) \<Rightarrow> gostring \<rightharpoonup> gostring list" where
  "header_add key value m =
     m(canonical_key key \<mapsto> (case m (canonical_key key) of Some vs \<Rightarrow> vs | None \<Rightarrow> []) @ [value])"

definition header_present :: "(gostring \<rightharpoonup> gostring list) \<Rightarrow> gostring \<Rightarrow> bool" where
  "header_present m key \<longleftrightarrow> m (canonical_key key) \<notin> {None, Some []}"

interpretation added_headers: fresh_carrier "\<lambda>m. header_get (Some m)" header_add canonical_key header_present
  by unfold_locales (auto simp: header_get_def header_add_def header_present_def split: option.splits)

definition md_append :: "gostring \<Rightarrow> gostring \<Rightarrow> grpc_md \<Rightarrow> grpc_md" where
  "md_append key value md = md(to_lower key \<mapsto> (case md (to_lower key) of Some vs \<Rightarrow> vs | None \<Rightarrow> []) @ [value])"

definition md_present :: "grpc_md \<Rightarrow> gostring \<Rightarrow> bool" where
  "md_present md key \<longleftrightarrow> md (to_lower key) \<notin> {None, Some []}"

interpretation appended_md: fresh_carrier md_get md_append to_lower md_present
  by unfold_locales (auto simp: md_get_def md_append_def md_present_def split: option.splits)

section \<open>A list of headers\<close>

fun first_header :: "headers_list \<Rightarrow> gostring \<Rightarrow> gostring" where
  "first_header [] k = []"
| "first_header ((k', v) # hs) k = (if k' = k then v else first_header hs k)"

definition append_to_list :: "gostring \<Rightarrow> gostring \<Rightarrow> headers_list \<Rightarrow> headers_list" where
  "append_to_list k v hs = hs @ [(k, v)]"

lemma first_header_append:
  "first_header (hs @ [(k, v)]) k' = (if k' \<in> fst ` set hs then first_header hs k' else if k' = k then v else [])"
proof (induction hs)
  case (Cons h hs)
  then show ?case by (cases h) (auto simp: image_iff, fastforce+)
qed simp

lemma first_header_absent: "k \<notin> fst ` set hs \<Longrightarrow> first_header hs k = []"
  by (induction hs) auto

interpretation listed_headers: fresh_carrier first_header append_to_list id "\<lambda>hs k. k \<in> fst ` set hs"
  by unfold_locales (auto simp: first_header_append append_to_list_def first_header_absent)

end
