(* ===== verification/Sw_Messaging.thy ===== *)
theory Sw_Messaging
  imports Sw_Carriers
begin

text \<open>
  Model of the message queue rules of the SkyWalking port: \<open>segmentio-kafka\<close>, \<open>rocketmq\<close> and \<open>pulsar\<close>.
  A hook yields its span and the headers the messages go out with; a run-time panic is \<open>None\<close>.
\<close>

section \<open>Kafka\<close>

text \<open>
  Every message gets the same header, so that messages whose header slices share memory cannot
  be told from messages that do not.  \<open>internal\<close> marks the traffic of the agent's own reporter.
\<close>

definition sw_kafka_error_calls :: "gostring option \<Rightarrow> sw_call list" where
  "sw_kafka_error_calls err = (case err of Some e \<Rightarrow> [SwTag TagMQStatus e, SwError [e]] | None \<Rightarrow> [])"

definition sw_kafka_write_messages ::
  "sw_tracer \<Rightarrow> bool \<Rightarrow> gostring \<Rightarrow> gostring \<Rightarrow> headers_list list \<Rightarrow> gostring option \<Rightarrow> sw_span option \<times> headers_list list" where
  "sw_kafka_write_messages tr internal addr topic msgs err =
     (if internal then (None, msgs)
      else
        let st = exit_span (''Kafka/'' @ topic @ ''/Producer'') addr
              [WithLayer LayerMQ, WithComponent 40, WithTag TagMQBroker addr, WithTag TagMQTopic topic]
        in if tr_creates tr st
           then (Some (st, SwSetPeer addr # sw_kafka_error_calls err @ [SwEnd]),
                 map (fold (\<lambda>(k, v). append_to_list k v) (tr_headers tr st)) msgs)
           else (None, msgs))"

definition sw_kafka_read_message ::
  "sw_tracer \<Rightarrow> gostring list \<Rightarrow> gostring \<Rightarrow> headers_list \<Rightarrow> gostring option \<Rightarrow> (sw_span \<times> headers_list) option" where
  "sw_kafka_read_message tr broker_list topic hs err =
     (let brokers = str_join '';'' broker_list;
          st = entry_span (''Kafka/'' @ topic @ ''/Consumer'')
            [WithLayer LayerMQ, WithComponent 41, WithTag TagMQBroker brokers, WithTag TagMQTopic topic]
      in if tr_creates tr st
         then Some ((st, sw_kafka_error_calls err @ [SwSetPeer brokers, SwEnd]), map (\<lambda>k. (k, first_header hs k)) (tr_keys tr))
         else None)"

section \<open>RocketMQ\<close>

datatype sw_send_status = SendOK | SendFlushDiskTimeout | SendFlushSlaveTimeout | SendSlaveNotAvailable | SendUnknownError | SendOther int

fun sw_send_status_str :: "sw_send_status \<Rightarrow> gostring" where
  "sw_send_status_str SendOK = ''SendOK''"
| "sw_send_status_str SendFlushDiskTimeout = ''SendFlushDiskTimeout''"
| "sw_send_status_str SendFlushSlaveTimeout = ''SendFlushSlaveTimeout''"
| "sw_send_status_str SendSlaveNotAvailable = ''SendSlaveNotAvailable''"
| "sw_send_status_str SendUnknownError = ''SendUnknownError''"
| "sw_send_status_str (SendOther n) = go_itoa n"

text \<open>A send result; its queue (number and broker name) may be nil.\<close>

record sw_send_result =
  sr_status :: sw_send_status
  sr_queue :: "(int \<times> gostring) option"
  sr_msg_id :: gostring
  sr_offset_msg_id :: gostring

text \<open>A message to send: its topic and properties.\<close>

type_synonym sw_rmq_message = "gostring \<times> properties"

definition with_properties :: "headers_list \<Rightarrow> sw_rmq_message list \<Rightarrow> sw_rmq_message list" where
  "with_properties hs msgs = map (\<lambda>(t, ps). (t, fold (\<lambda>(k, v). property_set k v) hs ps)) msgs"

definition sw_general_producer_before_invoke ::
  "sw_tracer \<Rightarrow> gostring list \<Rightarrow> sw_rmq_message list \<Rightarrow> (sw_start option \<times> sw_rmq_message list) option" where
  "sw_general_producer_before_invoke tr addrs msgs =
     (case msgs of
        [] \<Rightarrow> None
      | (topic, _) # _ \<Rightarrow>
          let st = exit_span (''RocketMQ/'' @ topic @ ''/Producer'') (str_join '';'' addrs)
                [WithLayer LayerMQ, WithComponent 38, WithTag TagMQTopic topic]
          in Some (if tr_creates tr st then (Some st, with_properties (tr_headers tr st) msgs) else (None, msgs)))"

definition sw_error_calls :: "gostring option \<Rightarrow> sw_call list" where
  "sw_error_calls err = (case err of Some e \<Rightarrow> [SwError [e]] | None \<Rightarrow> [])"

text \<open>The tags of a result; \<open>broker\<close> finds the address of a broker by its name.\<close>

definition sw_result_calls :: "(gostring \<Rightarrow> gostring) \<Rightarrow> sw_send_result option \<Rightarrow> sw_call list option" where
  "sw_result_calls broker result =
     (case result of
        None \<Rightarrow> Some []
      | Some r \<Rightarrow>
          (case sr_queue r of
             None \<Rightarrow> None
           | Some (qid, name) \<Rightarrow>
               Some [SwTag TagMQStatus (sw_send_status_str (sr_status r)), SwTag TagMQQueue (go_itoa qid),
                     SwTag TagMQBroker (broker name), SwTag TagMQMsgID (sr_msg_id r),
                     SwTag (TagNamed ''mq.offset.msg.id'') (sr_offset_msg_id r)]))"

definition sw_rmq_send_sync ::
  "sw_tracer \<Rightarrow> gostring list \<Rightarrow> (gostring \<Rightarrow> gostring) \<Rightarrow> sw_rmq_message list \<Rightarrow> sw_send_result option \<Rightarrow> gostring option \<Rightarrow>
   (sw_span option \<times> sw_rmq_message list) option" where
  "sw_rmq_send_sync tr addrs broker msgs result err =
     (case sw_general_producer_before_invoke tr addrs msgs of
        None \<Rightarrow> None
      | Some (None, sent) \<Rightarrow> Some (None, sent)
      | Some (Some st, sent) \<Rightarrow>
          map_option (\<lambda>rc. (Some (st, sw_error_calls err @ rc @ [SwEnd]), sent)) (sw_result_calls broker result))"

definition sw_rmq_send_one_way ::
  "sw_tracer \<Rightarrow> gostring list \<Rightarrow> sw_rmq_message list \<Rightarrow> gostring option \<Rightarrow> (sw_span option \<times> sw_rmq_message list) option" where
  "sw_rmq_send_one_way tr addrs msgs err =
     map_option (\<lambda>(st, sent). (map_option (\<lambda>s. (s, sw_error_calls err @ [SwEnd])) st, sent))
       (sw_general_producer_before_invoke tr addrs msgs)"

text \<open>
  The asynchronous send: the span, the messages, and whether the callback handed to the original is the
  wrapped one.
\<close>

definition sw_rmq_send_async ::
  "sw_tracer \<Rightarrow> gostring list \<Rightarrow> sw_rmq_message list \<Rightarrow> gostring option \<Rightarrow> (sw_span option \<times> sw_rmq_message list \<times> bool) option" where
  "sw_rmq_send_async tr addrs msgs err =
     (case msgs of
        [] \<Rightarrow> None
      | (topic, _) # _ \<Rightarrow>
          let peer = str_join '';'' addrs;
              st = exit_span (''RocketMQ/'' @ topic @ ''/AsyncProducer'') peer
                [WithLayer LayerMQ, WithComponent 38, WithTag TagMQTopic topic]
          in Some (if tr_creates tr st
                   then (Some (st, SwSetPeer peer # sw_error_calls err @ [SwEnd]), with_properties (tr_headers tr st) msgs, True)
                   else (None, msgs, False)))"

text \<open>
  The agent's part of the wrapped callback, on an SDK goroutine; a panic of the broker lookup (\<open>None\<close>) is
  recovered and leaves the local span as it is.
\<close>

definition sw_rmq_trace_async_send_callback ::
  "sw_tracer \<Rightarrow> gostring \<Rightarrow> gostring \<Rightarrow> sw_send_result option \<Rightarrow> gostring option \<Rightarrow> (gostring \<Rightarrow> gostring option) \<Rightarrow> sw_span option" where
  "sw_rmq_trace_async_send_callback tr topic peer result err broker =
     (let st = local_span (''RocketMQ/'' @ topic @ ''/Producer/Callback'')
            [WithComponent 38, WithLayer LayerMQ, WithTag TagMQTopic topic]
      in if \<not> tr_creates tr st then None
         else case result of
           None \<Rightarrow> Some (st, sw_error_calls err @ [SwSetPeer peer, SwEnd])
         | Some r \<Rightarrow>
             let c1 = sw_error_calls err @ [SwTag TagMQStatus (sw_send_status_str (sr_status r))];
                 c3 = [SwTag TagMQMsgID (sr_msg_id r), SwTag (TagNamed ''mq.offset.msg.id'') (sr_offset_msg_id r),
                       SwSetPeer peer, SwEnd]
             in case sr_queue r of
                  None \<Rightarrow> Some (st, c1 @ c3)
                | Some (qid, name) \<Rightarrow>
                    (case broker name of
                       None \<Rightarrow> Some (st, c1 @ [SwTag TagMQQueue (go_itoa qid)])
                     | Some a \<Rightarrow> Some (st, c1 @ [SwTag TagMQQueue (go_itoa qid), SwTag TagMQBroker a] @ c3)))"

text \<open>
  The callback the SDK calls: the agent's part if it is wrapped, then the application's, here how often it
  is told.  Calling a nil callback panics.
\<close>

definition run_async_callback :: "bool \<Rightarrow> sw_span option \<Rightarrow> bool \<Rightarrow> (sw_span option \<times> nat) option" where
  "run_async_callback wrapped agent user_given =
     (if wrapped then (if user_given then Some (agent, 1) else None)
      else Some (None, if user_given then 1 else 0))"

datatype sw_consume_result = ConsumeSuccess | ConsumeRetryLater | ConsumeCommit | ConsumeRollback | ConsumeSuspend | ConsumeOther int

fun sw_consumer_status_str :: "sw_consume_result \<Rightarrow> gostring" where
  "sw_consumer_status_str ConsumeSuccess = ''ConsumeSuccess''"
| "sw_consumer_status_str ConsumeRetryLater = ''ConsumeRetryLater''"
| "sw_consumer_status_str ConsumeCommit = ''Commit''"
| "sw_consumer_status_str ConsumeRollback = ''Rollback''"
| "sw_consumer_status_str ConsumeSuspend = ''SuspendCurrentQueueAMoment''"
| "sw_consumer_status_str (ConsumeOther n) = go_itoa n"

record sw_rmq_delivery =
  rd_topic :: gostring
  rd_msg_id :: gostring
  rd_offset_msg_id :: gostring
  rd_store_host :: gostring
  rd_properties :: properties

definition sw_rmq_extract :: "sw_tracer \<Rightarrow> sw_rmq_delivery \<Rightarrow> headers_list" where
  "sw_rmq_extract tr m = map (\<lambda>k. (k, property_get (rd_properties m) k)) (tr_keys tr)"

text \<open>One entry span for the batch, with the contexts of all its messages, the first one's as its parent.\<close>

definition sw_create_consumer_entry_span ::
  "sw_tracer \<Rightarrow> sw_rmq_delivery list \<Rightarrow> gostring \<Rightarrow> (sw_start \<times> sw_call list \<times> headers_list list) option" where
  "sw_create_consumer_entry_span tr msgs peer =
     (case msgs of
        [] \<Rightarrow> None
      | first # rest \<Rightarrow>
          let st = entry_span (''RocketMQ/'' @ rd_topic first @ ''/Consumer'')
                [WithLayer LayerMQ, WithComponent 39, WithTag TagMQTopic (rd_topic first),
                 WithTag (TagNamed ''mq.msg.id'') (str_join '';'' (map rd_msg_id msgs)),
                 WithTag (TagNamed ''mq.offset.msg.id'') (str_join '';'' (map rd_offset_msg_id msgs))]
          in if tr_creates tr st
             then Some (st, [SwTag TagMQBroker (rd_store_host first), SwSetPeer peer],
                        sw_rmq_extract tr first # map (sw_rmq_extract tr) rest)
             else None)"

definition sw_rmq_consume_end :: "gostring option \<times> sw_consume_result \<Rightarrow> sw_call list" where
  "sw_rmq_consume_end x =
     (case x of (err, result) \<Rightarrow>
        sw_error_calls err @ [SwTag TagMQStatus (sw_consumer_status_str result)]
        @ (if result \<noteq> ConsumeSuccess then [SwError []] else []) @ [SwEnd])"

definition sw_rmq_consume_inner ::
  "sw_tracer \<Rightarrow> gostring list \<Rightarrow> sw_rmq_delivery list \<Rightarrow> sw_consume_result \<Rightarrow> gostring option \<Rightarrow> (sw_span \<times> headers_list list) option" where
  "sw_rmq_consume_inner tr addrs msgs result err =
     map_option (\<lambda>(st, calls, ctx). ((st, calls @ sw_rmq_consume_end (err, result)), ctx))
       (sw_create_consumer_entry_span tr msgs (str_join '';'' addrs))"

section \<open>Pulsar\<close>

text \<open>A message to produce has properties or a nil map; it is a pointer, so the original sees what is injected.\<close>

definition sw_pulsar_inject :: "headers_list \<Rightarrow> properties option \<Rightarrow> properties option" where
  "sw_pulsar_inject hs props =
     fold (\<lambda>(k, v) p. case p of None \<Rightarrow> Some [k \<mapsto> v] | Some m \<Rightarrow> Some (property_set k v m)) hs props"

text \<open>
  \<open>lookup\<close> is the address the lookup service gives for the topic of the options; the other topic is that of the
  partition.
\<close>

definition sw_pulsar_opts :: "gostring \<Rightarrow> gostring \<Rightarrow> int \<Rightarrow> sw_option list" where
  "sw_pulsar_opts peer topic component =
     [WithLayer LayerMQ, WithComponent component, WithTag TagMQBroker peer, WithTag TagMQTopic topic]"

definition sw_pulsar_send_end :: "gostring option \<times> gostring option \<Rightarrow> sw_call list" where
  "sw_pulsar_send_end x =
     (case x of (err, msg_id) \<Rightarrow>
        sw_error_calls err @ (case msg_id of Some i \<Rightarrow> [SwTag TagMQMsgID i] | None \<Rightarrow> []) @ [SwEnd])"

definition sw_pulsar_send ::
  "sw_tracer \<Rightarrow> gostring \<Rightarrow> gostring \<Rightarrow> gostring option \<Rightarrow> properties option \<Rightarrow> gostring option \<Rightarrow> gostring option \<Rightarrow>
   sw_span option \<times> properties option" where
  "sw_pulsar_send tr topic part lookup props msg_id err =
     (case lookup of
        None \<Rightarrow> (None, props)
      | Some peer \<Rightarrow>
          let st = exit_span (''Pulsar/'' @ topic @ ''/Producer'') peer (sw_pulsar_opts peer part 73)
          in if tr_creates tr st then (Some (st, sw_pulsar_send_end (err, msg_id)), sw_pulsar_inject (tr_headers tr st) props)
             else (None, props))"

definition sw_pulsar_send_async ::
  "sw_tracer \<Rightarrow> gostring \<Rightarrow> gostring \<Rightarrow> gostring option \<Rightarrow> properties option \<Rightarrow> sw_span option \<times> properties option \<times> bool" where
  "sw_pulsar_send_async tr topic part lookup props =
     (case lookup of
        None \<Rightarrow> (None, props, False)
      | Some peer \<Rightarrow>
          let st = exit_span (''Pulsar/'' @ topic @ ''/AsyncProducer'') peer (sw_pulsar_opts peer part 73)
          in if tr_creates tr st then (Some (st, [SwSetPeer peer, SwEnd]), sw_pulsar_inject (tr_headers tr st) props, True)
             else (None, props, False))"

definition sw_pulsar_trace_async_send_callback ::
  "sw_tracer \<Rightarrow> gostring \<Rightarrow> gostring \<Rightarrow> gostring \<Rightarrow> gostring \<Rightarrow> gostring option \<Rightarrow> gostring option \<Rightarrow> sw_span option" where
  "sw_pulsar_trace_async_send_callback tr op_topic tag_topic peer broker msg_id err =
     (let st = local_span (''Pulsar/'' @ op_topic @ ''/Producer/Callback'')
            [WithComponent 73, WithLayer LayerMQ, WithTag TagMQTopic tag_topic]
      in if tr_creates tr st
         then Some (st, sw_error_calls err @ [SwTag TagMQBroker broker]
                @ (case msg_id of Some i \<Rightarrow> [SwTag TagMQMsgID i] | None \<Rightarrow> []) @ [SwSetPeer peer, SwEnd])
         else None)"

text \<open>The errors of the client, of its own type or another.\<close>

datatype sw_pulsar_error = PulsarError gostring | OtherError gostring

definition sw_pulsar_receive_end :: "gostring \<times> sw_pulsar_error option \<Rightarrow> sw_call list" where
  "sw_pulsar_receive_end x =
     (case x of (peer, err) \<Rightarrow>
        (case err of Some (PulsarError e) \<Rightarrow> [SwTag TagMQStatus e, SwError [e]] | _ \<Rightarrow> []) @ [SwSetPeer peer, SwEnd])"

definition sw_pulsar_receive ::
  "sw_tracer \<Rightarrow> gostring \<Rightarrow> gostring \<Rightarrow> gostring option \<Rightarrow> properties option \<Rightarrow> sw_pulsar_error option \<Rightarrow>
   (sw_span \<times> headers_list) option" where
  "sw_pulsar_receive tr topic part lookup msg err =
     (case lookup of
        None \<Rightarrow> None
      | Some peer \<Rightarrow>
          let st = entry_span (''Pulsar/'' @ topic @ ''/Consumer'') (sw_pulsar_opts peer part 74)
          in if tr_creates tr st
             then Some ((st, sw_pulsar_receive_end (peer, err)),
                        map (\<lambda>k. (k, case msg of None \<Rightarrow> [] | Some ps \<Rightarrow> property_get ps k)) (tr_keys tr))
             else None)"

end
