(* ===== verification/Sw_Amqp.thy ===== *)
theory Sw_Amqp
  imports Sw_Tracing Go_Net
begin

text \<open>
  Model of \<open>skywalking/plugins/amqp\<close>: the peer kept on a connection, the queue each consumer tag
  stands for, and the spans of published and delivered messages.  A hook that would panic yields \<open>None\<close>.
\<close>

section \<open>Peers and consumer tags\<close>

definition sw_parse_uri :: "gostring \<Rightarrow> gostring" where
  "sw_parse_uri uri = (case url_parse uri of None \<Rightarrow> [] | Some u \<Rightarrow> url_hostname u @ '':'' @ url_port u)"

text \<open>\<open>DialConfig\<close>: the connection, if there is one, gets the peer; \<open>swGetPeerInfo\<close> asserts that it is there.\<close>

type_synonym sw_amqp_conn = "gostring option"

definition sw_dial_config :: "gostring \<Rightarrow> sw_amqp_conn option \<Rightarrow> sw_amqp_conn option" where
  "sw_dial_config uri conn = map_option (\<lambda>_. Some (sw_parse_uri uri)) conn"

definition sw_get_peer_info :: "sw_amqp_conn \<Rightarrow> gostring option" where
  "sw_get_peer_info conn = conn"

record sw_amqp_state =
  sa_seq :: "64 word"
  sa_queues :: "gostring \<rightharpoonup> gostring"

definition sw_amqp_init :: sw_amqp_state where
  "sw_amqp_init = \<lparr>sa_seq = 0, sa_queues = Map.empty\<rparr>"

definition sw_register_consumer_queue :: "gostring \<Rightarrow> gostring \<Rightarrow> sw_amqp_state \<Rightarrow> sw_amqp_state" where
  "sw_register_consumer_queue tag queue st = st\<lparr>sa_queues := (sa_queues st)(tag \<mapsto> queue)\<rparr>"

definition sw_consumer_queue :: "gostring \<Rightarrow> sw_amqp_state \<Rightarrow> gostring" where
  "sw_consumer_queue tag st = (case sa_queues st tag of Some q \<Rightarrow> q | None \<Rightarrow> [])"

definition sw_remove_consumer_queue :: "gostring \<Rightarrow> sw_amqp_state \<Rightarrow> sw_amqp_state" where
  "sw_remove_consumer_queue tag st = st\<lparr>sa_queues := (sa_queues st)(tag := None)\<rparr>"

definition sw_command_name_based_unique_consumer_tag :: "gostring \<Rightarrow> sw_amqp_state \<Rightarrow> gostring \<times> sw_amqp_state" where
  "sw_command_name_based_unique_consumer_tag command st =
     (let seq = sa_seq st + 1;
          suffix = ''-'' @ nat_dec (unat seq);
          infx = (if length ''ctag-'' + length command + length suffix > 255 then ''streadway/amqp'' else command)
      in (''ctag-'' @ infx @ suffix, st\<lparr>sa_seq := seq\<rparr>))"

text \<open>\<open>command\<close> is \<open>os.Args[0]\<close>.\<close>

definition sw_unique_consumer_tag :: "gostring \<Rightarrow> sw_amqp_state \<Rightarrow> gostring \<times> sw_amqp_state" where
  "sw_unique_consumer_tag command st = sw_command_name_based_unique_consumer_tag command st"

definition sw_amqp_consume :: "gostring \<Rightarrow> gostring \<Rightarrow> gostring \<Rightarrow> sw_amqp_state \<Rightarrow> sw_amqp_state" where
  "sw_amqp_consume command queue consumer st =
     (let (tag, st1) = (if consumer = [] then sw_unique_consumer_tag command st else (consumer, st))
      in sw_register_consumer_queue tag queue st1)"

definition sw_amqp_close :: "gostring list \<Rightarrow> sw_amqp_state \<Rightarrow> sw_amqp_state" where
  "sw_amqp_close tags st = fold sw_remove_consumer_queue tags st"

section \<open>Publishing\<close>

datatype sw_table_value = TString gostring | TOther

type_synonym sw_table = "gostring \<rightharpoonup> sw_table_value"

text \<open>
  The injector writes to \<open>publishing\<close>, a copy of the message: a table the message has is shared with the
  copy, one that is made for the copy is not.  The result is the table of the copy and that of the
  message the original body goes on with.
\<close>

definition sw_amqp_inject :: "headers_list \<Rightarrow> sw_table option \<Rightarrow> sw_table option \<times> sw_table option" where
  "sw_amqp_inject hs msg =
     fold (\<lambda>(k, v) (copy, own).
        case copy of
          None \<Rightarrow> (Some [k \<mapsto> TString v], own)
        | Some t \<Rightarrow> (Some (t(k \<mapsto> TString v)), if msg = None then own else Some (t(k \<mapsto> TString v))))
       hs (msg, msg)"

definition sw_amqp_publish ::
  "sw_tracer \<Rightarrow> sw_amqp_conn \<Rightarrow> gostring \<Rightarrow> gostring \<Rightarrow> sw_table option \<Rightarrow> gostring option \<Rightarrow>
   (sw_span option \<times> sw_table option) option" where
  "sw_amqp_publish tr conn exchange key headers err =
     (case sw_get_peer_info conn of
        None \<Rightarrow> None
      | Some peer \<Rightarrow>
          let op = ''AMQP'' @ (if exchange \<noteq> [] then ''/'' @ exchange else []) @ (if key \<noteq> [] then ''/'' @ key else [])
                @ ''/Producer'';
              st = exit_span op peer
                [WithLayer LayerMQ, WithComponent 144, WithTag TagMQBroker peer,
                 WithTag (TagNamed ''mq.exchange'') exchange, WithTag (TagNamed ''mq.routing_key'') key]
          in if tr_creates tr st
             then Some (Some (st, sw_finish err), snd (sw_amqp_inject (tr_headers tr st) headers))
             else Some (None, headers))"

section \<open>Delivering\<close>

text \<open>The acknowledger of a delivery: a channel with its connection, or something else.\<close>

datatype sw_acker = AckChannel sw_amqp_conn | AckOther

record sw_delivery =
  sd_acker :: sw_acker
  sd_headers :: "sw_table option"
  sd_headers_text :: gostring
  sd_message_id :: gostring
  sd_correlation_id :: gostring
  sd_reply_to :: gostring

definition sw_amqp_extract :: "sw_table option \<Rightarrow> gostring \<Rightarrow> gostring" where
  "sw_amqp_extract t k = (case t of None \<Rightarrow> [] | Some h \<Rightarrow> (case h k of Some (TString v) \<Rightarrow> v | _ \<Rightarrow> []))"

text \<open>
  \<open>consumers.send\<close>: the result of the span, with what its extractor reads for the keys of the
  tracer; the outer \<open>None\<close> is a panic in the deferred function.
\<close>

definition sw_amqp_send ::
  "sw_tracer \<Rightarrow> gostring \<Rightarrow> sw_delivery \<Rightarrow> bool \<Rightarrow> sw_amqp_state \<Rightarrow> (sw_span \<times> headers_list) option option" where
  "sw_amqp_send tr tag d found st =
     (if \<not> found then Some None
      else case sd_acker d of
        AckOther \<Rightarrow> None
      | AckChannel conn \<Rightarrow>
          (case sw_get_peer_info conn of
             None \<Rightarrow> None
           | Some peer \<Rightarrow>
               let queue = sw_consumer_queue tag st;
                   s = entry_span (''AMQP/'' @ queue @ ''/'' @ tag @ ''/Consumer'')
                     [WithLayer LayerMQ, WithComponent 145, WithTag TagMQBroker peer, WithTag TagMQQueue queue,
                      WithTag TagMQMsgID (sd_message_id d), WithTag (TagNamed ''mq.consumer_tag'') tag,
                      WithTag (TagNamed ''mq.correlation_id'') (sd_correlation_id d),
                      WithTag (TagNamed ''mq.reply_to'') (sd_reply_to d), WithTag (TagNamed ''mq.args'') (sd_headers_text d)]
               in Some (if tr_creates tr s
                        then Some ((s, [SwSetPeer peer, SwEnd]), map (\<lambda>k. (k, sw_amqp_extract (sd_headers d) k)) (tr_keys tr))
                        else None)))"

end
