(* ===== verification/Sw_Messaging_Props.thy ===== *)
theory Sw_Messaging_Props
  imports Sw_Messaging Sw_Amqp
begin

text \<open>
  Properties of the message queue rules: what a producer injects is what the consumer of the message
  extracts, and the spans of both are ended once.
\<close>

section \<open>Spans\<close>

lemma error_calls [simp]:
  "list_ex marks_error (sw_error_calls err) = (err \<noteq> None)" "SwEnd \<notin> set (sw_error_calls err)"
  by (cases err; simp add: sw_error_calls_def)+

lemma kafka_error_calls [simp]:
  "list_ex marks_error (sw_kafka_error_calls err) = (err \<noteq> None)" "SwEnd \<notin> set (sw_kafka_error_calls err)"
  by (cases err; simp add: sw_kafka_error_calls_def)+

text \<open>An end in two parts, the last of which is quiet.\<close>

lemma shape_end:
  assumes "list_ex marks_error cs = b" "SwEnd \<notin> set cs" "quiet ds"
  shows "\<exists>xs. cs @ ds @ [SwEnd] = xs @ [SwEnd] \<and> SwEnd \<notin> set xs \<and> b = list_ex marks_error xs"
  by (rule exI [of _ "cs @ ds"]) (use assms in \<open>auto simp: quiet_def list_ex_iff\<close>)

interpretation rmq_end: sw_finishing "\<lambda>err. sw_error_calls err @ [SwEnd]" "\<lambda>err. err \<noteq> None"
  using shape_end [OF error_calls, of "[]"] by unfold_locales simp

interpretation kafka_write_end: sw_finishing "\<lambda>err. sw_kafka_error_calls err @ [SwEnd]" "\<lambda>err. err \<noteq> None"
  using shape_end [OF kafka_error_calls, of "[]"] by unfold_locales simp

interpretation kafka_read_end:
  sw_finishing "\<lambda>(brokers, err). sw_kafka_error_calls err @ [SwSetPeer brokers, SwEnd]" "\<lambda>(brokers, err). err \<noteq> None"
  using shape_end [OF kafka_error_calls, of "[SwSetPeer brokers]" for brokers] by unfold_locales (auto split: prod.split)

interpretation rmq_consume_end: sw_finishing sw_rmq_consume_end "\<lambda>(err, result). err \<noteq> None \<or> result \<noteq> ConsumeSuccess"
  by unfold_locales (auto simp: sw_rmq_consume_end_def split: prod.split)

interpretation pulsar_send_end: sw_finishing sw_pulsar_send_end "\<lambda>(err, msg_id). err \<noteq> None"
  by unfold_locales (auto simp: sw_pulsar_send_end_def split: option.split)

fun is_pulsar_error :: "sw_pulsar_error option \<Rightarrow> bool" where
  "is_pulsar_error (Some (PulsarError e)) = True" | "is_pulsar_error _ = False"

interpretation pulsar_receive_end: sw_finishing sw_pulsar_receive_end "\<lambda>(peer, err). is_pulsar_error err"
  by unfold_locales (auto simp: sw_pulsar_receive_end_def split: option.split sw_pulsar_error.split)

section \<open>Contexts\<close>

text \<open>A tracer that creates its spans, and asks an extractor for the keys it injects.\<close>

definition connects :: "sw_tracer \<Rightarrow> headers_list \<Rightarrow> bool" where
  "connects tr hs \<longleftrightarrow> distinct (map fst hs) \<and> tr_keys tr = map fst hs \<and> (\<forall>st. tr_creates tr st \<and> tr_headers tr st = hs)"

lemma kafka_headers_read:
  assumes "distinct (map fst hs)" "fst ` set m \<inter> fst ` set hs = {}"
  shows "map (\<lambda>k. (k, first_header (fold (\<lambda>(k, v). append_to_list k v) hs m) k)) (map fst hs) = hs"
  by (rule zip_read, rule listed_headers.read_back) (use assms in \<open>force simp: comp_def\<close>)+

lemma properties_read:
  assumes "distinct (map fst hs)"
  shows "map (\<lambda>k. (k, property_get (fold (\<lambda>(k, v). property_set k v) hs ps) k)) (map fst hs) = hs"
  by (rule zip_read, rule properties.replacing.read_back) (use assms in \<open>auto simp: comp_def\<close>)

lemma pulsar_inject_eq:
  "sw_pulsar_inject hs props = (if hs = [] then props
     else Some (fold (\<lambda>(k, v). property_set k v) hs (case props of Some m \<Rightarrow> m | None \<Rightarrow> Map.empty)))"
proof (induction hs arbitrary: props)
  case (Cons h hs)
  then show ?case
    by (cases h; cases props) (auto simp: sw_pulsar_inject_def property_set_def)
qed (simp add: sw_pulsar_inject_def)

definition sw_table_get :: "sw_table \<Rightarrow> gostring \<Rightarrow> gostring" where
  "sw_table_get t k = sw_amqp_extract (Some t) k"

interpretation amqp_table: text_map_carrier sw_table_get "\<lambda>k v t. t(k \<mapsto> TString v)" id
  by unfold_locales (auto simp: sw_table_get_def sw_amqp_extract_def)

lemma amqp_inject_table:
  "sw_amqp_inject hs (Some t)
     = (let t' = fold (\<lambda>(k, v) t. t(k \<mapsto> TString v)) hs t in (Some t', Some t'))"
proof -
  have "fold (\<lambda>(k, v) (copy, own). case copy of None \<Rightarrow> (Some [k \<mapsto> TString v], own)
        | Some t1 \<Rightarrow> (Some (t1(k \<mapsto> TString v)), if Some t = None then own else Some (t1(k \<mapsto> TString v))))
       hs (Some u, Some u) = (let t' = fold (\<lambda>(k, v) t. t(k \<mapsto> TString v)) hs u in (Some t', Some t'))" for u
    by (induction hs arbitrary: u) (auto simp: Let_def)
  then show ?thesis by (simp add: sw_amqp_inject_def)
qed

lemma amqp_inject_none: "snd (sw_amqp_inject hs None) = None"
proof -
  have "snd (fold (\<lambda>(k, v) (copy, own). case copy of None \<Rightarrow> (Some [k \<mapsto> TString v], own)
        | Some t1 \<Rightarrow> (Some (t1(k \<mapsto> TString v)), if (None :: sw_table option) = None then own else Some (t1(k \<mapsto> TString v))))
       hs (copy, None)) = None" for copy
    by (induction hs arbitrary: copy) (auto split: option.split)
  then show ?thesis by (simp add: sw_amqp_inject_def)
qed

lemma table_read:
  assumes "distinct (map fst hs)"
  shows "map (\<lambda>k. (k, sw_amqp_extract (Some (fold (\<lambda>(k, v) t. t(k \<mapsto> TString v)) hs t)) k)) (map fst hs) = hs"
  using zip_read [OF amqp_table.replacing.read_back, of hs t] assms by (simp add: comp_def sw_table_get_def)

lemma with_properties_read:
  assumes "connects tr hs" "rd_properties d \<in> snd ` set (with_properties hs msgs)"
  shows "sw_rmq_extract tr d = hs"
  using assms properties_read by (auto simp: with_properties_def sw_rmq_extract_def connects_def)



section \<open>Where the hooks break the call\<close>

text \<open>
  A failed synchronous send that has a result without a queue panics in the hook, where the application would
  have got the error; so does a send without messages; and the wrapped callback panics when the
  application gave none.
\<close>

theorem sw_rmq_failed_send_panics:
  "(\<forall>st. tr_creates tr st) \<Longrightarrow> sr_queue r = None \<Longrightarrow> sw_rmq_send_sync tr addrs broker [m] (Some r) (Some e) = None"
  "sw_rmq_send_sync tr addrs broker [] result err = None"
  "run_async_callback True agent False = None"
  by (cases m; simp add: sw_rmq_send_sync_def sw_general_producer_before_invoke_def sw_result_calls_def run_async_callback_def Let_def)+

text \<open>A Kafka message that is sent again keeps the header of the first attempt in front of the second's.\<close>

theorem sw_kafka_resend_keeps_first:
  "k \<notin> fst ` set m \<Longrightarrow>
   first_header (fold (\<lambda>(k, v). append_to_list k v) [(k, v1), (k, v2)] m) k = v1"
  using first_header_append [of "m @ [(k, v1)]" k v2 k] first_header_append [of m k v1 k]
  by (simp add: append_to_list_def)

end

