(* ===== verification/Sw_Web.thy ===== *)
theory Sw_Web
  imports Sw_Carriers
begin

text \<open>
  Model of the HTTP rules of the SkyWalking port: the clients and servers of \<open>http\<close>, \<open>gin\<close>, \<open>mux\<close>,
  \<open>echov4\<close>, \<open>fiber\<close>, \<open>fasthttp\<close>, \<open>irisv12\<close>, \<open>go-restfulv3\<close>, \<open>goframe\<close> and \<open>go-elasticsearchv8\<close>.
\<close>

record sw_request =
  wq_method :: gostring
  wq_host :: gostring
  wq_url_host :: gostring
  wq_path :: gostring
  wq_uri :: gostring
  wq_query :: gostring
  wq_headers :: "gostring \<rightharpoonup> gostring list"

definition sw_extract :: "sw_tracer \<Rightarrow> sw_request \<Rightarrow> headers_list" where
  "sw_extract tr req = map (\<lambda>k. (k, header_get (Some (wq_headers req)) k)) (tr_keys tr)"

definition sw_http_opts :: "gostring \<Rightarrow> gostring \<Rightarrow> int \<Rightarrow> sw_option list" where
  "sw_http_opts meth url component =
     [WithLayer LayerHTTP, WithTag TagHTTPMethod meth, WithTag TagURL url, WithComponent component]"

text \<open>A server hook yields its span and what its extractor found.\<close>

type_synonym sw_served = "(sw_span \<times> headers_list) option"

definition sw_enter :: "sw_tracer \<Rightarrow> sw_start \<Rightarrow> headers_list \<Rightarrow> sw_call list \<Rightarrow> sw_served" where
  "sw_enter tr st found calls = (if tr_creates tr st then Some ((st, calls), found) else None)"

definition status_tag :: "int \<Rightarrow> sw_call" where
  "status_tag c = SwTag TagStatusCode (go_itoa c)"

section \<open>Clients\<close>

definition sw_http_client_end :: "int option \<times> gostring option \<Rightarrow> sw_call list" where
  "sw_http_client_end x =
     (case x of (resp, err) \<Rightarrow>
        (case resp of Some c \<Rightarrow> status_tag c # (if c \<ge> 400 then [SwErrorOccured] else []) | None \<Rightarrow> []) @ sw_finish err)"

definition sw_http_round_trip ::
  "sw_tracer \<Rightarrow> sw_request \<Rightarrow> int option \<Rightarrow> gostring option \<Rightarrow> sw_span option \<times> sw_request" where
  "sw_http_round_trip tr req resp err =
     (let host = (if wq_host req = [] then wq_url_host req else wq_host req);
          st = exit_span (wq_method req @ '':'' @ wq_path req) host (sw_http_opts (wq_method req) (host @ wq_path req) 5005)
      in if tr_creates tr st
         then (Some (st, sw_http_client_end (resp, err)),
               req\<lparr>wq_headers := fold (\<lambda>(k, v). header_add k v) (tr_headers tr st) (wq_headers req)\<rparr>)
         else (None, req))"

definition sw_fasthttp_client_end :: "int option \<times> gostring option \<Rightarrow> sw_call list" where
  "sw_fasthttp_client_end x =
     (case x of (resp, err) \<Rightarrow>
        (case resp of Some c \<Rightarrow> (if c \<ge> 400 then [SwError []] else []) @ [status_tag c] | None \<Rightarrow> []) @ sw_finish err)"

definition sw_fasthttp_do ::
  "sw_tracer \<Rightarrow> sw_request \<Rightarrow> int option \<Rightarrow> gostring option \<Rightarrow> sw_span option \<times> sw_request" where
  "sw_fasthttp_do tr req resp err =
     (let st = exit_span (wq_method req @ '':'' @ wq_uri req) (wq_host req) (sw_http_opts (wq_method req) (wq_uri req) 5019)
      in if tr_creates tr st
         then (Some (st, sw_fasthttp_client_end (resp, err)),
               req\<lparr>wq_headers := fold (\<lambda>(k, v). header_add k v) (tr_headers tr st) (wq_headers req)\<rparr>)
         else (None, req))"

text \<open>
  Elasticsearch; the transport is the client's own with its URLs, or another, which the type assertion
  rejects with a panic that is recovered.
\<close>

definition sw_client_urls :: "gostring list option \<Rightarrow> gostring" where
  "sw_client_urls transport = (case transport of Some us \<Rightarrow> str_join '','' us | None \<Rightarrow> [])"

definition sw_es_end :: "int option \<times> gostring option \<Rightarrow> sw_call list" where
  "sw_es_end x = (case x of (resp, err) \<Rightarrow> (case resp of Some c \<Rightarrow> [status_tag c] | None \<Rightarrow> []) @ sw_finish err)"

definition sw_es_perform ::
  "sw_tracer \<Rightarrow> gostring list option \<Rightarrow> sw_request \<Rightarrow> int option \<Rightarrow> gostring option \<Rightarrow> sw_span option" where
  "sw_es_perform tr transport req resp err =
     (let st = exit_span (''Elasticsearch/'' @ wq_method req) (sw_client_urls transport)
            [WithLayer LayerDatabase, WithTag TagDBType ''Elasticsearch'',
             WithTag TagDBStatement (trim_prefix (wq_path req) ''/''), WithComponent 47]
      in if tr_creates tr st then Some (st, sw_es_end (resp, err)) else None)"

section \<open>The response writers\<close>

text \<open>
  The wrapper of \<open>http\<close> and those of \<open>mux\<close> have \<open>WriteHeader\<close> and, if the writer under them has it, \<open>Hijack\<close>;
  the other optional interfaces are hidden, so that a handler cannot flush and copies go through \<open>Write\<close>.
\<close>

record sw_writer =
  sw_inner :: response
  sw_status :: int

definition sw_new_writer :: "response \<Rightarrow> sw_writer" where
  "sw_new_writer r = \<lparr>sw_inner = r, sw_status = 200\<rparr>"

definition sw_write_header :: "int \<Rightarrow> sw_writer \<Rightarrow> sw_writer" where
  "sw_write_header c w = w\<lparr>sw_status := c, sw_inner := rs_write_header c (sw_inner w)\<rparr>"

definition sw_hijack :: "writer_caps \<Rightarrow> sw_writer \<Rightarrow> sw_writer" where
  "sw_hijack caps w = (if has_hijacker caps then w\<lparr>sw_inner := rs_hijack (sw_inner w)\<rparr> else w)"

text \<open>\<open>mux\<close> has two wrappers; with a hijacker the second keeps the first, which has the status, and adds the hijacker.\<close>

definition sw_new_writer_with_hijacker :: "response \<Rightarrow> sw_writer" where
  "sw_new_writer_with_hijacker r = (let wrapper = sw_new_writer r in wrapper)"

definition sw_new_response_writer :: "writer_caps \<Rightarrow> response \<Rightarrow> sw_writer" where
  "sw_new_response_writer caps r = (if has_hijacker caps then sw_new_writer_with_hijacker r else sw_new_writer r)"

lemma sw_new_response_writer [simp]: "sw_new_response_writer caps r = sw_new_writer r"
  by (simp add: sw_new_response_writer_def sw_new_writer_with_hijacker_def)

fun sw_writer_op :: "writer_caps \<Rightarrow> handler_op \<Rightarrow> sw_writer \<Rightarrow> sw_writer" where
  "sw_writer_op caps (HWriteHeader c) w = sw_write_header c w"
| "sw_writer_op caps (HWrite b) w = w\<lparr>sw_inner := rs_write b (sw_inner w)\<rparr>"
| "sw_writer_op caps (HReadFrom cs) w = w\<lparr>sw_inner := fold rs_write cs (sw_inner w)\<rparr>"
| "sw_writer_op caps (HWriteString s) w = w\<lparr>sw_inner := rs_write s (sw_inner w)\<rparr>"
| "sw_writer_op caps HFlush w = w"
| "sw_writer_op caps HHijack w = sw_hijack caps w"

definition sw_writer_step :: "writer_caps \<Rightarrow> handler_op \<Rightarrow> sw_writer \<Rightarrow> sw_writer" where
  "sw_writer_step caps x w = (if rs_panicked (sw_inner w) then w else sw_writer_op caps x w)"

section \<open>Servers\<close>

definition sw_server_end :: "int \<Rightarrow> sw_call list" where
  "sw_server_end c = status_tag c # (if c \<ge> 400 then [SwErrorOccured] else []) @ [SwEnd]"

text \<open>
  \<open>ServeMux.ServeHTTP\<close> with a handler that makes the calls \<open>ops\<close> on the writer; \<open>collect\<close> is the setting for
  query parameters.
\<close>

definition sw_serve_mux ::
  "sw_tracer \<Rightarrow> bool \<Rightarrow> writer_caps \<Rightarrow> sw_request \<Rightarrow> handler_op list \<Rightarrow> response \<Rightarrow> sw_served \<times> response" where
  "sw_serve_mux tr collect caps req ops r =
     (let st = entry_span (wq_method req @ '':'' @ wq_path req) (sw_http_opts (wq_method req) (wq_host req @ wq_path req) 5004);
          params = (if collect then [SwTag TagHTTPParams (wq_query req)] else []);
          w = run_ops (sw_writer_step caps) ops (sw_new_writer r)
      in (sw_enter tr st (sw_extract tr req) (params @ sw_server_end (sw_status w)), sw_inner w))"

text \<open>\<open>mux\<close> wraps the writer only with a span; \<open>Match\<close> renames the active span after the route.\<close>

definition sw_mux_serve_http ::
  "sw_tracer \<Rightarrow> writer_caps \<Rightarrow> sw_request \<Rightarrow> handler_op list \<Rightarrow> response \<Rightarrow> sw_served \<times> response" where
  "sw_mux_serve_http tr caps req ops r =
     (let st = entry_span (wq_method req @ '':'' @ wq_uri req)
            [WithLayer LayerHTTP, WithComponent 5017, WithTag TagHTTPMethod (wq_method req),
             WithTag TagURL (wq_host req @ wq_path req)]
      in if tr_creates tr st
         then let w = run_ops (sw_writer_step caps) ops (sw_new_response_writer caps r)
              in (sw_enter tr st (sw_extract tr req) [status_tag (sw_status w), SwEnd], sw_inner w)
         else (None, run_ops (direct_step caps) ops r))"

text \<open>The matchers of a route: a \<open>routeRegexp\<close> with its type and template, or another.\<close>

definition sw_mux_match :: "bool \<Rightarrow> gostring \<Rightarrow> (nat \<times> gostring) option list option \<Rightarrow> bool \<Rightarrow> sw_call list" where
  "sw_mux_match matched meth route active =
     (if \<not> matched then []
      else case route of
        None \<Rightarrow> []
      | Some matchers \<Rightarrow>
          if \<not> active then []
          else let regexps = List.map_filter (\<lambda>x. x) matchers;
                   pick = (\<lambda>t old. fold (\<lambda>(ty, tmpl) cur. if ty = t then tmpl else cur) regexps old);
                   prefix = pick 2 [];
                   path = pick 0 [];
                   nm = (if path \<noteq> [] then path else prefix)
               in if nm \<noteq> [] then [SwSetOperationName (meth @ '':'' @ nm)] else [])"

end
