(* ===== verification/Sw_Frameworks.thy ===== *)
theory Sw_Frameworks
  imports Sw_Web
begin

text \<open>The web framework rules of the SkyWalking port; a run-time panic is \<open>None\<close>.\<close>

section \<open>Collecting request headers\<close>

text \<open>Used by \<open>gin\<close> and \<open>goframe\<close>: the settings are environment variables.\<close>

definition sw_collect_headers_setting :: "gostring \<Rightarrow> gostring list" where
  "sw_collect_headers_setting v = (if v \<noteq> [] then split_on CHR '','' v else [])"

definition sw_gin_parse_header_threshold :: "gostring \<Rightarrow> int" where
  "sw_gin_parse_header_threshold v = (if v \<noteq> [] then (case go_atoi v of Some n \<Rightarrow> n | None \<Rightarrow> 2048) else 2048)"

definition sw_goframe_parse_header_threshold :: "gostring \<Rightarrow> int" where
  "sw_goframe_parse_header_threshold v = (if v \<noteq> [] then (case go_atoi v of Some n \<Rightarrow> n | None \<Rightarrow> 2048) else 2048)"

definition sw_header_values :: "gostring list \<Rightarrow> (gostring \<rightharpoonup> gostring list) \<Rightarrow> gostring list" where
  "sw_header_values names h =
     map (\<lambda>n. n @ ''='' @ header_get (Some h) n) (filter (\<lambda>n. header_get (Some h) n \<noteq> []) names)"

text \<open>Cutting the value at a negative threshold panics.\<close>

definition sw_cut_value :: "int \<Rightarrow> gostring \<Rightarrow> gostring option" where
  "sw_cut_value threshold v =
     (if int (length v) > threshold then (if threshold < 0 then None else Some (take (nat threshold) v)) else Some v)"

definition sw_gin_collect_request_headers ::
  "gostring list \<Rightarrow> int \<Rightarrow> (gostring \<rightharpoonup> gostring list) \<Rightarrow> sw_call list option" where
  "sw_gin_collect_request_headers names threshold h =
     (let vs = sw_header_values names h
      in if length vs = 0 then Some []
         else map_option (\<lambda>v. [SwTag TagHTTPHeaders v]) (sw_cut_value threshold (str_join [CHR 0x0A] vs)))"

definition sw_goframe_collect_request_headers ::
  "gostring list \<Rightarrow> int \<Rightarrow> (gostring \<rightharpoonup> gostring list) \<Rightarrow> sw_call list option" where
  "sw_goframe_collect_request_headers names threshold h =
     (let vs = sw_header_values names h
      in if length vs = 0 then Some []
         else map_option (\<lambda>v. [SwTag TagHTTPHeaders v]) (sw_cut_value threshold (str_join [CHR 0x0A] vs)))"

section \<open>gin\<close>

text \<open>
  \<open>Context.Next\<close>: only the first call of a request, with the index still negative, has a span; \<open>status\<close> and \<open>errors\<close>
  are those of the context when the chain has unwound.
\<close>

definition sw_gin_end :: "int \<times> gostring list \<times> gostring \<Rightarrow> sw_call list" where
  "sw_gin_end x =
     (case x of (status, errors, text) \<Rightarrow>
        status_tag status # (if status \<ge> 400 then [SwErrorOccured] else [])
        @ (if length errors > 0 then [SwError [text]] else []) @ [SwEnd])"

definition sw_gin_next ::
  "sw_tracer \<Rightarrow> gostring list \<Rightarrow> int \<Rightarrow> int \<Rightarrow> gostring \<Rightarrow> sw_request \<Rightarrow> int \<times> gostring list \<times> gostring \<Rightarrow> sw_served option" where
  "sw_gin_next tr names threshold index full_path req res =
     (if index \<ge> 0 then Some None
      else let path = (if full_path = [] then wq_path req else full_path);
               st = entry_span (wq_method req @ '':'' @ path) (sw_http_opts (wq_method req) (wq_host req @ wq_path req) 5006)
           in if tr_creates tr st
              then (if length names > 0
                    then map_option (\<lambda>q. sw_enter tr st (sw_extract tr req) (q @ sw_gin_end res))
                           (sw_gin_collect_request_headers names threshold (wq_headers req))
                    else Some (sw_enter tr st (sw_extract tr req) (sw_gin_end res)))
              else Some None)"

section \<open>echo\<close>

text \<open>
  The middleware around the rest of the chain, which ends with \<open>err\<close> and leaves \<open>status\<close>: what the caller gets, what
  the error handler was told, whether the chain ran, and the span.  Without a span the chain does not run.
\<close>

record sw_echo_result =
  ec_returned :: "gostring option"
  ec_handled :: "gostring option"
  ec_ran :: bool
  ec_span :: sw_served

definition sw_echo_end :: "gostring option \<times> int \<Rightarrow> sw_call list" where
  "sw_echo_end x =
     (case x of (err, status) \<Rightarrow> (case err of Some e \<Rightarrow> [SwError [e]] | None \<Rightarrow> []) @ [status_tag status, SwEnd])"

definition sw_echo_middleware ::
  "sw_tracer \<Rightarrow> gostring \<Rightarrow> gostring \<Rightarrow> sw_request \<Rightarrow> gostring option \<Rightarrow> int \<Rightarrow> sw_echo_result" where
  "sw_echo_middleware tr refusal path req err status =
     (let st = entry_span (wq_method req @ '':'' @ path) (sw_http_opts (wq_method req) (wq_host req @ wq_path req) 5015)
      in if tr_creates tr st
         then \<lparr>ec_returned = None, ec_handled = err, ec_ran = True,
               ec_span = sw_enter tr st (sw_extract tr req) (sw_echo_end (err, status))\<rparr>
         else \<lparr>ec_returned = Some refusal, ec_handled = None, ec_ran = False, ec_span = None\<rparr>)"

section \<open>fiber, fasthttp and iris\<close>

definition sw_status_end :: "int \<Rightarrow> sw_call list" where
  "sw_status_end c = (if c \<ge> 400 then [SwError []] else []) @ [status_tag c, SwEnd]"

definition sw_fiber_handler :: "sw_tracer \<Rightarrow> sw_request \<Rightarrow> int \<Rightarrow> sw_served" where
  "sw_fiber_handler tr req status =
     sw_enter tr (entry_span (wq_method req @ '':'' @ wq_path req)
         (sw_http_opts (wq_method req) (wq_host req @ wq_path req) 5021))
       (sw_extract tr req) (sw_status_end status)"

definition sw_fasthttp_handler :: "sw_tracer \<Rightarrow> sw_request \<Rightarrow> int \<Rightarrow> sw_served" where
  "sw_fasthttp_handler tr req status =
     sw_enter tr (entry_span (wq_method req @ '':'' @ wq_uri req) (sw_http_opts (wq_method req) (wq_uri req) 5020))
       (sw_extract tr req) (sw_status_end status)"

definition sw_iris_handle_request :: "sw_tracer \<Rightarrow> sw_request \<Rightarrow> int \<Rightarrow> sw_served" where
  "sw_iris_handle_request tr req status =
     sw_enter tr (entry_span (wq_method req @ '':'' @ wq_path req)
         (sw_http_opts (wq_method req) (wq_host req @ wq_path req) 5018))
       (sw_extract tr req) [status_tag status, SwEnd]"

section \<open>go-restful\<close>

definition sw_restful_end :: "gostring option \<times> int \<Rightarrow> sw_call list" where
  "sw_restful_end x =
     (case x of (err, code) \<Rightarrow> (case err of Some e \<Rightarrow> [SwError [e]] | None \<Rightarrow> []) @ [status_tag code, SwEnd])"

definition sw_restful_filter :: "sw_tracer \<Rightarrow> gostring \<Rightarrow> sw_request \<Rightarrow> gostring option \<Rightarrow> int \<Rightarrow> sw_served" where
  "sw_restful_filter tr route req err code =
     sw_enter tr (entry_span (wq_method req @ '':'' @ route) (sw_http_opts (wq_method req) (wq_host req @ wq_path req) 5004))
       (sw_extract tr req) (sw_restful_end (err, code))"

text \<open>A container: whether it was marked, and how many of its filters are the tracing filter.\<close>

definition sw_add_filter_to_container :: "bool \<times> nat \<Rightarrow> bool \<times> nat" where
  "sw_add_filter_to_container c = (case c of (marked, filters) \<Rightarrow> if marked then c else (True, Suc filters))"

datatype sw_restful_op = RestfulAdd | RestfulDispatch | RestfulHandleWithFilter

fun sw_restful_step :: "sw_restful_op \<Rightarrow> bool \<times> nat \<Rightarrow> bool \<times> nat" where
  "sw_restful_step RestfulAdd c = sw_add_filter_to_container c"
| "sw_restful_step RestfulDispatch c = sw_add_filter_to_container c"
| "sw_restful_step RestfulHandleWithFilter c = sw_add_filter_to_container c"

section \<open>goframe\<close>

text \<open>
  The writer keeps the status it starts with: it has no \<open>WriteHeader\<close> of its own, so the calls of the handler
  go to the writer under it.
\<close>

definition sw_goframe_writer_op :: "writer_caps \<Rightarrow> handler_op \<Rightarrow> sw_writer \<Rightarrow> sw_writer" where
  "sw_goframe_writer_op caps x w =
     (case x of
        HWriteHeader c \<Rightarrow> w\<lparr>sw_inner := rs_write_header c (sw_inner w)\<rparr>
      | HWrite b \<Rightarrow> w\<lparr>sw_inner := rs_write b (sw_inner w)\<rparr>
      | HReadFrom cs \<Rightarrow> w\<lparr>sw_inner := fold rs_write cs (sw_inner w)\<rparr>
      | HWriteString s \<Rightarrow> w\<lparr>sw_inner := rs_write s (sw_inner w)\<rparr>
      | HFlush \<Rightarrow> w
      | HHijack \<Rightarrow> w)"

definition sw_goframe_writer_step :: "writer_caps \<Rightarrow> handler_op \<Rightarrow> sw_writer \<Rightarrow> sw_writer" where
  "sw_goframe_writer_step caps x w = (if rs_panicked (sw_inner w) then w else sw_goframe_writer_op caps x w)"

definition sw_goframe_serve_http ::
  "sw_tracer \<Rightarrow> bool \<Rightarrow> gostring list \<Rightarrow> int \<Rightarrow> writer_caps \<Rightarrow> sw_request \<Rightarrow> handler_op list \<Rightarrow> response \<Rightarrow>
   (sw_served \<times> response) option" where
  "sw_goframe_serve_http tr collect names threshold caps req ops r =
     (let st = entry_span (wq_method req @ '':'' @ wq_path req) (sw_http_opts (wq_method req) (wq_host req @ wq_path req) 5022)
      in if tr_creates tr st
         then (case (if length names > 0 then sw_goframe_collect_request_headers names threshold (wq_headers req) else Some []) of
                 None \<Rightarrow> None
               | Some q \<Rightarrow>
                   let w = run_ops (sw_goframe_writer_step caps) ops (sw_new_writer r);
                       params = (if collect then [SwTag TagHTTPParams (wq_query req)] else [])
                   in Some (sw_enter tr st (sw_extract tr req) (params @ q @ [status_tag (sw_status w), SwEnd]), sw_inner w))
         else Some (None, run_ops (direct_step caps) ops r))"

end
