(* ===== verification/Sw_Web_Props.thy ===== *)
theory Sw_Web_Props
  imports Sw_Frameworks
begin

text \<open>
  Properties of the HTTP rules of the SkyWalking port: the ends of their spans, the trace that crosses from
  the clients to the servers, and the status the response writers observe.
\<close>

section \<open>The ends of the spans\<close>

lemma finish_error [simp]: "sw_finish err = (case err of Some e \<Rightarrow> [SwError [e]] | None \<Rightarrow> []) @ [SwEnd]"
  by (simp add: sw_finish_def)

fun client_failed :: "int option \<times> gostring option \<Rightarrow> bool" where
  "client_failed (resp, err) \<longleftrightarrow> (case resp of Some c \<Rightarrow> c \<ge> 400 | None \<Rightarrow> False) \<or> err \<noteq> None"

interpretation sw_http_client: sw_finishing sw_http_client_end client_failed
  by unfold_locales (auto simp: sw_http_client_end_def status_tag_def split: option.split)

interpretation sw_fasthttp_client: sw_finishing sw_fasthttp_client_end client_failed
  by unfold_locales (auto simp: sw_fasthttp_client_end_def status_tag_def split: option.split)

interpretation sw_es_client: sw_finishing sw_es_end "\<lambda>(resp, err). err \<noteq> None"
  by unfold_locales (auto simp: sw_es_end_def status_tag_def split: option.split)

interpretation sw_server: sw_finishing sw_server_end "\<lambda>c. c \<ge> 400"
  by unfold_locales (auto simp: sw_server_end_def status_tag_def)

interpretation sw_gin: sw_finishing sw_gin_end "\<lambda>(status, errors, text). status \<ge> 400 \<or> errors \<noteq> []"
  by unfold_locales (auto simp: sw_gin_end_def status_tag_def)

interpretation sw_echo: sw_finishing sw_echo_end "\<lambda>(err, status). err \<noteq> None"
  by unfold_locales (auto simp: sw_echo_end_def status_tag_def split: option.split)

interpretation sw_status: sw_finishing sw_status_end "\<lambda>c. c \<ge> 400"
  by unfold_locales (auto simp: sw_status_end_def status_tag_def)

interpretation sw_restful: sw_finishing sw_restful_end "\<lambda>(err, code). err \<noteq> None"
  by unfold_locales (auto simp: sw_restful_end_def status_tag_def split: option.split)

interpretation sw_plain_status: sw_finishing "\<lambda>c. [status_tag c, SwEnd]" "\<lambda>c. False"
  by unfold_locales (auto simp: status_tag_def)

lemma collected_quiet:
  "sw_gin_collect_request_headers names threshold h = Some q \<Longrightarrow> quiet q"
  "sw_goframe_collect_request_headers names threshold h = Some q \<Longrightarrow> quiet q"
  by (auto simp: sw_gin_collect_request_headers_def sw_goframe_collect_request_headers_def Let_def split: if_splits)

section \<open>From the clients to the servers\<close>

definition web_connects :: "sw_tracer \<Rightarrow> headers_list \<Rightarrow> bool" where
  "web_connects tr hs \<longleftrightarrow>
     distinct (map (canonical_key \<circ> fst) hs) \<and> tr_keys tr = map fst hs \<and> (\<forall>st. tr_creates tr st \<and> tr_headers tr st = hs)"

lemma extract_added:
  assumes "web_connects tr hs" "\<forall>(k, v) \<in> set hs. \<not> header_present (wq_headers req) k"
  shows "sw_extract tr (req\<lparr>wq_headers := fold (\<lambda>(k, v). header_add k v) hs (wq_headers req)\<rparr>) = hs"
proof -
  let ?g = "header_get (Some (fold (\<lambda>(k, v). header_add k v) hs (wq_headers req)))"
  have "map (\<lambda>k. (k, ?g k)) (map fst hs) = hs"
    by (rule zip_read, rule added_headers.read_back) (use assms in \<open>auto simp: web_connects_def\<close>)
  then show ?thesis using assms(1) by (simp add: sw_extract_def web_connects_def)
qed

text \<open>
  C30: A request sent through a client of the SkyWalking port, \<open>net/http\<close> or \<open>fasthttp\<close>, connects its trace to each of the
  servers, for any settings but a negative length of the collected headers: the headers the client's tracer injects are, key by
  key, what the server's extractor is asked for and finds, if the request has none of them yet; the client's span is
  ended once, as an error exactly for an error or a status of at least 400.
\<close>
theorem sw_web_trace_connected:
  assumes "web_connects tr hs" and "\<forall>(k, v) \<in> set hs. \<not> header_present (wq_headers req) k"
    and "client \<in> {sw_http_round_trip, sw_fasthttp_do}" and "client tr req resp err = (Some (st, log), sent)" and "0 \<le> threshold"
  shows "sw_properly_ended log (client_failed (resp, err)) \<and>
    map_option snd (fst (sw_serve_mux tr collect caps sent ops r)) = Some hs \<and>
    map_option snd (fst (sw_mux_serve_http tr caps sent ops r)) = Some hs \<and>
    map_option (map_option snd) (sw_gin_next tr names threshold (-1) route sent res) = Some (Some hs) \<and>
    map_option snd (ec_span (sw_echo_middleware tr refusal route sent herr code)) = Some hs \<and>
    map_option snd (sw_fiber_handler tr sent code) = Some hs \<and>
    map_option snd (sw_fasthttp_handler tr sent code) = Some hs \<and>
    map_option snd (sw_iris_handle_request tr sent code) = Some hs \<and>
    map_option snd (sw_restful_filter tr route sent herr code) = Some hs \<and>
    map_option (map_option snd \<circ> fst) (sw_goframe_serve_http tr collect names threshold caps sent ops r) = Some (Some hs)"
proof -
  note tr = assms(1)[unfolded web_connects_def]
  have sent: "sent = req\<lparr>wq_headers := fold (\<lambda>(k, v). header_add k v) hs (wq_headers req)\<rparr>"
    and log: "log = sw_http_client_end (resp, err) \<or> log = sw_fasthttp_client_end (resp, err)"
    using assms(3,4) tr by (auto simp: sw_http_round_trip_def sw_fasthttp_do_def Let_def)
  have ext: "sw_extract tr sent = hs" using extract_added [OF assms(1,2)] sent by simp
  have ok: "\<exists>v'. sw_cut_value threshold v = Some v'" for v using assms(5) by (simp add: sw_cut_value_def)
  have gin: "\<exists>q. sw_gin_collect_request_headers names threshold h = Some q" for h
    using ok by (auto simp: sw_gin_collect_request_headers_def Let_def)
  have gf: "\<exists>q. sw_goframe_collect_request_headers names threshold h = Some q" for h
    using ok by (auto simp: sw_goframe_collect_request_headers_def Let_def)
  obtain q1 q2 where q: "sw_gin_collect_request_headers names threshold (wq_headers sent) = Some q1"
    "sw_goframe_collect_request_headers names threshold (wq_headers sent) = Some q2" using gin gf by metis
  have "sw_properly_ended log (client_failed (resp, err))"
    using log sw_http_client.properly [of "(resp, err)"] sw_fasthttp_client.properly [of "(resp, err)"] by auto
  then show ?thesis
    using tr ext q by (simp add: sw_enter_def sw_serve_mux_def sw_mux_serve_http_def sw_gin_next_def sw_echo_middleware_def
        sw_fiber_handler_def sw_fasthttp_handler_def sw_iris_handle_request_def sw_restful_filter_def sw_goframe_serve_http_def Let_def)
qed

theorem sw_web_trace_connected_witness:
  "map_option snd (sw_iris_handle_request \<lparr>tr_creates = (\<lambda>_. True), tr_headers = (\<lambda>_. [(''sw8'', ''1-x'')]), tr_keys = [''sw8'']\<rparr>
     (snd (sw_http_round_trip \<lparr>tr_creates = (\<lambda>_. True), tr_headers = (\<lambda>_. [(''sw8'', ''1-x'')]), tr_keys = [''sw8'']\<rparr>
        \<lparr>wq_method = ''GET'', wq_host = ''a'', wq_url_host = [], wq_path = ''/'', wq_uri = ''/'', wq_query = [],
         wq_headers = Map.empty\<rparr> (Some 200) None)) 200) = Some [(''sw8'', ''1-x'')]"
proof -
  let ?tr = "\<lparr>tr_creates = (\<lambda>_. True), tr_headers = (\<lambda>_. [(''sw8'', ''1-x'')]), tr_keys = [''sw8'']\<rparr>"
  let ?req = "\<lparr>wq_method = ''GET'', wq_host = ''a'', wq_url_host = [], wq_path = ''/'', wq_uri = ''/'', wq_query = [],
    wq_headers = Map.empty\<rparr> :: sw_request"
  have c: "web_connects ?tr [(''sw8'', ''1-x'')]" by (simp add: web_connects_def)
  have f: "\<forall>(k, v) \<in> set [(''sw8'', ''1-x'' :: gostring)]. \<not> header_present (wq_headers ?req) k" by (simp add: header_present_def)
  have m: "sw_http_round_trip \<in> {sw_http_round_trip, sw_fasthttp_do}" by simp
  obtain st log sent where eq: "sw_http_round_trip ?tr ?req (Some 200) None = (Some (st, log), sent)"
    by (simp add: sw_http_round_trip_def Let_def)
  have "map_option snd (sw_iris_handle_request ?tr sent 200) = Some [(''sw8'', ''1-x'')]"
    using sw_web_trace_connected [OF c f m eq order.refl] by simp
  then show ?thesis using eq by simp
qed

section \<open>The status the writers observe\<close>

lemma sw_writer_inner:
  "sw_inner (sw_writer_step caps x w) = direct_step (caps\<lparr>has_flusher := False\<rparr>) x (sw_inner w)"
  by (cases x) (auto simp: sw_writer_step_def direct_step_def sw_write_header_def sw_hijack_def rs_read_from_def rs_write_string_def)

lemma sw_run_inner:
  "sw_inner (run_ops (sw_writer_step caps) ops w) = run_ops (direct_step (caps\<lparr>has_flusher := False\<rparr>)) ops (sw_inner w)"
  by (induction ops arbitrary: w) (auto simp: sw_writer_inner)

text \<open>A handler that writes at most one header, a final one, before the body, and not on a hijacked connection.\<close>

definition one_header :: "handler_op \<Rightarrow> sw_writer \<Rightarrow> bool" where
  "one_header x w = (case x of
     HWriteHeader c \<Rightarrow> rs_final (sw_inner w) = None \<and> \<not> informational c \<and> \<not> rs_hijacked (sw_inner w) | _ \<Rightarrow> True)"

definition sw_status_inv :: "sw_writer \<Rightarrow> bool" where
  "sw_status_inv w \<longleftrightarrow> rs_panicked (sw_inner w) \<or> sw_status w = client_status (sw_inner w)"

lemma client_status_200: "\<not> rs_panicked r \<Longrightarrow> client_status (rs_write_header 200 r) = client_status r"
  by (auto simp: rs_write_header_def client_status_def informational_def split: option.splits)

lemma client_status_write: "\<not> rs_panicked r \<Longrightarrow> client_status (rs_write b r) = client_status r \<and> \<not> rs_panicked (rs_write b r)"
  by (auto simp: rs_write_def rs_write_header_def client_status_def informational_def rs_stopped_def Let_def split: option.splits)

lemma client_status_writes:
  "\<not> rs_panicked r \<Longrightarrow> client_status (fold rs_write cs r) = client_status r \<and> \<not> rs_panicked (fold rs_write cs r)"
  by (induction cs arbitrary: r) (auto simp: client_status_write)

interpretation sw_writer_sys: invariant_system "sw_writer_step caps" one_header sw_status_inv
proof
  fix w x
  assume w: "sw_status_inv w" "one_header x w"
  show "sw_status_inv (sw_writer_step caps x w)"
  proof (cases "rs_panicked (sw_inner w)")
    case False
    then have st: "sw_status w = client_status (sw_inner w)" using w by (simp add: sw_status_inv_def)
    show ?thesis
    proof (cases x)
      case (HWriteHeader c)
      then show ?thesis using w(2) False
        by (auto simp: sw_status_inv_def sw_writer_step_def one_header_def sw_write_header_def rs_write_header_def rs_stopped_def
            client_status_def)
    qed (use st False client_status_write client_status_writes in \<open>auto simp: sw_status_inv_def sw_writer_step_def sw_hijack_def
          rs_hijack_def client_status_def\<close>)
  qed (use w in \<open>simp add: sw_writer_step_def\<close>)
qed

text \<open>
  The servers of \<open>net/http\<close> and \<open>mux\<close> report the status the client gets: for a handler that writes at most one
  header, a final one and before the body, and does not panic, the span carries the client's status and is ended
  once, in \<open>net/http\<close> as an error exactly for a status of at least 400; and for any handler the response is
  the one it would have made on a writer that cannot flush.
\<close>
theorem sw_server_status_observed:
  assumes "guarded (sw_writer_step caps) one_header ops (sw_new_writer response_init)"
    and "sw_serve_mux tr collect caps req ops response_init = (served, r)"
    and "sw_mux_serve_http tr caps req ops response_init = (served', r')" and "\<not> rs_panicked r"
  shows "r = run_ops (direct_step (caps\<lparr>has_flusher := False\<rparr>)) ops response_init \<and>
    (case served of None \<Rightarrow> \<exists>st. \<not> tr_creates tr st
     | Some ((st, log), found) \<Rightarrow> status_tag (client_status r) \<in> set log \<and> sw_properly_ended log (client_status r \<ge> 400)) \<and>
    (case served' of None \<Rightarrow> \<exists>st. \<not> tr_creates tr st
     | Some ((st, log), found) \<Rightarrow> status_tag (client_status r) \<in> set log \<and> sw_properly_ended log False)"
proof -
  let ?w = "run_ops (sw_writer_step caps) ops (sw_new_writer response_init)"
  have r: "r = sw_inner ?w" using assms(2) by (simp add: sw_serve_mux_def Let_def)
  have "sw_status_inv (sw_new_writer response_init)"
    by (simp add: sw_status_inv_def sw_new_writer_def response_init_def client_status_def)
  then have st: "sw_status ?w = client_status r"
    using sw_writer_sys.run_inv assms(1,4) r by (auto simp: sw_status_inv_def)
  have "r = run_ops (direct_step (caps\<lparr>has_flusher := False\<rparr>)) ops response_init"
    using r sw_run_inner by (simp add: sw_new_writer_def)
  moreover have "sw_properly_ended ((if collect then [SwTag TagHTTPParams (wq_query req)] else []) @ sw_server_end c) (c \<ge> 400)"
    "status_tag c \<in> set (sw_server_end c)" for c
    using sw_server.properly_after by (auto simp: sw_server_end_def)
  ultimately show ?thesis
    using assms(2,3) st sw_plain_status.properly
    by (auto simp: sw_serve_mux_def sw_mux_serve_http_def sw_enter_def Let_def split: if_splits)
qed

theorem sw_server_status_observed_witness:
  "map_option (\<lambda>((st, log), found). status_tag 404 \<in> set log)
     (fst (sw_serve_mux \<lparr>tr_creates = (\<lambda>_. True), tr_headers = (\<lambda>_. []), tr_keys = []\<rparr> False
       \<lparr>has_reader_from = False, has_string_writer = False, has_hijacker = False, has_flusher = True, has_pusher = False\<rparr>
       \<lparr>wq_method = ''GET'', wq_host = ''a'', wq_url_host = [], wq_path = ''/x'', wq_uri = ''/x'', wq_query = [],
        wq_headers = Map.empty\<rparr> [HWriteHeader 404, HWrite ''no''] response_init)) = Some True"
proof -
  let ?tr = "\<lparr>tr_creates = (\<lambda>_. True), tr_headers = (\<lambda>_. []), tr_keys = []\<rparr>"
  let ?caps = "\<lparr>has_reader_from = False, has_string_writer = False, has_hijacker = False, has_flusher = True, has_pusher = False\<rparr>"
  let ?req = "\<lparr>wq_method = ''GET'', wq_host = ''a'', wq_url_host = [], wq_path = ''/x'', wq_uri = ''/x'', wq_query = [],
    wq_headers = Map.empty\<rparr> :: sw_request"
  let ?ops = "[HWriteHeader 404, HWrite ''no'']"
  obtain served r served' r' where eq: "sw_serve_mux ?tr False ?caps ?req ?ops response_init = (served, r)"
    "sw_mux_serve_http ?tr ?caps ?req ?ops response_init = (served', r')" by fastforce
  have g: "guarded (sw_writer_step ?caps) one_header ?ops (sw_new_writer response_init)"
    by (simp add: one_header_def informational_def sw_new_writer_def response_init_def)
  have w: "sw_inner (run_ops (sw_writer_step ?caps) ?ops (sw_new_writer response_init))
      = \<lparr>rs_info = [], rs_final = Some 404, rs_body = ''no'', rs_hijacked = False, rs_panicked = False\<rparr>"
    by (simp add: sw_writer_step_def sw_write_header_def sw_new_writer_def response_init_def rs_write_header_def rs_write_def
        rs_stopped_def informational_def body_allowed_def)
  moreover have "r = sw_inner (run_ops (sw_writer_step ?caps) ?ops (sw_new_writer response_init))"
    using eq(1) unfolding sw_serve_mux_def Let_def by (simp only: prod.inject)
  ultimately have r: "client_status r = 404" "\<not> rs_panicked r" by (simp_all only: client_status_def response.simps option.simps not_False_eq_True)
  show ?thesis using sw_server_status_observed [OF g eq r(2)] eq(1) r(1) by (auto split: option.splits)
qed

text \<open>
  Without that condition the tag is wrong: a second header that the response ignores is what the span gets, and so is
  an informational one.  \<open>goframe\<close> tags 200 whatever the handler writes.
\<close>

theorem sw_server_status_superfluous:
  "sw_status (run_ops (sw_writer_step caps) [HWriteHeader 200, HWriteHeader 500] (sw_new_writer response_init)) = 500"
  "client_status (sw_inner (run_ops (sw_writer_step caps) [HWriteHeader 200, HWriteHeader 500] (sw_new_writer response_init))) = 200"
  "sw_status (run_ops (sw_writer_step caps) [HWriteHeader 103, HWrite b] (sw_new_writer response_init)) = 103"
  by (simp_all add: sw_writer_step_def sw_write_header_def sw_new_writer_def response_init_def rs_write_header_def rs_write_def
      rs_stopped_def informational_def client_status_def Let_def)

theorem sw_goframe_status_constant:
  "sw_status (run_ops (sw_goframe_writer_step caps) ops (sw_new_writer r)) = 200"
proof -
  have "sw_status (run_ops (sw_goframe_writer_step caps) ops w) = sw_status w" for w
    by (induction ops arbitrary: w) (auto simp: sw_goframe_writer_step_def sw_goframe_writer_op_def split: handler_op.split)
  then show ?thesis by (simp add: sw_new_writer_def)
qed

end
