(* ===== verification/Sw_Rpc.thy ===== *)
theory Sw_Rpc
  imports Sw_Carriers
begin

text \<open>
  Model of the rules for \<open>kratosv2\<close>, \<open>microv4\<close> and \<open>dubbo\<close> in the SkyWalking port.  A run-time panic
  is \<open>None\<close>.
\<close>

section \<open>kratos: the middlewares\<close>

definition sw_kratos_opts :: "gostring \<Rightarrow> sw_option list" where
  "sw_kratos_opts kind = [WithComponent 5010, WithLayer LayerRPC, WithTag (TagNamed ''transport'') kind]"

text \<open>
  A call with the transport of its context, if it has one: its operation (with the endpoint for a client) and its
  request header.  The handler ends with an error or not.
\<close>

definition sw_kratos_grpc_server ::
  "sw_tracer \<Rightarrow> (gostring \<times> grpc_md) option \<Rightarrow> gostring option \<Rightarrow> (sw_span \<times> headers_list) option" where
  "sw_kratos_grpc_server tr transport err =
     (case transport of
        None \<Rightarrow> None
      | Some (op, md) \<Rightarrow>
          let st = entry_span op (sw_kratos_opts ''gRPC'')
          in if tr_creates tr st then Some ((st, sw_finish err), map (\<lambda>k. (k, md_get md k)) (tr_keys tr)) else None)"

definition sw_kratos_grpc_client ::
  "sw_tracer \<Rightarrow> (gostring \<times> gostring \<times> grpc_md) option \<Rightarrow> gostring option \<Rightarrow> sw_span option \<times> grpc_md option" where
  "sw_kratos_grpc_client tr transport err =
     (case transport of
        None \<Rightarrow> (None, None)
      | Some (op, endpoint, md) \<Rightarrow>
          let st = exit_span op endpoint (sw_kratos_opts ''gRPC'')
          in if tr_creates tr st
             then (Some (st, sw_finish err), Some (fold (\<lambda>(k, v). md_append k v) (tr_headers tr st) md))
             else (None, Some md))"

definition sw_kratos_http_server ::
  "sw_tracer \<Rightarrow> (gostring \<times> (gostring \<rightharpoonup> gostring list)) option \<Rightarrow> gostring option \<Rightarrow> (sw_span \<times> headers_list) option" where
  "sw_kratos_http_server tr transport err =
     (case transport of
        None \<Rightarrow> None
      | Some (op, h) \<Rightarrow>
          let st = entry_span op (sw_kratos_opts ''HTTP'')
          in if tr_creates tr st then Some ((st, sw_finish err), map (\<lambda>k. (k, header_get (Some h) k)) (tr_keys tr)) else None)"

definition sw_kratos_http_client ::
  "sw_tracer \<Rightarrow> (gostring \<times> gostring \<times> (gostring \<rightharpoonup> gostring list)) option \<Rightarrow> gostring option \<Rightarrow>
   sw_span option \<times> (gostring \<rightharpoonup> gostring list) option" where
  "sw_kratos_http_client tr transport err =
     (case transport of
        None \<Rightarrow> (None, None)
      | Some (op, endpoint, h) \<Rightarrow>
          let peer = (case url_parse endpoint of Some u \<Rightarrow> u_host u | None \<Rightarrow> endpoint);
              st = exit_span op peer (sw_kratos_opts ''HTTP'')
          in if tr_creates tr st
             then (Some (st, sw_finish err), Some (fold (\<lambda>(k, v). header_add k v) (tr_headers tr st) h))
             else (None, Some h))"

section \<open>kratos: installing them\<close>

text \<open>
  A server or the options of a client: the mark of the rules, and the middleware lists it was told to use, in order.
  \<open>flag\<close> is whether the runtime context has a value under the key that makes the next option pass.
\<close>

datatype kratos_mw = TracingMw | UserMw nat

record kratos_target =
  kt_enhanced :: bool
  kt_used :: "kratos_mw list list"

definition kratos_use :: "kratos_mw list \<Rightarrow> kratos_target \<Rightarrow> kratos_target" where
  "kratos_use ms t = t\<lparr>kt_used := kt_used t @ [ms]\<rparr>"

definition sw_kratos_option :: "kratos_mw list \<Rightarrow> bool \<Rightarrow> (kratos_target \<Rightarrow> kratos_target) \<times> bool" where
  "sw_kratos_option ms flag =
     (if flag then (kratos_use ms, False)
      else (\<lambda>t. (kratos_use (ms @ [TracingMw]) t)\<lparr>kt_enhanced := True\<rparr>, False))"

text \<open>The HTTP transport has an option of this kind for the server and one for the client.\<close>

definition sw_kratos_http_middleware :: "kratos_mw list \<Rightarrow> bool \<Rightarrow> (kratos_target \<Rightarrow> kratos_target) \<times> bool" where
  "sw_kratos_http_middleware ms flag =
     (if flag then (kratos_use ms, False)
      else (\<lambda>t. (kratos_use (ms @ [TracingMw]) t)\<lparr>kt_enhanced := True\<rparr>, False))"

definition sw_kratos_http_with_middleware :: "kratos_mw list \<Rightarrow> bool \<Rightarrow> (kratos_target \<Rightarrow> kratos_target) \<times> bool" where
  "sw_kratos_http_with_middleware ms flag =
     (if flag then (kratos_use ms, False)
      else (\<lambda>t. (kratos_use (ms @ [TracingMw]) t)\<lparr>kt_enhanced := True\<rparr>, False))"

lemma sw_kratos_options_same [simp]:
  "sw_kratos_http_middleware = sw_kratos_option" "sw_kratos_http_with_middleware = sw_kratos_option"
  by (intro ext, simp add: sw_kratos_http_middleware_def sw_kratos_http_with_middleware_def sw_kratos_option_def)+

definition sw_kratos_enhance ::
  "(kratos_mw list \<Rightarrow> bool \<Rightarrow> (kratos_target \<Rightarrow> kratos_target) \<times> bool) \<Rightarrow> kratos_target \<times> bool \<Rightarrow> kratos_target \<times> bool" where
  "sw_kratos_enhance option x =
     (case x of (t, flag) \<Rightarrow>
        if kt_enhanced t then (t, flag)
        else case option [TracingMw] True of (opt, flag') \<Rightarrow> ((opt t)\<lparr>kt_enhanced := True\<rparr>, flag'))"

text \<open>The constructors of the two servers and of the HTTP client; \<open>made\<close> is what the original returned after its options.\<close>

definition sw_kratos_grpc_new_server :: "kratos_target \<Rightarrow> bool \<Rightarrow> kratos_target \<times> bool" where
  "sw_kratos_grpc_new_server made flag = sw_kratos_enhance sw_kratos_option (made, flag)"

definition sw_kratos_http_new_server :: "kratos_target \<Rightarrow> bool \<Rightarrow> kratos_target \<times> bool" where
  "sw_kratos_http_new_server made flag = sw_kratos_enhance sw_kratos_http_middleware (made, flag)"

definition sw_kratos_http_new_client :: "kratos_target option \<Rightarrow> bool \<Rightarrow> (kratos_target \<times> bool) option" where
  "sw_kratos_http_new_client made flag = (case made of None \<Rightarrow> None | Some t \<Rightarrow> Some (sw_kratos_enhance sw_kratos_http_with_middleware (t, flag)))"

definition sw_kratos_unary_client_interceptor :: "kratos_mw list \<Rightarrow> kratos_mw list" where
  "sw_kratos_unary_client_interceptor ms = ms @ [TracingMw]"

section \<open>micro: the client\<close>

text \<open>
  The wrapper around a client: the error it returns, whether the wrapped client was called, the span, and the metadata it
  was called with.  \<open>refusal\<close> is the tracer's error.
\<close>

record micro_result =
  mi_err :: "gostring option"
  mi_called :: bool
  mi_span :: "sw_span option"
  mi_md :: properties

definition sw_micro_around ::
  "sw_tracer \<Rightarrow> gostring \<Rightarrow> sw_start \<Rightarrow> properties \<Rightarrow> gostring option \<Rightarrow> micro_result" where
  "sw_micro_around tr refusal st md err =
     (if tr_creates tr st
      then \<lparr>mi_err = err, mi_called = True, mi_span = Some (st, sw_finish err),
            mi_md = fold (\<lambda>(k, v). property_set k v) (tr_headers tr st) md\<rparr>
      else \<lparr>mi_err = Some refusal, mi_called = False, mi_span = None, mi_md = md\<rparr>)"

definition sw_micro_opts :: "int \<Rightarrow> sw_option list" where
  "sw_micro_opts component = [WithComponent component, WithLayer LayerRPC]"

definition sw_micro_call ::
  "sw_tracer \<Rightarrow> gostring \<Rightarrow> gostring \<Rightarrow> gostring \<Rightarrow> properties \<Rightarrow> gostring option \<Rightarrow> micro_result" where
  "sw_micro_call tr refusal service endpoint md err =
     sw_micro_around tr refusal (exit_span (service @ ''.'' @ endpoint) service (sw_micro_opts 5008)) md err"

definition sw_micro_stream ::
  "sw_tracer \<Rightarrow> gostring \<Rightarrow> gostring \<Rightarrow> gostring \<Rightarrow> properties \<Rightarrow> gostring option \<Rightarrow> micro_result" where
  "sw_micro_stream tr refusal service endpoint md err =
     sw_micro_around tr refusal (exit_span (service @ ''.'' @ endpoint) service (sw_micro_opts 5008)) md err"

definition sw_micro_publish ::
  "sw_tracer \<Rightarrow> gostring \<Rightarrow> gostring \<Rightarrow> gostring \<Rightarrow> properties \<Rightarrow> gostring option \<Rightarrow> micro_result" where
  "sw_micro_publish tr refusal topic content_type md err =
     sw_micro_around tr refusal (exit_span (''Pub to '' @ topic) content_type (sw_micro_opts 5008)) md err"

text \<open>The selector given by \<open>next\<close> tells the active span the peer each time it yields a node.\<close>

definition sw_micro_next :: "bool \<Rightarrow> bool \<Rightarrow> gostring option list \<Rightarrow> sw_call list" where
  "sw_micro_next active ok nodes =
     (if active \<and> ok then map SwSetPeer (List.map_filter (\<lambda>x. x) nodes) else [])"

section \<open>micro: the server\<close>

text \<open>The span of a request: the one of its connection, renamed, or a new one.  Without a span the request is not served.\<close>

definition sw_micro_serve_request ::
  "sw_tracer \<Rightarrow> bool \<Rightarrow> gostring \<Rightarrow> gostring \<Rightarrow> properties \<Rightarrow> bool \<times> (sw_start option \<times> sw_call list \<times> headers_list) option" where
  "sw_micro_serve_request tr existing service endpoint md =
     (let op = service @ ''.'' @ endpoint
      in if existing
         then (True, Some (None, [SwSetOperationName op, SwSetSpanLayer LayerRPC, SwSetComponent 5009, SwEnd], []))
         else let st = entry_span op (sw_micro_opts 5009)
              in if tr_creates tr st
                 then (True, Some (Some st, [SwEnd], map (\<lambda>k. (k, property_get md k)) (tr_keys tr)))
                 else (False, None))"

text \<open>
  A socket: the data of the current connection by its number, and how often the span of each was finished.  \<open>Close\<close> reads
  the data and then runs the one-shot; closers may interleave, each with the data it read.
\<close>

record micro_socket =
  ms_data :: "nat option"
  ms_next :: nat
  ms_prepared :: "nat list"
  ms_finished :: "nat list"
  ms_closers :: "nat \<rightharpoonup> nat"

definition micro_socket_init :: micro_socket where
  "micro_socket_init = \<lparr>ms_data = None, ms_next = 0, ms_prepared = [], ms_finished = [], ms_closers = Map.empty\<rparr>"

definition sw_socket_accept :: "bool \<Rightarrow> bool \<Rightarrow> micro_socket \<Rightarrow> micro_socket" where
  "sw_socket_accept failed active s =
     (if failed then s
      else if \<not> active then s
      else if ms_data s \<noteq> None then s
      else s\<lparr>ms_data := Some (ms_next s), ms_next := Suc (ms_next s), ms_prepared := ms_prepared s @ [ms_next s]\<rparr>)"

definition sw_socket_close_read :: "nat \<Rightarrow> micro_socket \<Rightarrow> micro_socket" where
  "sw_socket_close_read t s = s\<lparr>ms_closers := (ms_closers s)(t := ms_data s)\<rparr>"

definition sw_socket_close_once :: "nat \<Rightarrow> micro_socket \<Rightarrow> micro_socket" where
  "sw_socket_close_once t s =
     (case ms_closers s t of
        None \<Rightarrow> s
      | Some d \<Rightarrow>
          let s1 = s\<lparr>ms_closers := (ms_closers s)(t := None)\<rparr>
          in if d \<in> set (ms_finished s) then s1
             else s1\<lparr>ms_finished := ms_finished s @ [d], ms_data := None\<rparr>)"

datatype micro_op = MicroAccept bool bool | MicroCloseRead nat | MicroCloseOnce nat

fun micro_step :: "micro_op \<Rightarrow> micro_socket \<Rightarrow> micro_socket" where
  "micro_step (MicroAccept f a) s = sw_socket_accept f a s"
| "micro_step (MicroCloseRead t) s = sw_socket_close_read t s"
| "micro_step (MicroCloseOnce t) s = sw_socket_close_once t s"

section \<open>dubbo\<close>

text \<open>The URL of an invoker: its group parameter, path and location, and itself as text.\<close>

record dubbo_url =
  du_group :: gostring
  du_path :: gostring
  du_location :: gostring
  du_text :: gostring

definition sw_dubbo_operation :: "dubbo_url \<Rightarrow> gostring \<Rightarrow> gostring" where
  "sw_dubbo_operation u meth = (if du_group u \<noteq> [] then ''/'' @ du_group u else []) @ du_path u @ ''/'' @ meth"

definition sw_dubbo_opts :: "dubbo_url \<Rightarrow> sw_option list" where
  "sw_dubbo_opts u = [WithLayer LayerRPC, WithTag TagURL (du_text u), WithComponent 3]"

text \<open>The consumer's result is an \<open>RPCResult\<close> with its error, or of another type.\<close>

definition sw_dubbo_consumer ::
  "sw_tracer \<Rightarrow> dubbo_url option \<Rightarrow> gostring \<Rightarrow> properties \<Rightarrow> gostring option option \<Rightarrow> sw_span option \<times> properties" where
  "sw_dubbo_consumer tr url meth atts result =
     (case url of
        None \<Rightarrow> (None, atts)
      | Some u \<Rightarrow>
          let st = exit_span (sw_dubbo_operation u meth) (du_location u) (sw_dubbo_opts u)
          in if tr_creates tr st
             then (Some (st, sw_finish (case result of Some err \<Rightarrow> err | None \<Rightarrow> None)),
                   fold (\<lambda>(k, v). property_set k v) (tr_headers tr st) atts)
             else (None, atts))"

definition sw_dubbo_provider ::
  "sw_tracer \<Rightarrow> dubbo_url option \<Rightarrow> gostring \<Rightarrow> properties \<Rightarrow> (sw_span \<times> headers_list) option" where
  "sw_dubbo_provider tr url meth atts =
     (case url of
        None \<Rightarrow> None
      | Some u \<Rightarrow>
          let st = entry_span (sw_dubbo_operation u meth) (sw_dubbo_opts u)
          in if tr_creates tr st then Some ((st, [SwEnd]), map (\<lambda>k. (k, property_get atts k)) (tr_keys tr)) else None)"

end
