(* ===== verification/Sw_Grpc.thy ===== *)
theory Sw_Grpc
  imports Sw_Carriers
begin

text \<open>
  Model of \<open>skywalking/plugins/grpc\<close>: the unary client, the client stream with its asynchronous span, and the server.
  A run-time panic is \<open>None\<close>.
\<close>

definition sw_grpc_format_operation_name :: "gostring \<Rightarrow> gostring \<Rightarrow> gostring option" where
  "sw_grpc_format_operation_name service meth =
     (if service = [] then None
      else Some (map (\<lambda>c. if c = CHR ''/'' then CHR ''.'' else c) (tl service) @ meth))"

definition sw_grpc_internal :: "gostring \<Rightarrow> bool" where
  "sw_grpc_internal meth = has_prefix meth ''/skywalking''"

definition sw_grpc_opts :: "gostring \<Rightarrow> sw_option list" where
  "sw_grpc_opts meth = [WithLayer LayerRPC, WithTag TagURL meth, WithComponent 23]"

definition rpc_type :: "gostring \<Rightarrow> sw_call" where
  "rpc_type t = SwTag (TagNamed ''rpc.type'') t"

section \<open>The unary client\<close>

text \<open>The span, and the outgoing metadata of the context the original is called with.\<close>

definition sw_grpc_invoke ::
  "sw_tracer \<Rightarrow> gostring \<Rightarrow> gostring \<Rightarrow> grpc_md \<Rightarrow> gostring option \<Rightarrow> (sw_span option \<times> grpc_md) option" where
  "sw_grpc_invoke tr target meth md err =
     (if sw_grpc_internal meth then Some (None, md)
      else case sw_grpc_format_operation_name meth [] of
        None \<Rightarrow> None
      | Some op \<Rightarrow>
          let st = exit_span op target (sw_grpc_opts meth)
          in Some (if tr_creates tr st
                   then (Some (st, rpc_type ''Unary'' # sw_finish err), fold (\<lambda>(k, v). md_append k v) (tr_headers tr st) md)
                   else (None, md)))"

section \<open>The client stream\<close>

text \<open>
  A stream: its method, whether it carries the context data of \<open>NewStream\<close>, the flag that \<open>RecvMsg\<close> arms, the calls
  on the asynchronous span, the local spans of its messages, and the names given to the active span by \<open>finish\<close>.
\<close>

record sw_stream =
  st_method :: gostring
  st_data :: bool
  st_armed :: bool
  st_async :: "sw_call list"
  st_locals :: "sw_span list"
  st_renames :: "gostring list"

text \<open>
  \<open>NewStream\<close>: \<open>own\<close> says that the result is the package's \<open>clientStream\<close>, which it is not for an error.
\<close>

definition sw_grpc_new_stream ::
  "sw_tracer \<Rightarrow> gostring \<Rightarrow> gostring \<Rightarrow> grpc_md \<Rightarrow> bool \<Rightarrow> gostring option \<Rightarrow> ((sw_start option \<times> sw_stream) \<times> grpc_md) option" where
  "sw_grpc_new_stream tr target meth md own err =
     (let empty = \<lparr>st_method = meth, st_data = False, st_armed = False, st_async = [], st_locals = [], st_renames = []\<rparr>
      in if sw_grpc_internal meth then Some ((None, empty), md)
         else case sw_grpc_format_operation_name meth [] of
           None \<Rightarrow> None
         | Some op \<Rightarrow>
             let st = exit_span op target (sw_grpc_opts meth)
             in Some (if tr_creates tr st
                      then ((Some st,
                             empty\<lparr>st_data := own,
                               st_async := [rpc_type ''Streaming''] @ (case err of Some e \<Rightarrow> [SwError [e]] | None \<Rightarrow> [])
                                 @ [SwPrepareAsync, SwEnd]\<rparr>),
                            fold (\<lambda>(k, v). md_append k v) (tr_headers tr st) md)
                      else ((None, empty), md)))"

datatype grpc_io_error = IoEof | IoError gostring

fun io_text :: "grpc_io_error \<Rightarrow> gostring" where
  "io_text IoEof = ''EOF''" | "io_text (IoError e) = e"

definition sw_local_start :: "gostring \<Rightarrow> gostring \<Rightarrow> sw_start option" where
  "sw_local_start meth sfx = map_option (\<lambda>op. local_span op (sw_grpc_opts meth)) (sw_grpc_format_operation_name meth sfx)"

definition add_local :: "sw_tracer \<Rightarrow> gostring \<Rightarrow> sw_call list \<Rightarrow> sw_stream \<Rightarrow> sw_stream option" where
  "add_local tr sfx calls s =
     map_option (\<lambda>st. if tr_creates tr st then s\<lparr>st_locals := st_locals s @ [(st, calls)]\<rparr> else s)
       (sw_local_start (st_method s) sfx)"

definition sw_stream_send_msg :: "sw_tracer \<Rightarrow> grpc_io_error option \<Rightarrow> sw_stream \<Rightarrow> sw_stream option" where
  "sw_stream_send_msg tr err s =
     (if sw_grpc_internal (st_method s) then Some s
      else add_local tr ''/Client/Request/SendMsg'' (sw_finish (map_option io_text err)) s)"

text \<open>The end of a \<open>RecvMsg\<close>, the client's and the server's: \<open>EOF\<close> is not an error, but the end of the stream.\<close>

definition sw_recv_end :: "gostring \<Rightarrow> grpc_io_error option \<Rightarrow> sw_call list" where
  "sw_recv_end closed err =
     (case err of Some (IoError e) \<Rightarrow> [SwError [e]] | Some IoEof \<Rightarrow> [SwSetOperationName closed] | None \<Rightarrow> []) @ [SwEnd]"

definition sw_stream_recv_msg :: "sw_tracer \<Rightarrow> grpc_io_error option \<Rightarrow> sw_stream \<Rightarrow> sw_stream option" where
  "sw_stream_recv_msg tr err s =
     (if sw_grpc_internal (st_method s) then Some s
      else let s1 = (if st_data s then s\<lparr>st_armed := True\<rparr> else s)
           in case sw_grpc_format_operation_name (st_method s) ''/Client/Response/CloseRecv'' of
                None \<Rightarrow> None
              | Some closed \<Rightarrow> add_local tr ''/Client/Response/RecvMsg'' (sw_recv_end closed err) s1)"

definition sw_stream_close_send :: "sw_tracer \<Rightarrow> gostring option \<Rightarrow> sw_stream \<Rightarrow> sw_stream option" where
  "sw_stream_close_send tr err s =
     (if sw_grpc_internal (st_method s) then Some s
      else add_local tr ''/Client/Response/CloseSend'' (sw_finish err) s)"

definition sw_grpc_finish_stream_span :: "sw_stream \<Rightarrow> bool \<times> sw_stream" where
  "sw_grpc_finish_stream_span s =
     (if st_armed s then (True, s\<lparr>st_armed := False, st_async := st_async s @ [SwAsyncFinish]\<rparr>) else (False, s))"

text \<open>\<open>finish\<close>; \<open>active\<close> says whether there is an active span.\<close>

definition sw_stream_finish :: "bool \<Rightarrow> sw_stream \<Rightarrow> sw_stream option" where
  "sw_stream_finish active s =
     (if \<not> st_data s then Some s
      else case sw_grpc_finish_stream_span s of
        (False, s1) \<Rightarrow> Some s1
      | (True, s1) \<Rightarrow>
          if \<not> active then Some s1
          else map_option (\<lambda>n. s1\<lparr>st_renames := st_renames s1 @ [n]\<rparr>)
                 (sw_grpc_format_operation_name (st_method s) ''/Client/Response/CloseRecv''))"

datatype sw_stream_op = StreamSend "grpc_io_error option" | StreamRecv "grpc_io_error option" | StreamCloseSend "gostring option"
  | StreamFinish bool

text \<open>Operations on a stream, in the order they take effect; after a panic the stream is left alone.\<close>

fun sw_stream_call :: "sw_tracer \<Rightarrow> sw_stream_op \<Rightarrow> sw_stream \<Rightarrow> sw_stream option" where
  "sw_stream_call tr (StreamSend e) s = sw_stream_send_msg tr e s"
| "sw_stream_call tr (StreamRecv e) s = sw_stream_recv_msg tr e s"
| "sw_stream_call tr (StreamCloseSend e) s = sw_stream_close_send tr e s"
| "sw_stream_call tr (StreamFinish a) s = sw_stream_finish a s"

definition sw_stream_step :: "sw_tracer \<Rightarrow> sw_stream_op \<Rightarrow> sw_stream \<Rightarrow> sw_stream" where
  "sw_stream_step tr x s = (case sw_stream_call tr x s of Some s' \<Rightarrow> s' | None \<Rightarrow> s)"

section \<open>The server\<close>

definition sw_grpc_handle_stream :: "sw_tracer \<Rightarrow> gostring \<Rightarrow> grpc_md \<Rightarrow> (sw_span \<times> headers_list) option option" where
  "sw_grpc_handle_stream tr meth md =
     map_option (\<lambda>op.
         let st = entry_span op (sw_grpc_opts meth)
         in if tr_creates tr st then Some ((st, [SwEnd]), map (\<lambda>k. (k, md_get md k)) (tr_keys tr)) else None)
       (sw_grpc_format_operation_name meth [])"

definition sw_grpc_server_local ::
  "sw_tracer \<Rightarrow> gostring \<Rightarrow> gostring \<Rightarrow> sw_call list \<Rightarrow> sw_span option option" where
  "sw_grpc_server_local tr meth sfx calls =
     map_option (\<lambda>st. if tr_creates tr st then Some (st, calls) else None) (sw_local_start meth sfx)"

definition sw_grpc_send_response :: "sw_tracer \<Rightarrow> bool \<Rightarrow> gostring \<Rightarrow> gostring option \<Rightarrow> sw_span option option" where
  "sw_grpc_send_response tr active meth err =
     (if active then sw_grpc_server_local tr meth ''/Server/Response/SendResponse'' (sw_finish err) else Some None)"

definition sw_grpc_process_unary_rpc :: "bool \<Rightarrow> sw_call list" where
  "sw_grpc_process_unary_rpc active = (if active then [rpc_type ''Unary''] else [])"

definition sw_grpc_process_streaming_rpc :: "bool \<Rightarrow> sw_call list" where
  "sw_grpc_process_streaming_rpc active = (if active then [rpc_type ''Streaming''] else [])"

definition sw_server_send_msg :: "sw_tracer \<Rightarrow> gostring \<Rightarrow> gostring option \<Rightarrow> sw_span option option" where
  "sw_server_send_msg tr meth err =
     (if sw_grpc_internal meth then Some None
      else sw_grpc_server_local tr meth ''/Server/Request/SendMsg'' (sw_finish err))"

definition sw_server_recv_msg :: "sw_tracer \<Rightarrow> gostring \<Rightarrow> grpc_io_error option \<Rightarrow> sw_span option option" where
  "sw_server_recv_msg tr meth err =
     (if sw_grpc_internal meth then Some None
      else case sw_grpc_format_operation_name meth ''/Server/Response/CloseRecv'' of
        None \<Rightarrow> None
      | Some closed \<Rightarrow> sw_grpc_server_local tr meth ''/Server/Response/RecvMsg'' (sw_recv_end closed err))"

end
