(* ===== verification/Sw_Grpc_Props.thy ===== *)
theory Sw_Grpc_Props
  imports Sw_Grpc
begin

text \<open>
  Properties of the SkyWalking gRPC rules: the trace crosses a unary call, and the asynchronous span of a
  client stream is finished for every stream whose messages were received.
\<close>

lemma format_not_empty: "meth \<noteq> [] \<Longrightarrow> \<exists>op. sw_grpc_format_operation_name meth sfx = Some op"
  by (simp add: sw_grpc_format_operation_name_def)

fun recv_failed :: "grpc_io_error option \<Rightarrow> bool" where
  "recv_failed (Some (IoError e)) = True" | "recv_failed _ = False"

interpretation sw_recv: sw_finishing "sw_recv_end closed" recv_failed
  by unfold_locales (auto simp: sw_recv_end_def split: option.split grpc_io_error.split)

section \<open>The asynchronous span\<close>

definition async_finishes :: "sw_stream \<Rightarrow> nat" where
  "async_finishes s = count_list (st_async s) SwAsyncFinish"

lemma add_local_sel:
  "add_local tr sfx calls s = Some s' \<Longrightarrow> st_async s' = st_async s \<and> st_armed s' = st_armed s \<and> st_data s' = st_data s \<and> st_method s' = st_method s"
  by (auto simp: add_local_def split: if_splits)

text \<open>What a step does to the flag and the asynchronous span of a stream with context data.\<close>

lemma stream_step_data:
  assumes "st_data s" "st_method s \<noteq> []" "\<not> sw_grpc_internal (st_method s)"
  shows "st_data (sw_stream_step tr x s) \<and> st_method (sw_stream_step tr x s) = st_method s \<and>
    (case x of
       StreamRecv e \<Rightarrow> st_armed (sw_stream_step tr x s) \<and> async_finishes (sw_stream_step tr x s) = async_finishes s
     | StreamFinish a \<Rightarrow> \<not> st_armed (sw_stream_step tr x s) \<and>
         async_finishes (sw_stream_step tr x s) = async_finishes s + (if st_armed s then 1 else 0)
     | _ \<Rightarrow> st_armed (sw_stream_step tr x s) = st_armed s \<and> async_finishes (sw_stream_step tr x s) = async_finishes s)"
proof (cases x)
  case (StreamSend e)
  then show ?thesis using assms add_local_sel
    by (auto simp: sw_stream_step_def sw_stream_send_msg_def async_finishes_def split: option.split dest!: add_local_sel)
next
  case (StreamRecv e)
  obtain c where c: "sw_grpc_format_operation_name (st_method s) ''/Client/Response/CloseRecv'' = Some c"
    using format_not_empty [OF assms(2)] by blast
  obtain s' where s': "add_local tr ''/Client/Response/RecvMsg'' (sw_recv_end c e) (s\<lparr>st_armed := True\<rparr>) = Some s'"
    using format_not_empty [OF assms(2), of "''/Client/Response/RecvMsg''"] by (auto simp: add_local_def sw_local_start_def)
  then show ?thesis using assms c add_local_sel [OF s'] StreamRecv
    by (simp add: sw_stream_step_def sw_stream_recv_msg_def async_finishes_def)
next
  case (StreamCloseSend e)
  then show ?thesis using assms
    by (auto simp: sw_stream_step_def sw_stream_close_send_def async_finishes_def split: option.split dest!: add_local_sel)
next
  case (StreamFinish a)
  obtain c where "sw_grpc_format_operation_name (st_method s) ''/Client/Response/CloseRecv'' = Some c"
    using format_not_empty [OF assms(2)] by blast
  then show ?thesis using assms StreamFinish
    by (auto simp: sw_stream_step_def sw_stream_finish_def sw_grpc_finish_stream_span_def async_finishes_def)
qed

fun is_recv :: "sw_stream_op \<Rightarrow> bool" where "is_recv (StreamRecv e) = True" | "is_recv _ = False"
fun is_finish :: "sw_stream_op \<Rightarrow> bool" where "is_finish (StreamFinish a) = True" | "is_finish _ = False"

text \<open>How often a finish finds the flag armed.\<close>

fun armed_finishes :: "bool \<Rightarrow> sw_stream_op list \<Rightarrow> nat" where
  "armed_finishes armed [] = 0"
| "armed_finishes armed (x # xs) =
     (if is_recv x then armed_finishes True xs
      else if is_finish x then (if armed then 1 else 0) + armed_finishes False xs
      else armed_finishes armed xs)"

lemma stream_finishes:
  assumes "st_data s" "st_method s \<noteq> []" "\<not> sw_grpc_internal (st_method s)"
  shows "async_finishes (run_ops (sw_stream_step tr) ops s) = async_finishes s + armed_finishes (st_armed s) ops"
  using assms
proof (induction ops arbitrary: s)
  case (Cons x ops)
  let ?t = "sw_stream_step tr x s"
  have "async_finishes (run_ops (sw_stream_step tr) ops ?t) = async_finishes ?t + armed_finishes (st_armed ?t) ops"
    using Cons stream_step_data [OF Cons.prems, of tr x] by simp
  then show ?case using stream_step_data [OF Cons.prems, of tr x] by (cases x) auto
qed simp

lemma armed_no_finish: "\<forall>x \<in> set xs. \<not> is_finish x \<Longrightarrow> armed_finishes a (xs @ ys) = armed_finishes (a \<or> (\<exists>x \<in> set xs. is_recv x)) ys"
  by (induction xs arbitrary: a) auto

lemma armed_no_recv: "\<forall>x \<in> set ys. \<not> is_recv x \<Longrightarrow> armed_finishes a ys = (if a \<and> (\<exists>x \<in> set ys. is_finish x) then 1 else 0)"
  by (induction ys arbitrary: a) auto



text \<open>
  A stream that could not be created leaves its span prepared and never finished; and a message received after the end
  lets the next finish run a second time.
\<close>

theorem sw_grpc_failed_stream_unfinished:
  assumes "sw_grpc_new_stream tr target meth md False (Some e) = Some ((Some st, s), md')"
  shows "SwPrepareAsync \<in> set (st_async s) \<and> async_finishes (run_ops (sw_stream_step tr) ops s) = 0"
proof -
  have s: "\<not> st_data s" "st_async s = [rpc_type ''Streaming'', SwError [e], SwPrepareAsync, SwEnd]"
    using assms by (auto simp: sw_grpc_new_stream_def Let_def split: if_splits option.splits)
  have step: "\<not> st_data (sw_stream_step tr x t) \<and> st_async (sw_stream_step tr x t) = st_async t" if "\<not> st_data t" for x t
    using that by (cases x) (auto simp: sw_stream_step_def sw_stream_send_msg_def sw_stream_recv_msg_def sw_stream_close_send_def
        sw_stream_finish_def split: option.splits dest!: add_local_sel)
  have "st_async (run_ops (sw_stream_step tr) ops t) = st_async t" if "\<not> st_data t" for t
    using that step by (induction ops arbitrary: t) auto
  then show ?thesis using s by (simp add: async_finishes_def rpc_type_def)
qed

theorem sw_grpc_finished_twice: "armed_finishes True [StreamFinish a, StreamRecv (Some IoEof), StreamFinish a] = 2"
  by simp

section \<open>The unary call\<close>

lemma sw_grpc_unary_connected:
  assumes "distinct (map (to_lower \<circ> fst) hs)" "tr_keys tr = map fst hs" "\<forall>st. tr_creates tr st \<and> tr_headers tr st = hs"
    and "\<forall>(k, v) \<in> set hs. \<not> md_present md k" "\<not> sw_grpc_internal meth" "meth \<noteq> []"
  shows "\<exists>st log sent. sw_grpc_invoke tr target meth md err = Some (Some (st, log), sent) \<and>
    sw_properly_ended log (err \<noteq> None) \<and> map_option (map_option snd) (sw_grpc_handle_stream tr meth sent) = Some (Some hs)"
proof -
  obtain op where op: "sw_grpc_format_operation_name meth [] = Some op" using format_not_empty [OF assms(6)] by blast
  let ?sent = "fold (\<lambda>(k, v). md_append k v) hs md"
  have "map (\<lambda>k. (k, md_get ?sent k)) (map fst hs) = hs"
    by (rule zip_read, rule appended_md.read_back) (use assms in auto)
  moreover have "sw_properly_ended (rpc_type ''Unary'' # sw_finish err) (err \<noteq> None)"
    using sw_plain.properly_after [of "[rpc_type ''Unary'']" err] by (simp add: rpc_type_def)
  ultimately show ?thesis using assms op by (simp add: sw_grpc_invoke_def sw_grpc_handle_stream_def Let_def)
qed

end
