(* ===== verification/Sw_Gorm.thy ===== *)
theory Sw_Gorm
  imports Sw_Sql
begin

text \<open>
  Model of \<open>skywalking/plugins/gorm\<close>: the info the dialectors carry, the callbacks \<open>Open\<close> registers, and the spans they
  make for the statements.
\<close>

section \<open>The dialectors\<close>

text \<open>\<open>sw_info\<close> is as for \<open>sql\<close>; \<open>parse\<close> is the MySQL driver's \<open>ParseDSN\<close>, giving the address.\<close>

text \<open>What the methods of \<open>*swDatabaseInfo\<close> return for a peer address.\<close>

definition sw_gorm_mysql_methods :: "gostring \<Rightarrow> sw_info" where
  "sw_gorm_mysql_methods addr = \<lparr>si_peer = addr, si_component = 5012, si_dbtype = ''mysql''\<rparr>"

definition sw_gorm_mysql_info :: "(gostring \<Rightarrow> gostring option) \<Rightarrow> gostring \<Rightarrow> sw_info option" where
  "sw_gorm_mysql_info parse dsn =
     map_option sw_gorm_mysql_methods (parse dsn)"

text \<open>
  A dialector: its configuration's DSN (\<open>None\<close> for a nil configuration) and the info attached.  \<open>Open\<close> and \<open>New\<close> are given
  the dialector the original returned, \<open>None\<close> when nil or of another type.
\<close>

record mysql_dialector =
  my_dsn :: "gostring option"
  my_data :: "sw_info option"

definition sw_gorm_mysql_attach :: "(gostring \<Rightarrow> gostring option) \<Rightarrow> mysql_dialector option \<Rightarrow> mysql_dialector option" where
  "sw_gorm_mysql_attach parse d =
     (case d of
        None \<Rightarrow> None
      | Some r \<Rightarrow>
          (case my_dsn r of
             None \<Rightarrow> Some r
           | Some dsn \<Rightarrow>
               if dsn = [] then Some r
               else case sw_gorm_mysql_info parse dsn of Some i \<Rightarrow> Some (r\<lparr>my_data := Some i\<rparr>) | None \<Rightarrow> Some r))"

definition sw_gorm_mysql_open :: "(gostring \<Rightarrow> gostring option) \<Rightarrow> mysql_dialector option \<Rightarrow> mysql_dialector option" where
  "sw_gorm_mysql_open parse d = sw_gorm_mysql_attach parse d"

definition sw_gorm_mysql_new :: "(gostring \<Rightarrow> gostring option) \<Rightarrow> mysql_dialector option \<Rightarrow> mysql_dialector option" where
  "sw_gorm_mysql_new parse d = sw_gorm_mysql_attach parse d"

text \<open>
  Postgres: the configuration of a dialector, \<open>None\<close> when nil.  The interface through which a pool would carry info
  has methods that no type of the package has both of, and no other package can have: the assertion on a pool never holds.
\<close>

datatype pg_pool = NoPool | APool nat

definition pool_enhanced :: "pg_pool \<Rightarrow> (sw_info option) option" where
  "pool_enhanced p = None"

record pg_dialector_config =
  pc_dsn :: gostring
  pc_conn :: pg_pool
  pc_data :: "sw_info option"

definition pg_info :: "gostring \<Rightarrow> sw_info" where
  "pg_info peer = \<lparr>si_peer = peer, si_component = 22, si_dbtype = ''PostgreSQL''\<rparr>"

text \<open>Info of this package passes as it is, info of another if it is for PostgreSQL and has a peer.\<close>

definition sw_adapt_sql_database_info :: "bool \<Rightarrow> sw_info option \<Rightarrow> sw_info option" where
  "sw_adapt_sql_database_info own v =
     (case v of
        None \<Rightarrow> None
      | Some i \<Rightarrow>
          if own then Some i
          else if si_dbtype i \<noteq> ''PostgreSQL'' \<or> si_peer i = [] then None
          else Some (pg_info (si_peer i)))"

definition sw_build_db_info_from_conn :: "pg_pool \<Rightarrow> sw_info option" where
  "sw_build_db_info_from_conn conn =
     (case pool_enhanced conn of None \<Rightarrow> None | Some v \<Rightarrow> sw_adapt_sql_database_info False v)"

definition sw_gorm_build_peer_address :: "(pg_address \<Rightarrow> pg_address list \<Rightarrow> gostring) \<Rightarrow> pg_config option \<Rightarrow> gostring" where
  "sw_gorm_build_peer_address peer_of cfg =
     (case cfg of
        None \<Rightarrow> []
      | Some (main, fallbacks) \<Rightarrow> peer_of main (List.map_filter (\<lambda>x. x) fallbacks))"

definition sw_build_db_info_from_config ::
  "(gostring \<Rightarrow> pg_config option) \<Rightarrow> (pg_address \<Rightarrow> pg_address list \<Rightarrow> gostring) \<Rightarrow> pg_dialector_config option \<Rightarrow> sw_info option" where
  "sw_build_db_info_from_config parse peer_of config =
     (case config of
        None \<Rightarrow> None
      | Some c \<Rightarrow>
          let from_dsn =
                (if pc_dsn c \<noteq> [] then
                   (case parse (pc_dsn c) of
                      Some cfg \<Rightarrow> (let peer = sw_gorm_build_peer_address peer_of (Some cfg) in if peer \<noteq> [] then Some (pg_info peer) else None)
                    | None \<Rightarrow> None)
                 else None)
          in (case from_dsn of Some i \<Rightarrow> Some i | None \<Rightarrow> sw_build_db_info_from_conn (pc_conn c)))"

definition sw_build_db_info_from_dialector ::
  "(gostring \<Rightarrow> pg_config option) \<Rightarrow> (pg_address \<Rightarrow> pg_address list \<Rightarrow> gostring) \<Rightarrow>
   pg_dialector_config option option \<Rightarrow> sw_info option" where
  "sw_build_db_info_from_dialector parse peer_of d =
     (case d of None \<Rightarrow> None | Some config \<Rightarrow> sw_build_db_info_from_config parse peer_of config)"

text \<open>A dialector pointer (\<open>None\<close> when nil or of another type) with its configuration; attaching to a nil configuration panics.\<close>

definition sw_gorm_pg_attach ::
  "(gostring \<Rightarrow> pg_config option) \<Rightarrow> (pg_address \<Rightarrow> pg_address list \<Rightarrow> gostring) \<Rightarrow>
   pg_dialector_config option option \<Rightarrow> pg_dialector_config option option option" where
  "sw_gorm_pg_attach parse peer_of d =
     (case d of
        None \<Rightarrow> Some None
      | Some config \<Rightarrow>
          (case sw_build_db_info_from_dialector parse peer_of d of
             None \<Rightarrow> Some (Some config)
           | Some i \<Rightarrow> (case config of None \<Rightarrow> None | Some c \<Rightarrow> Some (Some (Some (c\<lparr>pc_data := Some i\<rparr>))))))"

definition sw_build_db_info_from_invocation ::
  "(gostring \<Rightarrow> pg_config option) \<Rightarrow> (pg_address \<Rightarrow> pg_address list \<Rightarrow> gostring) \<Rightarrow> pg_dialector_config option \<Rightarrow> sw_info option" where
  "sw_build_db_info_from_invocation parse peer_of config =
     (case config of
        None \<Rightarrow> sw_build_db_info_from_config parse peer_of None
      | Some c \<Rightarrow>
          (case sw_adapt_sql_database_info True (pc_data c) of
             Some i \<Rightarrow> Some i
           | None \<Rightarrow> sw_build_db_info_from_config parse peer_of (Some c)))"

text \<open>\<open>Initialize\<close>: the info given to the pool of the database, if any is.\<close>

definition sw_gorm_pg_initialize ::
  "(gostring \<Rightarrow> pg_config option) \<Rightarrow> (pg_address \<Rightarrow> pg_address list \<Rightarrow> gostring) \<Rightarrow>
   pg_dialector_config option \<Rightarrow> bool \<Rightarrow> pg_pool \<Rightarrow> sw_info option" where
  "sw_gorm_pg_initialize parse peer_of config failed pool =
     (if failed \<or> pool = NoPool then None
      else case pool_enhanced pool of
        None \<Rightarrow> None
      | Some (Some _) \<Rightarrow> None
      | Some None \<Rightarrow> sw_build_db_info_from_invocation parse peer_of config)"

section \<open>Open\<close>

text \<open>
  What \<open>reflect\<close> finds: no database or dialector, a value that is no struct, a struct without the field, one with it, or one
  whose field is behind a nil pointer, which panics.
\<close>

datatype gorm_dialector = NoDialector | NotAStruct | NoDataField | DataField "sw_info option" | NilEmbedded

definition sw_setup_database_info :: "gorm_dialector \<Rightarrow> sw_info option option" where
  "sw_setup_database_info d =
     (case d of NoDialector \<Rightarrow> Some None | NotAStruct \<Rightarrow> Some None | NoDataField \<Rightarrow> Some None | DataField i \<Rightarrow> Some i
      | NilEmbedded \<Rightarrow> None)"

definition gorm_operations :: "gostring list" where
  "gorm_operations = [''create'', ''query'', ''update'', ''delete'', ''row'', ''raw'']"

text \<open>The operations that get a pair of callbacks, with the info of both.\<close>

definition sw_gorm_open :: "bool \<Rightarrow> bool \<Rightarrow> gorm_dialector \<Rightarrow> (gostring \<times> sw_info) list option" where
  "sw_gorm_open failed no_db d =
     (if failed then Some []
      else if no_db then Some []
      else case sw_setup_database_info d of
        None \<Rightarrow> None
      | Some None \<Rightarrow> Some []
      | Some (Some i) \<Rightarrow> Some (map (\<lambda>op. (op, i)) gorm_operations))"

section \<open>The callbacks\<close>

text \<open>
  The span each statement carries (instance values belong to one statement), the spans made, and how often the leftover
  warning and the failure of the tracer were logged.
\<close>

record gorm_state =
  gm_span_of :: "nat \<rightharpoonup> nat"
  gm_spans :: "sw_span list"
  gm_warned :: nat
  gm_refused :: nat

definition gorm_init :: gorm_state where
  "gorm_init = \<lparr>gm_span_of = Map.empty, gm_spans = [], gm_warned = 0, gm_refused = 0\<rparr>"

definition sw_before_callback :: "sw_tracer \<Rightarrow> sw_info \<Rightarrow> gostring \<Rightarrow> nat \<Rightarrow> gostring \<Rightarrow> gorm_state \<Rightarrow> gorm_state" where
  "sw_before_callback tr info op stmt table st =
     (let st1 = (if gm_span_of st stmt \<noteq> None then st\<lparr>gm_warned := Suc (gm_warned st)\<rparr> else st);
          s = exit_span (table @ ''/'' @ op) (si_peer info)
            [WithComponent (si_component info), WithLayer LayerDatabase, WithTag TagDBType (si_dbtype info)]
      in if tr_creates tr s
         then st1\<lparr>gm_spans := gm_spans st1 @ [(s, [])], gm_span_of := (gm_span_of st1)(stmt \<mapsto> length (gm_spans st1))\<rparr>
         else st1\<lparr>gm_refused := Suc (gm_refused st1)\<rparr>)"

definition sw_gorm_args_to_string :: "gostring list \<Rightarrow> gostring" where
  "sw_gorm_args_to_string args =
     (case args of
        [] \<Rightarrow> []
      | [a] \<Rightarrow> a
      | a # rest \<Rightarrow> fold (\<lambda>x res. res @ '', '' @ x) rest a)"

text \<open>The end: the text of the statement, its variables (printed) when they are collected, and its error.\<close>

definition sw_gorm_end :: "bool \<Rightarrow> gostring \<times> gostring list \<times> gostring option \<Rightarrow> sw_call list" where
  "sw_gorm_end collect x =
     (case x of (sql, vars, err) \<Rightarrow>
        [SwTag TagDBStatement sql]
        @ (if collect \<and> length vars > 0 then [SwTag TagDBSqlParameters (sw_gorm_args_to_string vars)] else [])
        @ sw_finish err)"

definition sw_after_callback :: "bool \<Rightarrow> nat \<Rightarrow> gostring \<times> gostring list \<times> gostring option \<Rightarrow> gorm_state \<Rightarrow> gorm_state" where
  "sw_after_callback collect stmt res st =
     (case gm_span_of st stmt of
        None \<Rightarrow> st
      | Some i \<Rightarrow>
          st\<lparr>gm_span_of := (gm_span_of st)(stmt := None),
             gm_spans := (gm_spans st)[i := (fst (gm_spans st ! i), snd (gm_spans st ! i) @ sw_gorm_end collect res)]\<rparr>)"

datatype gorm_op = GormBefore gostring nat gostring | GormAfter nat "gostring \<times> gostring list \<times> gostring option"

fun gorm_step :: "sw_tracer \<Rightarrow> sw_info \<Rightarrow> bool \<Rightarrow> gorm_op \<Rightarrow> gorm_state \<Rightarrow> gorm_state" where
  "gorm_step tr info collect (GormBefore op stmt table) st = sw_before_callback tr info op stmt table st"
| "gorm_step tr info collect (GormAfter stmt res) st = sw_after_callback collect stmt res st"

end
