(* ===== verification/Sw_Gorm_Props.thy ===== *)
theory Sw_Gorm_Props
  imports Sw_Gorm
begin

text \<open>Properties of the gorm callbacks: statements that interleave end their own spans, each once.\<close>

interpretation sw_gorm: sw_finishing "sw_gorm_end collect" "\<lambda>(sql, vars, err). err \<noteq> None"
  by unfold_locales (auto simp: sw_gorm_end_def sw_finish_def split: option.split)

text \<open>A span has no call yet, or is ended properly.\<close>

definition gorm_open_span :: "gorm_state \<Rightarrow> nat \<Rightarrow> bool" where
  "gorm_open_span st i \<longleftrightarrow> snd (gm_spans st ! i) = []"

definition gorm_inv :: "gorm_state \<Rightarrow> bool" where
  "gorm_inv st \<longleftrightarrow>
     (\<forall>s i. gm_span_of st s = Some i \<longrightarrow> i < length (gm_spans st) \<and> gorm_open_span st i) \<and>
     inj_on (gm_span_of st) (dom (gm_span_of st)) \<and>
     (\<forall>i < length (gm_spans st). gorm_open_span st i \<or> (\<exists>b. sw_properly_ended (snd (gm_spans st ! i)) b))"

lemma gorm_invD:
  assumes "gorm_inv st" "gm_span_of st s = Some i"
  shows "i < length (gm_spans st)" "snd (gm_spans st ! i) = []" "gm_span_of st s' = Some i \<Longrightarrow> s' = s"
  using assms by (auto simp: gorm_inv_def gorm_open_span_def inj_on_def dom_def)

lemma before_created:
  assumes "tr_creates tr (exit_span (table @ ''/'' @ op) (si_peer info)
      [WithComponent (si_component info), WithLayer LayerDatabase, WithTag TagDBType (si_dbtype info)])"
  shows "gm_spans (sw_before_callback tr info op stmt table st)
      = gm_spans st @ [(exit_span (table @ ''/'' @ op) (si_peer info)
          [WithComponent (si_component info), WithLayer LayerDatabase, WithTag TagDBType (si_dbtype info)], [])]"
    and "gm_span_of (sw_before_callback tr info op stmt table st) = (gm_span_of st)(stmt \<mapsto> length (gm_spans st))"
  using assms by (simp_all add: sw_before_callback_def Let_def)

lemma before_refused:
  assumes "\<not> tr_creates tr (exit_span (table @ ''/'' @ op) (si_peer info)
      [WithComponent (si_component info), WithLayer LayerDatabase, WithTag TagDBType (si_dbtype info)])"
  shows "gm_spans (sw_before_callback tr info op stmt table st) = gm_spans st"
    and "gm_span_of (sw_before_callback tr info op stmt table st) = gm_span_of st"
  using assms by (simp_all add: sw_before_callback_def Let_def)

lemma before_inv:
  assumes "gorm_inv st"
  shows "gorm_inv (sw_before_callback tr info op stmt table st)"
proof (cases "tr_creates tr (exit_span (table @ ''/'' @ op) (si_peer info)
      [WithComponent (si_component info), WithLayer LayerDatabase, WithTag TagDBType (si_dbtype info)])")
  case True
  have lt: "gm_span_of st s = Some i \<Longrightarrow> i < length (gm_spans st)" for s i using gorm_invD(1) [OF assms] .
  have "inj_on ((gm_span_of st)(stmt \<mapsto> length (gm_spans st))) (dom ((gm_span_of st)(stmt \<mapsto> length (gm_spans st))))"
    using assms lt by (fastforce simp: gorm_inv_def inj_on_def dom_def)
  moreover have "gorm_open_span (sw_before_callback tr info op stmt table st) i = (if i = length (gm_spans st) then True else gorm_open_span st i)"
    if "i \<le> length (gm_spans st)" for i
    using that by (auto simp: gorm_open_span_def before_created [OF True] nth_append)
  ultimately show ?thesis
    using assms lt unfolding gorm_inv_def before_created [OF True]
    by (auto simp: gorm_open_span_def nth_append before_created [OF True] less_Suc_eq dest: less_imp_le split: if_splits)
next
  case False
  then show ?thesis using assms by (simp add: gorm_inv_def gorm_open_span_def before_refused)
qed

lemma after_inv:
  assumes "gorm_inv st"
  shows "gorm_inv (sw_after_callback collect stmt res st)"
proof (cases "gm_span_of st stmt")
  case (Some i)
  note d = gorm_invD [OF assms Some]
  let ?st = "sw_after_callback collect stmt res st"
  have sp: "gm_spans ?st = (gm_spans st)[i := (fst (gm_spans st ! i), sw_gorm_end collect res)]"
    and of: "gm_span_of ?st = (gm_span_of st)(stmt := None)"
    using Some d(2) by (simp_all add: sw_after_callback_def)
  have len: "length (gm_spans ?st) = length (gm_spans st)" by (simp add: sp)
  have other: "gm_spans ?st ! j = gm_spans st ! j" if "j \<noteq> i" for j using that by (simp add: sp)
  have own: "gm_spans ?st ! i = (fst (gm_spans st ! i), sw_gorm_end collect res)" using d(1) by (simp add: sp)
  have ended: "\<exists>b. sw_properly_ended (snd (gm_spans ?st ! i)) b" using sw_gorm.properly own by fastforce
  show ?thesis unfolding gorm_inv_def
  proof (intro conjI allI impI)
    fix s j assume "gm_span_of ?st s = Some j"
    then have j: "gm_span_of st s = Some j" "s \<noteq> stmt" by (auto simp: of split: if_splits)
    then have "j \<noteq> i" using d(3) by blast
    then show "j < length (gm_spans ?st)" "gorm_open_span ?st j"
      using gorm_invD(1,2) [OF assms j(1)] len other by (simp_all add: gorm_open_span_def)
  next
    show "inj_on (gm_span_of ?st) (dom (gm_span_of ?st))"
      using assms by (auto simp: gorm_inv_def of inj_on_def)
  next
    fix j assume "j < length (gm_spans ?st)"
    then show "gorm_open_span ?st j \<or> (\<exists>b. sw_properly_ended (snd (gm_spans ?st ! j)) b)"
      using assms ended other len by (cases "j = i") (auto simp: gorm_inv_def gorm_open_span_def)
  qed
qed (use assms in \<open>simp add: sw_after_callback_def\<close>)

interpretation gorm_sys: invariant_system "gorm_step tr info collect" "\<lambda>_ _. True" gorm_inv
proof
  fix st x
  assume "gorm_inv st"
  then show "gorm_inv (gorm_step tr info collect x st)" by (cases x) (auto intro: before_inv after_inv)
qed



text \<open>The pool of a Postgres dialector never gets the info, whatever the dialector knows.\<close>

theorem sw_gorm_pool_never_gets_info: "sw_gorm_pg_initialize parse peer_of config failed pool = None"
  by (simp add: sw_gorm_pg_initialize_def pool_enhanced_def)

end
