(* ===== verification/Sw_Mongo.thy ===== *)
theory Sw_Mongo
  imports Sw_Tracing
begin

text \<open>
  Model of \<open>skywalking/plugins/mongo\<close>: the command monitor put on the client options, whose spans are completed
  asynchronously.
\<close>

section \<open>The monitor\<close>

text \<open>A monitor of the application, with the callbacks it has; calling one it does not have panics.\<close>

record mongo_monitor =
  mm_started :: bool
  mm_succeeded :: bool
  mm_failed :: bool

text \<open>Elements of a command, by key; \<open>render\<close> prints those that are kept.\<close>

record mongo_started =
  me_request :: int
  me_command :: gostring
  me_connection :: gostring
  me_elements :: "(gostring \<times> gostring) list option"

datatype mongo_event = MongoStarted mongo_started | MongoSucceeded int | MongoFailed int gostring

definition sw_remove_fields_in_stmt :: "gostring list" where
  "sw_remove_fields_in_stmt = [''lsid'', ''$clusterTime'', ''txnNumber'']"

definition sw_getting_statements :: "((gostring \<times> gostring) list \<Rightarrow> gostring) \<Rightarrow> mongo_started \<Rightarrow> gostring" where
  "sw_getting_statements render e =
     (case me_elements e of
        None \<Rightarrow> []
      | Some es \<Rightarrow> render (filter (\<lambda>(k, _). k \<notin> set sw_remove_fields_in_stmt) es))"

text \<open>The spans made, those waiting for the end of their request, and the events the application's monitor was told.\<close>

record mongo_state =
  mo_spans :: "sw_span list"
  mo_pending :: "gostring \<rightharpoonup> nat"
  mo_told :: "mongo_event list"

definition mongo_init :: mongo_state where
  "mongo_init = \<lparr>mo_spans = [], mo_pending = Map.empty, mo_told = []\<rparr>"

definition tell_monitor :: "mongo_monitor option \<Rightarrow> (mongo_monitor \<Rightarrow> bool) \<Rightarrow> mongo_event \<Rightarrow> mongo_state \<Rightarrow> mongo_state option" where
  "tell_monitor user has e st =
     (case user of
        None \<Rightarrow> Some st
      | Some m \<Rightarrow> if has m then Some (st\<lparr>mo_told := mo_told st @ [e]\<rparr>) else None)"

definition sw_mongo_host :: "gostring list \<Rightarrow> gostring \<Rightarrow> gostring" where
  "sw_mongo_host hosts conn =
     (if length hosts > 1
      then (case str_index conn ''['' of
              Some i \<Rightarrow> if i > 0 \<and> has_suffix conn '']'' then take i conn else hosts ! 0
            | None \<Rightarrow> hosts ! 0)
      else hosts ! 0)"

definition sw_mongo_started ::
  "sw_tracer \<Rightarrow> bool \<Rightarrow> ((gostring \<times> gostring) list \<Rightarrow> gostring) \<Rightarrow> gostring list \<Rightarrow> mongo_monitor option \<Rightarrow>
   mongo_started \<Rightarrow> mongo_state \<Rightarrow> mongo_state option" where
  "sw_mongo_started tr collect render hosts user e st0 =
     map_option (\<lambda>st.
         let s = exit_span (''MongoDB/'' @ me_command e) (sw_mongo_host hosts (me_connection e))
               [WithComponent 42, WithLayer LayerDatabase, WithTag TagDBType ''MongoDB'']
         in if tr_creates tr s
            then st\<lparr>mo_spans := mo_spans st @ [(s, (if collect then [SwTag TagDBStatement (sw_getting_statements render e)] else [])
                       @ [SwPrepareAsync, SwEnd])],
                    mo_pending := (mo_pending st)(go_itoa (me_request e) \<mapsto> length (mo_spans st))\<rparr>
            else st)
       (tell_monitor user mm_started (MongoStarted e) st0)"

definition complete_span :: "int \<Rightarrow> sw_call list \<Rightarrow> mongo_state \<Rightarrow> mongo_state" where
  "complete_span req calls st =
     (case mo_pending st (go_itoa req) of
        None \<Rightarrow> st
      | Some i \<Rightarrow>
          st\<lparr>mo_pending := (mo_pending st)(go_itoa req := None),
             mo_spans := (mo_spans st)[i := (fst (mo_spans st ! i), snd (mo_spans st ! i) @ calls)]\<rparr>)"

definition sw_mongo_succeeded :: "mongo_monitor option \<Rightarrow> int \<Rightarrow> mongo_state \<Rightarrow> mongo_state option" where
  "sw_mongo_succeeded user req st =
     map_option (complete_span req [SwAsyncFinish]) (tell_monitor user mm_succeeded (MongoSucceeded req) st)"

definition sw_mongo_failed :: "mongo_monitor option \<Rightarrow> int \<Rightarrow> gostring \<Rightarrow> mongo_state \<Rightarrow> mongo_state option" where
  "sw_mongo_failed user req failure st =
     map_option (complete_span req [SwError [failure], SwAsyncFinish]) (tell_monitor user mm_failed (MongoFailed req failure) st)"

fun sw_mongo_event ::
  "sw_tracer \<Rightarrow> bool \<Rightarrow> ((gostring \<times> gostring) list \<Rightarrow> gostring) \<Rightarrow> gostring list \<Rightarrow> mongo_monitor option \<Rightarrow>
   mongo_event \<Rightarrow> mongo_state \<Rightarrow> mongo_state option" where
  "sw_mongo_event tr collect render hosts user (MongoStarted e) st = sw_mongo_started tr collect render hosts user e st"
| "sw_mongo_event tr collect render hosts user (MongoSucceeded r) st = sw_mongo_succeeded user r st"
| "sw_mongo_event tr collect render hosts user (MongoFailed r f) st = sw_mongo_failed user r f st"

section \<open>Installing it\<close>

text \<open>Client options with hosts and a monitor: the application's, or the one of the rule around an application's.\<close>

datatype mongo_installed = OwnMonitor "mongo_monitor option" | SwMonitor "gostring list" "mongo_monitor option"

definition sw_mongo_install :: "gostring list \<times> mongo_monitor option \<Rightarrow> mongo_installed" where
  "sw_mongo_install x = (case x of (hosts, user) \<Rightarrow> if length hosts = 0 then OwnMonitor user else SwMonitor hosts user)"

definition sw_mongo_new_client :: "(gostring list \<times> mongo_monitor option) list \<Rightarrow> mongo_installed list" where
  "sw_mongo_new_client opts = map sw_mongo_install opts"

section \<open>Properties\<close>

definition finishes :: "sw_call list \<Rightarrow> nat" where
  "finishes log = count_list log SwAsyncFinish"

definition mongo_inv :: "mongo_state \<Rightarrow> bool" where
  "mongo_inv st \<longleftrightarrow>
     (\<forall>r i. mo_pending st r = Some i \<longrightarrow> i < length (mo_spans st) \<and> finishes (snd (mo_spans st ! i)) = 0) \<and>
     (\<forall>r r' i. mo_pending st r = Some i \<and> mo_pending st r' = Some i \<longrightarrow> r = r') \<and>
     (\<forall>(s, log) \<in> set (mo_spans st). finishes log \<le> 1 \<and> count_list log SwEnd = 1)"

lemma started_log:
  "finishes ((if collect then [SwTag TagDBStatement x] else []) @ [SwPrepareAsync, SwEnd]) = 0"
  "count_list ((if collect then [SwTag TagDBStatement x] else []) @ [SwPrepareAsync, SwEnd]) SwEnd = 1"
  by (simp_all add: finishes_def)

lemma mongo_add_inv:
  assumes "mongo_inv st" "finishes log = 0" "count_list log SwEnd = 1"
  shows "mongo_inv (st\<lparr>mo_spans := mo_spans st @ [(s, log)], mo_pending := (mo_pending st)(k \<mapsto> length (mo_spans st))\<rparr>)"
  unfolding mongo_inv_def
proof (intro conjI allI impI)
  let ?st = "st\<lparr>mo_spans := mo_spans st @ [(s, log)], mo_pending := (mo_pending st)(k \<mapsto> length (mo_spans st))\<rparr>"
  have old: "mo_pending st r = Some i \<Longrightarrow> i < length (mo_spans st) \<and> finishes (snd (mo_spans st ! i)) = 0" for r i
    using assms(1) by (simp add: mongo_inv_def)
  fix r i assume r: "mo_pending ?st r = Some i"
  show "i < length (mo_spans ?st)" "finishes (snd (mo_spans ?st ! i)) = 0"
    using r old [of r i] assms(2) by (auto simp: nth_append split: if_splits)
next
  fix r r' i
  assume "mo_pending (st\<lparr>mo_spans := mo_spans st @ [(s, log)], mo_pending := (mo_pending st)(k \<mapsto> length (mo_spans st))\<rparr>) r = Some i \<and>
    mo_pending (st\<lparr>mo_spans := mo_spans st @ [(s, log)], mo_pending := (mo_pending st)(k \<mapsto> length (mo_spans st))\<rparr>) r' = Some i"
  then show "r = r'" using assms(1) by (fastforce simp: mongo_inv_def split: if_splits)
qed (use assms in \<open>auto simp: mongo_inv_def\<close>)

lemma complete_span_spans:
  assumes "mo_pending st (go_itoa req) = Some i"
  shows "mo_spans (complete_span req calls st) = (mo_spans st)[i := (fst (mo_spans st ! i), snd (mo_spans st ! i) @ calls)]"
    and "mo_pending (complete_span req calls st) = (mo_pending st)(go_itoa req := None)"
  using assms by (simp_all add: complete_span_def)

lemma complete_inv:
  assumes "mongo_inv st" "finishes calls = 1" "SwEnd \<notin> set calls"
  shows "mongo_inv (complete_span req calls st)"
proof (cases "mo_pending st (go_itoa req)")
  case (Some i)
  note c = complete_span_spans [OF Some, of calls]
  have i: "i < length (mo_spans st)" "finishes (snd (mo_spans st ! i)) = 0" and
    uniq: "mo_pending st r = Some i \<Longrightarrow> r = go_itoa req" for r
    using assms(1) Some by (auto simp: mongo_inv_def)
  show ?thesis unfolding mongo_inv_def
  proof (intro conjI allI impI)
    fix r j assume "mo_pending (complete_span req calls st) r = Some j"
    then have j: "mo_pending st r = Some j" "r \<noteq> go_itoa req" by (auto simp: c split: if_splits)
    then have "j \<noteq> i" using uniq by blast
    then show "j < length (mo_spans (complete_span req calls st))" "finishes (snd (mo_spans (complete_span req calls st) ! j)) = 0"
      using assms(1) j(1) by (auto simp: mongo_inv_def c)
  next
    fix r r' j
    assume "mo_pending (complete_span req calls st) r = Some j \<and> mo_pending (complete_span req calls st) r' = Some j"
    then show "r = r'" using assms(1) by (auto simp: mongo_inv_def c split: if_splits)
  next
    have "mo_spans st ! i \<in> set (mo_spans st)" using i(1) by simp
    then have "count_list (snd (mo_spans st ! i)) SwEnd = 1" using assms(1) by (force simp: mongo_inv_def)
    then show "\<forall>(s, log) \<in> set (mo_spans (complete_span req calls st)). finishes log \<le> 1 \<and> count_list log SwEnd = 1"
      using assms i(2) set_update_subset_insert [of "mo_spans st" i] by (fastforce simp: mongo_inv_def c finishes_def count_list_0_iff)
  qed
qed (use assms(1) in \<open>simp add: complete_span_def\<close>)

text \<open>Telling the application leaves the spans alone.\<close>

lemma tell_monitor_inv: "tell_monitor user has e st = Some st' \<Longrightarrow> mongo_inv st' = mongo_inv st \<and> mo_pending st' = mo_pending st \<and> mo_spans st' = mo_spans st"
  by (auto simp: tell_monitor_def mongo_inv_def split: option.splits if_splits)

lemma mongo_event_inv:
  assumes "mongo_inv st" "sw_mongo_event tr collect render hosts user e st = Some st'"
  shows "mongo_inv st'"
proof (cases e)
  case (MongoStarted s)
  then show ?thesis using assms
    by (auto simp: sw_mongo_started_def Let_def finishes_def dest!: tell_monitor_inv intro!: mongo_add_inv split: if_splits)
next
  case (MongoSucceeded r)
  then show ?thesis using assms
    by (auto simp: sw_mongo_succeeded_def finishes_def dest!: tell_monitor_inv intro!: complete_inv)
next
  case (MongoFailed r f)
  then show ?thesis using assms
    by (auto simp: sw_mongo_failed_def finishes_def dest!: tell_monitor_inv intro!: complete_inv)
qed

text \<open>The events of a client, in the order they are delivered; a panic ends the run.\<close>

fun mongo_run ::
  "sw_tracer \<Rightarrow> bool \<Rightarrow> ((gostring \<times> gostring) list \<Rightarrow> gostring) \<Rightarrow> gostring list \<Rightarrow> mongo_monitor option \<Rightarrow>
   mongo_event list \<Rightarrow> mongo_state \<Rightarrow> mongo_state option" where
  "mongo_run tr collect render hosts user [] st = Some st"
| "mongo_run tr collect render hosts user (e # es) st =
     (case sw_mongo_event tr collect render hosts user e st of
        None \<Rightarrow> None | Some st' \<Rightarrow> mongo_run tr collect render hosts user es st')"

lemma mongo_run_inv:
  "mongo_inv st \<Longrightarrow> mongo_run tr collect render hosts user es st = Some st' \<Longrightarrow> mongo_inv st'"
  by (induction es arbitrary: st) (auto split: option.splits intro: mongo_event_inv)

lemma mongo_event_told:
  "sw_mongo_event tr collect render hosts user e st = Some st' \<Longrightarrow>
   mo_told st' = mo_told st @ (if user = None then [] else [e])"
  by (cases e)
    (auto simp: sw_mongo_started_def sw_mongo_succeeded_def sw_mongo_failed_def tell_monitor_def complete_span_def Let_def
      split: option.splits if_splits)

lemma mongo_run_told:
  "mongo_run tr collect render hosts user es st = Some st' \<Longrightarrow> mo_told st' = mo_told st @ (if user = None then [] else es)"
  by (induction es arbitrary: st) (auto split: option.splits dest!: mongo_event_told)



text \<open>An application whose monitor lacks a callback gets a panic from the rule's.\<close>

theorem sw_mongo_partial_monitor_panics:
  "\<not> mm_started m \<Longrightarrow> sw_mongo_started tr collect render hosts (Some m) e st = None"
  by (simp add: sw_mongo_started_def tell_monitor_def)

end
