(* ===== verification/Sw_Runtime_Metrics.thy ===== *)
theory Sw_Runtime_Metrics
  imports Complex_Main Go_Prelude Transition_Systems
begin

text \<open>
  The runtime metrics of the SkyWalking port, \<open>skywalking/plugins/runtimemetrics/runtimemetrics.go\<close>: the table of the
  reported metrics, their registration and the hook that runs before each collection.  What \<open>runtime/metrics\<close> has is a
  parameter: the names it knows and, at each collection, the value it gives a name.
\<close>

section \<open>Floating point\<close>

text \<open>
  A \<open>float64\<close> is an exact rational or one of the special values; a zero has no sign.  Rounding an exact result is a
  parameter of the operations.
\<close>

datatype go_float = NegInf | Fin rat | PosInf | NaN

type_synonym rounding = "rat \<Rightarrow> go_float"

definition max_float64 :: rat where
  "max_float64 = (2 ^ 53 - 1) * 2 ^ 971"

fun fl_add :: "rounding \<Rightarrow> go_float \<Rightarrow> go_float \<Rightarrow> go_float" where
  "fl_add rnd (Fin a) (Fin b) = rnd (a + b)"
| "fl_add rnd NaN _ = NaN"
| "fl_add rnd _ NaN = NaN"
| "fl_add rnd (Fin _) b = b"
| "fl_add rnd a (Fin _) = a"
| "fl_add rnd PosInf PosInf = PosInf"
| "fl_add rnd NegInf NegInf = NegInf"
| "fl_add rnd PosInf NegInf = NaN"
| "fl_add rnd NegInf PosInf = NaN"

text \<open>\<open>b*float64(m)\<close> for a positive \<open>m\<close>.\<close>

fun fl_times :: "rounding \<Rightarrow> int \<Rightarrow> go_float \<Rightarrow> go_float" where
  "fl_times rnd m (Fin a) = rnd (a * of_int m)"
| "fl_times rnd m b = b"

text \<open>\<open>b > math.MaxFloat64 || b < 0\<close>.\<close>

fun bucket_skipped :: "go_float \<Rightarrow> bool" where
  "bucket_skipped (Fin a) = (a > max_float64 \<or> a < 0)"
| "bucket_skipped NegInf = True"
| "bucket_skipped PosInf = True"
| "bucket_skipped NaN = False"

section \<open>The meters\<close>

text \<open>
  The value of a sample; one that was not read is bad.  \<open>mt_gauge_metric\<close> says that a gauge was registered, \<open>mt_histogram_metric\<close>
  holds the steps the histogram was made with, and \<open>mt_observed\<close> what it was told, a value with a count.
\<close>

datatype sample_value = KindBad | KindUint64 "64 word" | KindFloat64 go_float
  | KindHistogram (hist_counts: "64 word list") (hist_buckets: "go_float list")

record meter_info =
  mt_name :: gostring
  mt_tag_opts :: "(gostring \<times> gostring) list"
  mt_is_histogram :: bool
  mt_multiple :: int
  mt_gauge_value :: go_float
  mt_gauge_metric :: bool
  mt_latest :: "64 word list option"
  mt_histogram_metric :: "go_float list option"
  mt_observed :: "(go_float \<times> 64 word) list"
  mt_start :: nat
  mt_needs :: "gostring list"
  mt_combined_metric :: bool
  mt_combined_value :: go_float

definition new_metrics_gauge_replace_info :: "gostring \<Rightarrow> (gostring \<times> gostring) list \<Rightarrow> meter_info" where
  "new_metrics_gauge_replace_info nm tags =
     \<lparr>mt_name = nm, mt_tag_opts = tags, mt_is_histogram = False, mt_multiple = 0, mt_gauge_value = Fin 0,
      mt_gauge_metric = False, mt_latest = None, mt_histogram_metric = None, mt_observed = [], mt_start = 0,
      mt_needs = [], mt_combined_metric = False, mt_combined_value = Fin 0\<rparr>"

definition new_metrics_histogram_replace_info :: "gostring \<Rightarrow> int \<Rightarrow> meter_info" where
  "new_metrics_histogram_replace_info nm multiples =
     (new_metrics_gauge_replace_info nm [])\<lparr>mt_is_histogram := True, mt_multiple := multiples\<rparr>"

definition new_combined_gauge_info :: "gostring \<Rightarrow> gostring list \<Rightarrow> (gostring \<times> gostring) list \<Rightarrow> meter_info" where
  "new_combined_gauge_info nm needs tags = (new_metrics_gauge_replace_info nm tags)\<lparr>mt_needs := needs\<rparr>"

text \<open>The rows of the table: a gauge with its value of the label \<open>type\<close>, if it has one, and a histogram with its multiple.\<close>

definition gauge_rows :: "(gostring \<times> gostring \<times> gostring option) list" where
  "gauge_rows =
     [(''/gc/cycles/automatic:gc-cycles'', ''instance_golang_gc_count_labeled'', Some ''automatic''),
      (''/gc/cycles/forced:gc-cycles'', ''instance_golang_gc_count_labeled'', Some ''forced''),
      (''/gc/cycles/total:gc-cycles'', ''instance_golang_gc_count_labeled'', Some ''total''),
      (''/gc/heap/allocs:bytes'', ''instance_golang_heap_alloc_size'', None),
      (''/gc/heap/allocs:objects'', ''instance_golang_heap_alloc_objects'', None),
      (''/gc/heap/frees:bytes'', ''instance_golang_heap_frees'', None),
      (''/gc/heap/frees:objects'', ''instance_golang_heap_frees_objects'', None),
      (''/memory/classes/heap/free:bytes'', ''instance_golang_memory_heap_labeled'', Some ''free''),
      (''/memory/classes/heap/objects:bytes'', ''instance_golang_memory_heap_labeled'', Some ''objects''),
      (''/memory/classes/heap/released:bytes'', ''instance_golang_memory_heap_labeled'', Some ''released''),
      (''/memory/classes/heap/stacks:bytes'', ''instance_golang_memory_heap_labeled'', Some ''stacks''),
      (''/memory/classes/heap/unused:bytes'', ''instance_golang_memory_heap_labeled'', Some ''unused''),
      (''/memory/classes/metadata/mcache/free:bytes'', ''instance_golang_metadata_mcache_labeled'', Some ''free''),
      (''/memory/classes/metadata/mcache/inuse:bytes'', ''instance_golang_metadata_mcache_labeled'', Some ''inuse''),
      (''/memory/classes/metadata/mspan/free:bytes'', ''instance_golang_metadata_mspan_labeled'', Some ''free''),
      (''/memory/classes/metadata/mspan/inuse:bytes'', ''instance_golang_metadata_mspan_labeled'', Some ''inuse''),
      (''/sched/gomaxprocs:threads'', ''instance_golang_os_threads_num'', None),
      (''/sched/goroutines:goroutines'', ''instance_golang_live_goroutines_num'', None),
      (''/cgo/go-to-c-calls:calls'', ''instance_golang_cgo_calls'', None),
      (''/gc/heap/goal:bytes'', ''instance_golang_gc_heap_goal'', None),
      (''/gc/heap/objects:objects'', ''instance_golang_gc_heap_objects'', None),
      (''/gc/heap/tiny/allocs:objects'', ''instance_golang_gc_heap_tiny_allocs'', None),
      (''/gc/limiter/last-enabled:gc-cycle'', ''instance_golang_gc_limiter_last_enabled'', None),
      (''/gc/stack/starting-size:bytes'', ''instance_golang_gc_stack_starting_size'', None),
      (''/memory/classes/metadata/other:bytes'', ''instance_golang_memory_metadata_other'', None),
      (''/memory/classes/os-stacks:bytes'', ''instance_golang_memory_os_stacks'', None),
      (''/memory/classes/other:bytes'', ''instance_golang_memory_other'', None),
      (''/memory/classes/profiling/buckets:bytes'', ''instance_golang_memory_profiling_buckets'', None),
      (''/memory/classes/total:bytes'', ''instance_golang_memory_total'', None)]"

definition histogram_rows :: "(gostring \<times> gostring \<times> int) list" where
  "histogram_rows =
     [(''/gc/heap/allocs-by-size:bytes'', ''instance_golang_gc_heap_allocs_by_size'', 1),
      (''/gc/heap/frees-by-size:bytes'', ''instance_golang_gc_heap_frees_by_size'', 1),
      (''/gc/pauses:seconds'', ''instance_golang_gc_pauses'', 1000000000),
      (''/sched/latencies:seconds'', ''instance_golang_sched_latencies'', 1000000000)]"

definition name_replacing :: "(gostring \<times> meter_info) list" where
  "name_replacing =
     map (\<lambda>(key, nm, ty). (key, new_metrics_gauge_replace_info nm (case ty of None \<Rightarrow> [] | Some t \<Rightarrow> [(''type'', t)]))) gauge_rows @
     map (\<lambda>(key, nm, k). (key, new_metrics_histogram_replace_info nm k)) histogram_rows"

definition combined_metrics :: "meter_info list" where
  "combined_metrics =
     [new_combined_gauge_info ''instance_golang_memory_heap_labeled''
        [''/memory/classes/heap/free:bytes'', ''/memory/classes/heap/objects:bytes'', ''/memory/classes/heap/released:bytes'',
         ''/memory/classes/heap/stacks:bytes'', ''/memory/classes/heap/unused:bytes''] [(''type'', ''total'')]]"

section \<open>Reading samples\<close>

definition reading_float64 :: "rounding \<Rightarrow> sample_value \<Rightarrow> go_float option" where
  "reading_float64 rnd v =
     (case v of KindUint64 w \<Rightarrow> Some (rnd (of_int (uint w))) | KindFloat64 f \<Rightarrow> Some f | _ \<Rightarrow> None)"

definition reading_histogram :: "sample_value \<Rightarrow> (64 word list \<times> go_float list) option" where
  "reading_histogram v = (case v of KindHistogram cs bs \<Rightarrow> Some (cs, bs) | _ \<Rightarrow> None)"

text \<open>One bucket of the loop of \<open>initHistogramIfNeeds\<close>: the steps, the start index and whether a step was added.\<close>

fun scan_bucket :: "rounding \<Rightarrow> int \<Rightarrow> go_float \<Rightarrow> go_float list \<times> nat \<times> bool \<Rightarrow> go_float list \<times> nat \<times> bool" where
  "scan_bucket rnd m b (steps, start, added) =
     (if bucket_skipped b then (steps, (if added then start else Suc start), added)
      else (steps @ [fl_times rnd m b], start, True))"

definition init_histogram_if_needs :: "rounding \<Rightarrow> sample_value \<Rightarrow> meter_info \<Rightarrow> meter_info" where
  "init_histogram_if_needs rnd v m =
     (if mt_histogram_metric m \<noteq> None then m
      else case reading_histogram v of
        None \<Rightarrow> m
      | Some (cs, bs) \<Rightarrow>
          (case fold (scan_bucket rnd (mt_multiple m)) bs ([], 0, False) of
             (steps, start, added) \<Rightarrow>
               m\<lparr>mt_start := start, mt_histogram_metric := Some steps, mt_latest := Some (replicate (length steps) 0)\<rparr>))"

text \<open>\<open>init\<close> reads into a copy of the sample, so the histogram is made from one that has no value.\<close>

definition meter_init :: "rounding \<Rightarrow> meter_info \<Rightarrow> meter_info" where
  "meter_init rnd m =
     (if \<not> mt_is_histogram m then m\<lparr>mt_gauge_metric := True\<rparr> else init_histogram_if_needs rnd KindBad m)"

definition init_with_combined :: "meter_info \<Rightarrow> meter_info" where
  "init_with_combined m = m\<lparr>mt_combined_metric := True\<rparr>"

text \<open>The loop over the counts; the bucket of a count that is out of range panics.\<close>

fun observe_counts :: "rounding \<Rightarrow> nat \<Rightarrow> 64 word list \<Rightarrow> go_float list \<Rightarrow> meter_info \<Rightarrow> meter_info option" where
  "observe_counts rnd i [] bs m = Some m"
| "observe_counts rnd i (val # vals) bs m =
     (if i < mt_start m then observe_counts rnd (Suc i) vals bs m
      else case mt_latest m of
        None \<Rightarrow> Some m
      | Some latest \<Rightarrow>
          if length latest \<le> i then Some m
          else let add = val - latest ! i
               in if 0 < sint add
                  then if i < length bs
                       then observe_counts rnd (Suc i) vals bs
                              (m\<lparr>mt_observed := mt_observed m @ [(fl_times rnd (mt_multiple m) (bs ! i), add)],
                                 mt_latest := Some (latest[i := val])\<rparr>)
                       else None
                  else observe_counts rnd (Suc i) vals bs m)"

definition update_metric_value :: "rounding \<Rightarrow> sample_value \<Rightarrow> meter_info \<Rightarrow> meter_info option" where
  "update_metric_value rnd v m =
     (if \<not> mt_is_histogram m
      then Some (case reading_float64 rnd v of Some f \<Rightarrow> m\<lparr>mt_gauge_value := f\<rparr> | None \<Rightarrow> m)
      else let m' = init_histogram_if_needs rnd v m
           in if mt_histogram_metric m' = None \<or> mt_latest m' = None then Some m'
              else case reading_histogram v of
                None \<Rightarrow> Some m'
              | Some (cs, bs) \<Rightarrow> observe_counts rnd 0 cs bs m')"

definition combined_reading :: "rounding \<Rightarrow> (gostring \<times> sample_value) list \<Rightarrow> gostring \<Rightarrow> go_float \<Rightarrow> go_float" where
  "combined_reading rnd samples nm acc =
     (case map_of samples nm of
        None \<Rightarrow> acc
      | Some v \<Rightarrow> (case reading_float64 rnd v of Some f \<Rightarrow> fl_add rnd acc f | None \<Rightarrow> acc))"

definition update_combined_metric_value :: "rounding \<Rightarrow> (gostring \<times> sample_value) list \<Rightarrow> meter_info \<Rightarrow> meter_info" where
  "update_combined_metric_value rnd samples m =
     m\<lparr>mt_combined_value := fold (combined_reading rnd samples) (mt_needs m) (Fin 0)\<rparr>"

section \<open>Registration and collection\<close>

text \<open>The table and the combined meters are changed in place; \<open>rm_samples\<close> are the names of the samples, the keys of \<open>infos\<close>.\<close>

record runtime_meters =
  rm_table :: "gostring \<Rightarrow> meter_info option"
  rm_samples :: "gostring list"
  rm_combined :: "meter_info list"

definition register_one :: "rounding \<Rightarrow> gostring \<Rightarrow> runtime_meters \<Rightarrow> runtime_meters" where
  "register_one rnd nm st =
     (case rm_table st nm of
        None \<Rightarrow> st
      | Some info \<Rightarrow> st\<lparr>rm_samples := rm_samples st @ [nm], rm_table := (rm_table st)(nm \<mapsto> meter_init rnd info)\<rparr>)"

definition register_metrics :: "rounding \<Rightarrow> gostring list \<Rightarrow> runtime_meters" where
  "register_metrics rnd all_metrics =
     (let st = fold (register_one rnd) all_metrics
                 \<lparr>rm_table = map_of name_replacing, rm_samples = [], rm_combined = combined_metrics\<rparr>
      in st\<lparr>rm_combined := map init_with_combined (rm_combined st)\<rparr>)"

definition update_sample :: "rounding \<Rightarrow> (gostring \<Rightarrow> sample_value) \<Rightarrow> gostring \<Rightarrow> runtime_meters option \<Rightarrow> runtime_meters option" where
  "update_sample rnd read_value nm ost =
     (case ost of
        None \<Rightarrow> None
      | Some st \<Rightarrow>
          (case rm_table st nm of
             None \<Rightarrow> Some st
           | Some i \<Rightarrow> map_option (\<lambda>i'. st\<lparr>rm_table := (rm_table st)(nm \<mapsto> i')\<rparr>) (update_metric_value rnd (read_value nm) i)))"

definition before_collect :: "rounding \<Rightarrow> (gostring \<Rightarrow> sample_value) \<Rightarrow> runtime_meters \<Rightarrow> runtime_meters option" where
  "before_collect rnd read_value st =
     map_option
       (\<lambda>st'. st'\<lparr>rm_combined :=
          map (update_combined_metric_value rnd (map (\<lambda>nm. (nm, read_value nm)) (rm_samples st'))) (rm_combined st')\<rparr>)
       (fold (update_sample rnd read_value) (rm_samples st) (Some st))"

end
