(* ===== verification/Sw_Runtime_Metrics_Props.thy ===== *)
theory Sw_Runtime_Metrics_Props
  imports Sw_Runtime_Metrics
begin

text \<open>
  What the runtime metrics report: the histogram accounts for the counts of the runtime, bucket by bucket and whatever
  the collections in between, and the gauges show the values of the last collection.
\<close>

section \<open>The loops in closed form\<close>

text \<open>The indices the loop observes, and the steps and the start of a histogram.\<close>

definition grown :: "nat \<Rightarrow> 64 word list \<Rightarrow> 64 word list \<Rightarrow> nat list \<Rightarrow> nat list" where
  "grown start latest cs js = filter (\<lambda>j. start \<le> j \<and> j < length latest \<and> 0 < sint (cs ! j - latest ! j)) js"

definition hist_start :: "go_float list \<Rightarrow> nat" where
  "hist_start bs = length (takeWhile bucket_skipped bs)"

definition hist_steps :: "rounding \<Rightarrow> int \<Rightarrow> go_float list \<Rightarrow> go_float list" where
  "hist_steps rnd m bs = map (fl_times rnd m) (filter (\<lambda>b. \<not> bucket_skipped b) bs)"

lemma scan_added: "fold (scan_bucket rnd m) bs (xs, k, True) = (xs @ hist_steps rnd m bs, k, True)"
  by (induction bs arbitrary: xs) (auto simp: hist_steps_def)

lemma scan_fresh:
  "fold (scan_bucket rnd m) bs ([], k, False) = (hist_steps rnd m bs, k + hist_start bs, list_ex (\<lambda>b. \<not> bucket_skipped b) bs)"
  by (induction bs arbitrary: k) (auto simp: hist_start_def hist_steps_def scan_added)

lemma observe_counts_grown:
  assumes "mt_latest m = Some latest" and "i + length vals = length cs" and "drop i cs = vals" and "length cs \<le> length bs"
  shows "observe_counts rnd i vals bs m =
    (let js = grown (mt_start m) latest cs [i ..< length cs]
     in Some (m\<lparr>mt_observed := mt_observed m @ map (\<lambda>j. (fl_times rnd (mt_multiple m) (bs ! j), cs ! j - latest ! j)) js,
                mt_latest := Some (fold (\<lambda>j l. l[j := cs ! j]) js latest)\<rparr>))"
  using assms
proof (induction vals arbitrary: i m latest)
  case Nil
  then show ?case by (simp add: grown_def)
next
  case (Cons v vals)
  have step: "drop (Suc i) cs = vals" "v = cs ! i" "i < length cs"
    using Cons.prems by (auto simp: drop_Suc nth_via_drop tl_drop [symmetric])
  have range: "[i ..< length cs] = i # [Suc i ..< length cs]" using step(3) by (simp add: upt_rec)
  show ?case
  proof (cases "length latest \<le> i \<and> mt_start m \<le> i")
    case True
    then have "grown (mt_start m) latest cs [i ..< length cs] = []" by (auto simp: grown_def filter_empty_conv)
    then show ?thesis using True Cons.prems(1) by (simp add: Let_def)
  next
    case False
    let ?t = "m\<lparr>mt_observed := mt_observed m @ [(fl_times rnd (mt_multiple m) (bs ! i), v - latest ! i)],
      mt_latest := Some (latest[i := v])\<rparr>"
    have other: "grown (mt_start m) (latest[i := v]) cs [Suc i ..< length cs] = grown (mt_start m) latest cs [Suc i ..< length cs]"
      by (auto simp: grown_def intro!: filter_cong)
    have "\<And>j. j \<in> set (grown (mt_start m) latest cs [Suc i ..< length cs]) \<Longrightarrow> latest[i := v] ! j = latest ! j"
      by (auto simp: grown_def)
    then have "map (\<lambda>j. (fl_times rnd (mt_multiple m) (bs ! j), cs ! j - latest[i := v] ! j)) (grown (mt_start m) latest cs [Suc i ..< length cs])
        = map (\<lambda>j. (fl_times rnd (mt_multiple m) (bs ! j), cs ! j - latest ! j)) (grown (mt_start m) latest cs [Suc i ..< length cs])"
      by simp
    then show ?thesis
      using False Cons.prems Cons.IH [of m latest "Suc i"] Cons.IH [of ?t "latest[i := v]" "Suc i"] step range other
      by (auto simp: grown_def Let_def)
  qed
qed

section \<open>The accounting invariant\<close>

definition reported :: "go_float list \<Rightarrow> nat list" where
  "reported bs = [hist_start bs ..< min (length (filter (\<lambda>b. \<not> bucket_skipped b) bs)) (length bs - 1)]"

text \<open>How often the histogram was told a value, and the counts that have it as their scaled lower bound.\<close>

definition observed_at :: "go_float \<Rightarrow> meter_info \<Rightarrow> int" where
  "observed_at v m = (\<Sum>(b, w) \<leftarrow> mt_observed m. if b = v then uint w else 0)"

definition counted_at :: "rounding \<Rightarrow> int \<Rightarrow> go_float list \<Rightarrow> 64 word list \<Rightarrow> go_float \<Rightarrow> int" where
  "counted_at rnd k bs cs v = (\<Sum>j \<leftarrow> reported bs. if fl_times rnd k (bs ! j) = v then uint (cs ! j) else 0)"

text \<open>The counts of a runtime histogram with these buckets, none of them out of the range of \<open>int64\<close>.\<close>

definition counts_of :: "go_float list \<Rightarrow> 64 word list \<Rightarrow> bool" where
  "counts_of bs cs \<longleftrightarrow> length bs = Suc (length cs) \<and> list_all (\<lambda>c. c < 2 ^ 63) cs"

definition hist_inv :: "rounding \<Rightarrow> int \<Rightarrow> go_float list \<Rightarrow> 64 word list \<Rightarrow> meter_info \<Rightarrow> bool" where
  "hist_inv rnd k bs cs m \<longleftrightarrow>
     mt_is_histogram m \<and> mt_multiple m = k \<and> mt_histogram_metric m = Some (hist_steps rnd k bs) \<and> mt_start m = hist_start bs \<and>
     mt_latest m = Some (map (\<lambda>i. if i \<in> set (reported bs) then cs ! i else 0) [0 ..< length (hist_steps rnd k bs)]) \<and>
     (\<forall>v. observed_at v m = counted_at rnd k bs cs v)"

lemma count_diff:
  fixes a b :: "64 word"
  assumes "a \<le> b" and "b < 2 ^ 63"
  shows "sint (b - a) = uint b - uint a" "uint (b - a) = uint b - uint a"
proof -
  have ab: "uint a \<le> uint b" using assms(1) by (simp add: word_le_def)
  have b: "uint b < 2 ^ 63" using assms(2) by (simp add: word_less_def)
  show diff: "uint (b - a) = uint b - uint a" using assms(1) by (simp add: uint_minus_simple_alt [symmetric])
  have "0 \<le> uint (b - a)" "uint (b - a) < 2 ^ 63" using ab b uint_ge_0 [of a] unfolding diff by linarith+
  moreover have "- (2 ^ 63) \<le> uint (b - a)" by (rule order_trans [of _ 0]) simp_all
  ultimately have "sint (b - a) = uint (b - a)" by (simp add: sint_uint signed_take_bit_int_eq_self)
  then show "sint (b - a) = uint b - uint a" using diff by simp
qed

lemma fold_update:
  "fold (\<lambda>j l. l[j := c j]) js l = map (\<lambda>k. if k \<in> set js then c k else l ! k) [0 ..< length l]"
  by (induction js arbitrary: l) (auto intro!: nth_equalityI simp: nth_list_update)

lemma hist_start_le: "hist_start bs \<le> length bs"
  by (simp add: hist_start_def length_takeWhile_le)

lemma set_reported [simp]:
  "j \<in> set (reported bs) \<longleftrightarrow> hist_start bs \<le> j \<and> j < length (filter (\<lambda>b. \<not> bucket_skipped b) bs) \<and> j < length bs - 1"
  by (auto simp: reported_def)

lemma observed_append:
  "observed_at v (m\<lparr>mt_observed := mt_observed m @ map (\<lambda>j. (f j, g j)) js, mt_latest := l\<rparr>)
     = observed_at v m + (\<Sum>j \<leftarrow> js. if f j = v then uint (g j) else 0)"
  by (simp add: observed_at_def comp_def split_def cong: if_cong)

text \<open>One collection with larger counts observes exactly what was added to each bucket.\<close>

lemma grown_sum:
  assumes "length cs = n" and "length bs = Suc n" and "length ds = n"
    and "\<And>j. j < n \<Longrightarrow> cs ! j \<le> ds ! j \<and> ds ! j < 2 ^ 63"
    and latest: "latest = map (\<lambda>i. if i \<in> set (reported bs) then cs ! i else 0) [0 ..< length (hist_steps rnd k bs)]"
  shows "(\<Sum>j \<leftarrow> grown (hist_start bs) latest ds [0 ..< n]. if sc j = v then uint (ds ! j - latest ! j) else 0)
     = (\<Sum>j \<leftarrow> reported bs. if sc j = v then uint (ds ! j) - uint (cs ! j) else 0)"
    and "map (\<lambda>i. if i \<in> set (grown (hist_start bs) latest ds [0 ..< n]) then ds ! i else latest ! i) [0 ..< length latest]
     = map (\<lambda>i. if i \<in> set (reported bs) then ds ! i else 0) [0 ..< length (hist_steps rnd k bs)]"
proof -
  let ?g = "grown (hist_start bs) latest ds [0 ..< n]"
  have len: "length latest = length (filter (\<lambda>b. \<not> bucket_skipped b) bs)" by (simp add: latest hist_steps_def)
  have in_g: "j \<in> set ?g \<longleftrightarrow> j \<in> set (reported bs) \<and> uint (cs ! j) < uint (ds ! j)" for j
  proof (cases "j \<in> set (reported bs)")
    case True
    then have "latest ! j = cs ! j" "j < n" using assms(2) len by (auto simp: latest hist_steps_def)
    then show ?thesis using True count_diff [of "cs ! j" "ds ! j"] assms len by (auto simp: grown_def)
  next
    case False
    then show ?thesis using assms(2) len by (auto simp: grown_def)
  qed
  have latest_at: "latest ! j = cs ! j" if "j \<in> set (reported bs)" for j using that len by (auto simp: latest hist_steps_def)
  have le: "uint (cs ! j) \<le> uint (ds ! j)" "j < n" if "j \<in> set (reported bs)" for j
    using that assms(2,4) by (auto simp: word_le_def)
  have "(\<Sum>j \<leftarrow> ?g. if sc j = v then uint (ds ! j - latest ! j) else 0) = (\<Sum>j \<in> set ?g. if sc j = v then uint (ds ! j - latest ! j) else 0)"
    by (rule sum_list_distinct_conv_sum_set) (simp add: grown_def)
  also have "\<dots> = (\<Sum>j \<in> set ?g. if sc j = v then uint (ds ! j) - uint (cs ! j) else 0)"
    using in_g latest_at le assms(4) by (intro sum.cong) (auto simp: count_diff(2))
  also have "\<dots> = (\<Sum>j \<in> set (reported bs). if sc j = v then uint (ds ! j) - uint (cs ! j) else 0)"
    using in_g le by (intro sum.mono_neutral_left) (auto simp del: set_reported, force)
  also have "\<dots> = (\<Sum>j \<leftarrow> reported bs. if sc j = v then uint (ds ! j) - uint (cs ! j) else 0)"
    by (rule sum_list_distinct_conv_sum_set [symmetric]) (simp add: reported_def)
  finally show "(\<Sum>j \<leftarrow> ?g. if sc j = v then uint (ds ! j - latest ! j) else 0)
     = (\<Sum>j \<leftarrow> reported bs. if sc j = v then uint (ds ! j) - uint (cs ! j) else 0)" .
  show "map (\<lambda>i. if i \<in> set ?g then ds ! i else latest ! i) [0 ..< length latest]
     = map (\<lambda>i. if i \<in> set (reported bs) then ds ! i else 0) [0 ..< length (hist_steps rnd k bs)]"
  proof (rule nth_equalityI)
    fix i assume "i < length (map (\<lambda>i. if i \<in> set ?g then ds ! i else latest ! i) [0 ..< length latest])"
    then have i: "i < length latest" by simp
    show "map (\<lambda>i. if i \<in> set ?g then ds ! i else latest ! i) [0 ..< length latest] ! i
      = map (\<lambda>i. if i \<in> set (reported bs) then ds ! i else 0) [0 ..< length (hist_steps rnd k bs)] ! i"
    proof (cases "i \<in> set (reported bs)")
      case True
      then have "ds ! i = cs ! i" if "i \<notin> set ?g" using that in_g le(1) [OF True] by (simp add: word_uint_eq_iff)
      then show ?thesis using True i latest_at by (auto simp: latest simp del: set_reported)
    next
      case False
      then show ?thesis using i in_g by (auto simp: latest simp del: set_reported)
    qed
  qed (simp add: latest)
qed

lemma init_histogram:
  assumes "mt_histogram_metric m = None"
  shows "init_histogram_if_needs rnd (KindHistogram cs bs) m =
    m\<lparr>mt_start := hist_start bs, mt_histogram_metric := Some (hist_steps rnd (mt_multiple m) bs),
      mt_latest := Some (replicate (length (hist_steps rnd (mt_multiple m) bs)) 0)\<rparr>"
  using assms by (simp add: init_histogram_if_needs_def reading_histogram_def scan_fresh)

lemma update_known:
  assumes "hist_inv rnd k bs cs m" and "counts_of bs cs" "counts_of bs ds" and "list_all2 (\<le>) cs ds"
  shows "\<exists>m'. update_metric_value rnd (KindHistogram ds bs) m = Some m' \<and> hist_inv rnd k bs ds m'"
proof -
  let ?latest = "map (\<lambda>i. if i \<in> set (reported bs) then cs ! i else 0) [0 ..< length (hist_steps rnd k bs)]"
  let ?js = "grown (hist_start bs) ?latest ds [0 ..< length ds]"
  note m = assms(1) [unfolded hist_inv_def]
  have lens: "length ds = length cs" "length bs = Suc (length cs)" using assms(2,3) by (auto simp: counts_of_def)
  have mono: "cs ! j \<le> ds ! j \<and> ds ! j < 2 ^ 63" if "j < length cs" for j
    using that assms(3,4) lens by (auto simp: counts_of_def list_all_length list_all2_conv_all_nth)
  let ?m = "m\<lparr>mt_observed := mt_observed m @ map (\<lambda>j. (fl_times rnd k (bs ! j), ds ! j - ?latest ! j)) ?js,
    mt_latest := Some (fold (\<lambda>j l. l[j := ds ! j]) ?js ?latest)\<rparr>"
  have "observe_counts rnd 0 ds bs m = Some ?m"
    using observe_counts_grown [of m ?latest 0 ds ds bs rnd] m lens by (simp add: Let_def)
  then have "update_metric_value rnd (KindHistogram ds bs) m = Some ?m"
    using m by (simp add: update_metric_value_def init_histogram_if_needs_def reading_histogram_def)
  moreover have "observed_at v ?m = counted_at rnd k bs ds v" for v
  proof -
    have "observed_at v ?m = counted_at rnd k bs cs v +
        (\<Sum>j \<leftarrow> reported bs. if fl_times rnd k (bs ! j) = v then uint (ds ! j) - uint (cs ! j) else 0)"
      unfolding observed_append using m grown_sum(1) [of cs "length ds" bs ds ?latest rnd k "\<lambda>j. fl_times rnd k (bs ! j)" v] lens mono
      by (simp del: set_reported)
    also have "\<dots> = counted_at rnd k bs ds v"
      unfolding counted_at_def sum_list_addf [symmetric] by (rule arg_cong [of _ _ sum_list], rule map_cong) auto
    finally show ?thesis .
  qed
  moreover have "fold (\<lambda>j l. l[j := ds ! j]) ?js ?latest
      = map (\<lambda>i. if i \<in> set (reported bs) then ds ! i else 0) [0 ..< length (hist_steps rnd k bs)]"
    unfolding fold_update using grown_sum(2) [of cs "length ds" bs ds ?latest rnd k] lens mono by (simp del: set_reported)
  ultimately show ?thesis using m by (simp add: hist_inv_def del: set_reported)
qed

fun collections :: "rounding \<Rightarrow> go_float list \<Rightarrow> 64 word list list \<Rightarrow> meter_info \<Rightarrow> meter_info option" where
  "collections rnd bs [] m = Some m"
| "collections rnd bs (cs # css) m =
     (case update_metric_value rnd (KindHistogram cs bs) m of None \<Rightarrow> None | Some m' \<Rightarrow> collections rnd bs css m')"

lemma collections_inv:
  assumes "hist_inv rnd k bs cs m" and "list_all (counts_of bs) (cs # css)" and "sorted_wrt (list_all2 (\<le>)) (cs # css)"
  shows "\<exists>m'. collections rnd bs css m = Some m' \<and> hist_inv rnd k bs (last (cs # css)) m'"
  using assms
proof (induction css arbitrary: cs m)
  case (Cons ds css)
  obtain m' where "update_metric_value rnd (KindHistogram ds bs) m = Some m'" "hist_inv rnd k bs ds m'"
    using update_known [OF Cons.prems(1), of ds] Cons.prems(2,3) by auto
  then show ?case using Cons.IH [of ds m'] Cons.prems(2,3) by auto
qed simp

lemma fresh_inv:
  assumes "length bs = Suc (length cs)"
  shows "hist_inv rnd k bs (map (\<lambda>_. 0) cs) (init_histogram_if_needs rnd (KindHistogram cs bs) (new_metrics_histogram_replace_info nm k))"
proof -
  have nil: "map (\<lambda>j. if fl_times rnd k (bs ! j) = v then uint (map (\<lambda>_. 0 :: 64 word) cs ! j) else 0) (reported bs)
      = map (\<lambda>_. 0) (reported bs)" for v
    using assms by (intro map_cong) auto
  have "counted_at rnd k bs (map (\<lambda>_. 0) cs) v = 0" for v unfolding counted_at_def nil by simp
  then show ?thesis
    using assms by (auto simp: init_histogram new_metrics_histogram_replace_info_def new_metrics_gauge_replace_info_def hist_inv_def
        observed_at_def intro!: nth_equalityI)
qed

section \<open>Properties\<close>

text \<open>
  C36: A histogram of the runtime is accounted for: over any number of collections whose counts only grow, starting
  with a meter that was only initialised, the hook does not panic; the histogram is made once, with the scaled
  non-negative finite bounds as steps; and for every value, the counts it was told add up to the
  last counts of the reported buckets that have it as their scaled lower bound, so no event is
  counted twice or lost.  The reported buckets start at the first such bound; with that many bounds
  below it, as many buckets are missing at the top.
\<close>
theorem sw_histogram_accounted:
  assumes "css \<noteq> []" and "list_all (counts_of bs) css" and "sorted_wrt (list_all2 (\<le>)) css"
  shows "\<exists>m. collections rnd bs css (meter_init rnd (new_metrics_histogram_replace_info nm k)) = Some m \<and>
    mt_histogram_metric m = Some (hist_steps rnd k bs) \<and>
    (\<forall>v. observed_at v m = counted_at rnd k bs (last css) v) \<and>
    set (reported bs) = {hist_start bs ..< min (length bs - 1) (length (hist_steps rnd k bs))}"
proof -
  obtain cs css' where css: "css = cs # css'" using assms(1) by (cases css) auto
  let ?m0 = "new_metrics_histogram_replace_info nm k"
  let ?m1 = "init_histogram_if_needs rnd (KindHistogram cs bs) ?m0"
  have len: "length bs = Suc (length cs)" using assms(2) css by (simp add: counts_of_def)
  have start: "meter_init rnd ?m0 = ?m0"
    by (simp add: meter_init_def init_histogram_if_needs_def reading_histogram_def new_metrics_histogram_replace_info_def
        new_metrics_gauge_replace_info_def)
  have zero: "list_all2 (\<le>) (map (\<lambda>_. 0) cs) cs" "counts_of bs (map (\<lambda>_. 0) cs)"
    using len by (auto simp: list_all2_conv_all_nth counts_of_def list_all_length)
  have inv1: "hist_inv rnd k bs (map (\<lambda>_. 0) cs) ?m1" using fresh_inv [OF len] .
  have "mt_histogram_metric ?m1 \<noteq> None" using inv1 by (simp add: hist_inv_def)
  then have "init_histogram_if_needs rnd (KindHistogram cs bs) ?m1 = ?m1" unfolding init_histogram_if_needs_def by simp
  then have same: "update_metric_value rnd (KindHistogram cs bs) ?m0 = update_metric_value rnd (KindHistogram cs bs) ?m1"
    using inv1 by (simp add: update_metric_value_def hist_inv_def new_metrics_histogram_replace_info_def)
  obtain m where m: "update_metric_value rnd (KindHistogram cs bs) ?m1 = Some m" "hist_inv rnd k bs cs m"
    using update_known [OF inv1 zero(2) _ zero(1)] assms(2) css by auto
  obtain m' where "collections rnd bs css' m = Some m'" "hist_inv rnd k bs (last css) m'"
    using collections_inv [OF m(2), of css'] assms(2,3) css by auto
  then show ?thesis
    unfolding start using m(1) same css by (auto simp: hist_inv_def hist_steps_def)
qed

theorem sw_histogram_accounted_witness:
  "\<exists>m. collections Fin [NegInf, Fin 0, Fin 1, PosInf] [[0, 2, 5], [0, 3, 9]] (meter_init Fin (new_metrics_histogram_replace_info ''gc'' 10)) = Some m \<and>
    observed_at (Fin 0) m = 3 \<and> observed_at (Fin 10) m = 0"
proof -
  let ?bs = "[NegInf, Fin 0, Fin 1, PosInf]"
  have bounds: "bucket_skipped (Fin 1) = False" "bucket_skipped (Fin 0) = False" by (simp_all add: max_float64_def)
  have "list_all (counts_of ?bs) [[0, 2, 5], [0, 3, 9]]" by (simp add: counts_of_def word_less_def)
  moreover have "sorted_wrt (list_all2 (\<le>)) [[0, 2, 5], [0, 3, 9 :: 64 word]]" by (simp add: word_le_def)
  moreover have "[[0, 2, 5], [0, 3, 9 :: 64 word]] \<noteq> []" by simp
  ultimately obtain m where m: "collections Fin ?bs [[0, 2, 5], [0, 3, 9]] (meter_init Fin (new_metrics_histogram_replace_info ''gc'' 10)) = Some m"
    "\<forall>v. observed_at v m = counted_at Fin 10 ?bs (last [[0, 2, 5], [0, 3, 9]]) v"
    using sw_histogram_accounted [of "[[0, 2, 5], [0, 3, 9]]" ?bs Fin "''gc''" 10] by blast
  have "reported ?bs = [1]" by (simp add: reported_def hist_start_def bounds del: bucket_skipped.simps(1))
  then show ?thesis using m by (simp add: counted_at_def)
qed

text \<open>
  The bounds of the pause and latency histograms start with minus infinity, so the last bucket of \<open>Counts\<close>, the longest
  pauses, is never told to the histogram.
\<close>

theorem sw_histogram_loses_last:
  assumes "\<And>b. b \<in> set bs \<Longrightarrow> \<not> bucket_skipped b" and "bs \<noteq> []"
  shows "reported (NegInf # bs @ [PosInf]) = [1 ..< length bs]"
proof -
  have "hist_start (NegInf # bs @ [PosInf]) = 1" using assms by (cases bs) (auto simp: hist_start_def)
  moreover have "filter (\<lambda>b. \<not> bucket_skipped b) bs = bs" using assms(1) by (simp add: filter_id_conv)
  ultimately show ?thesis by (simp add: reported_def)
qed

section \<open>Gauges\<close>

text \<open>A value that has no more counts than bounds, as those of the runtime.\<close>

definition sample_ok :: "sample_value \<Rightarrow> bool" where
  "sample_ok v = (case v of KindHistogram cs bs \<Rightarrow> length cs \<le> length bs | _ \<Rightarrow> True)"

definition meter_kind :: "meter_info \<Rightarrow> gostring \<times> (gostring \<times> gostring) list \<times> bool \<times> bool" where
  "meter_kind m = (mt_name m, mt_tag_opts m, mt_is_histogram m, mt_gauge_metric m)"

lemma observe_returns:
  assumes "i + length vals \<le> length bs"
  shows "\<exists>m'. observe_counts rnd i vals bs m = Some m' \<and> meter_kind m' = meter_kind m"
  using assms
proof (induction vals arbitrary: i m)
  case (Cons v vals)
  have ih: "\<exists>m'. observe_counts rnd (Suc i) vals bs t = Some m' \<and> meter_kind m' = meter_kind t" for t
    using Cons.IH [of "Suc i" t] Cons.prems by simp
  have "meter_kind (m\<lparr>mt_observed := x, mt_latest := y\<rparr>) = meter_kind m" for x y by (simp add: meter_kind_def)
  then show ?case
    using ih [of m] ih [of "m\<lparr>mt_observed := mt_observed m @ [(fl_times rnd (mt_multiple m) (bs ! i), v - the (mt_latest m) ! i)],
      mt_latest := Some ((the (mt_latest m))[i := v])\<rparr>"] Cons.prems
    by (cases "mt_latest m") (auto simp: Let_def)
qed simp

lemma update_returns:
  assumes "sample_ok v"
  shows "\<exists>m'. update_metric_value rnd v m = Some m' \<and> meter_kind m' = meter_kind m \<and>
    (\<forall>f. \<not> mt_is_histogram m \<and> reading_float64 rnd v = Some f \<longrightarrow> mt_gauge_value m' = f)"
proof -
  have init: "meter_kind (init_histogram_if_needs rnd v m) = meter_kind m"
    by (simp add: init_histogram_if_needs_def meter_kind_def split: option.split prod.split)
  show ?thesis
    using assms observe_returns [of 0 "fst (the (reading_histogram v))" "snd (the (reading_histogram v))" rnd "init_histogram_if_needs rnd v m"] init
    by (cases v) (auto simp: update_metric_value_def sample_ok_def reading_histogram_def reading_float64_def meter_kind_def Let_def)
qed

definition gauge_current :: "rounding \<Rightarrow> (gostring \<Rightarrow> sample_value) \<Rightarrow> gostring \<Rightarrow> runtime_meters \<Rightarrow> bool" where
  "gauge_current rnd read_value nm st \<longleftrightarrow>
     (\<forall>i f. rm_table st nm = Some i \<and> \<not> mt_is_histogram i \<and> reading_float64 rnd (read_value nm) = Some f \<longrightarrow> mt_gauge_value i = f)"

definition same_meters :: "runtime_meters \<Rightarrow> runtime_meters \<Rightarrow> bool" where
  "same_meters st st' \<longleftrightarrow> rm_samples st' = rm_samples st \<and> rm_combined st' = rm_combined st \<and>
     (\<forall>nm. map_option meter_kind (rm_table st' nm) = map_option meter_kind (rm_table st nm))"

lemma update_sample_current:
  assumes "sample_ok (read_value nm)"
  shows "\<exists>st'. update_sample rnd read_value nm (Some st) = Some st' \<and> same_meters st st' \<and> gauge_current rnd read_value nm st' \<and>
    (\<forall>n. gauge_current rnd read_value n st \<longrightarrow> gauge_current rnd read_value n st')"
proof (cases "rm_table st nm")
  case (Some i)
  obtain i' where "update_metric_value rnd (read_value nm) i = Some i'" "meter_kind i' = meter_kind i"
    "\<forall>f. \<not> mt_is_histogram i \<and> reading_float64 rnd (read_value nm) = Some f \<longrightarrow> mt_gauge_value i' = f"
    using update_returns [OF assms] by blast
  then show ?thesis
    using Some by (auto simp: update_sample_def same_meters_def gauge_current_def meter_kind_def)
qed (simp add: update_sample_def same_meters_def gauge_current_def)

lemma update_samples_current:
  assumes "\<And>nm. nm \<in> set ns \<Longrightarrow> sample_ok (read_value nm)"
  shows "\<exists>st'. fold (update_sample rnd read_value) ns (Some st) = Some st' \<and> same_meters st st' \<and>
    (\<forall>nm. nm \<in> set ns \<or> gauge_current rnd read_value nm st \<longrightarrow> gauge_current rnd read_value nm st')"
  using assms
proof (induction ns arbitrary: st)
  case Nil
  then show ?case by (simp add: same_meters_def)
next
  case (Cons n ns)
  obtain st1 where st1: "update_sample rnd read_value n (Some st) = Some st1" "same_meters st st1" "gauge_current rnd read_value n st1"
    "\<forall>m. gauge_current rnd read_value m st \<longrightarrow> gauge_current rnd read_value m st1"
    using update_sample_current [of read_value n rnd st] Cons.prems by auto
  obtain st2 where "fold (update_sample rnd read_value) ns (Some st1) = Some st2" "same_meters st1 st2"
    "\<forall>nm. nm \<in> set ns \<or> gauge_current rnd read_value nm st1 \<longrightarrow> gauge_current rnd read_value nm st2"
    using Cons.IH [of st1] Cons.prems by auto
  then show ?case using st1 by (auto simp: same_meters_def)
qed

lemma init_kind:
  "meter_kind (meter_init rnd m) = (mt_name m, mt_tag_opts m, mt_is_histogram m, \<not> mt_is_histogram m \<or> mt_gauge_metric m)"
  by (simp add: meter_init_def init_histogram_if_needs_def reading_histogram_def meter_kind_def)

text \<open>The state after registration: the names that were found, each with its meter initialised.\<close>

definition registered :: "gostring list \<Rightarrow> runtime_meters \<Rightarrow> bool" where
  "registered names st \<longleftrightarrow> rm_samples st = filter (\<lambda>nm. map_of name_replacing nm \<noteq> None) names \<and>
     rm_combined st = combined_metrics \<and>
     (\<forall>nm. map_option meter_kind (rm_table st nm) =
        map_option (\<lambda>i. (mt_name i, mt_tag_opts i, mt_is_histogram i, nm \<in> set names \<and> \<not> mt_is_histogram i)) (map_of name_replacing nm))"

lemma fresh_gauges: "(nm, i) \<in> set name_replacing \<Longrightarrow> \<not> mt_gauge_metric i"
  by (auto simp: name_replacing_def new_metrics_histogram_replace_info_def new_metrics_gauge_replace_info_def)

lemma combined_known: "c \<in> set combined_metrics \<Longrightarrow> nm \<in> set (mt_needs c) \<Longrightarrow> map_of name_replacing nm \<noteq> None"
proof -
  have "list_all (\<lambda>c. list_all (\<lambda>nm. nm \<in> set (map fst gauge_rows)) (mt_needs c)) combined_metrics" by code_simp
  moreover have "set (map fst gauge_rows) \<subseteq> fst ` set name_replacing" by (auto simp: name_replacing_def image_iff) force
  ultimately show "c \<in> set combined_metrics \<Longrightarrow> nm \<in> set (mt_needs c) \<Longrightarrow> map_of name_replacing nm \<noteq> None"
    by (auto simp: list_all_iff map_of_eq_None_iff)
qed

lemma register_one_registered: "registered names st \<Longrightarrow> registered (names @ [nm]) (register_one rnd nm st)"
proof -
  assume st: "registered names st"
  have kind: "map_option meter_kind (rm_table st nm) =
      map_option (\<lambda>i. (mt_name i, mt_tag_opts i, mt_is_histogram i, nm \<in> set names \<and> \<not> mt_is_histogram i)) (map_of name_replacing nm)"
    using st by (simp add: registered_def)
  then have none: "rm_table st nm = None \<longleftrightarrow> map_of name_replacing nm = None"
    by (cases "rm_table st nm"; cases "map_of name_replacing nm") simp_all
  show ?thesis
  proof (cases "rm_table st nm")
    case None
    have "(\<lambda>i. (mt_name i, mt_tag_opts i, mt_is_histogram i, n \<in> set names \<and> \<not> mt_is_histogram i))
        = (\<lambda>i. (mt_name i, mt_tag_opts i, mt_is_histogram i, n \<in> set (names @ [nm]) \<and> \<not> mt_is_histogram i))" if "n \<noteq> nm" for n
      using that by auto
    then have "map_option (\<lambda>i. (mt_name i, mt_tag_opts i, mt_is_histogram i, n \<in> set names \<and> \<not> mt_is_histogram i)) (map_of name_replacing n)
        = map_option (\<lambda>i. (mt_name i, mt_tag_opts i, mt_is_histogram i, n \<in> set (names @ [nm]) \<and> \<not> mt_is_histogram i)) (map_of name_replacing n)" for n
      using None none by (cases "n = nm") auto
    then show ?thesis using st None none by (simp add: registered_def register_one_def)
  next
    case (Some i)
    then obtain j where j: "map_of name_replacing nm = Some j" using none by auto
    have "meter_kind i = (mt_name j, mt_tag_opts j, mt_is_histogram j, nm \<in> set names \<and> \<not> mt_is_histogram j)"
      using kind by (simp add: Some j)
    then have "meter_kind (meter_init rnd i) = (mt_name j, mt_tag_opts j, mt_is_histogram j, \<not> mt_is_histogram j)"
      unfolding init_kind by (auto simp: meter_kind_def)
    then show ?thesis using st Some j by (auto simp: registered_def register_one_def)
  qed
qed

lemma register_registered:
  "registered names st \<Longrightarrow> registered (names @ others) (fold (register_one rnd) others st)"
proof (induction others arbitrary: names st)
  case (Cons n others)
  then show ?case using register_one_registered [of names st n rnd] Cons.IH [of "names @ [n]"] by simp
qed simp

lemma table_registered:
  "registered [] \<lparr>rm_table = map_of name_replacing, rm_samples = [], rm_combined = combined_metrics\<rparr>"
proof -
  have "map_option meter_kind (map_of name_replacing nm) =
      map_option (\<lambda>i. (mt_name i, mt_tag_opts i, mt_is_histogram i, False)) (map_of name_replacing nm)" for nm
  proof (cases "map_of name_replacing nm")
    case (Some i)
    have "\<not> mt_gauge_metric i" by (rule fresh_gauges [OF map_of_SomeD [OF Some]])
    then show ?thesis unfolding Some by (simp add: meter_kind_def)
  qed simp
  then show ?thesis by (simp add: registered_def)
qed

fun collect_all :: "rounding \<Rightarrow> (gostring \<Rightarrow> sample_value) list \<Rightarrow> runtime_meters \<Rightarrow> runtime_meters option" where
  "collect_all rnd [] st = Some st"
| "collect_all rnd (r # rs) st = (case before_collect rnd r st of None \<Rightarrow> None | Some st' \<Rightarrow> collect_all rnd rs st')"

text \<open>What every collection keeps: the samples, and the kinds of all meters.\<close>

definition collecting :: "gostring list \<Rightarrow> runtime_meters \<Rightarrow> bool" where
  "collecting names st \<longleftrightarrow> rm_samples st = filter (\<lambda>nm. map_of name_replacing nm \<noteq> None) names \<and>
     map mt_needs (rm_combined st) = map mt_needs combined_metrics \<and>
     (\<forall>nm. map_option meter_kind (rm_table st nm) =
        map_option (\<lambda>i. (mt_name i, mt_tag_opts i, mt_is_histogram i, nm \<in> set names \<and> \<not> mt_is_histogram i)) (map_of name_replacing nm))"

lemma collecting_register: "collecting names (register_metrics rnd names)"
  using register_registered [OF table_registered, of names rnd]
  by (simp add: registered_def collecting_def register_metrics_def Let_def init_with_combined_def)

definition combined_parts :: "rounding \<Rightarrow> (gostring \<Rightarrow> sample_value) \<Rightarrow> gostring list \<Rightarrow> gostring list \<Rightarrow> go_float list" where
  "combined_parts rnd read_value names needs =
     List.map_filter (\<lambda>nm. if nm \<in> set names then reading_float64 rnd (read_value nm) else None) needs"

lemma combined_fold:
  assumes "\<And>nm. nm \<in> set needs \<Longrightarrow> map_of samples nm = (if nm \<in> set names then Some (read_value nm) else None)"
  shows "fold (combined_reading rnd samples) needs acc = fold (\<lambda>f a. fl_add rnd a f) (combined_parts rnd read_value names needs) acc"
  using assms
  by (induction needs arbitrary: acc)
    (auto simp: combined_reading_def combined_parts_def map_filter_simps split: option.split)

lemma collect_step:
  assumes "collecting names st" and "\<And>nm. sample_ok (read_value nm)"
  shows "\<exists>st'. before_collect rnd read_value st = Some st' \<and> collecting names st' \<and>
    (\<forall>nm \<in> set names. map_of name_replacing nm \<noteq> None \<longrightarrow> gauge_current rnd read_value nm st') \<and>
    map mt_combined_value (rm_combined st') =
      map (\<lambda>c. fold (\<lambda>f a. fl_add rnd a f) (combined_parts rnd read_value names (mt_needs c)) (Fin 0)) combined_metrics"
proof -
  obtain st1 where st1: "fold (update_sample rnd read_value) (rm_samples st) (Some st) = Some st1" "same_meters st st1"
    "\<forall>nm. nm \<in> set (rm_samples st) \<or> gauge_current rnd read_value nm st \<longrightarrow> gauge_current rnd read_value nm st1"
    using update_samples_current [of "rm_samples st" read_value rnd st] assms(2) by blast
  let ?samples = "map (\<lambda>nm. (nm, read_value nm)) (filter (\<lambda>nm. map_of name_replacing nm \<noteq> None) names)"
  let ?st' = "st1\<lparr>rm_combined := map (update_combined_metric_value rnd ?samples) (rm_combined st1)\<rparr>"
  have r: "before_collect rnd read_value st = Some ?st'"
    using st1(1,2) assms(1) by (simp add: before_collect_def same_meters_def collecting_def)
  have cur: "gauge_current rnd read_value nm ?st' = gauge_current rnd read_value nm st1" for nm by (simp add: gauge_current_def)
  have needs: "map mt_needs (rm_combined st1) = map mt_needs combined_metrics"
    using st1(2) assms(1) by (simp add: same_meters_def collecting_def)
  have sample: "map_of ?samples nm = (if nm \<in> set names then Some (read_value nm) else None)"
    if "c \<in> set combined_metrics" "nm \<in> set (mt_needs c)" for c nm
    using combined_known [OF that] by (auto simp: map_of_map_restrict restrict_map_def)
  have "map mt_combined_value (rm_combined ?st') = map (\<lambda>ns. fold (combined_reading rnd ?samples) ns (Fin 0)) (map mt_needs (rm_combined st1))"
    by (simp add: update_combined_metric_value_def comp_def)
  also have "\<dots> = map (\<lambda>c. fold (\<lambda>f a. fl_add rnd a f) (combined_parts rnd read_value names (mt_needs c)) (Fin 0)) combined_metrics"
    unfolding needs using combined_fold [OF sample] by simp
  finally have comb: "map mt_combined_value (rm_combined ?st') = \<dots>" .
  have "collecting names ?st'"
    using assms(1) st1(2) needs by (simp add: collecting_def same_meters_def update_combined_metric_value_def comp_def)
  moreover have "\<forall>nm \<in> set names. map_of name_replacing nm \<noteq> None \<longrightarrow> gauge_current rnd read_value nm ?st'"
    using st1(3) assms(1) unfolding cur by (auto simp: collecting_def)
  ultimately show ?thesis using r comb by blast
qed

lemma collect_all_returns:
  assumes "collecting names st" and "\<forall>r \<in> set rs. \<forall>nm. sample_ok (r nm)"
  shows "\<exists>st'. collect_all rnd rs st = Some st' \<and> collecting names st'"
  using assms
proof (induction rs arbitrary: st)
  case (Cons r rs)
  obtain st' where "before_collect rnd r st = Some st'" "collecting names st'"
    using collect_step [of names st r rnd] Cons.prems by auto
  then show ?case using Cons.IH [of st'] Cons.prems by simp
qed simp

lemma collect_all_snoc:
  "collect_all rnd (rs @ [r]) st = (case collect_all rnd rs st of None \<Rightarrow> None | Some st' \<Rightarrow> before_collect rnd r st')"
  by (induction rs arbitrary: st) (auto split: option.split)

text \<open>
  The gauges of the runtime are current: whatever metrics the runtime has and whatever was collected before, a
  collection returns, every metric of the table that the runtime has and that is no histogram is a registered
  gauge under its own name and labels, its value is the one just read when that is a number, and the
  combined total is the sum of its parts, in order, with those the runtime does not have left out.
\<close>
theorem sw_gauges_current:
  assumes "\<forall>x \<in> set (rs @ [r]). \<forall>nm. sample_ok (x nm)"
  shows "\<exists>st. collect_all rnd (rs @ [r]) (register_metrics rnd names) = Some st \<and>
    (\<forall>nm \<in> set names. case map_of name_replacing nm of None \<Rightarrow> rm_table st nm = None
       | Some info \<Rightarrow> mt_is_histogram info \<or>
           (\<exists>i. rm_table st nm = Some i \<and> mt_gauge_metric i \<and> mt_name i = mt_name info \<and> mt_tag_opts i = mt_tag_opts info \<and>
              (case reading_float64 rnd (r nm) of Some f \<Rightarrow> mt_gauge_value i = f | None \<Rightarrow> True))) \<and>
    map mt_combined_value (rm_combined st) =
      map (\<lambda>c. fold (\<lambda>f a. fl_add rnd a f) (combined_parts rnd r names (mt_needs c)) (Fin 0)) combined_metrics"
proof -
  obtain st1 where st1: "collect_all rnd rs (register_metrics rnd names) = Some st1" "collecting names st1"
    using collect_all_returns [OF collecting_register] assms by fastforce
  obtain st where st: "before_collect rnd r st1 = Some st" "collecting names st"
    "\<forall>nm \<in> set names. map_of name_replacing nm \<noteq> None \<longrightarrow> gauge_current rnd r nm st"
    "map mt_combined_value (rm_combined st) =
      map (\<lambda>c. fold (\<lambda>f a. fl_add rnd a f) (combined_parts rnd r names (mt_needs c)) (Fin 0)) combined_metrics"
    using collect_step [OF st1(2), of r rnd] assms by auto
  have "case map_of name_replacing nm of None \<Rightarrow> rm_table st nm = None
       | Some info \<Rightarrow> mt_is_histogram info \<or>
           (\<exists>i. rm_table st nm = Some i \<and> mt_gauge_metric i \<and> mt_name i = mt_name info \<and> mt_tag_opts i = mt_tag_opts info \<and>
              (case reading_float64 rnd (r nm) of Some f \<Rightarrow> mt_gauge_value i = f | None \<Rightarrow> True))" if "nm \<in> set names" for nm
  proof -
    have kind: "map_option meter_kind (rm_table st nm) =
        map_option (\<lambda>i. (mt_name i, mt_tag_opts i, mt_is_histogram i, nm \<in> set names \<and> \<not> mt_is_histogram i)) (map_of name_replacing nm)"
      using st(2) by (simp add: collecting_def)
    show ?thesis
      using kind that st(3) by (cases "map_of name_replacing nm"; cases "rm_table st nm")
        (auto simp: meter_kind_def gauge_current_def split: option.split)
  qed
  then show ?thesis using st1(1) st(1,4) by (simp add: collect_all_snoc)
qed

theorem sw_gauges_current_witness:
  "\<exists>st. collect_all Fin [\<lambda>_. KindUint64 7] (register_metrics Fin [''/sched/goroutines:goroutines'', ''/unknown'']) = Some st \<and>
    map_option mt_gauge_value (rm_table st ''/sched/goroutines:goroutines'') = Some (Fin 7)"
proof -
  let ?k = "''/sched/goroutines:goroutines''"
  have k: "?k \<in> set (map fst gauge_rows)" "?k \<notin> set (map fst histogram_rows)" by code_simp+
  have gauge: "\<not> mt_is_histogram i" if "(?k, i) \<in> set name_replacing" for i
  proof -
    have "(?k, i) \<notin> set (map (\<lambda>(key, nm, n). (key, new_metrics_histogram_replace_info nm n)) histogram_rows)"
      using k(2) by force
    then show ?thesis using that by (auto simp: name_replacing_def new_metrics_gauge_replace_info_def)
  qed
  have "?k \<in> fst ` set name_replacing" using k(1) by (force simp: name_replacing_def image_iff)
  then obtain i where i: "map_of name_replacing ?k = Some i" by (metis map_of_eq_None_iff not_None_eq)
  have known: "map_option mt_is_histogram (map_of name_replacing ?k) = Some False"
    using gauge [OF map_of_SomeD [OF i]] i by simp
  have "\<forall>x \<in> set ([] @ [\<lambda>_ :: gostring. KindUint64 7]). \<forall>nm. sample_ok (x nm)" by (simp add: sample_ok_def)
  from sw_gauges_current [OF this, of Fin "[''/sched/goroutines:goroutines'', ''/unknown'']"] known
  show ?thesis by (auto simp: reading_float64_def)
qed

end
