(* ===== verification/Sw_Boot.thy ===== *)
theory Sw_Boot
  imports "HOL-Library.Word" Hook_Support Transition_Systems
begin

text \<open>
  Start-up of the SkyWalking port: \<open>skywalking/boot/boot.go\<close>, and the goroutine-local storage of
  \<open>skywalking/runtime\<close>.  The constructors of the SkyWalking core are parameters: the error each returns.  A callback is
  a number, a pending meter a value of any type.
\<close>

section \<open>The environment\<close>

definition sw_env_string :: "go_env \<Rightarrow> gostring \<Rightarrow> gostring \<Rightarrow> gostring" where
  "sw_env_string env key def = (if env key \<noteq> [] then env key else def)"

definition sw_env_int :: "go_env \<Rightarrow> gostring \<Rightarrow> int \<Rightarrow> int" where
  "sw_env_int env key def = (if env key \<noteq> [] then (case go_atoi (env key) of Some n \<Rightarrow> n | None \<Rightarrow> def) else def)"

text \<open>\<open>strconv.ParseFloat\<close> is a parameter.\<close>

definition sw_env_float :: "(gostring \<Rightarrow> 'f option) \<Rightarrow> go_env \<Rightarrow> gostring \<Rightarrow> 'f \<Rightarrow> 'f" where
  "sw_env_float parse env key def = (if env key \<noteq> [] then (case parse (env key) of Some f \<Rightarrow> f | None \<Rightarrow> def) else def)"

definition go_parse_bool :: "gostring \<Rightarrow> bool option" where
  "go_parse_bool s =
     (if s \<in> {''1'', ''t'', ''T'', ''TRUE'', ''true'', ''True''} then Some True
      else if s \<in> {''0'', ''f'', ''F'', ''FALSE'', ''false'', ''False''} then Some False
      else None)"

definition sw_env_bool :: "go_env \<Rightarrow> gostring \<Rightarrow> bool \<Rightarrow> bool" where
  "sw_env_bool env key def = (if env key \<noteq> [] then (case go_parse_bool (env key) of Some b \<Rightarrow> b | None \<Rightarrow> def) else def)"

text \<open>A \<open>time.Duration\<close>, in nanoseconds, is a signed 64 bit number; the product wraps.\<close>

definition sw_env_seconds :: "go_env \<Rightarrow> gostring \<Rightarrow> int \<Rightarrow> 64 word" where
  "sw_env_seconds env key def = word_of_int (sw_env_int env key def) * 1000000000"

section \<open>The reporter\<close>

datatype sw_constructor =
    NewConnectionManager "64 word" gostring gostring
  | NewCDSManager gostring "64 word"
  | NewPprofTaskManager gostring "64 word" gostring
  | NewGRPCReporter gostring "64 word" "64 word"

datatype sw_reporter = DiscardReporter | GrpcReporter

text \<open>What the constructors return, an error or nothing, in the order they are called.\<close>

record sw_outcomes =
  so_connection :: "gostring option"
  so_cds :: "gostring option"
  so_pprof :: "gostring option"
  so_reporter :: "gostring option"
  so_init :: "gostring option"

definition sw_init_reporter :: "go_env \<Rightarrow> sw_outcomes \<Rightarrow> (gostring + sw_reporter) \<times> sw_constructor list" where
  "sw_init_reporter env oc =
     (if sw_env_bool env ''SW_AGENT_REPORTER_DISCARD'' False then (Inr DiscardReporter, [])
      else
        let check_interval = sw_env_seconds env ''SW_AGENT_REPORTER_CHECK_INTERVAL'' 20;
            backend_service = sw_env_string env ''SW_AGENT_REPORTER_GRPC_BACKEND_SERVICE'' ''127.0.0.1:11800'';
            auth = sw_env_string env ''SW_AGENT_REPORTER_GRPC_AUTHENTICATION'' [];
            c1 = NewConnectionManager check_interval backend_service auth;
            c2 = NewCDSManager backend_service (sw_env_seconds env ''SW_AGENT_REPORTER_GRPC_CDS_FETCH_INTERVAL'' 20);
            c3 = NewPprofTaskManager backend_service (sw_env_seconds env ''SW_AGENT_REPORTER_GRPC_PPROF_TASK_FETCH_INTERVAL'' 20)
                   (sw_env_string env ''SW_AGENT_REPORTER_GRPC_PROFILE_PPROF_FILE_PATH'' []);
            c4 = NewGRPCReporter backend_service check_interval
                   (sw_env_seconds env ''SW_AGENT_REPORTER_GRPC_PROFILE_FETCH_INTERVAL'' 20)
        in case so_connection oc of
             Some e \<Rightarrow> (Inl e, [c1])
           | None \<Rightarrow>
               (case so_cds oc of
                  Some e \<Rightarrow> (Inl e, [c1, c2])
                | None \<Rightarrow>
                    (case so_pprof oc of
                       Some e \<Rightarrow> (Inl e, [c1, c2, c3])
                     | None \<Rightarrow> (case so_reporter oc of Some e \<Rightarrow> Inl e | None \<Rightarrow> Inr GrpcReporter, [c1, c2, c3, c4]))))"

section \<open>Starting\<close>

text \<open>What \<open>tracer.Init\<close> is called with.\<close>

record 'f sw_settings =
  ss_service :: gostring
  ss_instance_env :: gostring
  ss_sample :: 'f
  ss_meter_interval :: int
  ss_max_keys :: int
  ss_max_value :: int
  ss_ignore_suffix :: gostring
  ss_ignore_path :: gostring

text \<open>
  The variables of the package, what the core sees of them, and what has happened: the log of the tracer, the settings it
  was initialised with and the callbacks that ran.
\<close>

record ('v, 'f) sw_boot_state =
  sb_linked :: bool
  sb_tracer :: bool
  sb_init_notify :: "nat list"
  sb_metrics_pending :: "'v list"
  sb_metrics_hooks :: "nat list"
  sb_tracer_ready :: "nat list"
  sb_errors :: "gostring list"
  sb_settings :: "'f sw_settings option"
  sb_ran :: "nat list"

definition sw_boot_init :: "('v, 'f) sw_boot_state" where
  "sw_boot_init =
     \<lparr>sb_linked = False, sb_tracer = False, sb_init_notify = [], sb_metrics_pending = [], sb_metrics_hooks = [],
      sb_tracer_ready = [], sb_errors = [], sb_settings = None, sb_ran = []\<rparr>"

definition on_tracer_ready :: "nat \<Rightarrow> ('v, 'f) sw_boot_state \<Rightarrow> ('v, 'f) sw_boot_state" where
  "on_tracer_ready f st = st\<lparr>sb_tracer_ready := sb_tracer_ready st @ [f]\<rparr>"

text \<open>The functions \<open>Init\<close> installs in the core.\<close>

definition append_init_notify :: "nat \<Rightarrow> ('v, 'f) sw_boot_state \<Rightarrow> ('v, 'f) sw_boot_state" where
  "append_init_notify f st = st\<lparr>sb_init_notify := sb_init_notify st @ [f]\<rparr>"

definition metrics_appender :: "'v \<Rightarrow> ('v, 'f) sw_boot_state \<Rightarrow> ('v, 'f) sw_boot_state" where
  "metrics_appender v st = st\<lparr>sb_metrics_pending := sb_metrics_pending st @ [v]\<rparr>"

definition metrics_collect_appender :: "nat \<Rightarrow> ('v, 'f) sw_boot_state \<Rightarrow> ('v, 'f) sw_boot_state" where
  "metrics_collect_appender f st = st\<lparr>sb_metrics_hooks := sb_metrics_hooks st @ [f]\<rparr>"

definition metrics_obtain :: "('v, 'f) sw_boot_state \<Rightarrow> ('v list \<times> nat list) \<times> ('v, 'f) sw_boot_state" where
  "metrics_obtain st =
     ((sb_metrics_pending st, sb_metrics_hooks st), st\<lparr>sb_metrics_pending := [], sb_metrics_hooks := []\<rparr>)"

definition sw_settings_of :: "(gostring \<Rightarrow> 'f option) \<Rightarrow> 'f \<Rightarrow> go_env \<Rightarrow> 'f sw_settings" where
  "sw_settings_of parse one env =
     \<lparr>ss_service = sw_env_string env ''SW_AGENT_NAME'' ''Your_ApplicationName'',
      ss_instance_env = ''SW_AGENT_INSTANCE_NAME'',
      ss_sample = sw_env_float parse env ''SW_AGENT_SAMPLE'' one,
      ss_meter_interval = sw_env_int env ''SW_AGENT_METER_COLLECT_INTERVAL'' 20,
      ss_max_keys = sw_env_int env ''SW_AGENT_CORRELATION_MAX_KEY_COUNT'' 3,
      ss_max_value = sw_env_int env ''SW_AGENT_CORRELATION_MAX_VALUE_SIZE'' 128,
      ss_ignore_suffix = sw_env_string env ''SW_AGENT_IGNORE_SUFFIX'' ''.jpg,.jpeg,.js,.css,.png,.bmp,.gif,.ico,.mp3,.mp4,.html,.svg'',
      ss_ignore_path = sw_env_string env ''SW_AGENT_TRACE_IGNORE_PATH'' []\<rparr>"

definition sw_init ::
  "(gostring \<Rightarrow> 'f option) \<Rightarrow> 'f \<Rightarrow> go_env \<Rightarrow> sw_outcomes \<Rightarrow> ('v, 'f) sw_boot_state \<Rightarrow> ('v, 'f) sw_boot_state" where
  "sw_init parse one env oc st0 =
     (let st = st0\<lparr>sb_linked := True, sb_tracer := True\<rparr>
      in case fst (sw_init_reporter env oc) of
           Inl e \<Rightarrow> st\<lparr>sb_errors := sb_errors st @ [''cannot initialize the reporter: '' @ e]\<rparr>
         | Inr rep \<Rightarrow>
             (let st' = st\<lparr>sb_settings := Some (sw_settings_of parse one env)\<rparr>
              in case so_init oc of
                   Some e \<Rightarrow> st'\<lparr>sb_errors := sb_errors st' @ [''cannot initialize the SkyWalking Tracer: '' @ e]\<rparr>
                 | None \<Rightarrow> st'\<lparr>sb_ran := sb_ran st' @ sb_tracer_ready st'\<rparr>))"

section \<open>Goroutine-local storage\<close>

text \<open>A value in the storage of a goroutine: one that can take a snapshot of itself, or any other.\<close>

datatype 'a sw_tls = TlsNil | TlsTaker 'a | TlsOther 'a

definition skywalking_goroutine_change :: "('a \<Rightarrow> 'a sw_tls) \<Rightarrow> 'a sw_tls \<Rightarrow> 'a sw_tls" where
  "skywalking_goroutine_change take_snapshot tls =
     (case tls of TlsNil \<Rightarrow> TlsNil | TlsTaker a \<Rightarrow> take_snapshot a | TlsOther a \<Rightarrow> TlsOther a)"

type_synonym 'a sw_goroutines = "nat \<Rightarrow> 'a sw_tls"

definition skywalking_tls_get :: "nat \<Rightarrow> 'a sw_goroutines \<Rightarrow> 'a sw_tls" where
  "skywalking_tls_get g gs = gs g"

definition skywalking_tls_set :: "nat \<Rightarrow> 'a sw_tls \<Rightarrow> 'a sw_goroutines \<Rightarrow> 'a sw_goroutines" where
  "skywalking_tls_set g v gs = gs(g := v)"

definition sw_newproc1 :: "('a \<Rightarrow> 'a sw_tls) \<Rightarrow> nat \<Rightarrow> nat \<Rightarrow> 'a sw_goroutines \<Rightarrow> 'a sw_goroutines" where
  "sw_newproc1 take_snapshot callerg newg gs = gs(newg := skywalking_goroutine_change take_snapshot (gs callerg))"

section \<open>What is handed over\<close>

text \<open>An operation of the core or of a package, with what it obtained.\<close>

datatype 'v sw_boot_op = OnReady nat | AppendNotify nat | AppendMetric 'v | AppendHook nat | Obtain

fun sw_boot_step ::
  "'v sw_boot_op \<Rightarrow> ('v, 'f) sw_boot_state \<times> 'v list \<times> nat list \<Rightarrow> ('v, 'f) sw_boot_state \<times> 'v list \<times> nat list" where
  "sw_boot_step (OnReady f) (st, vs, hs) = (on_tracer_ready f st, vs, hs)"
| "sw_boot_step (AppendNotify f) (st, vs, hs) = (append_init_notify f st, vs, hs)"
| "sw_boot_step (AppendMetric v) (st, vs, hs) = (metrics_appender v st, vs, hs)"
| "sw_boot_step (AppendHook f) (st, vs, hs) = (metrics_collect_appender f st, vs, hs)"
| "sw_boot_step Obtain (st, vs, hs) =
     (case metrics_obtain st of ((ps, ks), st') \<Rightarrow> (st', vs @ ps, hs @ ks))"

lemmas sw_boot_defs = on_tracer_ready_def append_init_notify_def metrics_appender_def metrics_collect_appender_def metrics_obtain_def

definition metrics_of :: "'v sw_boot_op list \<Rightarrow> 'v list" where
  "metrics_of ops = List.map_filter (\<lambda>x. case x of AppendMetric v \<Rightarrow> Some v | _ \<Rightarrow> None) ops"

definition hooks_of :: "'v sw_boot_op list \<Rightarrow> nat list" where
  "hooks_of ops = List.map_filter (\<lambda>x. case x of AppendHook f \<Rightarrow> Some f | _ \<Rightarrow> None) ops"

lemma step_hands_over:
  assumes "sw_boot_step x (st, vs, hs) = (st', vs', hs')"
  shows "vs' @ sb_metrics_pending st' = vs @ sb_metrics_pending st @ metrics_of [x] \<and>
    hs' @ sb_metrics_hooks st' = hs @ sb_metrics_hooks st @ hooks_of [x]"
  using assms by (cases x) (auto simp: sw_boot_defs metrics_of_def hooks_of_def map_filter_simps)

lemma run_hands_over:
  assumes "run_ops sw_boot_step ops (st, vs, hs) = (st', vs', hs')"
  shows "vs' @ sb_metrics_pending st' = vs @ sb_metrics_pending st @ metrics_of ops \<and>
    hs' @ sb_metrics_hooks st' = hs @ sb_metrics_hooks st @ hooks_of ops"
  using assms
proof (induction ops arbitrary: st vs hs)
  case Nil
  then show ?case by (simp add: metrics_of_def hooks_of_def map_filter_simps)
next
  case (Cons x ops)
  obtain s1 v1 h1 where x: "sw_boot_step x (st, vs, hs) = (s1, v1, h1)" by (metis prod_cases3)
  show ?case
    using Cons.IH [of s1 v1 h1] Cons.prems step_hands_over [OF x] x
    by (simp add: metrics_of_def hooks_of_def map_filter_simps split: option.splits)
qed

text \<open>
  Meters and collection hooks are handed over once: whatever packages append and the core obtains, in any order, what
  the core has obtained, followed by what is pending, is what was appended, in that order; and after it has obtained
  once more nothing is pending.
\<close>
theorem sw_metrics_handed_over:
  "(case run_ops sw_boot_step ops (sw_boot_init :: ('v, 'f) sw_boot_state, [], []) of
      (st, vs, hs) \<Rightarrow>
        vs @ sb_metrics_pending st = metrics_of ops \<and> hs @ sb_metrics_hooks st = hooks_of ops \<and>
        (case sw_boot_step Obtain (st, vs, hs) of (_, vs', hs') \<Rightarrow>
           vs' = metrics_of ops \<and> hs' = hooks_of ops))"
proof -
  obtain st vs hs where r: "run_ops sw_boot_step ops (sw_boot_init :: ('v, 'f) sw_boot_state, [], []) = (st, vs, hs)"
    by (metis prod_cases3)
  show ?thesis using run_hands_over [OF r] by (simp add: r sw_boot_defs) (simp add: sw_boot_init_def)
qed

text \<open>
  Start-up is all or nothing for the packages that wait for it: every one of the callbacks registered before, in order,
  runs exactly when the reporter could be made and the tracer was initialised; otherwise none runs and one error is
  logged.  The tracer is installed in every case, no constructor is called after one that failed, none
  at all when reports are discarded, and a failed reporter leaves the tracer uninitialised.
\<close>
theorem sw_start_all_or_nothing:
  "(let st = sw_init parse one env oc (fold on_tracer_ready fs sw_boot_init);
        reporter_failed = \<not> sw_env_bool env ''SW_AGENT_REPORTER_DISCARD'' False \<and>
          list_ex (\<lambda>e. e \<noteq> None) [so_connection oc, so_cds oc, so_pprof oc, so_reporter oc]
    in sb_linked st \<and> sb_tracer st \<and>
       sb_ran st = (if reporter_failed then [] else case so_init oc of None \<Rightarrow> fs | Some _ \<Rightarrow> []) \<and>
       length (sb_errors st) = (if reporter_failed then 1 else case so_init oc of None \<Rightarrow> 0 | Some _ \<Rightarrow> 1) \<and>
       (sb_settings st = None) = reporter_failed \<and>
       length (snd (sw_init_reporter env oc)) =
         (if sw_env_bool env ''SW_AGENT_REPORTER_DISCARD'' False then 0
          else min 4 (Suc (length (takeWhile (\<lambda>e. e = None) [so_connection oc, so_cds oc, so_pprof oc, so_reporter oc])))))"
proof -
  have "fold on_tracer_ready fs st = st\<lparr>sb_tracer_ready := sb_tracer_ready st @ fs\<rparr>" for st :: "('a, 'b) sw_boot_state"
    by (induction fs arbitrary: st) (auto simp: on_tracer_ready_def)
  then show ?thesis
    by (cases "so_connection oc"; cases "so_cds oc"; cases "so_pprof oc"; cases "so_reporter oc"; cases "so_init oc")
      (simp_all add: sw_init_def sw_init_reporter_def sw_boot_init_def Let_def)
qed

text \<open>A number of seconds that is too large becomes a negative interval.\<close>

theorem sw_seconds_wrap:
  "sint (sw_env_seconds (\<lambda>_. go_itoa 10000000000) key def) < 0"
proof -
  have "go_itoa 10000000000 \<noteq> []" using go_atoi_itoa [of 10000000000] by (auto simp: int64_ok_def go_atoi_def)
  then show ?thesis by (simp add: sw_env_seconds_def sw_env_int_def go_atoi_itoa int64_ok_def)
qed

end
