(* ===== verification/Sw_Toolkit.thy ===== *)
theory Sw_Toolkit
  imports Sw_Tracing
begin

text \<open>
  The toolkit API of SkyWalking, which the application calls itself: \<open>skywalking/plugins/toolkit-activation\<close>, and the profile
  labels of \<open>skywalking/plugins/pprof\<close>.  A panic is \<open>None\<close>.  The active span of the goroutine is given, as the calls
  made on it so far, or is missing; so is the span of a reference.
\<close>

section \<open>Creating spans\<close>

text \<open>
  A reference the toolkit made; \<open>made\<close> is whether the original body returned one.  The result is the reference, an error
  of the tracer, or nothing, with the span that was started.
\<close>

type_synonym span_ref = "sw_call list option"

definition tk_create ::
  "sw_tracer \<Rightarrow> gostring \<Rightarrow> bool \<Rightarrow> sw_start \<Rightarrow> (gostring + span_ref option) \<times> sw_start option" where
  "tk_create tr refusal made start =
     (if \<not> tr_creates tr start then (Inl refusal, None)
      else (Inr (if made then Some (Some []) else None), Some start))"

text \<open>The entry span's extractor and the exit span's injector are the application's: the values extracted, and the headers injected.\<close>

definition tk_create_entry_span ::
  "sw_tracer \<Rightarrow> gostring \<Rightarrow> bool \<Rightarrow> gostring \<Rightarrow> (gostring \<Rightarrow> gostring) \<Rightarrow> (gostring + span_ref option) \<times> sw_start option \<times> headers_list" where
  "tk_create_entry_span tr refusal made op extractor =
     (case tk_create tr refusal made (entry_span op []) of
        (r, None) \<Rightarrow> (r, None, [])
      | (r, Some st) \<Rightarrow> (r, Some st, map (\<lambda>k. (k, extractor k)) (tr_keys tr)))"

definition tk_create_exit_span ::
  "sw_tracer \<Rightarrow> gostring \<Rightarrow> bool \<Rightarrow> gostring \<Rightarrow> gostring \<Rightarrow> (gostring + span_ref option) \<times> sw_start option \<times> headers_list" where
  "tk_create_exit_span tr refusal made op peer =
     (case tk_create tr refusal made (exit_span op peer []) of
        (r, None) \<Rightarrow> (r, None, [])
      | (r, Some st) \<Rightarrow> (r, Some st, tr_headers tr st))"

definition tk_create_local_span ::
  "sw_tracer \<Rightarrow> gostring \<Rightarrow> bool \<Rightarrow> gostring \<Rightarrow> (gostring + span_ref option) \<times> sw_start option" where
  "tk_create_local_span tr refusal made op = tk_create tr refusal made (local_span op [])"

section \<open>The active span\<close>

definition sw_default_event_msg :: gostring where
  "sw_default_event_msg = ''unsetEvent''"

definition on_active :: "sw_call \<Rightarrow> sw_call list option \<Rightarrow> sw_call list option" where
  "on_active c active = (case active of Some log \<Rightarrow> Some (log @ [c]) | None \<Rightarrow> None)"

definition tk_stop_span :: "sw_call list option \<Rightarrow> sw_call list option" where
  "tk_stop_span = on_active SwEnd"

definition tk_set_operation_name :: "gostring \<Rightarrow> sw_call list option \<Rightarrow> sw_call list option" where
  "tk_set_operation_name nm = on_active (SwSetOperationName nm)"

definition tk_set_tag :: "gostring \<Rightarrow> gostring \<Rightarrow> sw_call list option \<Rightarrow> sw_call list option" where
  "tk_set_tag k v = on_active (SwTag (TagNamed k) v)"

definition tk_add_log :: "gostring list \<Rightarrow> sw_call list option \<Rightarrow> sw_call list option" where
  "tk_add_log logs = on_active (SwLog logs)"

definition tk_event :: "gostring \<Rightarrow> gostring" where
  "tk_event event = (if event = [] then sw_default_event_msg else event)"

definition tk_add_event :: "gostring \<Rightarrow> gostring \<Rightarrow> sw_call list option \<Rightarrow> sw_call list option" where
  "tk_add_event et event = on_active (SwLog [et, tk_event event])"

definition tk_set_component :: "int \<Rightarrow> sw_call list option \<Rightarrow> sw_call list option" where
  "tk_set_component c = on_active (SwSetComponent c)"

definition tk_error :: "gostring list \<Rightarrow> sw_call list option \<Rightarrow> sw_call list option" where
  "tk_error msgs = on_active (SwError msgs)"

text \<open>\<open>GetTraceID\<close>, \<open>GetSegmentID\<close> and \<open>GetSpanID\<close>: what the active span has, or what the body of the toolkit returns.\<close>

definition tk_get_of_active :: "'v \<Rightarrow> 'v option \<Rightarrow> 'v" where
  "tk_get_of_active stub active_value = (case active_value of Some v \<Rightarrow> v | None \<Rightarrow> stub)"

section \<open>Context and correlation\<close>

record 'snap tk_context =
  tc_snapshot :: 'snap
  tc_correlation :: "gostring \<Rightarrow> gostring"

definition tk_capture_context :: "'snap tk_context \<Rightarrow> 'snap option" where
  "tk_capture_context c = Some (tc_snapshot c)"

definition tk_continue_context :: "'snap option \<Rightarrow> 'snap tk_context \<Rightarrow> 'snap tk_context" where
  "tk_continue_context snap c = (case snap of Some s \<Rightarrow> c\<lparr>tc_snapshot := s\<rparr> | None \<Rightarrow> c)"

definition tk_get_correlation :: "gostring \<Rightarrow> 'snap tk_context \<Rightarrow> gostring" where
  "tk_get_correlation k c = tc_correlation c k"

definition tk_set_correlation :: "gostring \<Rightarrow> gostring \<Rightarrow> 'snap tk_context \<Rightarrow> 'snap tk_context" where
  "tk_set_correlation k v c = c\<lparr>tc_correlation := (tc_correlation c)(k := v)\<rparr>"

section \<open>References\<close>

text \<open>The methods of a reference: two of them check that it has a span, the others panic if it has none.\<close>

definition ref_checked :: "sw_call \<Rightarrow> span_ref \<Rightarrow> span_ref option" where
  "ref_checked c r = (case r of Some log \<Rightarrow> Some (Some (log @ [c])) | None \<Rightarrow> Some None)"

definition ref_unchecked :: "sw_call \<Rightarrow> span_ref \<Rightarrow> span_ref option" where
  "ref_unchecked c r = (case r of Some log \<Rightarrow> Some (Some (log @ [c])) | None \<Rightarrow> None)"

definition ref_end :: "span_ref \<Rightarrow> span_ref option" where
  "ref_end = ref_checked SwEnd"

definition ref_set_operation_name :: "gostring \<Rightarrow> span_ref \<Rightarrow> span_ref option" where
  "ref_set_operation_name nm = ref_checked (SwSetOperationName nm)"

definition ref_set_tag :: "gostring \<Rightarrow> gostring \<Rightarrow> span_ref \<Rightarrow> span_ref option" where
  "ref_set_tag k v = ref_unchecked (SwTag (TagNamed k) v)"

definition ref_add_log :: "gostring list \<Rightarrow> span_ref \<Rightarrow> span_ref option" where
  "ref_add_log logs = ref_unchecked (SwLog logs)"

definition ref_add_event :: "gostring \<Rightarrow> gostring \<Rightarrow> span_ref \<Rightarrow> span_ref option" where
  "ref_add_event et event = ref_unchecked (SwLog [et, tk_event event])"

definition ref_prepare_async :: "span_ref \<Rightarrow> span_ref option" where
  "ref_prepare_async = ref_unchecked SwPrepareAsync"

definition ref_async_finish :: "span_ref \<Rightarrow> span_ref option" where
  "ref_async_finish = ref_unchecked SwAsyncFinish"

section \<open>Meters\<close>

text \<open>
  An option of the toolkit is one the rules made with \<open>WithLabels\<close>, or another value, which is no option of the core; a
  meter is what was made in the core, with what it was told.  \<open>made\<close> is as for spans.
\<close>

datatype meter_opt = WithLabel gostring gostring | OtherOpt

record 'v core_meter =
  cm_name :: gostring
  cm_labels :: "(gostring \<times> gostring) list"
  cm_steps :: "'v list"
  cm_told :: "('v \<times> int) list"

definition tk_with_labels :: "gostring \<Rightarrow> gostring \<Rightarrow> meter_opt" where
  "tk_with_labels k v = WithLabel k v"

fun tk_opts :: "meter_opt list \<Rightarrow> (gostring \<times> gostring) list option" where
  "tk_opts [] = Some []"
| "tk_opts (WithLabel k v # os) = map_option (Cons (k, v)) (tk_opts os)"
| "tk_opts (OtherOpt # os) = None"

definition tk_new_meter :: "bool \<Rightarrow> gostring \<Rightarrow> 'v list \<Rightarrow> meter_opt list \<Rightarrow> 'v core_meter option" where
  "tk_new_meter made nm steps os =
     (case tk_opts os of
        None \<Rightarrow> None
      | Some labels \<Rightarrow> if made then Some \<lparr>cm_name = nm, cm_labels = labels, cm_steps = steps, cm_told = []\<rparr> else None)"

definition tk_new_counter :: "bool \<Rightarrow> gostring \<Rightarrow> meter_opt list \<Rightarrow> 'v core_meter option" where
  "tk_new_counter made nm os = tk_new_meter made nm [] os"

definition tk_new_gauge :: "bool \<Rightarrow> gostring \<Rightarrow> meter_opt list \<Rightarrow> 'v core_meter option" where
  "tk_new_gauge made nm os = tk_new_meter made nm [] os"

definition tk_new_histogram :: "bool \<Rightarrow> gostring \<Rightarrow> 'v list \<Rightarrow> meter_opt list \<Rightarrow> 'v core_meter option" where
  "tk_new_histogram made nm steps os = tk_new_meter made nm steps os"

text \<open>The methods, on a reference that may have no meter; \<open>value_of\<close> is what the core's \<open>Get\<close> returns.\<close>

definition tk_tell :: "'v \<Rightarrow> int \<Rightarrow> 'v core_meter option \<Rightarrow> 'v core_meter option" where
  "tk_tell v n m = (case m of Some c \<Rightarrow> Some (c\<lparr>cm_told := cm_told c @ [(v, n)]\<rparr>) | None \<Rightarrow> None)"

definition tk_counter_get :: "('v core_meter \<Rightarrow> 'v) \<Rightarrow> 'v \<Rightarrow> 'v core_meter option \<Rightarrow> 'v" where
  "tk_counter_get value_of stub m = (case m of Some c \<Rightarrow> value_of c | None \<Rightarrow> stub)"

definition tk_counter_inc :: "'v \<Rightarrow> 'v core_meter option \<Rightarrow> 'v core_meter option" where
  "tk_counter_inc v = tk_tell v 1"

definition tk_gauge_get :: "('v core_meter \<Rightarrow> 'v) \<Rightarrow> 'v \<Rightarrow> 'v core_meter option \<Rightarrow> 'v" where
  "tk_gauge_get value_of stub m = (case m of Some c \<Rightarrow> value_of c | None \<Rightarrow> stub)"

definition tk_histogram_observe :: "'v \<Rightarrow> 'v core_meter option \<Rightarrow> 'v core_meter option" where
  "tk_histogram_observe v = tk_tell v 1"

definition tk_histogram_observe_with_count :: "'v \<Rightarrow> int \<Rightarrow> 'v core_meter option \<Rightarrow> 'v core_meter option" where
  "tk_histogram_observe_with_count v n = tk_tell v n"

section \<open>Logging\<close>

text \<open>The labels: a list with a single element has none, and an odd one panics at its end.\<close>

fun label_loop :: "gostring list \<Rightarrow> (gostring \<rightharpoonup> gostring) \<Rightarrow> (gostring \<rightharpoonup> gostring) option" where
  "label_loop [] ret = Some ret"
| "label_loop [k] ret = None"
| "label_loop (k # v # kvs) ret = label_loop kvs (ret(k \<mapsto> v))"

definition sw_parse_labels :: "gostring list \<Rightarrow> (gostring \<rightharpoonup> gostring) option option" where
  "sw_parse_labels key_values =
     (if length key_values < 2 then Some None else map_option Some (label_loop key_values Map.empty))"

record sw_log_entry =
  le_level :: gostring
  le_msg :: gostring
  le_labels :: "(gostring \<rightharpoonup> gostring) option"
  le_object :: "gostring list"

definition sw_send_log_entry :: "bool \<Rightarrow> gostring \<Rightarrow> gostring \<Rightarrow> gostring list \<Rightarrow> sw_log_entry list \<Rightarrow> sw_log_entry list option" where
  "sw_send_log_entry reporter level msg key_values sent =
     (if \<not> reporter then Some sent
      else case sw_parse_labels key_values of
        None \<Rightarrow> None
      | Some labels \<Rightarrow> Some (sent @ [\<lparr>le_level = level, le_msg = msg, le_labels = labels, le_object = key_values\<rparr>]))"

definition tk_debug :: "bool \<Rightarrow> gostring \<Rightarrow> gostring list \<Rightarrow> sw_log_entry list \<Rightarrow> sw_log_entry list option" where
  "tk_debug reporter = sw_send_log_entry reporter ''debug''"

definition tk_info :: "bool \<Rightarrow> gostring \<Rightarrow> gostring list \<Rightarrow> sw_log_entry list \<Rightarrow> sw_log_entry list option" where
  "tk_info reporter = sw_send_log_entry reporter ''info''"

definition tk_warn :: "bool \<Rightarrow> gostring \<Rightarrow> gostring list \<Rightarrow> sw_log_entry list \<Rightarrow> sw_log_entry list option" where
  "tk_warn reporter = sw_send_log_entry reporter ''warn''"

definition tk_log_error :: "bool \<Rightarrow> gostring \<Rightarrow> gostring list \<Rightarrow> sw_log_entry list \<Rightarrow> sw_log_entry list option" where
  "tk_log_error reporter = sw_send_log_entry reporter ''error''"

section \<open>Profile labels\<close>

text \<open>\<open>SetGoroutineLabels\<close>: whether the active span is a profile target, if there is one, and the labels caught now, if they are labels.\<close>

definition sw_set_goroutine_labels :: "bool option \<Rightarrow> 'l option \<Rightarrow> ('l \<Rightarrow> 'ctx \<Rightarrow> 'ctx) \<Rightarrow> 'ctx \<Rightarrow> 'ctx" where
  "sw_set_goroutine_labels active caught with_labels ctx =
     (case active of
        Some True \<Rightarrow> (case caught of Some now \<Rightarrow> with_labels now ctx | None \<Rightarrow> ctx)
      | _ \<Rightarrow> ctx)"

section \<open>Properties\<close>

fun pair_up :: "gostring list \<Rightarrow> (gostring \<times> gostring) list" where
  "pair_up (k # v # kvs) = (k, v) # pair_up kvs"
| "pair_up _ = []"

lemma label_loop_pairs: "label_loop kvs ret = (if even (length kvs) then Some (ret ++ map_of (rev (pair_up kvs))) else None)"
proof (induction kvs ret rule: label_loop.induct)
  case (3 k v kvs ret)
  then show ?case by (simp flip: fun_upd_def)
qed simp_all

text \<open>
  The labels of a log entry: with a reporter, an entry has no labels for fewer than two arguments, otherwise the
  arguments taken in pairs, where the last value of a key wins, and an odd number of three or more panics
  in the application instead of sending the entry; without a reporter nothing is sent, whatever the
  arguments.
\<close>
theorem sw_log_labels:
  "sw_send_log_entry reporter level msg kvs sent =
    (if \<not> reporter then Some sent
     else if length kvs \<ge> 2 \<and> odd (length kvs) then None
     else Some (sent @ [\<lparr>le_level = level, le_msg = msg,
       le_labels = (if length kvs < 2 then None else Some (map_of (rev (pair_up kvs)))), le_object = kvs\<rparr>]))"
  by (auto simp: sw_send_log_entry_def sw_parse_labels_def label_loop_pairs)

datatype ref_op = RefEnd | RefSetOperationName gostring | RefSetTag gostring gostring | RefAddLog "gostring list"
  | RefAddEvent gostring gostring | RefPrepareAsync | RefAsyncFinish

fun ref_call :: "ref_op \<Rightarrow> span_ref \<Rightarrow> span_ref option" where
  "ref_call RefEnd = ref_end"
| "ref_call (RefSetOperationName nm) = ref_set_operation_name nm"
| "ref_call (RefSetTag k v) = ref_set_tag k v"
| "ref_call (RefAddLog logs) = ref_add_log logs"
| "ref_call (RefAddEvent et ev) = ref_add_event et ev"
| "ref_call RefPrepareAsync = ref_prepare_async"
| "ref_call RefAsyncFinish = ref_async_finish"

fun ref_calls :: "ref_op list \<Rightarrow> span_ref \<Rightarrow> span_ref option" where
  "ref_calls [] r = Some r"
| "ref_calls (x # xs) r = (case ref_call x r of None \<Rightarrow> None | Some r' \<Rightarrow> ref_calls xs r')"

fun told :: "ref_op \<Rightarrow> sw_call" where
  "told RefEnd = SwEnd"
| "told (RefSetOperationName nm) = SwSetOperationName nm"
| "told (RefSetTag k v) = SwTag (TagNamed k) v"
| "told (RefAddLog logs) = SwLog logs"
| "told (RefAddEvent et ev) = SwLog [et, if ev = [] then ''unsetEvent'' else ev]"
| "told RefPrepareAsync = SwPrepareAsync"
| "told RefAsyncFinish = SwAsyncFinish"

fun ref_safe :: "ref_op \<Rightarrow> bool" where
  "ref_safe RefEnd = True"
| "ref_safe (RefSetOperationName _) = True"
| "ref_safe _ = False"

lemmas ref_defs = ref_end_def ref_set_operation_name_def ref_set_tag_def ref_add_log_def ref_add_event_def ref_prepare_async_def
  ref_async_finish_def ref_checked_def ref_unchecked_def tk_event_def sw_default_event_msg_def

text \<open>
  The span of a reference gets exactly the calls the application makes: for a reference made by the toolkit, any sequence
  of its methods reaches the tracer's span in order, with the default for an empty event; an application that made
  a reference itself, without a span, is not disturbed by \<open>End\<close> and \<open>SetOperationName\<close> but panics at the first
  other method; and an error of the tracer is what the application gets, without a span.
\<close>
theorem sw_ref_calls:
  "ref_calls xs (Some log) = Some (Some (log @ map told xs)) \<and>
   ref_calls xs None = (if list_all ref_safe xs then Some None else None) \<and>
   (case tk_create_local_span tr refusal True op of
      (Inl e, st) \<Rightarrow> e = refusal \<and> st = None \<and> \<not> tr_creates tr (local_span op [])
    | (Inr r, st) \<Rightarrow> r = Some (Some []) \<and> st = Some (local_span op []) \<and> tr_creates tr (local_span op []))"
proof -
  have "ref_call x (Some log) = Some (Some (log @ [told x]))" for x log by (cases x) (auto simp: ref_defs)
  then have "ref_calls xs (Some log) = Some (Some (log @ map told xs))" by (induction xs arbitrary: log) auto
  moreover have "ref_call x None = (if ref_safe x then Some None else None)" for x by (cases x) (auto simp: ref_defs)
  then have "ref_calls xs None = (if list_all ref_safe xs then Some None else None)" by (induction xs) auto
  ultimately show ?thesis by (simp add: tk_create_local_span_def tk_create_def)
qed

end
