(* ===== verification/Gin.thy ===== *)
theory Gin
  imports Net_Http
begin

text \<open>
  The gin rule, \<open>otelc/plugins/gin/gin.go\<close>: \<open>Context.Next\<close> names the server span after the route once per request and reports the
  errors of the handlers when the outermost call returns.  The handlers are a tree of what they do, in order: further
  calls of \<open>Next\<close>, errors, panics and recovered parts, and a replaced request, whose context has another span.
\<close>

section \<open>The context of a request\<close>

text \<open>The value a key of the context holds, a number or another; the span of the request, and the calls made on any span.\<close>

datatype gin_value = GinInt int | GinOther

record gin_context =
  gc_next_depth :: "gin_value option"
  gc_route_set :: bool
  gc_errors :: "gostring list"
  gc_span :: nat
  gc_calls :: "(nat \<times> span_call) list"

definition gin_fresh :: "nat \<Rightarrow> gin_context" where
  "gin_fresh s = \<lparr>gc_next_depth = None, gc_route_set = False, gc_errors = [], gc_span = s, gc_calls = []\<rparr>"

text \<open>What does not change during a request: the settings, the known methods, which spans record, and gin's \<open>Errors.String\<close>.\<close>

record gin_env =
  ge_on :: bool
  ge_known :: "gostring list"
  ge_recording :: "nat \<Rightarrow> bool"
  ge_method :: gostring
  ge_route :: gostring
  ge_render :: "gostring list \<Rightarrow> gostring"

definition gin_route_calls :: "gin_env \<Rightarrow> span_log" where
  "gin_route_calls e =
     [SetName (otelc_http_server_span_name (ge_known e) (ge_method e) (ge_route e)), SetAttrs [(''http.route'', StrV (ge_route e))]]"

definition gin_next_enter :: "gin_env \<Rightarrow> gin_context \<Rightarrow> gin_context" where
  "gin_next_enter e c0 =
     (let c = c0\<lparr>gc_next_depth := Some (case gc_next_depth c0 of Some (GinInt d) \<Rightarrow> GinInt (d + 1) | _ \<Rightarrow> GinInt 1)\<rparr>
      in if ge_route e \<noteq> [] \<and> \<not> gc_route_set c \<and> ge_recording e (gc_span c)
         then c\<lparr>gc_route_set := True, gc_calls := gc_calls c @ map (Pair (gc_span c)) (gin_route_calls e)\<rparr>
         else c)"

text \<open>The deferred part.\<close>

definition gin_report :: "gin_env \<Rightarrow> gostring list \<Rightarrow> span_log" where
  "gin_report e errs = SetStatus StatusError (ge_render e errs) # map RecordError errs"

definition gin_next_leave :: "gin_env \<Rightarrow> gin_context \<Rightarrow> gin_context" where
  "gin_next_leave e c0 =
     (let depth = (case gc_next_depth c0 of Some (GinInt d) \<Rightarrow> d | _ \<Rightarrow> 0) - 1;
          c = c0\<lparr>gc_next_depth := Some (GinInt depth)\<rparr>
      in if depth > 0 then c
         else if length (gc_errors c) = 0 then c
         else if ge_recording e (gc_span c)
              then c\<lparr>gc_calls := gc_calls c @ map (Pair (gc_span c)) (gin_report e (gc_errors c))\<rparr>
              else c)"

section \<open>Running a request\<close>

datatype gin_act = GinNext "gin_act list" | GinRecover "gin_act list" | GinError gostring | GinPanic | GinRequest nat

text \<open>The result says whether a panic goes on; a deferred function runs in that case too.\<close>

fun gin_run :: "gin_env \<Rightarrow> gin_act \<Rightarrow> gin_context \<Rightarrow> gin_context \<times> bool"
  and gin_runs :: "gin_env \<Rightarrow> gin_act list \<Rightarrow> gin_context \<Rightarrow> gin_context \<times> bool" where
  "gin_run e (GinNext body) c =
     (if \<not> ge_on e then gin_runs e body c
      else case gin_runs e body (gin_next_enter e c) of (c', p) \<Rightarrow> (gin_next_leave e c', p))"
| "gin_run e (GinRecover body) c = (fst (gin_runs e body c), False)"
| "gin_run e (GinError err) c = (c\<lparr>gc_errors := gc_errors c @ [err]\<rparr>, False)"
| "gin_run e GinPanic c = (c, True)"
| "gin_run e (GinRequest s) c = (c\<lparr>gc_span := s\<rparr>, False)"
| "gin_runs e [] c = (c, False)"
| "gin_runs e (a # as) c =
     (case gin_run e a c of (c', p) \<Rightarrow> if p then (c', True) else gin_runs e as c')"

section \<open>Properties\<close>

text \<open>What a part of a request may add to the calls: nothing, or the route on one recording span, for the first time.\<close>

definition route_step :: "gin_env \<Rightarrow> gin_context \<Rightarrow> gin_context \<Rightarrow> bool" where
  "route_step e c c' \<longleftrightarrow>
     gc_calls c' = gc_calls c \<and> gc_route_set c' = gc_route_set c \<or>
     \<not> gc_route_set c \<and> gc_route_set c' \<and> ge_route e \<noteq> [] \<and>
       (\<exists>s. ge_recording e s \<and> gc_calls c' = gc_calls c @ map (Pair s) (gin_route_calls e))"

lemma route_step_refl [intro]: "gc_calls c' = gc_calls c \<Longrightarrow> gc_route_set c' = gc_route_set c \<Longrightarrow> route_step e c c'"
  by (simp add: route_step_def)

lemma route_step_trans: "route_step e c c' \<Longrightarrow> route_step e c' c'' \<Longrightarrow> route_step e c c''"
  by (auto simp: route_step_def)

lemma enter_step: "route_step e c (gin_next_enter e c)"
  by (auto simp: gin_next_enter_def route_step_def Let_def)

lemma enter_depth:
  "gc_next_depth (gin_next_enter e c) = Some (case gc_next_depth c of Some (GinInt d) \<Rightarrow> GinInt (d + 1) | _ \<Rightarrow> GinInt 1)"
  by (simp add: gin_next_enter_def Let_def)

text \<open>Below the outermost \<open>Next\<close> the depth is what it was, and nothing is reported.\<close>

lemma inner_runs:
  assumes "ge_on e"
  shows "1 \<le> d \<Longrightarrow> gc_next_depth c = Some (GinInt d) \<Longrightarrow>
      gc_next_depth (fst (gin_run e a c)) = Some (GinInt d) \<and> route_step e c (fst (gin_run e a c))"
    and "1 \<le> d \<Longrightarrow> gc_next_depth c = Some (GinInt d) \<Longrightarrow>
      gc_next_depth (fst (gin_runs e as c)) = Some (GinInt d) \<and> route_step e c (fst (gin_runs e as c))"
  using assms
proof (induction e a c and e as c arbitrary: d and d rule: gin_run_gin_runs.induct)
  case (1 e body c)
  let ?c1 = "gin_next_enter e c"
  obtain c2 p where c2: "gin_runs e body ?c1 = (c2, p)" by fastforce
  have "gc_next_depth ?c1 = Some (GinInt (d + 1))" using "1.prems"(2) by (simp add: enter_depth)
  then have c2': "gc_next_depth c2 = Some (GinInt (d + 1))" "route_step e ?c1 c2"
    using "1.IH"(2) [of "d + 1"] "1.prems" c2 by auto
  have leave: "gin_next_leave e c2 = c2\<lparr>gc_next_depth := Some (GinInt d)\<rparr>"
    using c2'(1) "1.prems"(1) by (simp add: gin_next_leave_def Let_def)
  have "route_step e c (c2\<lparr>gc_next_depth := Some (GinInt d)\<rparr>)"
    by (rule route_step_trans [OF route_step_trans [OF enter_step c2'(2)]]) auto
  then show ?case using "1.prems"(3) c2 leave by simp
next
  case (7 e a as c)
  obtain c1 p where c1: "gin_run e a c = (c1, p)" by fastforce
  have one: "gc_next_depth c1 = Some (GinInt d)" "route_step e c c1" using "7.IH"(1) [OF "7.prems"] c1 by auto
  show ?case
  proof (cases p)
    case False
    then have "gc_next_depth (fst (gin_runs e as c1)) = Some (GinInt d)" "route_step e c1 (fst (gin_runs e as c1))"
      using "7.IH"(2) [OF c1 [symmetric] False "7.prems"(1) one(1) "7.prems"(3)] by auto
    then show ?thesis using c1 False route_step_trans [OF one(2)] by simp
  qed (use c1 one in simp)
qed auto

lemma off_runs:
  assumes "\<not> ge_on e"
  shows "gc_calls (fst (gin_run e a c)) = gc_calls c" and "gc_calls (fst (gin_runs e as c)) = gc_calls c"
  using assms
proof (induction e a c and e as c rule: gin_run_gin_runs.induct)
  case (7 e a as c)
  obtain c1 p where c1: "gin_run e a c = (c1, p)" by fastforce
  then show ?case using "7.IH"(1) "7.IH"(2) [OF c1 [symmetric]] "7.prems" by (cases p) auto
qed auto

text \<open>
  C37: The server span of a gin request is named and reports its errors once: whatever calls of \<open>Next\<close>, errors, panics, recovered
  parts and replaced requests the handlers consist of, the depth is back to zero when the outermost call is left; the calls on
  spans are those for the route, at most once and on a recording span, on the one the request came with if that records,
  followed by one report of all the errors, at the very end, if there are errors and the span of the request
  then records; with the instrumentation switched off there are none.
\<close>
theorem gin_request_reported:
  assumes "gin_run e (GinNext body) (gin_fresh s) = (c, panicked)"
  shows "(\<not> ge_on e \<longrightarrow> gc_calls c = []) \<and>
    (ge_on e \<longrightarrow> gc_next_depth c = Some (GinInt 0) \<and>
      (\<exists>named. gc_calls c = named @ (if gc_errors c = [] \<or> \<not> ge_recording e (gc_span c) then []
            else map (Pair (gc_span c)) (gin_report e (gc_errors c))) \<and>
         (named = [] \<and> (ge_route e = [] \<or> \<not> ge_recording e s) \<or>
          ge_route e \<noteq> [] \<and>
            (\<exists>s'. ge_recording e s' \<and> named = map (Pair s') (gin_route_calls e) \<and> (ge_recording e s \<longrightarrow> s' = s)))))"
proof (intro conjI impI)
  show "gc_calls c = []" if "\<not> ge_on e"
    using off_runs(1) [OF that, of "GinNext body" "gin_fresh s"] assms by (simp add: gin_fresh_def)
next
  assume on: "ge_on e"
  let ?c1 = "gin_next_enter e (gin_fresh s)"
  obtain c2 p where c2: "gin_runs e body ?c1 = (c2, p)" by fastforce
  have "gc_next_depth ?c1 = Some (GinInt 1)" by (simp add: enter_depth gin_fresh_def)
  then have inner: "gc_next_depth c2 = Some (GinInt 1)" "route_step e ?c1 c2"
    using inner_runs(2) [OF on, of 1 ?c1 body] c2 by auto
  have c: "c = gin_next_leave e c2" using assms on c2 by simp
  then show "gc_next_depth c = Some (GinInt 0)" using inner(1) by (simp add: gin_next_leave_def Let_def)
  have "gc_calls c = gc_calls c2 @ (if gc_errors c = [] \<or> \<not> ge_recording e (gc_span c) then []
      else map (Pair (gc_span c)) (gin_report e (gc_errors c)))"
    using inner(1) by (simp add: c gin_next_leave_def Let_def)
  moreover have "gc_calls c2 = [] \<and> (ge_route e = [] \<or> \<not> ge_recording e s) \<or>
      ge_route e \<noteq> [] \<and>
        (\<exists>s'. ge_recording e s' \<and> gc_calls c2 = map (Pair s') (gin_route_calls e) \<and> (ge_recording e s \<longrightarrow> s' = s))"
  proof (cases "ge_route e \<noteq> [] \<and> ge_recording e s")
    case True
    then have "gc_calls ?c1 = map (Pair s) (gin_route_calls e)" "gc_route_set ?c1"
      by (simp_all add: gin_next_enter_def gin_fresh_def Let_def)
    then show ?thesis using True inner(2) by (auto simp: route_step_def)
  next
    case False
    then have "gc_calls ?c1 = []" by (auto simp: gin_next_enter_def gin_fresh_def Let_def)
    then show ?thesis using False inner(2) by (auto simp: route_step_def)
  qed
  ultimately show "\<exists>named. gc_calls c = named @ (if gc_errors c = [] \<or> \<not> ge_recording e (gc_span c) then []
        else map (Pair (gc_span c)) (gin_report e (gc_errors c))) \<and>
      (named = [] \<and> (ge_route e = [] \<or> \<not> ge_recording e s) \<or>
       ge_route e \<noteq> [] \<and>
         (\<exists>s'. ge_recording e s' \<and> named = map (Pair s') (gin_route_calls e) \<and> (ge_recording e s \<longrightarrow> s' = s)))"
    by blast
qed

theorem gin_request_reported_witness:
  "\<exists>c. gin_run \<lparr>ge_on = True, ge_known = [''GET''], ge_recording = (\<lambda>_. True), ge_method = ''GET'', ge_route = ''/u/:id'', ge_render = concat\<rparr>
      (GinNext [GinError ''a'', GinRecover [GinNext [GinNext [GinPanic]]], GinNext [GinError ''b'']]) (gin_fresh 5) = (c, False) \<and>
    map snd (drop 2 (gc_calls c)) = [SetStatus StatusError ''ab'', RecordError ''a'', RecordError ''b'']"
proof -
  let ?e = "\<lparr>ge_on = True, ge_known = [''GET''], ge_recording = (\<lambda>_. True), ge_method = ''GET'', ge_route = ''/u/:id'', ge_render = concat\<rparr>"
  let ?body = "[GinError ''a'', GinRecover [GinNext [GinNext [GinPanic]]], GinNext [GinError ''b'']]"
  have ran: "map_prod gc_errors id (gin_run ?e (GinNext ?body) (gin_fresh 5)) = ([''a'', ''b''], False)"
    by (simp add: gin_next_enter_def gin_next_leave_def gin_fresh_def gin_route_calls_def Let_def)
  obtain c p where c: "gin_run ?e (GinNext ?body) (gin_fresh 5) = (c, p)" by fastforce
  then have errs: "gc_errors c = [''a'', ''b'']" "p = False" using ran by auto
  have "\<exists>s'. gc_calls c = map (Pair s') (gin_route_calls ?e) @ map (Pair (gc_span c)) (gin_report ?e [''a'', ''b''])"
    using gin_request_reported [OF c] errs(1) by auto
  then have calls: "map snd (drop 2 (gc_calls c)) = [SetStatus StatusError ''ab'', RecordError ''a'', RecordError ''b'']"
    by (auto simp: gin_route_calls_def gin_report_def)
  show ?thesis by (rule exI [of _ c], intro conjI) (rule c [unfolded errs(2)], rule calls)
qed

end
