(* ===== verification/Lazy_Init.thy ===== *)
theory Lazy_Init
  imports Transition_Systems GenAI K8s
begin

text \<open>
  What the hooks make when they first run: the \<open>sync.Once\<close> initialisers of the plugins, the bridge for \<open>net/http\<close> in
  \<open>otelc/httpapi\<close> and the scopes of \<open>otelc/genai\<close>.  The global providers of OpenTelemetry can change between
  two calls: each call has the globals it sees.  A tracer is the provider it came from and its name.
\<close>

section \<open>The globals and the log\<close>

text \<open>\<open>og_instrument_error\<close> is the error the meter provider returns for an instrument, if it does.\<close>

record otel_globals =
  og_tracer_provider :: nat
  og_meter_provider :: nat
  og_propagator :: nat
  og_instrument_error :: "gostring \<Rightarrow> gostring option"

type_synonym otel_tracer = "nat \<times> gostring"

datatype hook_line = InfoLine gostring | ErrorLine gostring gostring

record lazy_state =
  lz_once :: bool
  lz_tracer :: "otel_tracer option"
  lz_propagator :: "nat option"
  lz_instruments :: "(nat \<times> gostring) list"
  lz_lines :: "hook_line list"

definition lazy_fresh :: lazy_state where
  "lazy_fresh = \<lparr>lz_once = False, lz_tracer = None, lz_propagator = None, lz_instruments = [], lz_lines = []\<rparr>"

text \<open>\<open>sync.Once\<close>.\<close>

definition once_do :: "(lazy_state \<Rightarrow> lazy_state) \<Rightarrow> lazy_state \<Rightarrow> lazy_state" where
  "once_do f st = (if lz_once st then st else (f st)\<lparr>lz_once := True\<rparr>)"

definition lazy_info :: "gostring \<Rightarrow> lazy_state \<Rightarrow> lazy_state" where
  "lazy_info msg st = st\<lparr>lz_lines := lz_lines st @ [InfoLine msg]\<rparr>"

definition lazy_get_tracer :: "otel_globals \<Rightarrow> gostring \<Rightarrow> lazy_state \<Rightarrow> lazy_state" where
  "lazy_get_tracer g nm st = st\<lparr>lz_tracer := Some (og_tracer_provider g, nm)\<rparr>"

definition lazy_get_propagator :: "otel_globals \<Rightarrow> lazy_state \<Rightarrow> lazy_state" where
  "lazy_get_propagator g st = st\<lparr>lz_propagator := Some (og_propagator g)\<rparr>"

section \<open>The plugins\<close>

definition amqp_plugin_init :: "otel_globals \<Rightarrow> lazy_state \<Rightarrow> lazy_state" where
  "amqp_plugin_init g = once_do (lazy_info ''rabbitmq/amqp091-go instrumentation initialized'' \<circ> lazy_get_propagator g \<circ>
     lazy_get_tracer g ''go.opentelemetry.io/otelc/instrumentation/github.com/rabbitmq/amqp091-go'')"

definition redis_init :: "otel_globals \<Rightarrow> lazy_state \<Rightarrow> lazy_state" where
  "redis_init g = once_do (lazy_info ''Redis v9 client instrumentation initialized'' \<circ>
     lazy_get_tracer g ''go.opentelemetry.io/otelc/instrumentation/github.com/redis/go-redis/v9'')"

definition kafka_init :: "otel_globals \<Rightarrow> lazy_state \<Rightarrow> lazy_state" where
  "kafka_init g = once_do (lazy_info ''Kafka (segmentio/kafka-go) producer instrumentation initialized'' \<circ>
     lazy_info ''Kafka (segmentio/kafka-go) consumer instrumentation initialized'' \<circ> lazy_get_propagator g \<circ>
     lazy_get_tracer g ''go.opentelemetry.io/otelc/instrumentation/github.com/segmentio/kafka-go'')"

text \<open>A duration instrument that could not be made is dropped without a line.\<close>

definition linode_init :: "otel_globals \<Rightarrow> lazy_state \<Rightarrow> lazy_state" where
  "linode_init g = once_do (lazy_info ''linodego instrumentation initialized'' \<circ>
     (\<lambda>st. case og_instrument_error g ''linodego.client.operation.duration'' of
        Some e \<Rightarrow> st
      | None \<Rightarrow> st\<lparr>lz_instruments := lz_instruments st @ [(og_meter_provider g, ''linodego.client.operation.duration'')]\<rparr>) \<circ>
     lazy_get_tracer g ''go.opentelemetry.io/otelc/instrumentation/github.com/linode/linodego/v2'')"

definition es_init :: "otel_globals \<Rightarrow> lazy_state \<Rightarrow> lazy_state" where
  "es_init g = once_do (lazy_info ''olivere/elastic v7 client instrumentation initialized'' \<circ>
     lazy_get_tracer g ''go.opentelemetry.io/otelc/instrumentation/github.com/olivere/elastic/v7'')"

definition k8s_init :: "otel_globals \<Rightarrow> lazy_state \<Rightarrow> lazy_state" where
  "k8s_init g = once_do (lazy_info ''K8S client-go instrumentation initialized'' \<circ>
     lazy_get_tracer g ''go.opentelemetry.io/otelc/instrumentation/k8s.io/client-go'')"

definition k8s_init_tracer :: "otel_globals \<Rightarrow> lazy_state \<Rightarrow> lazy_state" where
  "k8s_init_tracer g = once_do (lazy_info ''K8S client-go instrumentation initialized'' \<circ>
     lazy_get_tracer g ''go.opentelemetry.io/otelc/instrumentation/k8s.io/client-go'')"

definition db_init_tracer :: "otel_globals \<Rightarrow> lazy_state \<Rightarrow> lazy_state" where
  "db_init_tracer g = once_do (lazy_info ''DB client instrumentation initialized'' \<circ>
     lazy_get_tracer g ''go.opentelemetry.io/otelc/instrumentation/database/sql'')"

definition db_get_tracer :: "otel_globals \<Rightarrow> lazy_state \<Rightarrow> otel_tracer option \<times> lazy_state" where
  "db_get_tracer g st = (let st' = db_init_tracer g st in (lz_tracer st', st'))"

text \<open>
  gRPC: the common part is not guarded, so each side makes the tracer again.  \<open>gi_instruments\<close> are the constructors that
  made an instrument, a failed one leaves a line.
\<close>

record grpc_init_state =
  gi_client_once :: bool
  gi_server_once :: bool
  gi_tracer :: "otel_tracer option"
  gi_propagator :: "nat option"
  gi_instruments :: "(nat \<times> gostring) list"
  gi_lines :: "hook_line list"

definition grpc_fresh :: grpc_init_state where
  "grpc_fresh = \<lparr>gi_client_once = False, gi_server_once = False, gi_tracer = None, gi_propagator = None, gi_instruments = [], gi_lines = []\<rparr>"

definition grpc_common_init :: "otel_globals \<Rightarrow> grpc_init_state \<Rightarrow> grpc_init_state" where
  "grpc_common_init g st =
     st\<lparr>gi_tracer := Some (og_tracer_provider g, ''go.opentelemetry.io/otelc/instrumentation/google.golang.org/grpc''),
        gi_propagator := Some (og_propagator g)\<rparr>"

definition grpc_instrument :: "otel_globals \<Rightarrow> gostring \<times> gostring \<Rightarrow> grpc_init_state \<Rightarrow> grpc_init_state" where
  "grpc_instrument g x st =
     (case x of (nm, what) \<Rightarrow>
        case og_instrument_error g nm of
          Some e \<Rightarrow> st\<lparr>gi_lines := gi_lines st @ [ErrorLine (''failed to create '' @ what @ '' metric'') e]\<rparr>
        | None \<Rightarrow> st\<lparr>gi_instruments := gi_instruments st @ [(og_meter_provider g, nm)]\<rparr>)"

definition grpc_client_instruments :: "(gostring \<times> gostring) list" where
  "grpc_client_instruments =
     [(''NewClientDuration'', ''client duration''), (''NewClientRequestSize'', ''client request size''),
      (''NewClientResponseSize'', ''client response size''), (''NewClientRequestsPerRPC'', ''client requests per rpc''),
      (''NewClientResponsesPerRPC'', ''client responses per rpc'')]"

definition grpc_server_instruments :: "(gostring \<times> gostring) list" where
  "grpc_server_instruments =
     [(''NewServerDuration'', ''server duration''), (''NewServerRequestSize'', ''server request size''),
      (''NewServerResponseSize'', ''server response size''), (''NewServerRequestsPerRPC'', ''server requests per rpc''),
      (''NewServerResponsesPerRPC'', ''server responses per rpc'')]"

definition grpc_line :: "gostring \<Rightarrow> grpc_init_state \<Rightarrow> grpc_init_state" where
  "grpc_line msg st = st\<lparr>gi_lines := gi_lines st @ [InfoLine msg]\<rparr>"

definition grpc_client_init :: "otel_globals \<Rightarrow> grpc_init_state \<Rightarrow> grpc_init_state" where
  "grpc_client_init g st =
     (if gi_client_once st then st
      else (grpc_line ''gRPC client instrumentation initialized''
              (fold (grpc_instrument g) grpc_client_instruments (grpc_common_init g st)))\<lparr>gi_client_once := True\<rparr>)"

definition grpc_server_init :: "otel_globals \<Rightarrow> grpc_init_state \<Rightarrow> grpc_init_state" where
  "grpc_server_init g st =
     (if gi_server_once st then st
      else (grpc_line ''gRPC server instrumentation initialized''
              (fold (grpc_instrument g) grpc_server_instruments (grpc_common_init g st)))\<lparr>gi_server_once := True\<rparr>)"

section \<open>The bridge for net/http\<close>

record http_api =
  ha_once :: bool
  ha_client_once :: bool
  ha_server_once :: bool
  ha_tracer :: "otel_tracer option"
  ha_propagator :: "nat option"
  ha_lines :: "hook_line list"

definition http_api_fresh :: http_api where
  "http_api_fresh = \<lparr>ha_once = False, ha_client_once = False, ha_server_once = False, ha_tracer = None, ha_propagator = None, ha_lines = []\<rparr>"

definition http_api_init :: "otel_globals \<Rightarrow> http_api \<Rightarrow> http_api" where
  "http_api_init g st =
     (if ha_once st then st
      else st\<lparr>ha_once := True, ha_tracer := Some (og_tracer_provider g, ''go.opentelemetry.io/otelc/instrumentation/net/http''),
              ha_propagator := Some (og_propagator g)\<rparr>)"

definition http_tracer_for_client :: "otel_globals \<Rightarrow> http_api \<Rightarrow> otel_tracer option \<times> http_api" where
  "http_tracer_for_client g st =
     (let st' = if ha_client_once st then st
                else let s = http_api_init g st
                     in s\<lparr>ha_lines := ha_lines s @ [InfoLine ''HTTP client instrumentation initialized''], ha_client_once := True\<rparr>
      in (ha_tracer st', st'))"

definition http_tracer_for_server :: "otel_globals \<Rightarrow> http_api \<Rightarrow> otel_tracer option \<times> http_api" where
  "http_tracer_for_server g st =
     (let st' = if ha_server_once st then st
                else let s = http_api_init g st
                     in s\<lparr>ha_lines := ha_lines s @ [InfoLine ''HTTP server instrumentation initialized''], ha_server_once := True\<rparr>
      in (ha_tracer st', st'))"

definition http_propagator :: "otel_globals \<Rightarrow> http_api \<Rightarrow> nat option \<times> http_api" where
  "http_propagator g st = (let st' = http_api_init g st in (ha_propagator st', st'))"

text \<open>\<open>Extract\<close> and \<open>Inject\<close> with the propagator found; what a propagator does with the headers is a parameter.\<close>

definition http_extract ::
  "(nat option \<Rightarrow> 'h \<Rightarrow> 'ctx \<Rightarrow> 'ctx) \<Rightarrow> otel_globals \<Rightarrow> 'ctx \<Rightarrow> 'h \<Rightarrow> http_api \<Rightarrow> 'ctx \<times> http_api" where
  "http_extract extract g ctx h st = (case http_propagator g st of (p, st') \<Rightarrow> (extract p h ctx, st'))"

definition http_inject ::
  "(nat option \<Rightarrow> 'ctx \<Rightarrow> 'h \<Rightarrow> 'h) \<Rightarrow> otel_globals \<Rightarrow> 'ctx \<Rightarrow> 'h \<Rightarrow> http_api \<Rightarrow> 'h \<times> http_api" where
  "http_inject inject g ctx h st = (case http_propagator g st of (p, st') \<Rightarrow> (inject p ctx h, st'))"

section \<open>The scopes of the GenAI middlewares\<close>

record scope_state =
  sc_tracer :: otel_tracer
  sc_operation_duration :: "(nat \<times> gostring) option"

record genai_scopes =
  gs_scopes :: "gostring \<rightharpoonup> scope_state"
  gs_capture :: "bool option"
  gs_lines :: "hook_line list"

definition ensure_scope :: "otel_globals \<Rightarrow> gostring \<Rightarrow> genai_scopes \<Rightarrow> scope_state \<times> genai_scopes" where
  "ensure_scope g nm st =
     (case gs_scopes st nm of
        Some s \<Rightarrow> (s, st)
      | None \<Rightarrow>
          let err = og_instrument_error g ''gen_ai.client.operation.duration'';
              s = \<lparr>sc_tracer = (og_tracer_provider g, nm),
                   sc_operation_duration = (if err = None then Some (og_meter_provider g, nm) else None)\<rparr>;
              st' = (case err of
                       Some e \<Rightarrow> st\<lparr>gs_lines := gs_lines st @ [ErrorLine ''failed to create gen_ai.client.operation.duration histogram'' e]\<rparr>
                     | None \<Rightarrow> st)
          in (s, st'\<lparr>gs_scopes := (gs_scopes st')(nm \<mapsto> s)\<rparr>))"

text \<open>Whether content is captured is read from the environment once.\<close>

definition capture_content_enabled :: "gostring \<Rightarrow> genai_scopes \<Rightarrow> bool \<times> genai_scopes" where
  "capture_content_enabled env_value st =
     (case gs_capture st of
        Some b \<Rightarrow> (b, st)
      | None \<Rightarrow> let b = content_capture_from_env env_value in (b, st\<lparr>gs_capture := Some b\<rparr>))"

text \<open>\<open>k8sapi.NewHandler\<close>, the target of the bridge from the injected packages.\<close>

definition k8s_new_handler :: "otel_globals \<Rightarrow> k8s_handler \<Rightarrow> lazy_state \<Rightarrow> k8s_handler \<times> lazy_state" where
  "k8s_new_handler g handler st = (let st' = k8s_init_tracer g st in (new_otel_event_handler handler, st'))"

section \<open>The first call settles it\<close>

locale lazy_init =
  fixes init :: "otel_globals \<Rightarrow> lazy_state \<Rightarrow> lazy_state"
  assumes settled: "lz_once (init g st)" and kept: "lz_once st \<Longrightarrow> init g st = st"
begin

lemma settled_run: "lz_once st \<Longrightarrow> fold init gs st = st"
  by (induction gs) (auto simp: kept)

lemma first_wins: "fold init (g # gs) st = init g st"
  using settled_run [of "init g st" gs] settled by simp

end

lemma once_laws: "lz_once (once_do f st)" "lz_once st \<Longrightarrow> once_do f st = st"
  by (simp_all add: once_do_def)

interpretation amqp_lazy: lazy_init amqp_plugin_init by unfold_locales (simp_all add: amqp_plugin_init_def once_laws)
interpretation redis_lazy: lazy_init redis_init by unfold_locales (simp_all add: redis_init_def once_laws)
interpretation kafka_lazy: lazy_init kafka_init by unfold_locales (simp_all add: kafka_init_def once_laws)
interpretation linode_lazy: lazy_init linode_init by unfold_locales (simp_all add: linode_init_def once_laws)
interpretation es_lazy: lazy_init es_init by unfold_locales (simp_all add: es_init_def once_laws)
interpretation k8s_lazy: lazy_init k8s_init by unfold_locales (simp_all add: k8s_init_def once_laws)
interpretation k8s_tracer_lazy: lazy_init k8s_init_tracer by unfold_locales (simp_all add: k8s_init_tracer_def once_laws)
interpretation db_lazy: lazy_init db_init_tracer by unfold_locales (simp_all add: db_init_tracer_def once_laws)

lemmas lazy_defs = once_do_def lazy_fresh_def lazy_info_def lazy_get_tracer_def lazy_get_propagator_def
  amqp_plugin_init_def redis_init_def kafka_init_def linode_init_def es_init_def k8s_init_def k8s_init_tracer_def db_init_tracer_def

lemmas lazy_first = amqp_lazy.first_wins redis_lazy.first_wins kafka_lazy.first_wins linode_lazy.first_wins es_lazy.first_wins
  k8s_lazy.first_wins k8s_tracer_lazy.first_wins db_lazy.first_wins

text \<open>
  Every plugin initialises once: however often its hooks run, and whatever providers are installed by then, the tracer and
  the propagator are those of the first call, and its lines are logged once, in order; a Linode duration is made exactly
  when the meter provider does not refuse it, without a line.
\<close>
theorem plugins_initialise_once:
  "list_all (\<lambda>(init, nm, propagates, lines).
      let st = fold init (g # gs) lazy_fresh
      in lz_tracer st = Some (og_tracer_provider g, nm) \<and>
         lz_propagator st = (if propagates then Some (og_propagator g) else None) \<and> lz_lines st = map InfoLine lines)
    [(amqp_plugin_init, ''go.opentelemetry.io/otelc/instrumentation/github.com/rabbitmq/amqp091-go'', True,
        [''rabbitmq/amqp091-go instrumentation initialized'']),
     (redis_init, ''go.opentelemetry.io/otelc/instrumentation/github.com/redis/go-redis/v9'', False,
        [''Redis v9 client instrumentation initialized'']),
     (kafka_init, ''go.opentelemetry.io/otelc/instrumentation/github.com/segmentio/kafka-go'', True,
        [''Kafka (segmentio/kafka-go) consumer instrumentation initialized'',
         ''Kafka (segmentio/kafka-go) producer instrumentation initialized'']),
     (linode_init, ''go.opentelemetry.io/otelc/instrumentation/github.com/linode/linodego/v2'', False,
        [''linodego instrumentation initialized'']),
     (es_init, ''go.opentelemetry.io/otelc/instrumentation/github.com/olivere/elastic/v7'', False,
        [''olivere/elastic v7 client instrumentation initialized'']),
     (k8s_init, ''go.opentelemetry.io/otelc/instrumentation/k8s.io/client-go'', False,
        [''K8S client-go instrumentation initialized'']),
     (k8s_init_tracer, ''go.opentelemetry.io/otelc/instrumentation/k8s.io/client-go'', False,
        [''K8S client-go instrumentation initialized'']),
     (db_init_tracer, ''go.opentelemetry.io/otelc/instrumentation/database/sql'', False,
        [''DB client instrumentation initialized''])] \<and>
   (lz_instruments (fold linode_init (g # gs) lazy_fresh) = [] \<longleftrightarrow> og_instrument_error g ''linodego.client.operation.duration'' \<noteq> None)"
  by (simp only: list.pred_inject prod.case lazy_first Let_def)
    (simp add: lazy_defs split: option.split)

section \<open>Both sides\<close>

datatype http_api_op = CallClientTracer | CallServerTracer | CallPropagator

fun http_api_step ::
  "otel_globals \<times> http_api_op \<Rightarrow> http_api \<times> otel_tracer option list \<times> nat option list \<Rightarrow>
   http_api \<times> otel_tracer option list \<times> nat option list" where
  "http_api_step (g, CallClientTracer) (st, ts, ps) = (case http_tracer_for_client g st of (t, st') \<Rightarrow> (st', ts @ [t], ps))"
| "http_api_step (g, CallServerTracer) (st, ts, ps) = (case http_tracer_for_server g st of (t, st') \<Rightarrow> (st', ts @ [t], ps))"
| "http_api_step (g, CallPropagator) (st, ts, ps) = (case http_propagator g st of (p, st') \<Rightarrow> (st', ts, ps @ [p]))"

text \<open>The state after the first call: what was fetched, and which sides have logged.\<close>

definition http_settled :: "otel_globals \<Rightarrow> http_api \<times> otel_tracer option list \<times> nat option list \<Rightarrow> bool" where
  "http_settled g x =
     (case x of (st, ts, ps) \<Rightarrow>
        ha_once st \<and> ha_tracer st = Some (og_tracer_provider g, ''go.opentelemetry.io/otelc/instrumentation/net/http'') \<and>
        ha_propagator st = Some (og_propagator g) \<and>
        list_all (\<lambda>t. t = ha_tracer st) ts \<and> list_all (\<lambda>p. p = ha_propagator st) ps \<and>
        count_list (ha_lines st) (InfoLine ''HTTP client instrumentation initialized'') = (if ha_client_once st then 1 else 0) \<and>
        count_list (ha_lines st) (InfoLine ''HTTP server instrumentation initialized'') = (if ha_server_once st then 1 else 0))"

lemmas http_api_defs = http_tracer_for_client_def http_tracer_for_server_def http_propagator_def http_api_init_def

interpretation http_api_sys: invariant_system http_api_step "\<lambda>_ _. True" "http_settled g"
proof
  fix s :: "http_api \<times> otel_tracer option list \<times> nat option list" and x :: "otel_globals \<times> http_api_op"
  assume "http_settled g s"
  then show "http_settled g (http_api_step x s)"
    by (cases s; cases x; cases "snd x") (auto simp: http_settled_def http_api_defs Let_def)
qed

text \<open>
  The client hook, the server hook and the propagation of \<open>net/http\<close> share one initialisation: whatever calls come, in any
  order and with any providers installed between them, every call returns the tracer or the propagator found by the first
  one, and the line of each side is logged once if that side was called, and never otherwise.
\<close>
theorem http_bridge_shared:
  "(case run_ops http_api_step ((g, x) # xs) (http_api_fresh, [], []) of
      (st, ts, ps) \<Rightarrow>
        list_all (\<lambda>t. t = Some (og_tracer_provider g, ''go.opentelemetry.io/otelc/instrumentation/net/http'')) ts \<and>
        list_all (\<lambda>p. p = Some (og_propagator g)) ps \<and>
        count_list (ha_lines st) (InfoLine ''HTTP client instrumentation initialized'')
          = (if CallClientTracer \<in> snd ` set ((g, x) # xs) then 1 else 0) \<and>
        count_list (ha_lines st) (InfoLine ''HTTP server instrumentation initialized'')
          = (if CallServerTracer \<in> snd ` set ((g, x) # xs) then 1 else 0))"
proof -
  obtain st ts ps where r: "run_ops http_api_step ((g, x) # xs) (http_api_fresh, [], []) = (st, ts, ps)" by (metis prod_cases3)
  have first: "http_settled g (http_api_step (g, x) (http_api_fresh, [], []))"
    by (cases x) (auto simp: http_settled_def http_api_defs http_api_fresh_def Let_def)
  then have inv: "http_settled g (st, ts, ps)" using http_api_sys.run_inv [OF first, of xs] r by simp
  have "ha_client_once (fst (run_ops http_api_step ys s)) = (ha_client_once (fst s) \<or> CallClientTracer \<in> snd ` set ys) \<and>
      ha_server_once (fst (run_ops http_api_step ys s)) = (ha_server_once (fst s) \<or> CallServerTracer \<in> snd ` set ys)" for ys s
  proof (induction ys arbitrary: s)
    case (Cons y ys)
    have "ha_client_once (fst (http_api_step y s)) = (ha_client_once (fst s) \<or> snd y = CallClientTracer) \<and>
        ha_server_once (fst (http_api_step y s)) = (ha_server_once (fst s) \<or> snd y = CallServerTracer)"
      by (cases s; cases y; cases "snd y") (auto simp: http_api_defs Let_def)
    then show ?case using Cons.IH [of "http_api_step y s"] by auto
  qed simp
  from this [of "(g, x) # xs" "(http_api_fresh, [], [])"] show ?thesis
    using inv unfolding r by (auto simp: http_settled_def http_api_fresh_def list_all_iff)
qed

text \<open>gRPC: each side makes its instruments and logs once; the tracer is the one of the side that came last.\<close>

lemma grpc_instruments_kept:
  "gi_tracer (fold (grpc_instrument g) xs st) = gi_tracer st" "gi_server_once (fold (grpc_instrument g) xs st) = gi_server_once st"
  by (induction xs arbitrary: st) (auto simp: grpc_instrument_def split: prod.split option.split)

lemma grpc_sides_once:
  "gi_client_once st \<Longrightarrow> grpc_client_init g st = st" "gi_server_once st \<Longrightarrow> grpc_server_init g st = st"
  "gi_tracer (grpc_server_init g2 (grpc_client_init g1 grpc_fresh))
     = Some (og_tracer_provider g2, ''go.opentelemetry.io/otelc/instrumentation/google.golang.org/grpc'')"
  by (simp_all add: grpc_client_init_def grpc_server_init_def grpc_fresh_def grpc_line_def grpc_common_init_def grpc_instruments_kept)

text \<open>A scope, once made, is what every later call for its name gets.\<close>

lemma scope_settled:
  assumes "ensure_scope g nm st = (s, st')"
  shows "ensure_scope g' nm st' = (s, st')" and "gs_scopes st nm' = Some t \<Longrightarrow> gs_scopes st' nm' = Some t"
  using assms by (auto simp: ensure_scope_def Let_def split: option.splits if_splits)

text \<open>Content capture stays as the first call found it, and the handler of the bridge is the traced one with the tracer made.\<close>

lemma capture_settled:
  assumes "capture_content_enabled v st = (b, st')"
  shows "capture_content_enabled w st' = (b, st')" and "gs_capture st = None \<Longrightarrow> b = content_capture_from_env v"
  using assms by (auto simp: capture_content_enabled_def Let_def split: option.splits)

lemma new_handler_made: "k8s_new_handler g h st = (h', st') \<Longrightarrow> h' = new_otel_event_handler h \<and> lz_once st'"
  by (auto simp: k8s_new_handler_def k8s_tracer_lazy.settled)

end
