(* ===== verification/Client_Hooks.thy ===== *)
theory Client_Hooks
  imports Go_Prelude
begin

text \<open>
  The hooks that only change how an SDK's client is made: the MongoDB drivers (\<open>otelc/plugins/mongov1\<close>, \<open>mongov2\<close>), the OpenAI and
  Anthropic clients (\<open>openaiv1\<close> to \<open>openaiv3\<close>, \<open>anthropic\<close>) and the AWS configuration (\<open>awssdkv2\<close>).  The monitor and the
  middlewares they install are not part of the repository, or modelled elsewhere: parameters here.  \<open>on\<close> says whether the
  instrumentation is switched on.
\<close>

section \<open>Command monitors\<close>

text \<open>A callback that is set changes the state of what it reports to.\<close>

record ('a, 'b, 'c, 's) command_monitor =
  cm_started :: "('a \<Rightarrow> 's \<Rightarrow> 's) option"
  cm_succeeded :: "('b \<Rightarrow> 's \<Rightarrow> 's) option"
  cm_failed :: "('c \<Rightarrow> 's \<Rightarrow> 's) option"

definition call_back :: "('e \<Rightarrow> 's \<Rightarrow> 's) option \<Rightarrow> 'e \<Rightarrow> 's \<Rightarrow> 's" where
  "call_back f e s = (case f of Some g \<Rightarrow> g e s | None \<Rightarrow> s)"

definition mongo_chain_monitors ::
  "('a, 'b, 'c, 's) command_monitor \<Rightarrow> ('a, 'b, 'c, 's) command_monitor \<Rightarrow> ('a, 'b, 'c, 's) command_monitor" where
  "mongo_chain_monitors user otel =
     \<lparr>cm_started = Some (\<lambda>e s. call_back (cm_started otel) e (call_back (cm_started user) e s)),
      cm_succeeded = Some (\<lambda>e s. call_back (cm_succeeded otel) e (call_back (cm_succeeded user) e s)),
      cm_failed = Some (\<lambda>e s. call_back (cm_failed otel) e (call_back (cm_failed user) e s))\<rparr>"

definition mongo_v2_chain_monitors ::
  "('a, 'b, 'c, 's) command_monitor \<Rightarrow> ('a, 'b, 'c, 's) command_monitor \<Rightarrow> ('a, 'b, 'c, 's) command_monitor" where
  "mongo_v2_chain_monitors user otel =
     \<lparr>cm_started = Some (\<lambda>e s. call_back (cm_started otel) e (call_back (cm_started user) e s)),
      cm_succeeded = Some (\<lambda>e s. call_back (cm_succeeded otel) e (call_back (cm_succeeded user) e s)),
      cm_failed = Some (\<lambda>e s. call_back (cm_failed otel) e (call_back (cm_failed user) e s))\<rparr>"

section \<open>Slices of the caller\<close>

text \<open>
  The arrays behind slices; those from \<open>hp_next\<close> on do not exist yet.  \<open>append\<close> writes into the array where the capacity
  allows it and copies to a new one, of a capacity of its choice, where not.
\<close>

record 'a go_heap =
  hp_cells :: "nat \<Rightarrow> nat \<Rightarrow> 'a"
  hp_next :: nat

record go_slice =
  sl_array :: nat
  sl_off :: nat
  sl_len :: nat
  sl_cap :: nat

definition slice_elems :: "'a go_heap \<Rightarrow> go_slice \<Rightarrow> 'a list" where
  "slice_elems h s = map (\<lambda>i. hp_cells h (sl_array s) (sl_off s + i)) [0 ..< sl_len s]"

definition full_slice :: "go_slice \<Rightarrow> go_slice" where
  "full_slice s = s\<lparr>sl_cap := sl_len s\<rparr>"

definition slice_append :: "nat \<Rightarrow> 'a \<Rightarrow> 'a go_heap \<Rightarrow> go_slice \<Rightarrow> 'a go_heap \<times> go_slice" where
  "slice_append spare x h s =
     (if sl_len s < sl_cap s
      then (h\<lparr>hp_cells := (hp_cells h)(sl_array s := (hp_cells h (sl_array s))(sl_off s + sl_len s := x))\<rparr>,
            s\<lparr>sl_len := Suc (sl_len s)\<rparr>)
      else (h\<lparr>hp_cells := (hp_cells h)(hp_next h := (\<lambda>i. if i < sl_len s then hp_cells h (sl_array s) (sl_off s + i) else x)),
              hp_next := Suc (hp_next h)\<rparr>,
            \<lparr>sl_array = hp_next h, sl_off = 0, sl_len = Suc (sl_len s), sl_cap = Suc (sl_len s) + spare\<rparr>))"

section \<open>The MongoDB drivers\<close>

text \<open>Client options: the monitor, the HTTP client that version 1 has, and the other fields by name; a field may be unset.\<close>

record 'm client_options_v2 =
  co_monitor :: "'m option"
  co_fields :: "gostring \<Rightarrow> nat option"

record 'm client_options = "'m client_options_v2" +
  co_http :: "nat option"

definition mongo_inject_monitor ::
  "(('a, 'b, 'c, 's) command_monitor client_options list \<Rightarrow> ('a, 'b, 'c, 's) command_monitor client_options) \<Rightarrow>
   ('a, 'b, 'c, 's) command_monitor \<Rightarrow> nat \<Rightarrow> ('a, 'b, 'c, 's) command_monitor client_options go_heap \<Rightarrow> go_slice \<Rightarrow>
   ('a, 'b, 'c, 's) command_monitor client_options go_heap \<times> go_slice" where
  "mongo_inject_monitor merge otel spare h opts =
     (let merged = merge (slice_elems h opts);
          monitor = (case co_monitor merged of Some user \<Rightarrow> mongo_chain_monitors user otel | None \<Rightarrow> otel);
          injected = \<lparr>co_monitor = Some monitor, co_fields = (\<lambda>_. None), co_http = co_http merged\<rparr>
      in slice_append spare injected h (full_slice opts))"

definition mongo_v2_inject_monitor ::
  "(('a, 'b, 'c, 's) command_monitor client_options_v2 list \<Rightarrow> ('a, 'b, 'c, 's) command_monitor client_options_v2) \<Rightarrow>
   ('a, 'b, 'c, 's) command_monitor \<Rightarrow> nat \<Rightarrow> ('a, 'b, 'c, 's) command_monitor client_options_v2 go_heap \<Rightarrow> go_slice \<Rightarrow>
   ('a, 'b, 'c, 's) command_monitor client_options_v2 go_heap \<times> go_slice" where
  "mongo_v2_inject_monitor merge otel spare h opts =
     (let merged = merge (slice_elems h opts);
          monitor = (case co_monitor merged of Some user \<Rightarrow> mongo_v2_chain_monitors user otel | None \<Rightarrow> otel);
          injected = \<lparr>co_monitor = Some monitor, co_fields = (\<lambda>_. None)\<rparr>
      in slice_append spare injected h (full_slice opts))"

text \<open>\<open>Connect\<close> and \<open>NewClient\<close> of version 1, and \<open>Connect\<close> of version 2: the options the original body gets.\<close>

definition mongo_connect where
  "mongo_connect on merge otel spare h opts = (if on then mongo_inject_monitor merge otel spare h opts else (h, opts))"

definition mongo_new_client where
  "mongo_new_client on merge otel spare h opts = (if on then mongo_inject_monitor merge otel spare h opts else (h, opts))"

definition mongo_v2_connect where
  "mongo_v2_connect on merge otel spare h opts = (if on then mongo_v2_inject_monitor merge otel spare h opts else (h, opts))"

section \<open>AI clients and AWS\<close>

text \<open>The options of an AI client: the middleware of a scope, or one of the application.  A new slice is filled.\<close>

datatype 'o client_option = WithMiddleware gostring | UserOption 'o

definition prepend_middleware :: "bool \<Rightarrow> gostring \<Rightarrow> 'o client_option list \<Rightarrow> 'o client_option list" where
  "prepend_middleware on scope opts = (if on then [WithMiddleware scope] @ opts else opts)"

definition openai_new_client where
  "openai_new_client on opts = prepend_middleware on ''go.opentelemetry.io/otelc/instrumentation/github.com/openai/openai-go'' opts"

definition openai_v2_new_client where
  "openai_v2_new_client on opts = prepend_middleware on ''go.opentelemetry.io/otelc/instrumentation/github.com/openai/openai-go/v2'' opts"

definition openai_v3_new_client where
  "openai_v3_new_client on opts = prepend_middleware on ''go.opentelemetry.io/otelc/instrumentation/github.com/openai/openai-go/v3'' opts"

definition anthropic_new_client where
  "anthropic_new_client on opts =
     prepend_middleware on ''go.opentelemetry.io/otelc/instrumentation/github.com/anthropics/anthropic-sdk-go'' opts"

text \<open>The API options of a configuration; \<open>middlewares\<close> are those the AWS instrumentation appends.\<close>

definition aws_load_default_config :: "bool \<Rightarrow> 'o list \<Rightarrow> 'o list \<Rightarrow> 'e option \<Rightarrow> 'o list \<times> 'e option" where
  "aws_load_default_config on middlewares api_options err =
     (if err = None \<and> on then (api_options @ middlewares, err) else (api_options, err))"

section \<open>Properties\<close>

lemma append_full:
  assumes "sl_array s < hp_next h"
  shows "case slice_append spare x h (full_slice s) of (h', s') \<Rightarrow>
    slice_elems h' s' = slice_elems h s @ [x] \<and> sl_array s' = hp_next h \<and> (\<forall>a < hp_next h. hp_cells h' a = hp_cells h a)"
  using assms by (auto simp: slice_append_def full_slice_def slice_elems_def)

text \<open>
  What the drivers document of merging options: the last one wins where it sets a field.  For the HTTP client the law leaves
  open whether an unset one resets it.
\<close>

definition merge_laws :: "(('m, 'z) client_options_v2_scheme list \<Rightarrow> ('m, 'z) client_options_v2_scheme) \<Rightarrow> bool" where
  "merge_laws merge \<longleftrightarrow>
     (\<forall>opts x.
        co_monitor (merge (opts @ [x])) = (case co_monitor x of Some m \<Rightarrow> Some m | None \<Rightarrow> co_monitor (merge opts)) \<and>
        co_fields (merge (opts @ [x])) = (\<lambda>k. case co_fields x k of Some v \<Rightarrow> Some v | None \<Rightarrow> co_fields (merge opts) k))"

definition merge_http :: "('m client_options list \<Rightarrow> 'm client_options) \<Rightarrow> bool" where
  "merge_http merge \<longleftrightarrow>
     (\<forall>opts x. co_http (merge (opts @ [x])) = co_http x \<or> co_http x = None \<and> co_http (merge (opts @ [x])) = co_http (merge opts))"

text \<open>The monitor in force reports every event to the application's first and then to the instrumentation's.\<close>

definition reports_both ::
  "('a, 'b, 'c, 's) command_monitor option \<Rightarrow> ('a, 'b, 'c, 's) command_monitor \<Rightarrow> ('a, 'b, 'c, 's) command_monitor option \<Rightarrow> bool" where
  "reports_both user otel installed \<longleftrightarrow>
     (case installed of
        None \<Rightarrow> False
      | Some m \<Rightarrow>
          (\<forall>e s. call_back (cm_started m) e s = call_back (cm_started otel) e (call_back (Option.bind user cm_started) e s)) \<and>
          (\<forall>e s. call_back (cm_succeeded m) e s = call_back (cm_succeeded otel) e (call_back (Option.bind user cm_succeeded) e s)) \<and>
          (\<forall>e s. call_back (cm_failed m) e s = call_back (cm_failed otel) e (call_back (Option.bind user cm_failed) e s)))"

lemma chain_reports:
  "reports_both user otel (Some (case user of Some u \<Rightarrow> mongo_chain_monitors u otel | None \<Rightarrow> otel))"
  "reports_both user otel (Some (case user of Some u \<Rightarrow> mongo_v2_chain_monitors u otel | None \<Rightarrow> otel))"
  by (auto simp: reports_both_def mongo_chain_monitors_def mongo_v2_chain_monitors_def call_back_def split: option.split)

text \<open>
  C40: A MongoDB client is monitored without changing anything else: with the instrumentation on, the monitor in force after the
  options are merged reports every event to the application's own monitor first, if it has one and whatever callbacks that
  has, and then to OpenTelemetry's; the HTTP client and every other field in force are what they would have been; and no
  array of the application is written, whatever spare capacity its slice of options has.
\<close>
theorem mongo_monitor_chained:
  assumes "merge_laws merge" and "merge_http merge" and "sl_array opts < hp_next h"
    and "mongo_connect True merge otel spare h opts = (h', opts')"
    and "merge_laws merge2" and "sl_array opts2 < hp_next h2"
    and "mongo_v2_connect True merge2 otel2 spare h2 opts2 = (h2', opts2')"
  shows "(let before = merge (slice_elems h opts); after = merge (slice_elems h' opts')
      in reports_both (co_monitor before) otel (co_monitor after) \<and> co_http after = co_http before \<and>
         co_fields after = co_fields before \<and> (\<forall>a. a < hp_next h \<longrightarrow> hp_cells h' a = hp_cells h a)) \<and>
    (let before = merge2 (slice_elems h2 opts2); after = merge2 (slice_elems h2' opts2')
      in reports_both (co_monitor before) otel2 (co_monitor after) \<and>
         co_fields after = co_fields before \<and> (\<forall>a. a < hp_next h2 \<longrightarrow> hp_cells h2' a = hp_cells h2 a))"
proof (intro conjI)
  let ?m = "merge (slice_elems h opts)"
  let ?x = "\<lparr>co_monitor = Some (case co_monitor ?m of Some user \<Rightarrow> mongo_chain_monitors user otel | None \<Rightarrow> otel),
    co_fields = (\<lambda>_. None), co_http = co_http ?m\<rparr>"
  have "slice_append spare ?x h (full_slice opts) = (h', opts')"
    using assms(4) by (simp add: mongo_connect_def mongo_inject_monitor_def Let_def)
  then have "slice_elems h' opts' = slice_elems h opts @ [?x]" "\<forall>a < hp_next h. hp_cells h' a = hp_cells h a"
    using append_full [where spare = spare and x = ?x, OF assms(3)] by auto
  moreover have "co_http (merge (slice_elems h opts @ [?x])) = co_http ?m"
    using assms(2) [unfolded merge_http_def, rule_format, of "slice_elems h opts" ?x] by auto
  ultimately show "let before = merge (slice_elems h opts); after = merge (slice_elems h' opts')
      in reports_both (co_monitor before) otel (co_monitor after) \<and> co_http after = co_http before \<and>
         co_fields after = co_fields before \<and> (\<forall>a. a < hp_next h \<longrightarrow> hp_cells h' a = hp_cells h a)"
    using assms(1) chain_reports(1) by (simp add: merge_laws_def Let_def)
next
  let ?m = "merge2 (slice_elems h2 opts2)"
  let ?x = "\<lparr>co_monitor = Some (case co_monitor ?m of Some user \<Rightarrow> mongo_v2_chain_monitors user otel2 | None \<Rightarrow> otel2),
    co_fields = (\<lambda>_. None)\<rparr>"
  have "slice_append spare ?x h2 (full_slice opts2) = (h2', opts2')"
    using assms(7) by (simp add: mongo_v2_connect_def mongo_v2_inject_monitor_def Let_def)
  then have "slice_elems h2' opts2' = slice_elems h2 opts2 @ [?x]" "\<forall>a < hp_next h2. hp_cells h2' a = hp_cells h2 a"
    using append_full [where spare = spare and x = ?x, OF assms(6)] by auto
  then show "let before = merge2 (slice_elems h2 opts2); after = merge2 (slice_elems h2' opts2')
      in reports_both (co_monitor before) otel2 (co_monitor after) \<and>
         co_fields after = co_fields before \<and> (\<forall>a. a < hp_next h2 \<longrightarrow> hp_cells h2' a = hp_cells h2 a)"
    using assms(5) chain_reports(2) by (simp add: merge_laws_def Let_def)
qed

text \<open>Merging as the drivers do it, where an unset HTTP client resets it.\<close>

definition merge_step :: "'m client_options \<Rightarrow> 'm client_options \<Rightarrow> 'm client_options" where
  "merge_step acc x =
     \<lparr>co_monitor = (case co_monitor x of Some m \<Rightarrow> Some m | None \<Rightarrow> co_monitor acc),
      co_fields = (\<lambda>k. case co_fields x k of Some v \<Rightarrow> Some v | None \<Rightarrow> co_fields acc k), co_http = co_http x\<rparr>"

definition merge_v2_step :: "'m client_options_v2 \<Rightarrow> 'm client_options_v2 \<Rightarrow> 'm client_options_v2" where
  "merge_v2_step acc x =
     \<lparr>co_monitor = (case co_monitor x of Some m \<Rightarrow> Some m | None \<Rightarrow> co_monitor acc),
      co_fields = (\<lambda>k. case co_fields x k of Some v \<Rightarrow> Some v | None \<Rightarrow> co_fields acc k)\<rparr>"

lemma merge_instances:
  "merge_laws (foldl merge_step a)" "merge_http (foldl merge_step a)" "merge_laws (foldl merge_v2_step b)"
  by (simp_all add: merge_laws_def merge_http_def merge_step_def merge_v2_step_def)

definition demo_user :: "(unit, unit, unit, gostring list) command_monitor" where
  "demo_user = \<lparr>cm_started = Some (\<lambda>_ s. s @ [''user'']), cm_succeeded = None, cm_failed = None\<rparr>"

definition demo_otel :: "(unit, unit, unit, gostring list) command_monitor" where
  "demo_otel = \<lparr>cm_started = Some (\<lambda>_ s. s @ [''otel'']), cm_succeeded = Some (\<lambda>_ s. s @ [''done'']), cm_failed = None\<rparr>"

definition demo_options :: "(unit, unit, unit, gostring list) command_monitor client_options" where
  "demo_options = \<lparr>co_monitor = Some demo_user, co_fields = (\<lambda>_. None), co_http = Some 3\<rparr>"

definition demo_options_v2 :: "(unit, unit, unit, gostring list) command_monitor client_options_v2" where
  "demo_options_v2 = \<lparr>co_monitor = Some demo_user, co_fields = (\<lambda>_. None)\<rparr>"

theorem mongo_monitor_chained_witness:
  "\<exists>h' opts' m. mongo_connect True (foldl merge_step demo_options) demo_otel 0
      \<lparr>hp_cells = (\<lambda>_ _. demo_options), hp_next = 1\<rparr> \<lparr>sl_array = 0, sl_off = 0, sl_len = 1, sl_cap = 4\<rparr> = (h', opts') \<and>
    co_monitor (foldl merge_step demo_options (slice_elems h' opts')) = Some m \<and>
    call_back (cm_started m) () [] = [''user'', ''otel''] \<and> call_back (cm_succeeded m) () [] = [''done'']"
proof -
  let ?h = "\<lparr>hp_cells = (\<lambda>_ _. demo_options), hp_next = 1\<rparr>" and ?s = "\<lparr>sl_array = 0, sl_off = 0, sl_len = 1, sl_cap = 4\<rparr>"
  let ?h2 = "\<lparr>hp_cells = (\<lambda>_ _. demo_options_v2), hp_next = 1\<rparr>"
  obtain h' opts' where c: "mongo_connect True (foldl merge_step demo_options) demo_otel 0 ?h ?s = (h', opts')" by fastforce
  obtain h2' opts2' where c2: "mongo_v2_connect True (foldl merge_v2_step demo_options_v2) demo_otel 0 ?h2 ?s = (h2', opts2')" by fastforce
  have alive: "sl_array ?s < hp_next ?h" "sl_array ?s < hp_next ?h2" by simp_all
  have "co_monitor (foldl merge_step demo_options (slice_elems ?h ?s)) = Some demo_user"
    by (simp add: slice_elems_def merge_step_def demo_options_def)
  then have "reports_both (Some demo_user) demo_otel (co_monitor (foldl merge_step demo_options (slice_elems h' opts')))"
    using mongo_monitor_chained [OF merge_instances(1,2) alive(1) c merge_instances(3) alive(2) c2] by (simp add: Let_def)
  then obtain m where m: "co_monitor (foldl merge_step demo_options (slice_elems h' opts')) = Some m"
    "call_back (cm_started m) () [] = [''user'', ''otel'']" "call_back (cm_succeeded m) () [] = [''done'']"
    by (auto simp: reports_both_def demo_user_def demo_otel_def call_back_def split: option.splits)
  show ?thesis
    by (rule exI [of _ h'], rule exI [of _ opts'], rule exI [of _ m], intro conjI) (rule c, rule m, rule m, rule m)
qed

end
