(* ===== verification/Attr_Types.thy ===== *)
theory Attr_Types
  imports Amqp Db_Sql Elastic Gocql Grpc K8s Kafka Linodego Redis Net_Http GenAI
begin

text \<open>
  The attributes of all instrumentations together: the semantic conventions give each key one type of value, and every
  attribute a rule sets has the type of its key, with ports and sizes that are positive.
\<close>

section \<open>The types of the keys\<close>

definition port_keys :: "gostring list" where
  "port_keys = [''server.port'', ''client.port'', ''network.peer.port'']"

definition size_keys :: "gostring list" where
  "size_keys = [''messaging.message.body.size'', ''http.response.body.size'']"

definition int_keys :: "gostring list" where
  "int_keys =
     [''http.response.status_code'', ''rpc.grpc.status_code'', ''db.operation.batch.size'', ''messaging.kafka.offset'',
      ''k8s.objects.count'', ''gen_ai.request.max_tokens'', ''gen_ai.request.top_k'', ''gen_ai.usage.input_tokens'',
      ''gen_ai.usage.output_tokens'', ''gen_ai.usage.total_tokens'', ''gen_ai.usage.cache_read.input_tokens'',
      ''gen_ai.usage.cache_creation.input_tokens'']"

definition bool_keys :: "gostring list" where
  "bool_keys = [''messaging.kafka.async'', ''k8s.objects.is_in_initial_list'', ''gen_ai.request.is_stream'']"

definition list_keys :: "gostring list" where
  "list_keys = [''gen_ai.response.finish_reasons'']"

definition float_keys :: "gostring list" where
  "float_keys =
     [''gen_ai.request.temperature'', ''gen_ai.request.top_p'', ''gen_ai.request.frequency_penalty'', ''gen_ai.request.presence_penalty'']"

text \<open>Any other key has a string.\<close>

fun attr_ok :: "gostring \<times> attr_value \<Rightarrow> bool" where
  "attr_ok (k, IntV n) = ((k \<in> set port_keys \<or> k \<in> set size_keys) \<and> n > 0 \<or> k \<in> set int_keys)"
| "attr_ok (k, BoolV _) = (k \<in> set bool_keys)"
| "attr_ok (k, StrsV _) = (k \<in> set list_keys)"
| "attr_ok (k, FloatV _) = (k \<in> set float_keys)"
| "attr_ok (k, StrV _) = (k \<notin> set (port_keys @ size_keys @ int_keys @ bool_keys @ list_keys @ float_keys))"

definition attrs_ok :: "attrs \<Rightarrow> bool" where
  "attrs_ok as \<longleftrightarrow> list_all attr_ok as"

lemma attrs_ok_simps [simp]:
  "attrs_ok []" "attrs_ok (a # as) \<longleftrightarrow> attr_ok a \<and> attrs_ok as" "attrs_ok (as @ bs) \<longleftrightarrow> attrs_ok as \<and> attrs_ok bs"
  by (simp_all add: attrs_ok_def)

lemma attrs_ok_opt [simp]: "attrs_ok (opt_attr b k v) \<longleftrightarrow> (b \<longrightarrow> attr_ok (k, v))"
  by (simp add: opt_attr_def)

text \<open>The string keys the rules use, none of which has another type; the rules below are what the proofs need of the table.\<close>

definition other_keys :: "gostring list" where
  "other_keys = port_keys @ size_keys @ int_keys @ bool_keys @ list_keys @ float_keys"

definition string_keys :: "gostring list" where
  "string_keys =
     [''client.address'', ''code.function.name'', ''db.collection.name'', ''db.namespace'',
      ''db.operation.name'', ''db.query.text'', ''db.response.status_code'', ''db.system.name'',
      ''error.type'', ''gen_ai.operation.name'', ''gen_ai.provider.name'', ''gen_ai.request.model'',
      ''gen_ai.response.id'', ''gen_ai.response.model'', ''gen_ai.system'', ''http.request.method'',
      ''http.request.method_original'', ''http.route'', ''k8s.cronjob.name'', ''k8s.cronjob.uid'',
      ''k8s.daemonset.name'', ''k8s.daemonset.uid'', ''k8s.deployment.name'', ''k8s.deployment.uid'',
      ''k8s.hpa.name'', ''k8s.hpa.scaletargetref.api_version'', ''k8s.hpa.scaletargetref.kind'', ''k8s.hpa.scaletargetref.name'',
      ''k8s.hpa.uid'', ''k8s.job.name'', ''k8s.job.uid'', ''k8s.namespace.name'',
      ''k8s.node.name'', ''k8s.node.uid'', ''k8s.object.api_version'', ''k8s.object.kind'',
      ''k8s.object.name'', ''k8s.object.uid'', ''k8s.pod.name'', ''k8s.pod.uid'',
      ''k8s.replicaset.name'', ''k8s.replicaset.uid'', ''k8s.replicationcontroller.name'', ''k8s.replicationcontroller.uid'',
      ''k8s.resourcequota.name'', ''k8s.resourcequota.uid'', ''k8s.statefulset.name'', ''k8s.statefulset.uid'',
      ''messaging.consumer.group.name'', ''messaging.destination.name'', ''messaging.destination.partition.id'', ''messaging.destination.subscription.name'',
      ''messaging.kafka.message.key'', ''messaging.operation.name'', ''messaging.operation.type'', ''messaging.rabbitmq.destination.routing_key'',
      ''messaging.system'', ''network.peer.address'', ''network.protocol.name'', ''network.protocol.version'',
      ''network.transport'', ''rpc.method'', ''rpc.service'', ''rpc.system'',
      ''server.address'', ''url.full'', ''url.path'', ''url.query'',
      ''url.scheme'', ''user_agent.original'']"

lemma string_keys_apart: "list_all (\<lambda>k. \<not> list_ex (\<lambda>j. j = k) other_keys) string_keys"
  by code_simp

lemma string_key_ok: "k \<in> set string_keys \<Longrightarrow> attr_ok (k, StrV v)"
  using string_keys_apart by (auto simp: list_all_iff list_ex_iff other_keys_def)

lemma string_keys_typed [simp]:
  "attr_ok (''client.address'', StrV v)"
  "attr_ok (''code.function.name'', StrV v)"
  "attr_ok (''db.collection.name'', StrV v)"
  "attr_ok (''db.namespace'', StrV v)"
  "attr_ok (''db.operation.name'', StrV v)"
  "attr_ok (''db.query.text'', StrV v)"
  "attr_ok (''db.response.status_code'', StrV v)"
  "attr_ok (''db.system.name'', StrV v)"
  "attr_ok (''error.type'', StrV v)"
  "attr_ok (''gen_ai.operation.name'', StrV v)"
  "attr_ok (''gen_ai.provider.name'', StrV v)"
  "attr_ok (''gen_ai.request.model'', StrV v)"
  "attr_ok (''gen_ai.response.id'', StrV v)"
  "attr_ok (''gen_ai.response.model'', StrV v)"
  "attr_ok (''gen_ai.system'', StrV v)"
  "attr_ok (''http.request.method'', StrV v)"
  "attr_ok (''http.request.method_original'', StrV v)"
  "attr_ok (''http.route'', StrV v)"
  "attr_ok (''k8s.cronjob.name'', StrV v)"
  "attr_ok (''k8s.cronjob.uid'', StrV v)"
  "attr_ok (''k8s.daemonset.name'', StrV v)"
  "attr_ok (''k8s.daemonset.uid'', StrV v)"
  "attr_ok (''k8s.deployment.name'', StrV v)"
  "attr_ok (''k8s.deployment.uid'', StrV v)"
  "attr_ok (''k8s.hpa.name'', StrV v)"
  "attr_ok (''k8s.hpa.scaletargetref.api_version'', StrV v)"
  "attr_ok (''k8s.hpa.scaletargetref.kind'', StrV v)"
  "attr_ok (''k8s.hpa.scaletargetref.name'', StrV v)"
  "attr_ok (''k8s.hpa.uid'', StrV v)"
  "attr_ok (''k8s.job.name'', StrV v)"
  "attr_ok (''k8s.job.uid'', StrV v)"
  "attr_ok (''k8s.namespace.name'', StrV v)"
  "attr_ok (''k8s.node.name'', StrV v)"
  "attr_ok (''k8s.node.uid'', StrV v)"
  "attr_ok (''k8s.object.api_version'', StrV v)"
  "attr_ok (''k8s.object.kind'', StrV v)"
  "attr_ok (''k8s.object.name'', StrV v)"
  "attr_ok (''k8s.object.uid'', StrV v)"
  "attr_ok (''k8s.pod.name'', StrV v)"
  "attr_ok (''k8s.pod.uid'', StrV v)"
  "attr_ok (''k8s.replicaset.name'', StrV v)"
  "attr_ok (''k8s.replicaset.uid'', StrV v)"
  "attr_ok (''k8s.replicationcontroller.name'', StrV v)"
  "attr_ok (''k8s.replicationcontroller.uid'', StrV v)"
  "attr_ok (''k8s.resourcequota.name'', StrV v)"
  "attr_ok (''k8s.resourcequota.uid'', StrV v)"
  "attr_ok (''k8s.statefulset.name'', StrV v)"
  "attr_ok (''k8s.statefulset.uid'', StrV v)"
  "attr_ok (''messaging.consumer.group.name'', StrV v)"
  "attr_ok (''messaging.destination.name'', StrV v)"
  "attr_ok (''messaging.destination.partition.id'', StrV v)"
  "attr_ok (''messaging.destination.subscription.name'', StrV v)"
  "attr_ok (''messaging.kafka.message.key'', StrV v)"
  "attr_ok (''messaging.operation.name'', StrV v)"
  "attr_ok (''messaging.operation.type'', StrV v)"
  "attr_ok (''messaging.rabbitmq.destination.routing_key'', StrV v)"
  "attr_ok (''messaging.system'', StrV v)"
  "attr_ok (''network.peer.address'', StrV v)"
  "attr_ok (''network.protocol.name'', StrV v)"
  "attr_ok (''network.protocol.version'', StrV v)"
  "attr_ok (''network.transport'', StrV v)"
  "attr_ok (''rpc.method'', StrV v)"
  "attr_ok (''rpc.service'', StrV v)"
  "attr_ok (''rpc.system'', StrV v)"
  "attr_ok (''server.address'', StrV v)"
  "attr_ok (''url.full'', StrV v)"
  "attr_ok (''url.path'', StrV v)"
  "attr_ok (''url.query'', StrV v)"
  "attr_ok (''url.scheme'', StrV v)"
  "attr_ok (''user_agent.original'', StrV v)"
  by (rule string_key_ok; simp only: string_keys_def list.set insert_iff simp_thms)+

lemma other_keys_typed [simp]:
  "attr_ok (''server.port'', IntV n) \<longleftrightarrow> n > 0"
  "attr_ok (''client.port'', IntV n) \<longleftrightarrow> n > 0"
  "attr_ok (''network.peer.port'', IntV n) \<longleftrightarrow> n > 0"
  "attr_ok (''messaging.message.body.size'', IntV n) \<longleftrightarrow> n > 0"
  "attr_ok (''http.response.body.size'', IntV n) \<longleftrightarrow> n > 0"
  "attr_ok (''http.response.status_code'', IntV n)"
  "attr_ok (''rpc.grpc.status_code'', IntV n)"
  "attr_ok (''db.operation.batch.size'', IntV n)"
  "attr_ok (''messaging.kafka.offset'', IntV n)"
  "attr_ok (''k8s.objects.count'', IntV n)"
  "attr_ok (''gen_ai.request.max_tokens'', IntV n)"
  "attr_ok (''gen_ai.request.top_k'', IntV n)"
  "attr_ok (''gen_ai.usage.input_tokens'', IntV n)"
  "attr_ok (''gen_ai.usage.output_tokens'', IntV n)"
  "attr_ok (''gen_ai.usage.total_tokens'', IntV n)"
  "attr_ok (''gen_ai.usage.cache_read.input_tokens'', IntV n)"
  "attr_ok (''gen_ai.usage.cache_creation.input_tokens'', IntV n)"
  "attr_ok (''messaging.kafka.async'', BoolV b)"
  "attr_ok (''k8s.objects.is_in_initial_list'', BoolV b)"
  "attr_ok (''gen_ai.request.is_stream'', BoolV b)"
  "attr_ok (''gen_ai.response.finish_reasons'', StrsV fs)"
  "attr_ok (''gen_ai.request.temperature'', FloatV f)"
  "attr_ok (''gen_ai.request.top_p'', FloatV f)"
  "attr_ok (''gen_ai.request.frequency_penalty'', FloatV f)"
  "attr_ok (''gen_ai.request.presence_penalty'', FloatV f)"
  by (simp_all add: port_keys_def size_keys_def int_keys_def bool_keys_def list_keys_def float_keys_def)

declare attr_ok.simps [simp del]

section \<open>The components\<close>

lemma amqp_attrs_ok: "attrs_ok (amqp_trace_attrs exchange routing_key queue operation body_size)"
  by (simp add: amqp_trace_attrs_def)

lemma db_attrs_ok: "attrs_ok (db_client_request_trace_attrs req)"
  by (simp add: db_client_request_trace_attrs_def Let_def split: option.split prod.split)

lemma es_attrs_ok: "attrs_ok (es_client_trace_attrs meth path operation index)"
  by (simp add: es_client_trace_attrs_def Let_def)

lemma gocql_attrs_ok:
  "attrs_ok (gocql_query_trace_attrs op stmt ks host port)" "attrs_ok (gocql_batch_trace_attrs stmt n ks host port)"
  "attrs_ok (gocql_connect_trace_attrs host port)"
  by (simp_all add: gocql_query_trace_attrs_def gocql_batch_trace_attrs_def gocql_connect_trace_attrs_def gocql_host_attrs_def
      split: option.split)

lemma grpc_attrs_ok:
  "attrs_ok (snd (grpc_parse_full_method full))" "attr_ok (grpc_status_code_attr code)"
  "attrs_ok (grpc_server_addr_attrs addr)" "attrs_ok (grpc_client_addr_attrs addr)"
  by (simp_all add: grpc_parse_full_method_def grpc_status_code_attr_def grpc_server_addr_attrs_def grpc_client_addr_attrs_def
      Let_def split: option.split prod.split)

lemma k8s_attrs_ok: "attrs_ok (k8s_object_info_trace_attrs i)" "attrs_ok (k8s_objects_attrs n initial)"
  by (simp_all add: k8s_object_info_trace_attrs_def k8s_kind_attrs_def k8s_uid_name_def k8s_objects_attrs_def)

lemma kafka_attrs_ok: "attrs_ok (kafka_request_trace_attrs a)"
  by (simp add: kafka_request_trace_attrs_def split: option.split prod.split)

lemma linode_attrs_ok:
  "attrs_ok (linode_request_trace_attrs meth endpoint)" "attrs_ok (linode_operation_trace_attrs operation)"
  "attrs_ok (linode_error_trace_attrs err)" "attrs_ok (linode_metric_attrs operation code)"
  by (simp_all add: linode_request_trace_attrs_def linode_operation_trace_attrs_def linode_error_trace_attrs_def
      linode_metric_attrs_def Let_def split: option.split)

lemma redis_attrs_ok: "attrs_ok (redis_request_trace_attrs endpoint full_name statement)"
  by (simp add: redis_request_trace_attrs_def Let_def split: option.split prod.split)

lemma method_attrs_ok:
  "attr_ok (fst (request_method_attrs known m))" "attrs_ok (list_of (snd (request_method_attrs known m)))"
  by (simp_all add: request_method_attrs_def list_of_def Let_def)

lemma http_response_attrs_ok:
  "attrs_ok (http_server_response_trace_attrs code bytes)" "attrs_ok (http_client_response_trace_attrs code)"
  by (simp_all add: http_server_response_trace_attrs_def http_client_response_trace_attrs_def)

lemma http_server_attrs_ok: "attrs_ok (http_server_request_trace_attrs known server req)"
  using method_attrs_ok [of known "hr_method req"]
  by (simp add: http_server_request_trace_attrs_def Let_def split_beta)

lemma http_client_attrs_ok: "attrs_ok (fst (http_client_request_trace_attrs url_string known req))"
  using method_attrs_ok [of known "hr_method req"]
  by (simp add: http_client_request_trace_attrs_def Let_def split_beta)

lemma genai_request_attrs_ok:
  "attrs_ok (base_attrs sys op_name model provider)" "attrs_ok (fst (snd (parse_chat_request body capture)))"
  "attrs_ok (fst (snd (parse_completion_request body capture)))" "attrs_ok (snd (snd (parse_messages_request body)))"
  by (simp_all add: base_attrs_def parse_chat_request_def parse_completion_request_def parse_messages_request_def
      sampling_attrs_def opt_int_def opt_float_def split: option.split)

lemma genai_response_attrs_ok: "attrs_ok (response_attrs r)" "attrs_ok (messages_response_attrs mr)"
  by (simp_all add: response_attrs_def messages_response_attrs_def Let_def)


end
