(* ===== verification/Gocql_Loop.thy ===== *)
theory Gocql_Loop
  imports Gocql
begin

text \<open>
  The loop of \<open>otelcGocqlStripLeadingComments\<close> (\<open>otelc/plugins/gocqlv2/gocql.go\<close>) as it is written, one turn at a time: a turn
  returns a statement or goes on with another.  The model of the function in \<open>Gocql\<close> recurses; here the
  turns are counted.
\<close>

definition strip_turn :: "gostring \<Rightarrow> gostring + gostring" where
  "strip_turn s =
     (let stmt = trim_space s
      in if has_prefix stmt ''/*'' then
           (case str_index stmt ''*/'' of None \<Rightarrow> Inr [] | Some e \<Rightarrow> Inl (drop (e + 2) stmt))
         else if has_prefix stmt ''--'' \<or> has_prefix stmt ''//'' then
           (case index_any stmt [CHR 0x0D, CHR 0x0A] of None \<Rightarrow> Inr [] | Some e \<Rightarrow> Inl (drop e stmt))
         else Inr stmt)"

fun strip_loop :: "nat \<Rightarrow> gostring \<Rightarrow> gostring option" where
  "strip_loop 0 s = None"
| "strip_loop (Suc n) s = (case strip_turn s of Inr r \<Rightarrow> Some r | Inl s' \<Rightarrow> strip_loop n s')"

lemma line_end_third:
  assumes "has_prefix x ''--'' \<or> has_prefix x ''//''" and "index_any x [CHR 0x0D, CHR 0x0A] = Some e"
  shows "2 \<le> e"
  using assms by (auto simp: has_prefix_iff index_any_def split: if_splits)

text \<open>A turn that goes on has consumed two characters at least.\<close>

lemma turn_consumes: "strip_turn s = Inl s' \<Longrightarrow> length s' + 2 \<le> length s"
  using length_trim_space [of s] str_index_bound [of "trim_space s" "''*/''"] index_any_bound [of "trim_space s" "[CHR 0x0D, CHR 0x0A]"]
    line_end_third [of "trim_space s"]
  by (auto simp: strip_turn_def Let_def split: if_splits option.splits)

lemma strip_unfold:
  "gocql_strip_leading_comments s = (case strip_turn s of Inr r \<Rightarrow> r | Inl s' \<Rightarrow> gocql_strip_leading_comments s')"
  by (subst gocql_strip_leading_comments.simps) (simp add: strip_turn_def Let_def split: option.split)

text \<open>
  C39: The comment stripping of a Cassandra statement always returns: the loop leaves within half as many turns as the statement
  has bytes, plus one, whatever comments it starts with, terminated or not, with the statement the recursive model
  gives; so naming a query takes at most that many passes over its text.
\<close>
theorem gocql_strip_terminates:
  "strip_loop (Suc (length s div 2)) s = Some (gocql_strip_leading_comments s)"
proof (induction s rule: length_induct)
  case (1 s)
  show ?case
  proof (cases "strip_turn s")
    case (Inl s')
    have more: "strip_loop m t = Some r \<Longrightarrow> m \<le> n \<Longrightarrow> strip_loop n t = Some r" for m n t r
    proof (induction m arbitrary: n t)
      case (Suc m)
      then show ?case by (cases n) (auto split: sum.splits)
    qed simp
    have len: "length s' + 2 \<le> length s" using turn_consumes [OF Inl] .
    then have "strip_loop (Suc (length s' div 2)) s' = Some (gocql_strip_leading_comments s')" using 1 by auto
    moreover have "Suc (length s' div 2) \<le> length s div 2" using len by linarith
    ultimately have "strip_loop (length s div 2) s' = Some (gocql_strip_leading_comments s')" by (rule more)
    then show ?thesis using Inl by (subst strip_unfold) simp
  next
    case (Inr r)
    then show ?thesis by (subst strip_unfold) simp
  qed
qed

end
