(* ===== verification/Otel_Gls.thy ===== *)
theory Otel_Gls
  imports Gls_Props Log_Hooks
begin

text \<open>
  The registry \<open>otelc/otelgls/otelgls.go\<close> between the packages that cannot import each other: the functions the
  injected package \<open>sdktrace\<close> registers, and their readers in \<open>oteltrace/hook.go\<close> and \<open>hooksupport\<close>; and what the log hooks
  write in a program whose goroutines start and end spans.  A function of the registry takes the calling goroutine
  and the state of the span stacks, which a lookup may tidy up.
\<close>

section \<open>The fields of the goroutine\<close>

text \<open>The accessors \<open>otelc/runtime/runtime2_add.go\<close> adds to the runtime, for the calling goroutine \<open>g\<close>.\<close>

definition get_trace_context_from_gls :: "goroutine \<Rightarrow> world \<Rightarrow> trace_context option" where
  "get_trace_context_from_gls g w = gls w g"

definition set_trace_context_to_gls :: "goroutine \<Rightarrow> trace_context option \<Rightarrow> world \<Rightarrow> world" where
  "set_trace_context_to_gls g tc w = w\<lparr>gls := (gls w)(g := tc)\<rparr>"

definition get_baggage_container_from_gls :: "goroutine \<Rightarrow> world \<Rightarrow> nat option" where
  "get_baggage_container_from_gls g w = baggage w g"

definition set_baggage_container_to_gls :: "goroutine \<Rightarrow> nat option \<Rightarrow> world \<Rightarrow> world" where
  "set_baggage_container_to_gls g b w = w\<lparr>baggage := (baggage w)(g := b)\<rparr>"

text \<open>
  The package \<open>sdktrace\<close> works on the trace context through them; the two fields do not interfere, and a new goroutine has the
  baggage its creator had.
\<close>

lemma set_ctx_accessor: "set_ctx g tc = set_trace_context_to_gls g (Some tc)"
  by (simp add: set_ctx_def set_trace_context_to_gls_def fun_eq_iff)

lemma baggage_kept:
  "get_baggage_container_from_gls h (set_trace_context_to_gls g tc w) = get_baggage_container_from_gls h w"
  "get_trace_context_from_gls h (set_baggage_container_to_gls g b w) = get_trace_context_from_gls h w"
  "caller \<noteq> new \<Longrightarrow>
     get_baggage_container_from_gls new (newproc1 caller new (set_baggage_container_to_gls caller b w)) = b"
  by (simp_all add: get_baggage_container_from_gls_def set_trace_context_to_gls_def get_trace_context_from_gls_def
      set_baggage_container_to_gls_def newproc1_def split: prod.split)

section \<open>The registry\<close>

record gls_registry =
  span_from_gls_func :: "goroutine \<Rightarrow> world \<Rightarrow> span option \<times> world"
  trace_and_span_id_func :: "goroutine \<Rightarrow> world \<Rightarrow> trace_ids \<times> world"

definition default_span_from_gls :: "goroutine \<Rightarrow> world \<Rightarrow> span option \<times> world" where
  "default_span_from_gls g w = (None, w)"

definition default_trace_and_span_id :: "goroutine \<Rightarrow> world \<Rightarrow> trace_ids \<times> world" where
  "default_trace_and_span_id g w = (([], []), w)"

definition registry_defaults :: gls_registry where
  "registry_defaults = \<lparr>span_from_gls_func = default_span_from_gls, trace_and_span_id_func = default_trace_and_span_id\<rparr>"

definition register_span_from_gls :: "(goroutine \<Rightarrow> world \<Rightarrow> span option \<times> world) \<Rightarrow> gls_registry \<Rightarrow> gls_registry" where
  "register_span_from_gls f reg = reg\<lparr>span_from_gls_func := f\<rparr>"

definition register_trace_and_span_id :: "(goroutine \<Rightarrow> world \<Rightarrow> trace_ids \<times> world) \<Rightarrow> gls_registry \<Rightarrow> gls_registry" where
  "register_trace_and_span_id f reg = reg\<lparr>trace_and_span_id_func := f\<rparr>"

definition registry_span_from_gls :: "gls_registry \<Rightarrow> goroutine \<Rightarrow> world \<Rightarrow> span option \<times> world" where
  "registry_span_from_gls reg = span_from_gls_func reg"

definition registry_trace_and_span_id :: "gls_registry \<Rightarrow> goroutine \<Rightarrow> world \<Rightarrow> trace_ids \<times> world" where
  "registry_trace_and_span_id reg = trace_and_span_id_func reg"

text \<open>The end of the \<open>init\<close> of \<open>sdktrace\<close>; \<open>hexT\<close> and \<open>hexS\<close> are the \<open>String\<close> methods of the API's ids.\<close>

definition sdktrace_registers :: "(trace_id \<Rightarrow> gostring) \<Rightarrow> (span_id \<Rightarrow> gostring) \<Rightarrow> gls_registry \<Rightarrow> gls_registry" where
  "sdktrace_registers hexT hexS reg =
     register_span_from_gls span_from_gls (register_trace_and_span_id (get_trace_and_span_id hexT hexS) reg)"

section \<open>Its readers\<close>

text \<open>\<open>hooksupport.GetTraceAndSpanID\<close> and \<open>GetSpanFromGLS\<close>; what is registered is a span of the API, so the type assertion holds.\<close>

definition hook_get_trace_and_span_id :: "gls_registry \<Rightarrow> goroutine \<Rightarrow> world \<Rightarrow> trace_ids \<times> world" where
  "hook_get_trace_and_span_id reg = registry_trace_and_span_id reg"

definition hook_get_span_from_gls :: "gls_registry \<Rightarrow> goroutine \<Rightarrow> world \<Rightarrow> span option \<times> world" where
  "hook_get_span_from_gls reg = registry_span_from_gls reg"

text \<open>The deferred function in \<open>trace.SpanFromContext\<close>.\<close>

definition api_span_from_context :: "gls_registry \<Rightarrow> goroutine \<Rightarrow> span \<Rightarrow> world \<Rightarrow> span \<times> world" where
  "api_span_from_context reg g from_ctx w =
     (if ctx_valid from_ctx then (from_ctx, w)
      else case registry_span_from_gls reg g w of
             (None, w') \<Rightarrow> (from_ctx, w')
           | (Some s, w') \<Rightarrow> (s, w'))"

lemmas registry_defs =
  sdktrace_registers_def register_span_from_gls_def register_trace_and_span_id_def registry_span_from_gls_def
  registry_trace_and_span_id_def hook_get_trace_and_span_id_def hook_get_span_from_gls_def

text \<open>With the package initialised the hook is the one over the stacks themselves.\<close>

lemma api_span_from_context_registered:
  "api_span_from_context (sdktrace_registers hexT hexS reg) g c w = span_from_context g c w"
  by (simp add: api_span_from_context_def span_from_context_def registry_defs split: prod.split option.split)

section \<open>What is logged\<close>

text \<open>What each log hook writes on goroutine \<open>g\<close>: the line, the record, the fields, the entry.\<close>

record logged =
  lg_line :: gostring
  lg_record :: attrs
  lg_fields :: attrs
  lg_entry :: "gostring \<rightharpoonup> gostring"

definition log_all :: "gls_registry \<Rightarrow> goroutine \<Rightarrow> world \<Rightarrow> logged \<Rightarrow> logged" where
  "log_all reg g w m =
     (let ids = fst (hook_get_trace_and_span_id reg g w)
      in \<lparr>lg_line = std_output True ids (\<lambda>b. b) (lg_line m), lg_record = slog_new_record True ids (lg_record m),
          lg_fields = zap_write True ids False (lg_fields m), lg_entry = logrus_fire True ids (lg_entry m)\<rparr>)"

text \<open>What a log that carries a span has.\<close>

definition with_span :: "gostring \<Rightarrow> gostring \<Rightarrow> gostring \<Rightarrow> gostring \<Rightarrow> logged \<Rightarrow> logged" where
  "with_span t s text nl m =
     \<lparr>lg_line = text @ '' trace_id='' @ t @ '' span_id='' @ s @ nl,
      lg_record = lg_record m @ [(''trace_id'', StrV t), (''span_id'', StrV s)],
      lg_fields = lg_fields m @ [(''trace_id'', StrV t), (''span_id'', StrV s)],
      lg_entry = (lg_entry m)(''trace_id'' \<mapsto> t, ''span_id'' \<mapsto> s)\<rparr>"

lemma log_without: "fst (hook_get_trace_and_span_id reg g w) = ([], []) \<Longrightarrow> log_all reg g w m = m"
  by (simp add: log_all_def std_output_def std_append_output_def slog_new_record_def zap_write_def logrus_fire_def Let_def)

lemma log_with:
  assumes "fst (hook_get_trace_and_span_id reg g w) = (t, s)" and "t \<noteq> []" and "s \<noteq> []"
    and "lg_line m = (b @ [c]) @ nl" and "\<not> is_line_end c" and "\<forall>x \<in> set nl. is_line_end x"
    and "\<not> str_contains (lg_line m) ''trace_id''"
  shows "log_all reg g w m = with_span t s (b @ [c]) nl m"
  using assms std_append_output_once [of c nl b "(t, s)"]
  by (simp add: log_all_def with_span_def std_output_def slog_new_record_def zap_write_def logrus_fire_def std_suffix_def Let_def)

text \<open>
  C3: Logs name the span that is current where they are written.  After any run of span starts and ends, lookups, new goroutines
  and clears, a line or record logged on a goroutine through package log, slog, zap or logrus gets the ids of the span on top
  of the stack the specification has for that goroutine, nothing where that stack is empty, and nothing in a program without
  the SDK, where the registry has its defaults.  The ids print as non-empty text, and the line does not name a trace.
\<close>
theorem logs_name_current_span:
  assumes "guarded gls_step gls_valid_op ops (init_world env)"
    and "\<And>t. hexT t \<noteq> []" and "\<And>s. hexS s \<noteq> []"
    and "lg_line m = (b @ [c]) @ nl" and "\<not> is_line_end c" and "\<forall>x \<in> set nl. is_line_end x"
    and "\<not> str_contains (lg_line m) ''trace_id''"
  shows "log_all (sdktrace_registers hexT hexS registry_defaults) g (gls_run ops env) m =
      (case stk (run_ops spec_step ops (abs_world (init_world env))) g of
         [] \<Rightarrow> m | s # _ \<Rightarrow> with_span (hexT (span_trace s)) (hexS (span_sid s)) (b @ [c]) nl m) \<and>
    log_all registry_defaults g (gls_run ops env) m = m"
proof
  let ?reg = "sdktrace_registers hexT hexS registry_defaults" and ?w = "gls_run ops env"
  let ?stack = "stk (run_ops spec_step ops (abs_world (init_world env))) g"
  have cur: "gls_current g ?w = (case ?stack of [] \<Rightarrow> None | s # _ \<Rightarrow> Some s)"
    using assms(1) by (rule gls_lookup_innermost)
  have ids: "fst (hook_get_trace_and_span_id ?reg g ?w) =
      (case gls_current g ?w of None \<Rightarrow> ([], []) | Some sp \<Rightarrow> (hexT (span_trace sp), hexS (span_sid sp)))"
    by (simp add: registry_defs get_trace_and_span_id_def split: prod.split)
  show "log_all ?reg g ?w m =
      (case ?stack of [] \<Rightarrow> m | s # _ \<Rightarrow> with_span (hexT (span_trace s)) (hexS (span_sid s)) (b @ [c]) nl m)"
  proof (cases ?stack)
    case Nil
    then show ?thesis using cur ids log_without by simp
  next
    case (Cons s _)
    then show ?thesis using cur ids log_with [OF _ assms(2,3,4-7)] by simp
  qed
  show "log_all registry_defaults g ?w m = m"
    by (rule log_without) (simp add: registry_defs registry_defaults_def default_trace_and_span_id_def)
qed

definition demo_log :: logged where
  "demo_log = \<lparr>lg_line = ''hi'' @ [CHR 0x0A], lg_record = [], lg_fields = [], lg_entry = Map.empty\<rparr>"

theorem logs_name_current_span_witness:
  "log_all (sdktrace_registers (\<lambda>t. ''a'') (\<lambda>s. if s = 2 then ''b'' else ''c'') registry_defaults) 1 (gls_run demo_ops demo_env) demo_log
     = with_span ''a'' ''b'' ''hi'' [CHR 0x0A] demo_log"
proof -
  have "stk (run_ops spec_step demo_ops (abs_world (init_world demo_env))) 1 = [demo_span 1]" by (simp add: gls_eval)
  moreover have "\<not> is_line_end CHR ''i''" "\<forall>x \<in> set [CHR 0x0A]. is_line_end x" "\<not> str_contains (lg_line demo_log) ''trace_id''"
    by code_simp+
  moreover have "lg_line demo_log = (''h'' @ [CHR ''i'']) @ [CHR 0x0A]" by (simp add: demo_log_def)
  moreover have "guarded gls_step gls_valid_op demo_ops (init_world demo_env)" by (simp add: demo_ops_def)
  ultimately show ?thesis
    using logs_name_current_span [of demo_ops demo_env "\<lambda>t. ''a''" "\<lambda>s. if s = 2 then ''b'' else ''c''" demo_log "''h''" "CHR ''i''" "[CHR 0x0A]" 1]
    by (simp add: demo_span_def)
qed

end
