(* ===== verification/Amqp_Context.thy ===== *)
theory Amqp_Context
  imports Amqp_Props
begin

text \<open>
  Publishing with a context, \<open>otelc/plugins/amqp/amqp.go\<close>: the hooks of the two \<open>WithContext\<close> methods leave the context with the
  channel, and the hook of \<open>PublishWithDeferredConfirm\<close>, which the library calls next, takes it.  The two steps of a
  call are separate, so that the calls of several goroutines interleave.
\<close>

section \<open>The hooks\<close>

definition publish_with_context :: "bool \<Rightarrow> nat option \<Rightarrow> nat option option \<Rightarrow> amqp_state \<Rightarrow> amqp_state" where
  "publish_with_context en ch ctx st = stash_publish_parent en ch ctx st"

definition publish_with_deferred_confirm_with_context ::
  "bool \<Rightarrow> nat option \<Rightarrow> nat option option \<Rightarrow> amqp_state \<Rightarrow> amqp_state" where
  "publish_with_deferred_confirm_with_context en ch ctx st = stash_publish_parent en ch ctx st"

definition amqp_consume_with_context ::
  "bool \<Rightarrow> nat option \<Rightarrow> gostring option \<Rightarrow> bool \<Rightarrow> amqp_state \<Rightarrow> nat option \<times> amqp_state" where
  "amqp_consume_with_context en ch err has_deliveries st =
     (let stored = en \<and> ch \<noteq> None
      in if stored \<and> err = None \<and> has_deliveries then (case new_consumer st of (p, st') \<Rightarrow> (Some p, st')) else (None, st))"

lemma consume_with_context_same: "amqp_consume_with_context = amqp_consume"
  by (intro ext) (simp add: amqp_consume_with_context_def amqp_consume_def Let_def)

section \<open>Interleaved calls\<close>

text \<open>
  A step of some goroutine on a channel: the context it leaves, through one method or the other, or the publishing,
  with the span current on the goroutine.  The run collects the parents of the spans, with their channels.
\<close>

datatype publish_op =
    LeaveContext bool nat "nat option"
  | TakeAndPublish nat "nat option"

fun op_channel :: "publish_op \<Rightarrow> nat" where
  "op_channel (LeaveContext _ c _) = c"
| "op_channel (TakeAndPublish c _) = c"

fun publish_op_step ::
  "(gostring \<times> gostring \<times> publishing \<times> gostring option) \<Rightarrow> publish_op \<Rightarrow> amqp_state \<Rightarrow> (nat \<times> nat option) list \<times> amqp_state" where
  "publish_op_step msg (LeaveContext deferred c ctx) st =
     ([], (if deferred then publish_with_deferred_confirm_with_context else publish_with_context) True (Some c) (Some ctx) st)"
| "publish_op_step (exchange, key, msg, err) (TakeAndPublish c gls) st =
     (case publish_with_deferred_confirm True [] (Some c) gls exchange key msg err st of
        ((Some (parent, _), _), st') \<Rightarrow> ([(c, parent)], st')
      | ((None, _), st') \<Rightarrow> ([], st'))"

fun publish_ops ::
  "(gostring \<times> gostring \<times> publishing \<times> gostring option) \<Rightarrow> publish_op list \<Rightarrow> amqp_state \<Rightarrow> (nat \<times> nat option) list \<times> amqp_state" where
  "publish_ops msg [] st = ([], st)"
| "publish_ops msg (x # xs) st =
     (case publish_op_step msg x st of (ps, st1) \<Rightarrow> (case publish_ops msg xs st1 of (qs, st2) \<Rightarrow> (ps @ qs, st2)))"

text \<open>The parents of the spans on one channel.\<close>

definition parents_on :: "nat \<Rightarrow> (nat \<times> nat option) list \<Rightarrow> nat option list" where
  "parents_on c ps = map snd (filter (\<lambda>p. fst p = c) ps)"

lemma parents_on_simps [simp]:
  "parents_on c [] = []" "parents_on c (p # ps) = (if fst p = c then [snd p] else []) @ parents_on c ps"
  "parents_on c (ps @ qs) = parents_on c ps @ parents_on c qs"
  by (simp_all add: parents_on_def)

text \<open>What one step does for the channels, in terms of the contexts left.\<close>

definition taken :: "nat option option \<Rightarrow> nat option \<Rightarrow> nat option" where
  "taken left gls = (case left of Some (Some x) \<Rightarrow> Some x | _ \<Rightarrow> gls)"

lemma leave_step [simp]:
  "publish_op_step msg (LeaveContext d c ctx) st = ([], st\<lparr>am_parents := (am_parents st)(c \<mapsto> ctx)\<rparr>)"
  by (cases msg) (simp add: publish_with_context_def publish_with_deferred_confirm_with_context_def stash_publish_parent_def)

lemma take_step [simp]:
  "publish_op_step msg (TakeAndPublish c gls) st =
     ([(c, taken (am_parents st c) gls)], st\<lparr>am_parents := (am_parents st)(c := None)\<rparr>)"
  by (cases msg) (simp add: publish_with_deferred_confirm_def parent_context_def taken_def Let_def)

declare publish_op_step.simps [simp del]

text \<open>A channel sees the steps on it only.\<close>

lemma channel_alone:
  assumes "am_parents st c = am_parents st' c"
  shows "parents_on c (fst (publish_ops msg ops st)) =
      parents_on c (fst (publish_ops msg (filter (\<lambda>x. op_channel x = c) ops) st')) \<and>
    am_parents (snd (publish_ops msg ops st)) c = am_parents (snd (publish_ops msg (filter (\<lambda>x. op_channel x = c) ops) st')) c"
  using assms
proof (induction ops arbitrary: st st')
  case (Cons x ops)
  show ?case
  proof (cases x)
    case (LeaveContext d c' ctx)
    then show ?thesis
      using Cons.IH [of "st\<lparr>am_parents := (am_parents st)(c' \<mapsto> ctx)\<rparr>"
          "if c' = c then st'\<lparr>am_parents := (am_parents st')(c' \<mapsto> ctx)\<rparr> else st'"] Cons.prems
      by (auto split: prod.split)
  next
    case (TakeAndPublish c' gls)
    then show ?thesis
      using Cons.IH [of "st\<lparr>am_parents := (am_parents st)(c' := None)\<rparr>"
          "if c' = c then st'\<lparr>am_parents := (am_parents st')(c' := None)\<rparr> else st'"] Cons.prems
      by (auto split: prod.split)
  qed
qed simp

text \<open>
  A call of the application on a channel: with a context, whose hooks may run once or twice, as the library calls one method
  through the other, or without; and the span current on the goroutine.
\<close>

datatype publish_call = CallWithContext "bool list" "nat option" "nat option" | CallPlain "nat option"

fun call_ops :: "nat \<Rightarrow> publish_call \<Rightarrow> publish_op list" where
  "call_ops c (CallWithContext hooks ctx gls) = map (\<lambda>d. LeaveContext d c ctx) hooks @ [TakeAndPublish c gls]"
| "call_ops c (CallPlain gls) = [TakeAndPublish c gls]"

fun call_valid :: "publish_call \<Rightarrow> bool" where
  "call_valid (CallWithContext hooks _ _) = (hooks \<noteq> [])"
| "call_valid (CallPlain _) = True"

fun call_parent :: "publish_call \<Rightarrow> nat option" where
  "call_parent (CallWithContext _ ctx gls) = (case ctx of Some x \<Rightarrow> Some x | None \<Rightarrow> gls)"
| "call_parent (CallPlain gls) = gls"

lemma publish_ops_append:
  "publish_ops msg (xs @ ys) st =
     (case publish_ops msg xs st of (ps, st1) \<Rightarrow> (case publish_ops msg ys st1 of (qs, st2) \<Rightarrow> (ps @ qs, st2)))"
  by (induction xs arbitrary: st) (auto split: prod.split)

lemma leave_all:
  "hooks \<noteq> [] \<Longrightarrow>
     publish_ops msg (map (\<lambda>d. LeaveContext d c ctx) hooks) st = ([], st\<lparr>am_parents := (am_parents st)(c \<mapsto> ctx)\<rparr>)"
proof (induction hooks arbitrary: st)
  case (Cons d hooks)
  then show ?case by (cases "hooks = []") (simp_all flip: fun_upd_def)
qed simp

lemma call_alone:
  assumes "call_valid x" and "am_parents st c = None"
  shows "publish_ops msg (call_ops c x) st = ([(c, call_parent x)], st\<lparr>am_parents := (am_parents st)(c := None)\<rparr>)"
  using assms by (cases x) (auto simp: publish_ops_append leave_all taken_def split: option.split)

lemma calls_alone:
  assumes "list_all call_valid calls" and "am_parents st c = None"
  shows "parents_on c (fst (publish_ops msg (concat (map (call_ops c) calls)) st)) = map call_parent calls \<and>
    am_parents (snd (publish_ops msg (concat (map (call_ops c) calls)) st)) c = None"
  using assms
proof (induction calls arbitrary: st)
  case (Cons x calls)
  let ?st = "st\<lparr>am_parents := (am_parents st)(c := None)\<rparr>"
  have "publish_ops msg (call_ops c x) st = ([(c, call_parent x)], ?st)" using Cons.prems by (intro call_alone) simp_all
  moreover have "parents_on c (fst (publish_ops msg (concat (map (call_ops c) calls)) ?st)) = map call_parent calls \<and>
      am_parents (snd (publish_ops msg (concat (map (call_ops c) calls)) ?st)) c = None"
    using Cons.prems by (intro Cons.IH) simp_all
  ultimately show ?case by (simp add: publish_ops_append split: prod.split_asm) (auto split: prod.split)
qed simp

text \<open>
  C20: A published message continues the trace of its call.  However the steps of the calls on different channels interleave, on a
  channel whose calls follow one another each producer span has as its parent the span of the context the call was
  given, or the span current on the goroutine where the call has no context or one without a span; and no context is
  left behind for a later call.
\<close>
theorem amqp_publish_parent:
  assumes "filter (\<lambda>x. op_channel x = c) ops = concat (map (call_ops c) calls)"
    and "list_all call_valid calls" and "am_parents st c = None"
  shows "parents_on c (fst (publish_ops msg ops st)) = map call_parent calls \<and>
    am_parents (snd (publish_ops msg ops st)) c = None"
  using channel_alone [of st c st msg ops] calls_alone [OF assms(2,3), of msg] assms(1) by simp

theorem amqp_publish_parent_witness:
  "parents_on 1 (fst (publish_ops (''e'', ''k'', \<lparr>pb_headers = None, pb_body_size = 3\<rparr>, None)
      [LeaveContext False 1 (Some 7), LeaveContext True 2 (Some 9), TakeAndPublish 1 None, TakeAndPublish 2 None, TakeAndPublish 1 (Some 4)]
      amqp_init)) = [Some 7, Some 4]"
  using amqp_publish_parent [of 1
      "[LeaveContext False 1 (Some 7), LeaveContext True 2 (Some 9), TakeAndPublish 1 None, TakeAndPublish 2 None, TakeAndPublish 1 (Some 4)]"
      "[CallWithContext [False] (Some 7) None, CallPlain (Some 4)]" amqp_init "(''e'', ''k'', \<lparr>pb_headers = None, pb_body_size = 3\<rparr>, None)"]
  by (simp add: amqp_init_def)

text \<open>
  Two goroutines that publish on one channel at the same time can get each other's parent: the
  second context replaces the first, the first message takes it, and the second falls back to its goroutine.
\<close>

theorem amqp_publish_parents_mixed:
  "parents_on c (fst (publish_ops msg [LeaveContext d c (Some a), LeaveContext d' c (Some b), TakeAndPublish c None, TakeAndPublish c None]
      amqp_init)) = [Some b, None]"
  by (simp add: taken_def amqp_init_def)

end
