(* ===== verification/Sw_Settings.thy ===== *)
theory Sw_Settings
  imports Sw_Boot Sw_Sql Sw_Gorm_Props Sw_Mongo Sw_Frameworks
begin

text \<open>
  The settings of the SkyWalking plugins that turn the recording of request data on, read from the environment once when a
  package is initialised, and what the spans of the plugins have of that data.
\<close>

section \<open>The settings\<close>

text \<open>The shape they share: the variable is set and \<open>strconv.ParseBool\<close> takes it for true.\<close>

definition sw_plugin_flag :: "go_env \<Rightarrow> gostring \<Rightarrow> bool" where
  "sw_plugin_flag env key =
     (if env key \<noteq> [] then (case go_parse_bool (env key) of Some b \<Rightarrow> b | None \<Rightarrow> False) else False)"

definition sw_sql_collect_parameter :: "go_env \<Rightarrow> bool" where
  "sw_sql_collect_parameter env = sw_plugin_flag env ''SW_AGENT_PLUGIN_CONFIG_SQL_COLLECT_PARAMETER''"

definition sw_gorm_collect_parameter :: "go_env \<Rightarrow> bool" where
  "sw_gorm_collect_parameter env = sw_plugin_flag env ''SW_AGENT_PLUGIN_CONFIG_GORM_COLLECT_PARAMETER''"

definition sw_http_collect_params :: "go_env \<Rightarrow> bool" where
  "sw_http_collect_params env = sw_plugin_flag env ''SW_AGENT_PLUGIN_CONFIG_HTTP_SERVER_COLLECT_PARAMETERS''"

definition sw_goframe_collect_params :: "go_env \<Rightarrow> bool" where
  "sw_goframe_collect_params env = sw_plugin_flag env ''SW_AGENT_PLUGIN_CONFIG_GOFRAME_COLLECT_REQUEST_PARAMETERS''"

definition sw_mongo_collect_statement :: "go_env \<Rightarrow> bool" where
  "sw_mongo_collect_statement env = sw_plugin_flag env ''SW_AGENT_PLUGIN_CONFIG_MONGO_COLLECT_STATEMENT''"

definition sw_gin_collect_headers :: "go_env \<Rightarrow> gostring list" where
  "sw_gin_collect_headers env =
     (let v = env ''SW_AGENT_PLUGIN_CONFIG_GIN_COLLECT_REQUEST_HEADERS'' in if v \<noteq> [] then split_on CHR '','' v else [])"

definition sw_goframe_collect_headers :: "go_env \<Rightarrow> gostring list" where
  "sw_goframe_collect_headers env = sw_collect_headers_setting (env ''SW_AGENT_PLUGIN_CONFIG_GOFRAME_COLLECT_REQUEST_HEADERS'')"

definition sw_gin_header_length_threshold :: "go_env \<Rightarrow> int" where
  "sw_gin_header_length_threshold env =
     sw_gin_parse_header_threshold (env ''SW_AGENT_PLUGIN_CONFIG_GIN_HEADER_LENGTH_THRESHOLD'')"

definition sw_goframe_header_length_threshold :: "go_env \<Rightarrow> int" where
  "sw_goframe_header_length_threshold env =
     sw_goframe_parse_header_threshold (env ''SW_AGENT_PLUGIN_CONFIG_GOFRAME_HEADER_LENGTH_THRESHOLD'')"

section \<open>What is recorded of a request\<close>

fun is_private :: "sw_call \<Rightarrow> bool" where
  "is_private (SwTag t _) = (t \<in> {TagDBSqlParameters, TagHTTPParams, TagHTTPHeaders})"
| "is_private _ = False"

fun is_statement :: "sw_call \<Rightarrow> bool" where
  "is_statement (SwTag t _) = (t = TagDBStatement)"
| "is_statement _ = False"

definition span_private :: "sw_span option \<Rightarrow> sw_call list" where
  "span_private s = (case s of None \<Rightarrow> [] | Some (_, calls) \<Rightarrow> filter is_private calls)"

definition served_private :: "sw_served \<Rightarrow> sw_call list" where
  "served_private s = (case s of None \<Rightarrow> [] | Some ((_, calls), _) \<Rightarrow> filter is_private calls)"

text \<open>Nothing is turned on: the flags are unset or not true, and no header is named.\<close>

definition flag_names :: "gostring list" where
  "flag_names =
     [''SW_AGENT_PLUGIN_CONFIG_SQL_COLLECT_PARAMETER'', ''SW_AGENT_PLUGIN_CONFIG_GORM_COLLECT_PARAMETER'',
      ''SW_AGENT_PLUGIN_CONFIG_HTTP_SERVER_COLLECT_PARAMETERS'', ''SW_AGENT_PLUGIN_CONFIG_GOFRAME_COLLECT_REQUEST_PARAMETERS'',
      ''SW_AGENT_PLUGIN_CONFIG_MONGO_COLLECT_STATEMENT'']"

definition recording_off :: "go_env \<Rightarrow> bool" where
  "recording_off env \<longleftrightarrow> list_all (\<lambda>v. go_parse_bool (env v) \<noteq> Some True) flag_names \<and>
     env ''SW_AGENT_PLUGIN_CONFIG_GIN_COLLECT_REQUEST_HEADERS'' = [] \<and>
     env ''SW_AGENT_PLUGIN_CONFIG_GOFRAME_COLLECT_REQUEST_HEADERS'' = []"

lemma plugin_flag_off: "go_parse_bool (env v) \<noteq> Some True \<Longrightarrow> \<not> sw_plugin_flag env v"
  by (auto simp: sw_plugin_flag_def split: option.split)

lemma settings_off:
  assumes "recording_off env"
  shows "sw_sql_collect_parameter env = False" "sw_gorm_collect_parameter env = False" "sw_http_collect_params env = False"
    "sw_goframe_collect_params env = False" "sw_mongo_collect_statement env = False"
    "sw_gin_collect_headers env = []" "sw_goframe_collect_headers env = []"
  using assms
  by (simp_all add: recording_off_def flag_names_def plugin_flag_off sw_sql_collect_parameter_def sw_gorm_collect_parameter_def
      sw_http_collect_params_def sw_goframe_collect_params_def sw_mongo_collect_statement_def sw_gin_collect_headers_def
      sw_goframe_collect_headers_def sw_collect_headers_setting_def)

lemma finish_private [simp]: "filter is_private (sw_finish err) = []"
  by (simp add: sw_finish_def split: option.split)

lemma traced_private: "span_private (sw_traced st (sw_param_calls False args) err) = []"
  by (simp add: span_private_def sw_traced_def sw_param_calls_def split: option.split)

lemmas sql_hooks = sw_db_exec_context_def sw_db_query_context_def sw_conn_exec_context_def sw_conn_query_context_def
  sw_tx_exec_context_def sw_tx_query_context_def sw_stmt_exec_context_def sw_stmt_query_context_def

lemma gorm_private:
  "list_all (\<lambda>s. span_private (Some s) = []) (gm_spans st) \<Longrightarrow>
    list_all (\<lambda>s. span_private (Some s) = []) (gm_spans (run_ops (gorm_step tr info False) ops st))"
proof (induction ops arbitrary: st)
  case (Cons x ops)
  have "list_all (\<lambda>s. span_private (Some s) = []) (gm_spans (gorm_step tr info False x st))"
  proof (cases x)
    case (GormBefore op stmt table)
    then show ?thesis using Cons.prems by (simp add: sw_before_callback_def Let_def span_private_def)
  next
    case (GormAfter stmt res)
    obtain sql vars err where res: "res = (sql, vars, err)" by (metis prod_cases3)
    show ?thesis
    proof (cases "gm_span_of st stmt")
      case (Some i)
      show ?thesis
        using Cons.prems GormAfter res Some
        by (cases "i < length (gm_spans st)")
          (auto simp: sw_after_callback_def sw_gorm_end_def span_private_def list_all_length nth_list_update split_beta)
    qed (use Cons.prems GormAfter in \<open>simp add: sw_after_callback_def\<close>)
  qed
  then show ?case using Cons.IH by simp
qed simp

definition no_statement :: "sw_span \<Rightarrow> bool" where
  "no_statement s \<longleftrightarrow> filter is_statement (snd s) = []"

lemma mongo_private_step:
  assumes "list_all no_statement (mo_spans st)" and "sw_mongo_event tr False render hosts user e st = Some st'"
  shows "list_all no_statement (mo_spans st')"
proof -
  have tell: "mo_spans s' = mo_spans s" if "tell_monitor user has x s = Some s'" for has x s s'
    using that by (auto simp: tell_monitor_def split: option.splits if_splits)
  have complete: "list_all no_statement (mo_spans (complete_span req calls s))"
    if "list_all no_statement (mo_spans s)" "filter is_statement calls = []" for req calls s
  proof (cases "mo_pending s (go_itoa req)")
    case (Some i)
    then show ?thesis
      using that
      by (cases "i < length (mo_spans s)") (auto simp: complete_span_def no_statement_def list_all_length nth_list_update)
  qed (use that in \<open>simp add: complete_span_def\<close>)
  show ?thesis
  proof (cases e)
    case (MongoStarted x)
    then show ?thesis
      using assms
      by (auto simp: sw_mongo_started_def no_statement_def Let_def tell)
  next
    case (MongoSucceeded r)
    then show ?thesis using assms by (auto simp: sw_mongo_succeeded_def tell intro!: complete)
  next
    case (MongoFailed r f)
    then show ?thesis using assms by (auto simp: sw_mongo_failed_def tell intro!: complete)
  qed
qed

lemma mongo_private:
  "list_all no_statement (mo_spans st) \<Longrightarrow> mongo_run tr False render hosts user es st = Some st' \<Longrightarrow>
    list_all no_statement (mo_spans st')"
proof (induction es arbitrary: st)
  case (Cons e es)
  then obtain st1 where "sw_mongo_event tr False render hosts user e st = Some st1" by (auto split: option.splits)
  then show ?case using Cons mongo_private_step by (metis mongo_run.simps(2) option.simps(5))
qed simp


text \<open>With the variables unset, and with one that says \<open>off\<close>, which does not parse; with \<open>true\<close> the argument is there.\<close>

definition demo_sw_tracer :: sw_tracer where
  "demo_sw_tracer = \<lparr>tr_creates = (\<lambda>_. True), tr_headers = (\<lambda>_. []), tr_keys = []\<rparr>"

definition demo_sql_setting :: "gostring \<Rightarrow> go_env" where
  "demo_sql_setting value v = (if v = ''SW_AGENT_PLUGIN_CONFIG_SQL_COLLECT_PARAMETER'' then value else [])"

definition demo_db :: sw_handle where
  "demo_db = Some (Some \<lparr>si_peer = ''db:3306'', si_component = 5012, si_dbtype = ''Mysql''\<rparr>)"


end
