(* ===== verification/Sw_Options.thy ===== *)
theory Sw_Options
  imports Client_Hooks
begin

text \<open>
  The rules of the SkyWalking port that append to a variadic parameter: the middleware options of kratos
  (\<open>skywalking/plugins/kratosv2\<close>) and the options of a micro service (\<open>microv4/service.go\<close>).  Where the application passes a
  slice with \<open>...\<close>, the parameter is that slice, with its array and its capacity.
\<close>

section \<open>The hooks\<close>

datatype tracing_mw = HttpServerMw | HttpClientMw | GrpcServerMw | GrpcClientMw

datatype slice_mw = SwMw tracing_mw | AppMw nat

text \<open>What the option keeps for the transport: \<open>flag\<close> makes it pass.\<close>

definition sw_middleware_slice ::
  "tracing_mw \<Rightarrow> bool \<Rightarrow> nat \<Rightarrow> slice_mw go_heap \<Rightarrow> go_slice \<Rightarrow> slice_mw go_heap \<times> go_slice" where
  "sw_middleware_slice k flag spare h m = (if flag then (h, m) else slice_append spare (SwMw k) h m)"

definition sw_micro_new_service :: "'o \<Rightarrow> nat \<Rightarrow> 'o go_heap \<Rightarrow> go_slice \<Rightarrow> 'o go_heap \<times> go_slice" where
  "sw_micro_new_service wrap_client spare h opts = slice_append spare wrap_client h opts"

text \<open>Several options made from one slice, each of some kind; \<open>append\<close> chooses the capacity of a new array.\<close>

fun options_from :: "go_slice \<Rightarrow> (tracing_mw \<times> nat) list \<Rightarrow> slice_mw go_heap \<Rightarrow> slice_mw go_heap \<times> go_slice list" where
  "options_from m [] h = (h, [])"
| "options_from m ((k, spare) # ks) h =
     (case sw_middleware_slice k False spare h m of
        (h1, s) \<Rightarrow> (case options_from m ks h1 of (h2, ss) \<Rightarrow> (h2, s # ss)))"

section \<open>Properties\<close>

lemma slice_elems_old:
  "(\<And>a. a < hp_next h \<Longrightarrow> hp_cells h' a = hp_cells h a) \<Longrightarrow> sl_array s < hp_next h \<Longrightarrow> slice_elems h' s = slice_elems h s"
  by (simp add: slice_elems_def)

lemma append_new:
  assumes "sl_len m = sl_cap m" and "sl_array m < hp_next h" and "slice_append spare x h m = (h', s)"
  shows "hp_next h' = Suc (hp_next h)" "sl_array s = hp_next h" "slice_elems h' s = slice_elems h m @ [x]"
    "a < hp_next h \<Longrightarrow> hp_cells h' a = hp_cells h a"
  using assms by (auto simp: slice_append_def slice_elems_def)

lemma options_from_full:
  assumes "sl_len m = sl_cap m" and "sl_array m < hp_next h" and "options_from m ks h = (h', ss)"
  shows "hp_next h \<le> hp_next h' \<and> (\<forall>a < hp_next h. hp_cells h' a = hp_cells h a) \<and>
    map (slice_elems h') ss = map (\<lambda>(k, _). slice_elems h m @ [SwMw k]) ks"
  using assms
proof (induction ks arbitrary: h h' ss)
  case (Cons x ks)
  obtain k spare where x: "x = (k, spare)" by fastforce
  obtain h1 s where one: "slice_append spare (SwMw k) h m = (h1, s)" by fastforce
  obtain ss' where rest: "options_from m ks h1 = (h', ss')" "ss = s # ss'"
    using Cons.prems(3) x one by (auto simp: sw_middleware_slice_def split: prod.splits)
  note new = append_new [OF Cons.prems(1,2) one]
  have alive: "sl_array m < hp_next h1" using new(1) Cons.prems(2) by simp
  note IH = Cons.IH [OF Cons.prems(1) alive rest(1)]
  have old: "slice_elems h1 m = slice_elems h m" using new(4) Cons.prems(2) by (rule slice_elems_old)
  have "slice_elems h' s = slice_elems h1 s"
    by (rule slice_elems_old) (use IH new(1,2) in auto)
  then have "slice_elems h' s = slice_elems h m @ [SwMw k]" using new(3) by simp
  moreover have "hp_cells h' a = hp_cells h a" if "a < hp_next h" for a
    using IH new(1) new(4) [OF that] that by simp
  ultimately show ?case using IH new(1) x rest(2) old by auto
qed simp

text \<open>
  A slice without spare capacity, such as a literal or the arguments written out, can be shared: whatever
  transports the application makes from it, each gets the application's middlewares and then its own tracing
  middleware, and no array of the application is written.
\<close>
theorem sw_options_apart:
  assumes "sl_len m = sl_cap m" and "sl_array m < hp_next h" and "options_from m ks h = (h', ss)"
  shows "map (slice_elems h') ss = map (\<lambda>(k, _). slice_elems h m @ [SwMw k]) ks \<and>
    (\<forall>a < hp_next h. hp_cells h' a = hp_cells h a)"
  using options_from_full [OF assms] by simp

text \<open>
  With spare capacity the hooks write into the application's array: an HTTP and a gRPC server given the same slice
  both end with the middleware of the one made last, and what the application had behind the slice is overwritten.
\<close>

theorem sw_options_shared_array:
  assumes "sl_len m < sl_cap m" and "options_from m [(HttpServerMw, a), (GrpcServerMw, b)] h = (h', [http, grpc])"
  shows "slice_elems h' http = slice_elems h m @ [SwMw GrpcServerMw]" "slice_elems h' grpc = slice_elems h m @ [SwMw GrpcServerMw]"
    "hp_cells h' (sl_array m) (sl_off m + sl_len m) = SwMw GrpcServerMw"
  using assms by (auto simp: sw_middleware_slice_def slice_append_def slice_elems_def)

theorem sw_micro_options_overwritten:
  assumes "sl_len opts < sl_cap opts" and "sw_micro_new_service w spare h opts = (h', opts')"
  shows "hp_cells h' (sl_array opts) (sl_off opts + sl_len opts) = w"
  using assms by (auto simp: sw_micro_new_service_def slice_append_def)

end
