(* ===== verification/Hook_Log.thy ===== *)
theory Hook_Log
  imports Hook_Support Lazy_Init
begin

text \<open>
  The hook logger, \<open>otelc/hooklog/hooklog.go\<close>: a handler that writes the lines at or above the level of the environment.  Levels
  are ordered as those of \<open>log/slog\<close>.
\<close>

section \<open>The order of the levels\<close>

fun slog_level :: "log_level \<Rightarrow> int" where
  "slog_level LvlDebug = -4"
| "slog_level LvlInfo = 0"
| "slog_level LvlWarn = 4"
| "slog_level LvlError = 8"

lemma slog_level_inj: "slog_level a = slog_level b \<longleftrightarrow> a = b"
  by (cases a; cases b) simp_all

instantiation log_level :: linorder
begin

definition less_eq_log_level :: "log_level \<Rightarrow> log_level \<Rightarrow> bool" where
  "less_eq_log_level a b \<longleftrightarrow> slog_level a \<le> slog_level b"

definition less_log_level :: "log_level \<Rightarrow> log_level \<Rightarrow> bool" where
  "less_log_level a b \<longleftrightarrow> slog_level a < slog_level b"

instance
  by standard (auto simp: less_eq_log_level_def less_log_level_def slog_level_inj)

end

section \<open>The logger\<close>

text \<open>The logger of the package is made when the program starts; the default of \<open>slog\<close>, at level info, stands in for a missing one.\<close>

definition hook_logger :: "go_env \<Rightarrow> log_level option" where
  "hook_logger env = Some (hook_log_level env)"

definition logger_of :: "log_level option \<Rightarrow> log_level" where
  "logger_of logger = (case logger of Some l \<Rightarrow> l | None \<Rightarrow> LvlInfo)"

fun line_level :: "hook_line \<Rightarrow> log_level" where
  "line_level (InfoLine _) = LvlInfo"
| "line_level (ErrorLine _ _) = LvlError"

definition lines_written :: "go_env \<Rightarrow> hook_line list \<Rightarrow> hook_line list" where
  "lines_written env ls = filter (\<lambda>l. logger_of (hook_logger env) \<le> line_level l) ls"

text \<open>
  Failures are always written; what the plugins say when they are initialised is written once at the levels debug and
  info, which is the level for any other text too, and not at the others.
\<close>
theorem hook_lines_by_level:
  "ErrorLine m e \<in> set ls \<Longrightarrow> ErrorLine m e \<in> set (lines_written env ls)"
  "lines_written env (lz_lines (fold redis_init (g # gs) lazy_fresh)) =
     (if to_lower (trim_space (env ''OTEL_LOG_LEVEL'')) \<in> {''warn'', ''error''} then []
      else [InfoLine ''Redis v9 client instrumentation initialized''])"
proof -
  have top: "l \<le> LvlError" for l by (cases l) (simp_all add: less_eq_log_level_def)
  then show "ErrorLine m e \<in> set ls \<Longrightarrow> ErrorLine m e \<in> set (lines_written env ls)" by (simp add: lines_written_def)
  have "lz_lines (fold redis_init (g # gs) lazy_fresh) = [InfoLine ''Redis v9 client instrumentation initialized'']"
    unfolding redis_lazy.first_wins by (simp add: lazy_defs)
  moreover have "logger_of (hook_logger env) \<le> LvlInfo \<longleftrightarrow> to_lower (trim_space (env ''OTEL_LOG_LEVEL'')) \<notin> {''warn'', ''error''}"
    by (simp add: logger_of_def hook_logger_def hook_log_level_def less_eq_log_level_def Let_def)
  ultimately show "lines_written env (lz_lines (fold redis_init (g # gs) lazy_fresh)) =
     (if to_lower (trim_space (env ''OTEL_LOG_LEVEL'')) \<in> {''warn'', ''error''} then []
      else [InfoLine ''Redis v9 client instrumentation initialized''])"
    by (simp add: lines_written_def)
qed

end
