(* ===== verification/One_Span.thy ===== *)
theory One_Span
  imports GenAI_Props Elastic Net_Http_Props
begin

text \<open>
  The instrumentations that send their calls through \<open>net/http\<close>, together with its client hook: the marker of
  \<open>hooksupport\<close> that the GenAI middlewares and the Elasticsearch hook put on the context, and that \<open>RoundTrip\<close> reads.
\<close>

text \<open>The client spans of a call: the specific one and that of the transport, which gets the request with the context handed on.\<close>

definition transport_spans ::
  "(http_url \<Rightarrow> gostring) \<Rightarrow> gostring list \<Rightarrow> gostring list \<Rightarrow> (gostring \<times> gostring) list \<Rightarrow> bool \<Rightarrow> http_request \<Rightarrow> go_ctx \<Rightarrow> nat" where
  "transport_spans us known f inject en req ctx =
     (if fst (round_trip_before us known f inject en (Some (req\<lparr>hr_ctx := ctx\<rparr>))) = None then 0 else 1)"

definition specific_spans :: "'a option \<Rightarrow> nat" where
  "specific_spans s = (if s = None then 0 else 1)"

lemma exporter_ctx [simp]: "is_otel_exporter_request (req\<lparr>hr_ctx := ctx\<rparr>) = is_otel_exporter_request req"
  by (simp add: is_otel_exporter_request_def)

lemma transport_spans_eq:
  "\<not> is_otel_exporter_request req \<Longrightarrow>
     transport_spans us known f inject en req ctx = (if en \<and> \<not> is_http_client_suppressed ctx then 1 else 0)"
  by (simp add: transport_spans_def round_trip_before_def Let_def split: prod.split)

lemma accounted_one_span:
  assumes "call_accounted req nxt capture start r" and "\<not> is_http_client_suppressed (hq_ctx req)" and "\<not> is_otel_exporter_request sent"
  shows "specific_spans (gr_span r) + transport_spans us known f inject True sent (gr_passed_ctx r) = 1"
  using assms by (auto simp: call_accounted_def specific_spans_def transport_spans_eq split: option.splits)

text \<open>
  C18: A call has one client span.  With every instrumentation on, a request of the OpenAI and the Anthropic client that passes
  their middleware, of any kind and with any outcome, and a request of the Elasticsearch client get exactly one client span
  between them and the HTTP transport: the specific one where there is one, that of the transport otherwise; a
  context that is already marked adds none, and the transport's own span is only missing for the requests of the
  exporters.
\<close>
theorem one_client_span:
  assumes "\<not> is_otel_exporter_request sent" and "\<not> is_http_client_suppressed (hq_ctx req)"
  shows "(let r = openai_middleware capture start req nxt
      in specific_spans (gr_span r) + transport_spans us known f inject True sent (gr_passed_ctx r) = 1) \<and>
    (let r = anthropic_middleware req nxt
      in specific_spans (gr_span r) + transport_spans us known f inject True sent (gr_passed_ctx r) = 1) \<and>
    (case es_perform_request True ctx meth path ignored resp err of
       (s, Some ctx') \<Rightarrow> specific_spans s + transport_spans us known f inject True sent ctx' = 1
     | (_, None) \<Rightarrow> False) \<and>
    transport_spans us known f inject True sent (hq_ctx req) = 1 \<and>
    transport_spans us known f inject True sent (suppress_http_client (hq_ctx req)) = 0"
proof (intro conjI)
  show "let r = openai_middleware capture start req nxt
      in specific_spans (gr_span r) + transport_spans us known f inject True sent (gr_passed_ctx r) = 1"
    unfolding Let_def by (rule accounted_one_span [OF genai_accounted_openai assms(2,1)])
  show "let r = anthropic_middleware req nxt
      in specific_spans (gr_span r) + transport_spans us known f inject True sent (gr_passed_ctx r) = 1"
    unfolding Let_def by (rule accounted_one_span [OF genai_accounted_anthropic assms(2,1)])
qed (use assms in \<open>simp_all add: transport_spans_eq es_perform_request_def specific_spans_def suppressed_is_suppressed Let_def split: prod.split\<close>)

theorem one_client_span_witness:
  "specific_spans (gr_span (anthropic_middleware \<lparr>hq_path = ''/v2/other'', hq_host = ''h'', hq_body = None, hq_ctx = Map.empty\<rparr>
      (NextErr ''e'' ''t''))) +
   transport_spans (\<lambda>_. []) http_method_lookup [] [] True demo_request
     (gr_passed_ctx (anthropic_middleware \<lparr>hq_path = ''/v2/other'', hq_host = ''h'', hq_body = None, hq_ctx = Map.empty\<rparr> (NextErr ''e'' ''t''))) = 1"
proof -
  let ?req = "\<lparr>hq_path = ''/v2/other'', hq_host = ''h'', hq_body = None, hq_ctx = Map.empty\<rparr> :: genai_http_request"
  have "\<not> is_http_client_suppressed (hq_ctx ?req)" by (simp add: is_http_client_suppressed_def)
  from one_client_span [OF demo_instrumented(2) this, of False 0 "NextErr ''e'' ''t''" "\<lambda>_. []" http_method_lookup "[]" "[]"]
  show ?thesis by (simp add: Let_def)
qed

end
