(* ===== verification/Gls_History.thy ===== *)
theory Gls_History
  imports Gls_Props
begin

text \<open>
  The current span of a goroutine in terms of what happened before, without stacks: a history is the list of operations, the
  newest first.  A span that is served was started where the goroutine could see it and has not ended since; and as
  long as the limits are not reached, it is the newest such span.
\<close>

section \<open>What a history lets a goroutine see\<close>

text \<open>The spans started on the goroutine, or on the one it was created by before that, since it was last cleared, and not ended.\<close>

fun visible :: "goroutine \<Rightarrow> gls_op list \<Rightarrow> span set" where
  "visible g [] = {}"
| "visible g (StartSpan h s # past) = (if h = g then insert s (visible g past) else visible g past)"
| "visible g (EndSpan h s # past) = {x \<in> visible g past. span_key x \<noteq> span_key s}"
| "visible g (LookupSpan h # past) = visible g past"
| "visible g (ForkGo p c # past) = (if c = g then visible p past else visible g past)"
| "visible g (ClearCtx h # past) = (if h = g then {} else visible g past)"

text \<open>The same in order, where a new goroutine inherits one span.\<close>

fun seen :: "goroutine \<Rightarrow> gls_op list \<Rightarrow> span list" where
  "seen g [] = []"
| "seen g (StartSpan h s # past) = (if h = g then s # seen g past else seen g past)"
| "seen g (EndSpan h s # past) = drop_key (span_key s) (seen g past)"
| "seen g (LookupSpan h # past) = seen g past"
| "seen g (ForkGo p c # past) = (if c = g then take 1 (seen p past) else seen g past)"
| "seen g (ClearCtx h # past) = (if h = g then [] else seen g past)"

fun starts :: "gls_op list \<Rightarrow> nat" where
  "starts [] = 0"
| "starts (StartSpan h s # past) = Suc (starts past)"
| "starts (_ # past) = starts past"

fun ends_key :: "span_key \<Rightarrow> gls_op \<Rightarrow> bool" where
  "ends_key k (EndSpan g s) = (span_key s = k)"
| "ends_key k _ = False"

lemma set_drop_key [simp]: "set (drop_key k xs) = {x \<in> set xs. span_key x \<noteq> k}"
  by (auto simp: drop_key_def)

lemma length_drop_key: "length (drop_key k xs) \<le> length xs"
  by (simp add: drop_key_def)

text \<open>A span that was started and has not ended since.\<close>

definition unended :: "span \<Rightarrow> gls_op list \<Rightarrow> bool" where
  "unended s past \<longleftrightarrow>
     (\<exists>later earlier h. past = later @ StartSpan h s # earlier \<and> \<not> list_ex (ends_key (span_key s)) later)"

lemma unended_rev:
  "unended s (rev ops) \<longleftrightarrow>
     (\<exists>before h after. ops = before @ StartSpan h s # after \<and> \<not> list_ex (ends_key (span_key s)) after)"
proof
  assume "unended s (rev ops)"
  then obtain later earlier h where
    *: "rev ops = later @ StartSpan h s # earlier" "\<not> list_ex (ends_key (span_key s)) later"
    unfolding unended_def by blast
  then have "ops = rev earlier @ StartSpan h s # rev later" by (simp add: rev_swap)
  then show "\<exists>before h after. ops = before @ StartSpan h s # after \<and> \<not> list_ex (ends_key (span_key s)) after"
    using *(2) by (metis list_ex_rev)
next
  assume "\<exists>before h after. ops = before @ StartSpan h s # after \<and> \<not> list_ex (ends_key (span_key s)) after"
  then obtain before h after where
    *: "ops = before @ StartSpan h s # after" "\<not> list_ex (ends_key (span_key s)) after" by blast
  then have "rev ops = rev after @ StartSpan h s # rev before" by simp
  then show "unended s (rev ops)"
    unfolding unended_def using *(2) by (metis list_ex_rev)
qed

lemma unended_start: "unended s (StartSpan h s # past)"
  unfolding unended_def by (rule exI [of _ "[]"]) auto

lemma unended_Cons: "unended s past \<Longrightarrow> \<not> ends_key (span_key s) x \<Longrightarrow> unended s (x # past)"
  unfolding unended_def by (elim exE conjE, rule_tac x = "x # later" in exI) auto

lemma visible_unended: "s \<in> visible g past \<Longrightarrow> unended s past"
  by (induction g past rule: visible.induct) (auto intro: unended_start unended_Cons split: if_splits)

section \<open>Soundness\<close>

abbreviation spec_run :: "gls_op list \<Rightarrow> stacks \<Rightarrow> stacks" where
  "spec_run ops a \<equiv> run_ops spec_step ops a"

lemma set_spec_start:
  "set (stk (spec_start g s a) h) \<subseteq> (if h = g then insert s (set (stk a h)) else set (stk a h))"
  by (auto simp: spec_start_def Let_def)

lemma spec_visible:
  assumes "\<And>h. stk a h = []"
  shows "set (stk (spec_run ops a) g) \<subseteq> visible g (rev ops)"
proof (induction ops arbitrary: g rule: rev_induct)
  case Nil
  then show ?case using assms by simp
next
  case (snoc x ops)
  show ?case
  proof (cases x)
    case (StartSpan h s)
    show ?thesis
    proof (cases "h = g")
      case True
      then have "set (stk (spec_run ops a) g) \<subseteq> visible g (rev ops)" using snoc by simp
      then have "insert s (set (stk (spec_run ops a) g)) \<subseteq> visible g (rev (ops @ [x]))"
        using StartSpan True by auto
      then show ?thesis
        using subset_trans [OF set_spec_start [of h s "spec_run ops a" g]] StartSpan True
        by (simp add: run_ops_append)
    next
      case False
      then show ?thesis
        using subset_trans [OF set_spec_start [of h s "spec_run ops a" g]] snoc [of g] StartSpan
        by (simp add: run_ops_append)
    qed
  next
    case (ForkGo p c)
    then show ?thesis
      using snoc [of g] snoc [of p] set_take_subset [of 1 "stk (spec_run ops a) p"] by (auto simp: run_ops_append)
  qed (use snoc [of g] in \<open>auto simp: run_ops_append\<close>)
qed

section \<open>Completeness below the limits\<close>

lemma length_seen: "length (seen g past) \<le> starts past"
proof (induction g past rule: seen.induct)
  case (3 g h s past)
  then show ?case using length_drop_key [of "span_key s" "seen g past"] by simp
qed auto

lemma starts_append [simp]: "starts (xs @ ys) = starts xs + starts ys"
  by (induction xs rule: starts.induct) auto

lemma starts_rev [simp]: "starts (rev xs) = starts xs"
proof (induction xs)
  case (Cons x xs)
  then show ?case by (cases x) auto
qed simp

lemma spec_seen:
  assumes "\<And>h. stk a h = []" and "tracked a = []"
    and "int (starts ops) \<le> lim_spans a" and "int (starts ops) \<le> lim_states a"
  shows "stk (spec_run ops a) = (\<lambda>g. seen g (rev ops)) \<and> length (tracked (spec_run ops a)) \<le> starts ops \<and>
    lim_spans (spec_run ops a) = lim_spans a \<and> lim_states (spec_run ops a) = lim_states a"
  using assms(3,4)
proof (induction ops rule: rev_induct)
  case Nil
  then show ?case using assms(1,2) by auto
next
  case (snoc x ops)
  let ?a = "spec_run ops a"
  have IH: "stk ?a = (\<lambda>g. seen g (rev ops))" "length (tracked ?a) \<le> starts ops"
    "lim_spans ?a = lim_spans a" "lim_states ?a = lim_states a"
    using snoc by auto
  show ?case
  proof (cases x)
    case (StartSpan h s)
    have "length (seen h (rev ops)) \<le> starts ops"
      using length_seen [of h "rev ops"] by simp
    then have "\<not> int (length (stk ?a h)) \<ge> lim_spans ?a" "\<not> int (length (tracked ?a)) \<ge> lim_states ?a"
      using IH snoc.prems StartSpan by auto
    then show ?thesis
      using IH StartSpan by (auto simp: run_ops_append spec_start_def Let_def fun_eq_iff)
  next
    case (EndSpan h s)
    have "length (filter (\<lambda>k. k \<noteq> span_key s) (tracked ?a)) \<le> starts ops"
      using IH(2) length_filter_le [of "\<lambda>k. k \<noteq> span_key s" "tracked ?a"] by linarith
    then show ?thesis using IH EndSpan by (simp add: run_ops_append fun_eq_iff)
  qed (use IH in \<open>auto simp: run_ops_append fun_eq_iff\<close>)
qed

section \<open>The current span\<close>

lemma init_stacks_empty [simp]: "live_stack (init_world env) h = []" "states (init_world env) = []"
  by (simp_all add: live_stack_def init_world_def)



end
