(* ===== verification/Gls_Pointers.thy ===== *)
theory Gls_Pointers
  imports Gls_Spec "HOL-Library.Monad_Syntax"
begin

text \<open>
  The span stacks of \<open>otelc/sdktrace/gls.go\<close> at the level of pointers.  \<open>Gls_Stack\<close> keeps the
  stack of a goroutine as a list inside its slot; here the \<open>prev\<close>-linked \<open>*spanWrapper\<close>s and the
  \<open>*traceContext\<close>s live at addresses of an explicit memory, a slot holds an address, and
  \<open>compact\<close>, \<open>tail\<close> and \<open>del\<close> are the loops of the source, over the \<open>addr **spanWrapper\<close> they
  write through.  A loop over a cyclic chain would not end, so the loops are partial functions; the
  refinement shows that they always return, that no wrapper or context is ever shared by two
  goroutines, and that the memory represents the state of \<open>Gls_Stack\<close> after every operation.
\<close>

section \<open>Memory\<close>

record wrapper_cell =
  wc_span :: span
  wc_prev :: "nat option"
  wc_ended :: nat

record context_cell =
  cc_sw :: "nat option"
  cc_n :: int
  cc_lcs :: "span option"

text \<open>\<open>shared\<close> is the rest of the state: the tracker, the flags, the limits (its own slots are not used).\<close>

record memory =
  wrappers :: "nat \<Rightarrow> wrapper_cell"
  next_wrapper :: nat
  contexts :: "nat \<Rightarrow> context_cell"
  next_context :: nat
  slots :: "goroutine \<Rightarrow> nat option"
  shared :: world

text \<open>What \<open>addr\<close> may point to: the head \<open>&tc.sw\<close> or the link \<open>&w.prev\<close> of a wrapper.\<close>

datatype place = Head | Link nat

type_synonym chained = "(nat \<Rightarrow> wrapper_cell) \<times> context_cell"

fun load :: "place \<Rightarrow> chained \<Rightarrow> nat option" where
  "load Head (h, c) = cc_sw c"
| "load (Link a) (h, c) = wc_prev (h a)"

fun store :: "place \<Rightarrow> nat option \<Rightarrow> chained \<Rightarrow> chained" where
  "store Head p (h, c) = (h, c\<lparr>cc_sw := p\<rparr>)"
| "store (Link a) p (h, c) = (h(a := (h a)\<lparr>wc_prev := p\<rparr>), c)"

section \<open>The loops\<close>

partial_function (option) compact_from :: "(nat \<Rightarrow> bool) \<Rightarrow> place \<Rightarrow> chained \<Rightarrow> chained option" where
  "compact_from fl addr m =
     (case load addr m of
        None \<Rightarrow> Some m
      | Some a \<Rightarrow>
          if fl (wc_ended (fst m a))
          then (let (h, c) = store addr (wc_prev (fst m a)) m in compact_from fl addr (h, c\<lparr>cc_n := cc_n c - 1\<rparr>))
          else compact_from fl (Link a) m)"

partial_function (option) bottom_from ::
  "(nat \<Rightarrow> wrapper_cell) \<Rightarrow> nat option \<Rightarrow> span option \<Rightarrow> span option option" where
  "bottom_from h cur lcs =
     (case cur of None \<Rightarrow> Some lcs | Some a \<Rightarrow> bottom_from h (wc_prev (h a)) (Some (wc_span (h a))))"

definition ptr_compact :: "(nat \<Rightarrow> bool) \<Rightarrow> chained \<Rightarrow> chained option" where
  "ptr_compact fl m =
     do { (h, c) \<leftarrow> compact_from fl Head m; lcs \<leftarrow> bottom_from h (cc_sw c) None; Some (h, c\<lparr>cc_lcs := lcs\<rparr>) }"

partial_function (option) pop_ended ::
  "(nat \<Rightarrow> bool) \<Rightarrow> (nat \<Rightarrow> wrapper_cell) \<Rightarrow> context_cell \<Rightarrow> context_cell option" where
  "pop_ended fl h c =
     (case cc_sw c of
        Some a \<Rightarrow>
          if fl (wc_ended (h a)) then pop_ended fl h (c\<lparr>cc_sw := wc_prev (h a), cc_n := cc_n c - 1\<rparr>) else Some c
      | None \<Rightarrow> Some c)"

definition ptr_tail :: "(nat \<Rightarrow> bool) \<Rightarrow> (nat \<Rightarrow> wrapper_cell) \<Rightarrow> context_cell \<Rightarrow> (span option \<times> context_cell) option" where
  "ptr_tail fl h c =
     do { c' \<leftarrow> pop_ended fl h c;
          Some (case cc_sw c' of None \<Rightarrow> (None, c'\<lparr>cc_lcs := None\<rparr>) | Some a \<Rightarrow> (Some (wc_span (h a)), c')) }"

partial_function (option) unlink_from ::
  "span \<Rightarrow> place \<Rightarrow> nat option \<Rightarrow> chained \<Rightarrow> (chained \<times> nat option) option" where
  "unlink_from s addr cur m =
     (case cur of
        None \<Rightarrow> Some (m, None)
      | Some a \<Rightarrow>
          if span_trace (wc_span (fst m a)) = span_trace s \<and> span_sid (wc_span (fst m a)) = span_sid s
          then (let (h, c) = store addr (wc_prev (fst m a)) m in Some ((h, c\<lparr>cc_n := cc_n c - 1\<rparr>), Some a))
          else unlink_from s (Link a) (wc_prev (fst m a)) m)"

text \<open>The second component is the cell whose flag the loop set.\<close>

definition ptr_del :: "span \<Rightarrow> chained \<Rightarrow> (chained \<times> nat option) option" where
  "ptr_del s m =
     (if cc_n (snd m) = 0 then Some (m, None)
      else do { ((h, c), hit) \<leftarrow> unlink_from s Head (cc_sw (snd m)) m;
                case hit of
                  None \<Rightarrow> Some ((h, c), None)
                | Some a \<Rightarrow>
                    if wc_prev (h a) = None
                    then do { lcs \<leftarrow> bottom_from h (cc_sw c) None; Some ((h, c\<lparr>cc_lcs := lcs\<rparr>), Some (wc_ended (h a))) }
                    else Some ((h, c), Some (wc_ended (h a))) })"

section \<open>Chains\<close>

fun chain :: "(nat \<Rightarrow> wrapper_cell) \<Rightarrow> nat option \<Rightarrow> nat list \<Rightarrow> bool" where
  "chain h p [] = (p = None)"
| "chain h p (a # as) = (p = Some a \<and> chain h (wc_prev (h a)) as)"

lemma chain_None [simp]: "chain h None as \<longleftrightarrow> as = []"
  by (cases as) auto

lemma chain_Some: "chain h (Some a) as \<longleftrightarrow> (\<exists>bs. as = a # bs \<and> chain h (wc_prev (h a)) bs)"
  by (cases as) auto

lemma chain_agree: "(\<And>a. a \<in> set as \<Longrightarrow> h' a = h a) \<Longrightarrow> chain h' p as = chain h p as"
  by (induction as arbitrary: p) auto

lemma chain_upd [simp]: "a \<notin> set as \<Longrightarrow> chain (h(a := x)) p as = chain h p as"
  by (rule chain_agree) auto

lemma chain_unique: "chain h p as \<Longrightarrow> chain h p bs \<Longrightarrow> as = bs"
  by (induction as arbitrary: p bs) (auto simp: chain_Some)

lemma chain_append: "chain h p (as @ bs) \<Longrightarrow> \<exists>q. chain h q bs \<and> (bs = [] \<longrightarrow> q = None)"
  by (induction as arbitrary: p) auto

lemma chain_distinct: "chain h p as \<Longrightarrow> distinct as"
proof (induction as arbitrary: p)
  case (Cons a as)
  have "a \<notin> set as"
  proof
    assume "a \<in> set as"
    then obtain xs ys where as: "as = xs @ a # ys" by (auto simp: in_set_conv_decomp)
    with Cons.prems have "chain h (wc_prev (h a)) (xs @ a # ys)" by simp
    then obtain q where "chain h q (a # ys)" using chain_append by blast
    then have "chain h (Some a) (a # ys)" by simp
    moreover have "chain h (Some a) (a # as)" using Cons.prems by simp
    ultimately have "ys = as" using chain_unique by blast
    then show False using arg_cong [OF as, of length] by simp
  qed
  with Cons show ?case by auto
qed simp

definition wrap_of :: "(nat \<Rightarrow> wrapper_cell) \<Rightarrow> nat \<Rightarrow> span_wrapper" where
  "wrap_of h a = \<lparr>w_span = wc_span (h a), w_ended = wc_ended (h a)\<rparr>"

lemma wrap_of_sel [simp]: "w_span (wrap_of h a) = wc_span (h a)" "w_ended (wrap_of h a) = wc_ended (h a)"
  by (simp_all add: wrap_of_def)

definition ctx_of :: "(nat \<Rightarrow> wrapper_cell) \<Rightarrow> context_cell \<Rightarrow> nat list \<Rightarrow> trace_context" where
  "ctx_of h c as = \<lparr>tc_sw = map (wrap_of h) as, tc_n = cc_n c, tc_lcs = cc_lcs c\<rparr>"

lemma ctx_of_sel [simp]:
  "tc_sw (ctx_of h c as) = map (wrap_of h) as" "tc_n (ctx_of h c as) = cc_n c" "tc_lcs (ctx_of h c as) = cc_lcs c"
  by (simp_all add: ctx_of_def)

text \<open>Only links are written, and only those of the wrappers at the addresses of \<open>A\<close>.\<close>

definition relinked :: "nat set \<Rightarrow> (nat \<Rightarrow> wrapper_cell) \<Rightarrow> (nat \<Rightarrow> wrapper_cell) \<Rightarrow> bool" where
  "relinked A h h' \<longleftrightarrow>
     (\<forall>a. wc_span (h' a) = wc_span (h a) \<and> wc_ended (h' a) = wc_ended (h a) \<and> (a \<notin> A \<longrightarrow> h' a = h a))"

lemma relinked_refl [simp]: "relinked A h h"
  by (simp add: relinked_def)

lemma relinked_trans: "relinked A h h' \<Longrightarrow> relinked B h' h'' \<Longrightarrow> relinked (A \<union> B) h h''"
  by (simp add: relinked_def)

lemma relinked_mono: "relinked A h h' \<Longrightarrow> A \<subseteq> B \<Longrightarrow> relinked B h h'"
  by (auto simp: relinked_def)

lemma relinked_wrap: "relinked A h h' \<Longrightarrow> wrap_of h' = wrap_of h"
  by (auto simp: relinked_def wrap_of_def fun_eq_iff)

lemma relinked_chain: "relinked A h h' \<Longrightarrow> A \<inter> set as = {} \<Longrightarrow> chain h' p as = chain h p as"
  by (rule chain_agree) (auto simp: relinked_def)

section \<open>Each loop returns, and does what the list function does\<close>

text \<open>A place outside the chain that starts there.\<close>

fun outside :: "place \<Rightarrow> nat list \<Rightarrow> bool" where
  "outside Head as = True"
| "outside (Link b) as = (b \<notin> set as)"

fun place_set :: "place \<Rightarrow> nat set" where
  "place_set Head = {}"
| "place_set (Link b) = {b}"

lemma store_effect:
  assumes "store addr p (h, c) = (h', c')"
  shows "load addr (h', c') = p" "relinked (place_set addr) h h'" "cc_n c' = cc_n c" "cc_lcs c' = cc_lcs c"
    "addr \<noteq> Head \<Longrightarrow> c' = c"
  using assms by (cases addr; auto simp: relinked_def)+

lemma load_frame:
  "relinked A h h' \<Longrightarrow> place_set addr \<inter> A = {} \<Longrightarrow> (addr = Head \<Longrightarrow> cc_sw c' = cc_sw c) \<Longrightarrow>
   load addr (h', c') = load addr (h, c)"
  by (cases addr) (auto simp: relinked_def)

lemma load_cong [simp]: "load addr (h, c\<lparr>cc_n := n\<rparr>) = load addr (h, c)"
  by (cases addr) auto

lemma outside_disjoint: "outside addr as \<Longrightarrow> place_set addr \<inter> set as = {}"
  by (cases addr) auto

lemma compact_from_chain:
  assumes "chain h (load addr (h, c)) as" "outside addr as"
  shows "\<exists>h' c'. compact_from fl addr (h, c) = Some (h', c') \<and>
    chain h' (load addr (h', c')) (filter (\<lambda>a. \<not> fl (wc_ended (h a))) as) \<and>
    cc_n c' = cc_n c - int (length (filter (\<lambda>a. fl (wc_ended (h a))) as)) \<and> cc_lcs c' = cc_lcs c \<and>
    relinked (place_set addr \<union> set as) h h' \<and> (addr \<noteq> Head \<longrightarrow> cc_sw c' = cc_sw c)"
  using assms
proof (induction as arbitrary: addr h c)
  case Nil
  then show ?case by (subst compact_from.simps) auto
next
  case (Cons a as)
  have ld: "load addr (h, c) = Some a" and ch: "chain h (wc_prev (h a)) as" using Cons.prems by auto
  have na: "a \<notin> set as" using chain_distinct [OF Cons.prems(1)] by simp
  have out: "outside addr as" "place_set addr \<inter> set (a # as) = {}"
    using Cons.prems(2) by (cases addr; auto)+
  show ?case
  proof (cases "fl (wc_ended (h a))")
    case True
    obtain h1 c1 where st: "store addr (wc_prev (h a)) (h, c) = (h1, c1)" by (metis surj_pair)
    note eff = store_effect [OF st]
    have "chain h1 (load addr (h1, c1\<lparr>cc_n := cc_n c1 - 1\<rparr>)) as"
      using eff(1) ch relinked_chain [OF eff(2)] out by auto
    from Cons.IH [OF this out(1)] obtain h' c' where IH:
      "compact_from fl addr (h1, c1\<lparr>cc_n := cc_n c1 - 1\<rparr>) = Some (h', c')"
      "chain h' (load addr (h', c')) (filter (\<lambda>a. \<not> fl (wc_ended (h1 a))) as)"
      "cc_n c' = cc_n c1 - 1 - int (length (filter (\<lambda>a. fl (wc_ended (h1 a))) as))" "cc_lcs c' = cc_lcs c1"
      "relinked (place_set addr \<union> set as) h1 h'" "addr \<noteq> Head \<longrightarrow> cc_sw c' = cc_sw c1"
      by auto
    have "wc_ended (h1 b) = wc_ended (h b)" for b using eff(2) by (simp add: relinked_def)
    moreover have "relinked (place_set addr \<union> set (a # as)) h h'"
      using relinked_trans [OF eff(2) IH(5)] by (rule relinked_mono) auto
    moreover have "compact_from fl addr (h, c) = Some (h', c')"
      using IH(1) ld True st by (subst compact_from.simps) simp
    ultimately show ?thesis using IH eff True by auto
  next
    case False
    from Cons.IH [of h "Link a" c] ch na obtain h' c' where IH:
      "compact_from fl (Link a) (h, c) = Some (h', c')"
      "chain h' (wc_prev (h' a)) (filter (\<lambda>a. \<not> fl (wc_ended (h a))) as)"
      "cc_n c' = cc_n c - int (length (filter (\<lambda>a. fl (wc_ended (h a))) as))" "cc_lcs c' = cc_lcs c"
      "relinked (insert a (set as)) h h'" "cc_sw c' = cc_sw c" by auto
    have "load addr (h', c') = Some a"
      using load_frame [OF IH(5)] out IH(6) ld by auto
    moreover have "compact_from fl addr (h, c) = Some (h', c')"
      using IH(1) ld False by (subst compact_from.simps) simp
    moreover have "relinked (place_set addr \<union> set (a # as)) h h'"
      using IH(5) by (rule relinked_mono) auto
    ultimately show ?thesis using IH False by auto
  qed
qed

lemma bottom_from_chain:
  "chain h p as \<Longrightarrow> bottom_from h p acc = Some (bottom_span acc (map (wrap_of h) as))"
  by (induction as arbitrary: p acc; subst bottom_from.simps) auto

lemma filter_wrap_of:
  "filter (\<lambda>x. P (w_ended x)) (map (wrap_of h) as) = map (wrap_of h) (filter (\<lambda>a. P (wc_ended (h a))) as)"
  by (induction as) auto

lemma ptr_compact_chain:
  assumes "chain h (cc_sw c) as"
  shows "\<exists>h' c' as'. ptr_compact fl (h, c) = Some (h', c') \<and> chain h' (cc_sw c') as' \<and> set as' \<subseteq> set as \<and>
    relinked (set as) h h' \<and> ctx_of h' c' as' = tc_compact fl (ctx_of h c as)"
proof -
  let ?live = "filter (\<lambda>a. \<not> fl (wc_ended (h a))) as"
  obtain h' c' where loop: "compact_from fl Head (h, c) = Some (h', c')" "chain h' (cc_sw c') ?live"
    "cc_n c' = cc_n c - int (length (filter (\<lambda>a. fl (wc_ended (h a))) as))" "relinked (set as) h h'"
    using compact_from_chain [of h Head c as fl] assms by auto
  note w = relinked_wrap [OF loop(4)]
  have "ptr_compact fl (h, c) = Some (h', c'\<lparr>cc_lcs := bottom_span None (map (wrap_of h) ?live)\<rparr>)"
    using loop(1) bottom_from_chain [OF loop(2)] w by (simp add: ptr_compact_def)
  moreover have "ctx_of h' (c'\<lparr>cc_lcs := bottom_span None (map (wrap_of h) ?live)\<rparr>) ?live =
      tc_compact fl (ctx_of h c as)"
    using loop(3) w filter_wrap_of [of "\<lambda>f. \<not> fl f" h as] filter_wrap_of [of fl h as]
    by (simp add: ctx_of_def tc_compact_def compact_loop_eq)
  ultimately show ?thesis using loop(2,4) by (intro exI [of _ h'] exI conjI) auto
qed

lemma pop_ended_chain:
  "chain h (cc_sw c) as \<Longrightarrow>
   \<exists>c' as'. pop_ended fl h c = Some c' \<and> chain h (cc_sw c') as' \<and> set as' \<subseteq> set as \<and> cc_lcs c' = cc_lcs c \<and>
     tail_loop fl (map (wrap_of h) as) (cc_n c) = (map (wrap_of h) as', cc_n c')"
proof (induction as arbitrary: c)
  case Nil
  then show ?case by (subst pop_ended.simps) auto
next
  case (Cons a as)
  show ?case
  proof (cases "fl (wc_ended (h a))")
    case True
    let ?c = "c\<lparr>cc_sw := wc_prev (h a), cc_n := cc_n c - 1\<rparr>"
    have "pop_ended fl h c = pop_ended fl h ?c" using Cons.prems True by (subst pop_ended.simps) simp
    then show ?thesis using Cons.IH [of ?c] Cons.prems True by auto
  next
    case False
    then have "pop_ended fl h c = Some c" using Cons.prems by (subst pop_ended.simps) simp
    then show ?thesis using Cons.prems False by (intro exI [of _ c] exI [of _ "a # as"]) auto
  qed
qed

lemma ptr_tail_chain:
  assumes "chain h (cc_sw c) as"
  shows "\<exists>s c' as'. ptr_tail fl h c = Some (s, c') \<and> chain h (cc_sw c') as' \<and> set as' \<subseteq> set as \<and>
    tc_tail fl (ctx_of h c as) = (s, ctx_of h c' as')"
proof -
  obtain c' as' where pop: "pop_ended fl h c = Some c'" "chain h (cc_sw c') as'" "set as' \<subseteq> set as"
    "cc_lcs c' = cc_lcs c" "tail_loop fl (map (wrap_of h) as) (cc_n c) = (map (wrap_of h) as', cc_n c')"
    using pop_ended_chain [OF assms] by blast
  show ?thesis
  proof (cases as')
    case Nil
    with pop show ?thesis
      by (intro exI [of _ None] exI [of _ "c'\<lparr>cc_lcs := None\<rparr>"] exI [of _ "[]"])
        (simp add: ptr_tail_def tc_tail_def ctx_of_def)
  next
    case (Cons a bs)
    with pop show ?thesis
      by (intro exI [of _ "Some (wc_span (h a))"] exI [of _ c'] exI [of _ as'])
        (simp add: ptr_tail_def tc_tail_def ctx_of_def)
  qed
qed

text \<open>What \<open>unlink_from\<close> leaves: the chain without its first wrapper with the ids of \<open>s\<close>.\<close>

lemma unlink_from_chain:
  assumes "chain h (load addr (h, c)) as" "outside addr as"
  shows "case del_loop s (map (wrap_of h) as) of
      None \<Rightarrow> unlink_from s addr (load addr (h, c)) (h, c) = Some ((h, c), None)
    | Some (sw, f, lst) \<Rightarrow> \<exists>h' c' as' a.
        unlink_from s addr (load addr (h, c)) (h, c) = Some ((h', c'), Some a) \<and>
        chain h' (load addr (h', c')) as' \<and> set as' \<subseteq> set as \<and> sw = map (wrap_of h) as' \<and>
        f = wc_ended (h a) \<and> (lst \<longleftrightarrow> wc_prev (h' a) = None) \<and> cc_n c' = cc_n c - 1 \<and> cc_lcs c' = cc_lcs c \<and>
        relinked (place_set addr \<union> set as) h h' \<and> (addr \<noteq> Head \<longrightarrow> cc_sw c' = cc_sw c)"
  using assms
proof (induction as arbitrary: addr)
  case Nil
  then show ?case by (subst unlink_from.simps) auto
next
  case (Cons a as)
  have ld: "load addr (h, c) = Some a" and ch: "chain h (wc_prev (h a)) as" using Cons.prems by auto
  have na: "a \<notin> set as" using chain_distinct [OF Cons.prems(1)] by simp
  have out: "place_set addr \<inter> set (a # as) = {}" using outside_disjoint [OF Cons.prems(2)] .
  show ?case
  proof (cases "span_trace (wc_span (h a)) = span_trace s \<and> span_sid (wc_span (h a)) = span_sid s")
    case True
    obtain h1 c1 where st: "store addr (wc_prev (h a)) (h, c) = (h1, c1)" by (metis surj_pair)
    note eff = store_effect [OF st]
    have un: "unlink_from s addr (load addr (h, c)) (h, c) = Some ((h1, c1\<lparr>cc_n := cc_n c1 - 1\<rparr>), Some a)"
      using ld True st by (subst unlink_from.simps) simp
    have "chain h1 (load addr (h1, c1\<lparr>cc_n := cc_n c1 - 1\<rparr>)) as"
      using eff(1) ch relinked_chain [OF eff(2)] out by auto
    moreover have "h1 a = h a" using eff(2) out by (auto simp: relinked_def)
    moreover have "as = [] \<longleftrightarrow> wc_prev (h a) = None" using ch by (cases as) auto
    moreover have "relinked (place_set addr \<union> set (a # as)) h h1"
      using eff(2) by (rule relinked_mono) auto
    moreover have "del_loop s (map (wrap_of h) (a # as)) = Some (map (wrap_of h) as, wc_ended (h a), as = [])"
      using True by simp
    ultimately show ?thesis using un eff by (auto simp: ld intro!: exI [of _ as])
  next
    case False
    have step: "unlink_from s addr (load addr (h, c)) (h, c) = unlink_from s (Link a) (load (Link a) (h, c)) (h, c)"
      using ld False by (subst unlink_from.simps) auto
    note IH = Cons.IH [of "Link a"]
    show ?thesis
    proof (cases "del_loop s (map (wrap_of h) as)")
      case None
      then show ?thesis using IH ch na step False by simp
    next
      case (Some d)
      obtain sw f lst where d: "d = (sw, f, lst)" by (cases d)
      from IH ch na Some d obtain h' c' as' b where
        un: "unlink_from s (Link a) (load (Link a) (h, c)) (h, c) = Some ((h', c'), Some b)"
        "chain h' (wc_prev (h' a)) as'" "set as' \<subseteq> set as" "sw = map (wrap_of h) as'"
        "f = wc_ended (h b)" "lst \<longleftrightarrow> wc_prev (h' b) = None" "cc_n c' = cc_n c - 1" "cc_lcs c' = cc_lcs c"
        "relinked (insert a (set as)) h h'" "cc_sw c' = cc_sw c" by auto
      have "load addr (h', c') = Some a" using load_frame [OF un(9)] out un(10) ld by auto
      moreover have "relinked (place_set addr \<union> set (a # as)) h h'"
        using un(9) by (rule relinked_mono) auto
      moreover have "del_loop s (map (wrap_of h) (a # as)) = Some (map (wrap_of h) (a # as'), f, lst)"
        using False Some d un(4) by auto
      ultimately show ?thesis
        using step un by (auto intro!: exI [of _ h'] exI [of _ c'] exI [of _ "a # as'"] exI [of _ b])
    qed
  qed
qed

lemma ptr_del_chain:
  assumes "chain h (cc_sw c) as"
  shows "\<exists>h' c' as' hit. ptr_del s (h, c) = Some ((h', c'), hit) \<and> chain h' (cc_sw c') as' \<and> set as' \<subseteq> set as \<and>
    relinked (set as) h h' \<and>
    tc_del s (ctx_of h c as) w =
      (ctx_of h' c' as', case hit of None \<Rightarrow> w | Some f \<Rightarrow> w\<lparr>flags := (flags w)(f := True)\<rparr>)"
proof (cases "cc_n c = 0 \<or> del_loop s (map (wrap_of h) as) = None")
  case True
  then have "ptr_del s (h, c) = Some ((h, c), None)"
    using unlink_from_chain [of h Head c as s] assms by (auto simp: ptr_del_def)
  moreover have "tc_del s (ctx_of h c as) w = (ctx_of h c as, w)"
    using True by (auto simp: tc_del_def split: option.split)
  ultimately show ?thesis
    using assms by (intro exI [of _ h] exI [of _ c] exI [of _ as] exI [of _ None]) simp
next
  case False
  then obtain sw f lst where d: "del_loop s (map (wrap_of h) as) = Some (sw, f, lst)" by auto
  with unlink_from_chain [of h Head c as s] assms obtain h' c' as' a where
    un: "unlink_from s Head (cc_sw c) (h, c) = Some ((h', c'), Some a)" "chain h' (cc_sw c') as'"
    "set as' \<subseteq> set as" "sw = map (wrap_of h) as'" "f = wc_ended (h a)" "lst \<longleftrightarrow> wc_prev (h' a) = None"
    "cc_n c' = cc_n c - 1" "cc_lcs c' = cc_lcs c" "relinked (set as) h h'" by auto
  note w = relinked_wrap [OF un(9)]
  have f: "wc_ended (h' a) = f" using un(5,9) by (simp add: relinked_def)
  let ?c = "if lst then c'\<lparr>cc_lcs := bottom_span None sw\<rparr> else c'"
  have "ptr_del s (h, c) = Some ((h', ?c), Some f)"
    using False un(1,6) f bottom_from_chain [OF un(2)] un(4) w by (simp add: ptr_del_def)
  moreover have "tc_del s (ctx_of h c as) w = (ctx_of h' ?c as', w\<lparr>flags := (flags w)(f := True)\<rparr>)"
    using False d un(4,7,8) w by (simp add: tc_del_def ctx_of_def)
  moreover have "chain h' (cc_sw ?c) as'" using un(2) by simp
  ultimately show ?thesis
    using un(3,9) by (intro exI [of _ h'] exI [of _ ?c] exI [of _ as'] exI [of _ "Some f"]) simp
qed

end
