(* ===== verification/Gls_Memory.thy ===== *)
theory Gls_Memory
  imports Gls_Pointers Gls_Props
begin

text \<open>
  The operations of \<open>otelc/sdktrace/gls.go\<close> and \<open>otelc/runtime\<close> on the memory of \<open>Gls_Pointers\<close>,
  and the refinement: after every operation the memory represents the state of \<open>Gls_Stack\<close>, where each
  goroutine owns its context and the wrappers it reaches.
\<close>

section \<open>The operations\<close>

definition empty_cell :: context_cell where
  "empty_cell = \<lparr>cc_sw = None, cc_n = 0, cc_lcs = None\<rparr>"

definition mem_new_context :: "context_cell \<Rightarrow> memory \<Rightarrow> nat \<times> memory" where
  "mem_new_context c m =
     (next_context m, m\<lparr>contexts := (contexts m)(next_context m := c), next_context := Suc (next_context m)\<rparr>)"

definition mem_get_or_init :: "goroutine \<Rightarrow> memory \<Rightarrow> nat \<times> memory" where
  "mem_get_or_init g m =
     (case slots m g of
        None \<Rightarrow> (let (a, m1) = mem_new_context empty_cell m in (a, m1\<lparr>slots := (slots m1)(g := Some a)\<rparr>))
      | Some a \<Rightarrow> (a, m))"

definition mem_put :: "nat \<Rightarrow> chained \<Rightarrow> memory \<Rightarrow> memory" where
  "mem_put a hc m = m\<lparr>wrappers := fst hc, contexts := (contexts m)(a := snd hc)\<rparr>"

definition mem_add :: "span \<Rightarrow> nat \<Rightarrow> memory \<Rightarrow> (bool \<times> memory) option" where
  "mem_add s a m =
     do { m1 \<leftarrow> (if cc_n (contexts m a) \<ge> max_spans (shared m)
                 then do { hc \<leftarrow> ptr_compact (flags (shared m)) (wrappers m, contexts m a); Some (mem_put a hc m) }
                 else Some m);
          if cc_n (contexts m a) \<ge> max_spans (shared m) \<and> cc_n (contexts m1 a) \<ge> max_spans (shared m)
          then Some (False, m1)
          else let c = contexts m1 a;
                   (st, w) = state_for_span s (shared m1);
                   p = next_wrapper m1;
                   c1 = (if cc_n c = 0 then c\<lparr>cc_lcs := Some s\<rparr> else c)
               in Some (True, m1\<lparr>shared := w,
                                 wrappers := (wrappers m1)(p := \<lparr>wc_span = s, wc_prev = cc_sw c, wc_ended = st\<rparr>),
                                 next_wrapper := Suc p,
                                 contexts := (contexts m1)(a := c1\<lparr>cc_sw := Some p, cc_n := cc_n c + 1\<rparr>)\<rparr>) }"

definition mem_add_span :: "goroutine \<Rightarrow> span \<Rightarrow> memory \<Rightarrow> memory option" where
  "mem_add_span g s m =
     (let (a, m1) = mem_get_or_init g m
      in do { (ok, m2) \<leftarrow> mem_add s a m1; Some (if ok then m2\<lparr>slots := (slots m2)(g := Some a)\<rparr> else m2) })"

definition mem_span_from_gls :: "goroutine \<Rightarrow> memory \<Rightarrow> (span option \<times> memory) option" where
  "mem_span_from_gls g m =
     (case slots m g of
        None \<Rightarrow> Some (None, m)
      | Some a \<Rightarrow> do { (s, c) \<leftarrow> ptr_tail (flags (shared m)) (wrappers m) (contexts m a);
                      Some (s, m\<lparr>contexts := (contexts m)(a := c)\<rparr>) })"

definition mem_del_span :: "goroutine \<Rightarrow> span \<Rightarrow> memory \<Rightarrow> memory option" where
  "mem_del_span g s m =
     (let m1 = m\<lparr>shared := mark_span_ended s (shared m)\<rparr>
      in case slots m1 g of
           None \<Rightarrow> Some m1
         | Some a \<Rightarrow>
             do { (hc, hit) \<leftarrow> ptr_del s (wrappers m1, contexts m1 a);
                  Some ((mem_put a hc m1)
                    \<lparr>shared := (case hit of None \<Rightarrow> shared m1
                                | Some f \<Rightarrow> (shared m1)\<lparr>flags := (flags (shared m1))(f := True)\<rparr>)\<rparr>) })"

definition mem_clear :: "goroutine \<Rightarrow> memory \<Rightarrow> memory" where
  "mem_clear g m =
     (let (a, m1) = mem_get_or_init g m
      in m1\<lparr>contexts := (contexts m1)(a := (contexts m1 a)\<lparr>cc_sw := None, cc_n := 0, cc_lcs := None\<rparr>),
            shared := (shared m1)\<lparr>baggage := (baggage (shared m1))(g := None)\<rparr>\<rparr>)"

text \<open>
  \<open>Clone\<close> allocates the wrapper and the context of the new goroutine; reading \<open>tc.sw.ended\<close> through
  a nil pointer would panic, which has no result here.
\<close>

definition mem_clone :: "nat \<Rightarrow> memory \<Rightarrow> (nat \<times> memory) option" where
  "mem_clone a m =
     do { (last, c) \<leftarrow> ptr_tail (flags (shared m)) (wrappers m) (contexts m a);
          let m1 = m\<lparr>contexts := (contexts m)(a := c)\<rparr>;
          case (last, cc_sw c) of
            (None, _) \<Rightarrow> Some (mem_new_context empty_cell m1)
          | (Some s, None) \<Rightarrow> None
          | (Some s, Some t) \<Rightarrow>
              let p = next_wrapper m1;
                  m2 = m1\<lparr>wrappers := (wrappers m1)
                            (p := \<lparr>wc_span = s, wc_prev = None, wc_ended = wc_ended (wrappers m1 t)\<rparr>),
                          next_wrapper := Suc p\<rparr>
              in Some (mem_new_context \<lparr>cc_sw = Some p, cc_n = 1, cc_lcs = None\<rparr> m2) }"

definition mem_newproc1 :: "goroutine \<Rightarrow> goroutine \<Rightarrow> memory \<Rightarrow> memory option" where
  "mem_newproc1 caller new m =
     do { (cl, m1) \<leftarrow> (case slots m caller of
                        None \<Rightarrow> Some (None, m)
                      | Some a \<Rightarrow> do { (b, m1) \<leftarrow> mem_clone a m; Some (Some b, m1) });
          Some (m1\<lparr>slots := (slots m1)(new := cl),
                   shared := (shared m1)\<lparr>baggage := (baggage (shared m1))(new := baggage (shared m1) caller)\<rparr>\<rparr>) }"

fun mem_step :: "gls_op \<Rightarrow> memory \<Rightarrow> memory option" where
  "mem_step (StartSpan g s) m = mem_add_span g s m"
| "mem_step (EndSpan g s) m = mem_del_span g s m"
| "mem_step (LookupSpan g) m = map_option snd (mem_span_from_gls g m)"
| "mem_step (ForkGo p c) m = mem_newproc1 p c m"
| "mem_step (ClearCtx g) m = Some (mem_clear g m)"

definition init_memory :: "(gostring \<Rightarrow> gostring) \<Rightarrow> memory" where
  "init_memory env =
     \<lparr>wrappers = (\<lambda>_. \<lparr>wc_span = \<lparr>span_ref = 0, span_trace = 0, span_sid = 0\<rparr>, wc_prev = None, wc_ended = 0\<rparr>),
      next_wrapper = 0, contexts = (\<lambda>_. empty_cell), next_context = 0, slots = (\<lambda>_. None), shared = init_world env\<rparr>"

section \<open>What a memory represents\<close>

text \<open>\<open>lay g\<close> are the addresses of the wrappers of goroutine \<open>g\<close>, the innermost first.\<close>

fun slot_ok :: "memory \<Rightarrow> nat option \<Rightarrow> nat list \<Rightarrow> bool" where
  "slot_ok m None as = (as = [])"
| "slot_ok m (Some a) as = (a < next_context m \<and> chain (wrappers m) (cc_sw (contexts m a)) as)"

definition mem_ok :: "memory \<Rightarrow> (goroutine \<Rightarrow> nat list) \<Rightarrow> bool" where
  "mem_ok m lay \<longleftrightarrow>
     (\<forall>g. slot_ok m (slots m g) (lay g)) \<and>
     (\<forall>g h a. slots m g = Some a \<longrightarrow> slots m h = Some a \<longrightarrow> g = h) \<and>
     (\<forall>g. \<forall>a \<in> set (lay g). a < next_wrapper m) \<and>
     (\<forall>g h. g \<noteq> h \<longrightarrow> set (lay g) \<inter> set (lay h) = {})"

definition mem_abs :: "memory \<Rightarrow> (goroutine \<Rightarrow> nat list) \<Rightarrow> world" where
  "mem_abs m lay =
     (shared m)\<lparr>gls := (\<lambda>g. map_option (\<lambda>a. ctx_of (wrappers m) (contexts m a) (lay g)) (slots m g))\<rparr>"

definition represents :: "memory \<Rightarrow> world \<Rightarrow> bool" where
  "represents m w \<longleftrightarrow> (\<exists>lay. mem_ok m lay \<and> mem_abs m lay = w)"

lemma mem_abs_sel [simp]:
  "gls (mem_abs m lay) g = map_option (\<lambda>a. ctx_of (wrappers m) (contexts m a) (lay g)) (slots m g)"
  "flags (mem_abs m lay) = flags (shared m)" "max_spans (mem_abs m lay) = max_spans (shared m)"
  "baggage (mem_abs m lay) = baggage (shared m)"
  by (simp_all add: mem_abs_def)

lemma mem_okI:
  assumes "\<And>g. slot_ok m (slots m g) (lay g)" "\<And>g h a. slots m g = Some a \<Longrightarrow> slots m h = Some a \<Longrightarrow> g = h"
    "\<And>g a. a \<in> set (lay g) \<Longrightarrow> a < next_wrapper m" "\<And>g h. g \<noteq> h \<Longrightarrow> set (lay g) \<inter> set (lay h) = {}"
  shows "mem_ok m lay"
  unfolding mem_ok_def using assms by blast

lemma mem_ok_slot: "mem_ok m lay \<Longrightarrow> slot_ok m (slots m g) (lay g)"
  and mem_ok_inj: "mem_ok m lay \<Longrightarrow> slots m g = Some a \<Longrightarrow> slots m h = Some a \<Longrightarrow> g = h"
  and mem_ok_bound: "mem_ok m lay \<Longrightarrow> a \<in> set (lay g) \<Longrightarrow> a < next_wrapper m"
  and mem_ok_apart: "mem_ok m lay \<Longrightarrow> g \<noteq> h \<Longrightarrow> set (lay g) \<inter> set (lay h) = {}"
  unfolding mem_ok_def by blast+

lemma mem_okD:
  assumes "mem_ok m lay" "slots m g = Some a"
  shows "a < next_context m" "chain (wrappers m) (cc_sw (contexts m a)) (lay g)"
  using mem_ok_slot [OF assms(1), of g] assms(2) by simp_all

lemma slot_ok_shared [simp]: "slot_ok (m\<lparr>shared := w\<rparr>) p as = slot_ok m p as"
  by (cases p) auto

lemma mem_ok_shared [simp]: "mem_ok (m\<lparr>shared := w\<rparr>) lay = mem_ok m lay"
  by (simp add: mem_ok_def)

lemma mem_abs_shared: "mem_abs (m\<lparr>shared := w\<rparr>) lay = w\<lparr>gls := gls (mem_abs m lay)\<rparr>"
  by (simp add: mem_abs_def)

text \<open>The allocated wrappers that no other goroutine than \<open>g\<close> reaches.\<close>

definition free_for :: "memory \<Rightarrow> (goroutine \<Rightarrow> nat list) \<Rightarrow> goroutine \<Rightarrow> nat set \<Rightarrow> bool" where
  "free_for m lay g A \<longleftrightarrow> (\<forall>b \<in> A. b < next_wrapper m \<and> (\<forall>k. k \<noteq> g \<longrightarrow> b \<notin> set (lay k)))"

lemma free_for_own: "mem_ok m lay \<Longrightarrow> A \<subseteq> set (lay g) \<Longrightarrow> free_for m lay g A"
  using mem_ok_bound [of m lay] mem_ok_apart [of m lay] by (fastforce simp: free_for_def)

lemma free_for_empty [simp]: "free_for m lay g {}"
  by (simp add: free_for_def)

text \<open>Changing what one goroutine owns changes nothing else.\<close>

lemma mem_put_own:
  assumes ok: "mem_ok m lay" and g: "slots m g = Some a" and h: "relinked (set (lay g)) (wrappers m) h'"
    and ch: "chain h' (cc_sw c') as'" and free: "free_for m lay g (set as')"
  shows "mem_ok (mem_put a (h', c') m) (lay(g := as'))"
    "mem_abs (mem_put a (h', c') m) (lay(g := as')) = set_ctx g (ctx_of h' c' as') (mem_abs m lay)"
proof -
  note own = mem_okD [OF ok g]
  have other: "chain h' p (lay k) = chain (wrappers m) p (lay k)" if "k \<noteq> g" for k p
    using relinked_chain [OF h, of "lay k"] mem_ok_apart [OF ok, of g k] that by simp
  have "slot_ok (mem_put a (h', c') m) (slots m k) ((lay(g := as')) k)" for k
  proof (cases "k = g")
    case True
    then show ?thesis using g own(1) ch by (simp add: mem_put_def)
  next
    case False
    moreover have "slots m k \<noteq> Some a" using mem_ok_inj [OF ok g, of k] False by auto
    ultimately show ?thesis using mem_ok_slot [OF ok, of k] other by (cases "slots m k") (auto simp: mem_put_def)
  qed
  then show "mem_ok (mem_put a (h', c') m) (lay(g := as'))"
  proof (intro mem_okI)
    fix i j :: goroutine
    assume "i \<noteq> j"
    then show "set ((lay(g := as')) i) \<inter> set ((lay(g := as')) j) = {}"
      using mem_ok_apart [OF ok, of i j] free by (auto simp: free_for_def)
  next
    fix b i
    assume "b \<in> set ((lay(g := as')) i)"
    then show "b < next_wrapper (mem_put a (h', c') m)"
      using mem_ok_bound [OF ok, of b i] free by (auto simp: mem_put_def free_for_def split: if_splits)
  next
    fix i j b
    assume "slots (mem_put a (h', c') m) i = Some b" "slots (mem_put a (h', c') m) j = Some b"
    then show "i = j" using mem_ok_inj [OF ok] by (simp add: mem_put_def)
  qed (simp add: mem_put_def)
  show "mem_abs (mem_put a (h', c') m) (lay(g := as')) = set_ctx g (ctx_of h' c' as') (mem_abs m lay)"
  proof -
    have "map_option (\<lambda>b. ctx_of h' (((contexts m)(a := c')) b) ((lay(g := as')) k)) (slots m k) =
        (if k = g then Some (ctx_of h' c' as')
         else map_option (\<lambda>b. ctx_of (wrappers m) (contexts m b) (lay k)) (slots m k))" for k
    proof (cases "k = g")
      case False
      then have "slots m k \<noteq> Some a" using mem_ok_inj [OF ok g, of k] by auto
      then show ?thesis using False relinked_wrap [OF h] by (cases "slots m k") (auto simp: ctx_of_def)
    qed (use g in simp)
    then show ?thesis by (simp add: mem_abs_def mem_put_def set_ctx_def fun_upd_def)
  qed
qed

text \<open>A new wrapper, which nothing links to yet.\<close>

definition mem_new_wrapper :: "wrapper_cell \<Rightarrow> memory \<Rightarrow> memory" where
  "mem_new_wrapper x m = m\<lparr>wrappers := (wrappers m)(next_wrapper m := x), next_wrapper := Suc (next_wrapper m)\<rparr>"

lemma mem_new_wrapper_sel [simp]:
  "wrappers (mem_new_wrapper x m) = (wrappers m)(next_wrapper m := x)" "slots (mem_new_wrapper x m) = slots m"
  "contexts (mem_new_wrapper x m) = contexts m" "shared (mem_new_wrapper x m) = shared m"
  "next_wrapper (mem_new_wrapper x m) = Suc (next_wrapper m)" "next_context (mem_new_wrapper x m) = next_context m"
  by (simp_all add: mem_new_wrapper_def)

lemma fresh_wrapper: "mem_ok m lay \<Longrightarrow> next_wrapper m \<notin> set (lay k)"
  using mem_ok_bound [of m lay "next_wrapper m" k] by auto

lemma mem_new_wrapper_ok:
  assumes ok: "mem_ok m lay"
  shows "mem_ok (mem_new_wrapper x m) lay" "mem_abs (mem_new_wrapper x m) lay = mem_abs m lay"
    "free_for (mem_new_wrapper x m) lay g (insert (next_wrapper m) (set (lay g)))"
proof -
  note fr = fresh_wrapper [OF ok]
  show "mem_ok (mem_new_wrapper x m) lay"
  proof (rule mem_okI)
    show "slot_ok (mem_new_wrapper x m) (slots (mem_new_wrapper x m) k) (lay k)" for k
      using mem_ok_slot [OF ok, of k] fr by (cases "slots m k") auto
    show "a < next_wrapper (mem_new_wrapper x m)" if "a \<in> set (lay k)" for a k
      using mem_ok_bound [OF ok that] by simp
  qed (use mem_ok_inj [OF ok] mem_ok_apart [OF ok] in simp_all)
  have "ctx_of ((wrappers m)(next_wrapper m := x)) c (lay k) = ctx_of (wrappers m) c (lay k)" for c k
    using fr [of k] by (auto simp: wrap_of_def ctx_of_def)
  then show "mem_abs (mem_new_wrapper x m) lay = mem_abs m lay"
    by (simp add: mem_abs_def)
  show "free_for (mem_new_wrapper x m) lay g (insert (next_wrapper m) (set (lay g)))"
    using fr mem_ok_bound [OF ok, of _ g] mem_ok_apart [OF ok, of g] by (fastforce simp: free_for_def less_SucI)
qed

text \<open>A new context in the slot of a goroutine, or none.\<close>

lemma mem_slot_new:
  assumes ok: "mem_ok m lay" and ch: "chain (wrappers m) (cc_sw c) as" and free: "free_for m lay g (set as)"
    and m': "m' = (snd (mem_new_context c m))\<lparr>slots := (slots m)(g := Some (next_context m))\<rparr>"
  shows "mem_ok m' (lay(g := as))" "mem_abs m' (lay(g := as)) = set_ctx g (ctx_of (wrappers m) c as) (mem_abs m lay)"
proof -
  have old: "b < next_context m" if "slots m k = Some b" for k b
    using mem_okD(1) [OF ok that] .
  show "mem_ok m' (lay(g := as))"
  proof (rule mem_okI)
    show "slot_ok m' (slots m' k) ((lay(g := as)) k)" for k
      using mem_ok_slot [OF ok, of k] old [of k] ch
      by (cases "k = g"; cases "slots m k") (auto simp: m' mem_new_context_def)
    show "i = j" if "slots m' i = Some b" "slots m' j = Some b" for i j b
      using that old [of i] old [of j] mem_ok_inj [OF ok, of i b j]
      by (auto simp: m' mem_new_context_def split: if_splits)
    show "b < next_wrapper m'" if "b \<in> set ((lay(g := as)) k)" for b k
      using that free mem_ok_bound [OF ok, of b k]
      by (auto simp: m' mem_new_context_def free_for_def split: if_splits)
    show "set ((lay(g := as)) i) \<inter> set ((lay(g := as)) j) = {}" if "i \<noteq> j" for i j
      using that mem_ok_apart [OF ok, of i j] free by (auto simp: free_for_def)
  qed
  have "map_option (\<lambda>b. ctx_of (wrappers m) (((contexts m)(next_context m := c)) b) ((lay(g := as)) k))
        (((slots m)(g := Some (next_context m))) k) =
      (if k = g then Some (ctx_of (wrappers m) c as)
       else map_option (\<lambda>b. ctx_of (wrappers m) (contexts m b) (lay k)) (slots m k))" for k
    using old [of k] by (cases "slots m k") auto
  then show "mem_abs m' (lay(g := as)) = set_ctx g (ctx_of (wrappers m) c as) (mem_abs m lay)"
    by (simp add: mem_abs_def m' mem_new_context_def set_ctx_def fun_upd_def)
qed

lemma mem_slot_none:
  assumes ok: "mem_ok m lay"
  shows "mem_ok (m\<lparr>slots := (slots m)(g := None)\<rparr>) (lay(g := []))"
    "mem_abs (m\<lparr>slots := (slots m)(g := None)\<rparr>) (lay(g := [])) =
       (mem_abs m lay)\<lparr>gls := (gls (mem_abs m lay))(g := None)\<rparr>"
proof -
  show "mem_ok (m\<lparr>slots := (slots m)(g := None)\<rparr>) (lay(g := []))"
  proof (rule mem_okI)
    show "slot_ok (m\<lparr>slots := (slots m)(g := None)\<rparr>) (slots (m\<lparr>slots := (slots m)(g := None)\<rparr>) k) ((lay(g := [])) k)" for k
      using mem_ok_slot [OF ok, of k] by (cases "slots m k") auto
    show "i = j" if "slots (m\<lparr>slots := (slots m)(g := None)\<rparr>) i = Some b"
      "slots (m\<lparr>slots := (slots m)(g := None)\<rparr>) j = Some b" for i j b
      using that mem_ok_inj [OF ok, of i b j] by (auto split: if_splits)
  qed (use mem_ok_bound [OF ok] mem_ok_apart [OF ok] in \<open>auto split: if_splits\<close>)
  have "map_option (\<lambda>b. ctx_of (wrappers m) (contexts m b) ((lay(g := [])) k)) (((slots m)(g := None)) k) =
      (if k = g then None else map_option (\<lambda>b. ctx_of (wrappers m) (contexts m b) (lay k)) (slots m k))" for k
    by simp
  then show "mem_abs (m\<lparr>slots := (slots m)(g := None)\<rparr>) (lay(g := [])) =
      (mem_abs m lay)\<lparr>gls := (gls (mem_abs m lay))(g := None)\<rparr>"
    by (simp add: mem_abs_def fun_upd_def)
qed

section \<open>Each operation\<close>

text \<open>The tracker does not look at the slots.\<close>

lemma state_for_span_gls:
  "state_for_span s (w\<lparr>gls := G\<rparr>) = (fst (state_for_span s w), (snd (state_for_span s w))\<lparr>gls := G\<rparr>)"
  by (simp add: state_for_span_def new_flag_def evict_oldest_locked_def Let_def split: option.split list.split prod.split)

lemma mark_span_ended_gls: "mark_span_ended s (w\<lparr>gls := G\<rparr>) = (mark_span_ended s w)\<lparr>gls := G\<rparr>"
  by (simp add: mark_span_ended_def split: option.split)

lemma set_ctx_same: "gls w g = Some tc \<Longrightarrow> set_ctx g tc w = w"
  by (simp add: set_ctx_def fun_upd_idem)

lemma empty_cell_sel [simp]: "cc_sw empty_cell = None" "cc_n empty_cell = 0" "cc_lcs empty_cell = None"
  by (simp_all add: empty_cell_def)

lemma ctx_of_empty [simp]: "ctx_of h empty_cell [] = tc_empty"
  by (simp add: ctx_of_def tc_empty_def)

lemma mem_get_or_init_sim:
  assumes ok: "mem_ok m lay" and eq: "mem_get_or_init g m = (a, m1)"
  shows "\<exists>lay1. mem_ok m1 lay1 \<and> slots m1 g = Some a \<and>
    get_or_init_trace_context g (mem_abs m lay) = (ctx_of (wrappers m1) (contexts m1 a) (lay1 g), mem_abs m1 lay1)"
proof (cases "slots m g")
  case None
  then have m1: "m1 = (snd (mem_new_context empty_cell m))\<lparr>slots := (slots m)(g := Some (next_context m))\<rparr>"
    and a: "a = next_context m"
    using eq by (auto simp: mem_get_or_init_def mem_new_context_def)
  note new = mem_slot_new [OF ok _ _ m1, of "[]"]
  show ?thesis
    using new None a by (intro exI [of _ "lay(g := [])"])
      (simp add: get_or_init_trace_context_def, simp add: m1 mem_new_context_def)
next
  case (Some b)
  then show ?thesis using ok eq by (auto simp: mem_get_or_init_def get_or_init_trace_context_def)
qed

lemma mem_push:
  assumes ok: "mem_ok m lay" and g: "slots m g = Some a" and c': "cc_sw c' = Some (next_wrapper m)"
    and m': "m' = m\<lparr>shared := w,
      wrappers := (wrappers m)(next_wrapper m := \<lparr>wc_span = s, wc_prev = cc_sw (contexts m a), wc_ended = f\<rparr>),
      next_wrapper := Suc (next_wrapper m), contexts := (contexts m)(a := c')\<rparr>"
  shows "mem_ok m' (lay(g := next_wrapper m # lay g))"
    "mem_abs m' (lay(g := next_wrapper m # lay g)) =
      set_ctx g \<lparr>tc_sw = \<lparr>w_span = s, w_ended = f\<rparr> # map (wrap_of (wrappers m)) (lay g), tc_n = cc_n c', tc_lcs = cc_lcs c'\<rparr>
        (w\<lparr>gls := gls (mem_abs m lay)\<rparr>)"
proof -
  let ?x = "\<lparr>wc_span = s, wc_prev = cc_sw (contexts m a), wc_ended = f\<rparr>"
  let ?m1 = "mem_new_wrapper ?x m" and ?lay = "lay(g := next_wrapper m # lay g)"
  note new = mem_new_wrapper_ok [OF ok, of ?x]
  have ch: "chain (wrappers ?m1) (cc_sw c') (next_wrapper m # lay g)"
    using c' mem_okD(2) [OF ok g] fresh_wrapper [OF ok] by simp
  have g1: "slots ?m1 g = Some a" using g by simp
  have free: "free_for ?m1 lay g (set (next_wrapper m # lay g))" using new(3) by simp
  note put = mem_put_own [OF new(1) g1 relinked_refl ch free]
  have eq: "m' = (mem_put a (wrappers ?m1, c') ?m1)\<lparr>shared := w\<rparr>"
    by (simp add: m' mem_put_def mem_new_wrapper_def)
  show "mem_ok m' ?lay" using put(1) eq by simp
  have tc: "ctx_of (wrappers ?m1) c' (next_wrapper m # lay g) =
      \<lparr>tc_sw = \<lparr>w_span = s, w_ended = f\<rparr> # map (wrap_of (wrappers m)) (lay g), tc_n = cc_n c', tc_lcs = cc_lcs c'\<rparr>"
    using fresh_wrapper [OF ok, of g] by (auto simp: ctx_of_def wrap_of_def)
  show "mem_abs m' ?lay = set_ctx g \<lparr>tc_sw = \<lparr>w_span = s, w_ended = f\<rparr> # map (wrap_of (wrappers m)) (lay g),
      tc_n = cc_n c', tc_lcs = cc_lcs c'\<rparr> (w\<lparr>gls := gls (mem_abs m lay)\<rparr>)"
    unfolding eq mem_abs_shared put(2) tc new(2) by (simp add: set_ctx_def)
qed

lemma mem_compact_sim:
  assumes ok: "mem_ok m lay" and g: "slots m g = Some a"
  shows "\<exists>hc lay'. ptr_compact (flags (shared m)) (wrappers m, contexts m a) = Some hc \<and>
    mem_ok (mem_put a hc m) lay' \<and>
    ctx_of (fst hc) (snd hc) (lay' g) = tc_compact (flags (shared m)) (ctx_of (wrappers m) (contexts m a) (lay g)) \<and>
    mem_abs (mem_put a hc m) lay' =
      set_ctx g (tc_compact (flags (shared m)) (ctx_of (wrappers m) (contexts m a) (lay g))) (mem_abs m lay)"
proof -
  from ptr_compact_chain [OF mem_okD(2) [OF ok g], of "flags (shared m)"] obtain h' c' as' where
    *: "ptr_compact (flags (shared m)) (wrappers m, contexts m a) = Some (h', c')" "chain h' (cc_sw c') as'"
    "set as' \<subseteq> set (lay g)" "relinked (set (lay g)) (wrappers m) h'"
    "ctx_of h' c' as' = tc_compact (flags (shared m)) (ctx_of (wrappers m) (contexts m a) (lay g))" by blast
  note put = mem_put_own [OF ok g *(4) *(2) free_for_own [OF ok *(3)]]
  show ?thesis
    using *(1,5) put by (intro exI [of _ "(h', c')"] exI [of _ "lay(g := as')"]) simp
qed

lemma mem_make_room_sim:
  assumes ok: "mem_ok m lay" and g: "slots m g = Some a"
  shows "\<exists>m1 lay1.
    (if cc_n (contexts m a) \<ge> max_spans (shared m)
     then do { hc \<leftarrow> ptr_compact (flags (shared m)) (wrappers m, contexts m a); Some (mem_put a hc m) }
     else Some m) = Some m1 \<and>
    mem_ok m1 lay1 \<and> shared m1 = shared m \<and> slots m1 = slots m \<and>
    ctx_of (wrappers m1) (contexts m1 a) (lay1 g) =
      (if cc_n (contexts m a) \<ge> max_spans (shared m)
       then tc_compact (flags (shared m)) (ctx_of (wrappers m) (contexts m a) (lay g))
       else ctx_of (wrappers m) (contexts m a) (lay g)) \<and>
    mem_abs m1 lay1 = set_ctx g (ctx_of (wrappers m1) (contexts m1 a) (lay1 g)) (mem_abs m lay)"
proof (cases "cc_n (contexts m a) \<ge> max_spans (shared m)")
  case True
  from mem_compact_sim [OF ok g] obtain hc lay' where
    *: "ptr_compact (flags (shared m)) (wrappers m, contexts m a) = Some hc" "mem_ok (mem_put a hc m) lay'"
    "ctx_of (fst hc) (snd hc) (lay' g) = tc_compact (flags (shared m)) (ctx_of (wrappers m) (contexts m a) (lay g))"
    "mem_abs (mem_put a hc m) lay' =
      set_ctx g (tc_compact (flags (shared m)) (ctx_of (wrappers m) (contexts m a) (lay g))) (mem_abs m lay)"
    by blast
  have "wrappers (mem_put a hc m) = fst hc" "contexts (mem_put a hc m) a = snd hc"
    "shared (mem_put a hc m) = shared m" "slots (mem_put a hc m) = slots m"
    by (simp_all add: mem_put_def)
  then show ?thesis using * True by (intro exI [of _ "mem_put a hc m"] exI [of _ lay']) simp
next
  case False
  then show ?thesis using ok g by (intro exI [of _ m] exI [of _ lay]) (simp add: set_ctx_same)
qed

lemma tc_add_eq:
  assumes "tc1 = (if tc_n tc \<ge> max_spans w then tc_compact (flags w) tc else tc)"
  shows "tc_add s tc w =
    (if tc_n tc \<ge> max_spans w \<and> tc_n tc1 \<ge> max_spans w then (False, tc1, w)
     else let (st, w') = state_for_span s w;
              tc2 = (if tc_n tc1 = 0 then tc1\<lparr>tc_lcs := Some s\<rparr> else tc1)
          in (True, tc2\<lparr>tc_sw := \<lparr>w_span = s, w_ended = st\<rparr> # tc_sw tc1, tc_n := tc_n tc1 + 1\<rparr>, w'))"
  unfolding tc_add_def assms by (simp only: Let_def)

lemma mem_add_sim:
  assumes ok: "mem_ok m lay" and g: "slots m g = Some a"
    and add: "tc_add s (ctx_of (wrappers m) (contexts m a) (lay g)) (mem_abs m lay) = (b, tc', w')"
  shows "\<exists>m' lay'. mem_add s a m = Some (b, m') \<and> mem_ok m' lay' \<and> slots m' = slots m \<and>
    mem_abs m' lay' = set_ctx g tc' w'"
proof -
  let ?full = "cc_n (contexts m a) \<ge> max_spans (shared m)"
  from mem_make_room_sim [OF ok g] obtain m1 lay1 where
    room: "(if ?full then do { hc \<leftarrow> ptr_compact (flags (shared m)) (wrappers m, contexts m a); Some (mem_put a hc m) }
        else Some m) = Some m1" and
    m1: "mem_ok m1 lay1" "shared m1 = shared m" "slots m1 = slots m" and
    tc1: "ctx_of (wrappers m1) (contexts m1 a) (lay1 g) =
      (if ?full then tc_compact (flags (shared m)) (ctx_of (wrappers m) (contexts m a) (lay g))
       else ctx_of (wrappers m) (contexts m a) (lay g))" and
    abs1: "mem_abs m1 lay1 = set_ctx g (ctx_of (wrappers m1) (contexts m1 a) (lay1 g)) (mem_abs m lay)"
    by blast
  let ?tc1 = "ctx_of (wrappers m1) (contexts m1 a) (lay1 g)"
  have add': "(if ?full \<and> tc_n ?tc1 \<ge> max_spans (shared m) then (False, ?tc1, mem_abs m lay)
      else let (st, w') = state_for_span s (mem_abs m lay);
               tc2 = (if tc_n ?tc1 = 0 then ?tc1\<lparr>tc_lcs := Some s\<rparr> else ?tc1)
           in (True, tc2\<lparr>tc_sw := \<lparr>w_span = s, w_ended = st\<rparr> # tc_sw ?tc1, tc_n := tc_n ?tc1 + 1\<rparr>, w')) = (b, tc', w')"
    using add tc_add_eq [of ?tc1 "mem_abs m lay" "ctx_of (wrappers m) (contexts m a) (lay g)" s] tc1 by simp
  show ?thesis
  proof (cases "?full \<and> cc_n (contexts m1 a) \<ge> max_spans (shared m)")
    case True
    then show ?thesis using room m1 abs1 add' by (intro exI [of _ m1] exI [of _ lay1]) (simp add: mem_add_def)
  next
    case False
    obtain st w1 where st: "state_for_span s (shared m) = (st, w1)" by (metis surj_pair)
    have st': "state_for_span s (mem_abs m lay) = (st, w1\<lparr>gls := gls (mem_abs m lay)\<rparr>)"
      using st by (simp add: mem_abs_def state_for_span_gls)
    let ?c = "contexts m1 a"
    let ?c' = "(if cc_n ?c = 0 then ?c\<lparr>cc_lcs := Some s\<rparr> else ?c)\<lparr>cc_sw := Some (next_wrapper m1), cc_n := cc_n ?c + 1\<rparr>"
    let ?m' = "m1\<lparr>shared := w1,
      wrappers := (wrappers m1)(next_wrapper m1 := \<lparr>wc_span = s, wc_prev = cc_sw ?c, wc_ended = st\<rparr>),
      next_wrapper := Suc (next_wrapper m1), contexts := (contexts m1)(a := ?c')\<rparr>"
    have g1: "slots m1 g = Some a" and top: "cc_sw ?c' = Some (next_wrapper m1)" using g m1(3) by simp_all
    note push = mem_push [OF m1(1) g1 top refl, of s st w1]
    have "mem_add s a m = Some (True, ?m')"
      using room False st m1(2) by (simp add: mem_add_def Let_def)
    moreover have "slots ?m' = slots m" using m1(3) by simp
    moreover have "b = True" "w' = w1\<lparr>gls := gls (mem_abs m lay)\<rparr>"
      "tc' = \<lparr>tc_sw = \<lparr>w_span = s, w_ended = st\<rparr> # map (wrap_of (wrappers m1)) (lay1 g), tc_n = cc_n ?c', tc_lcs = cc_lcs ?c'\<rparr>"
      using add' False st' by (auto simp: ctx_of_def)
    ultimately show ?thesis
      using push abs1 by (intro exI [of _ ?m'] exI [of _ "lay1(g := next_wrapper m1 # lay1 g)"])
        (simp add: set_ctx_def)
  qed
qed

lemma mem_add_span_sim:
  assumes ok: "mem_ok m lay"
  shows "\<exists>m' lay'. mem_add_span g s m = Some m' \<and> mem_ok m' lay' \<and> mem_abs m' lay' = trace_context_add_span g s (mem_abs m lay)"
proof -
  obtain a m1 where gi: "mem_get_or_init g m = (a, m1)" by (metis surj_pair)
  from mem_get_or_init_sim [OF ok gi] obtain lay1 where
    i: "mem_ok m1 lay1" "slots m1 g = Some a"
    "get_or_init_trace_context g (mem_abs m lay) = (ctx_of (wrappers m1) (contexts m1 a) (lay1 g), mem_abs m1 lay1)"
    by blast
  obtain b tc' w' where add: "tc_add s (ctx_of (wrappers m1) (contexts m1 a) (lay1 g)) (mem_abs m1 lay1) = (b, tc', w')"
    by (metis surj_pair)
  from mem_add_sim [OF i(1,2) add] obtain m' lay' where
    m': "mem_add s a m1 = Some (b, m')" "mem_ok m' lay'" "slots m' = slots m1" "mem_abs m' lay' = set_ctx g tc' w'"
    by blast
  have "m'\<lparr>slots := (slots m')(g := Some a)\<rparr> = m'" using m'(3) i(2) by (simp add: fun_upd_idem)
  then have "mem_add_span g s m = Some m'" using gi m'(1) by (simp add: mem_add_span_def)
  moreover have "trace_context_add_span g s (mem_abs m lay) = set_ctx g tc' w'"
    using i(3) add by (simp add: trace_context_add_span_def)
  ultimately show ?thesis using m' by auto
qed

lemma mem_tail_sim:
  assumes ok: "mem_ok m lay" and g: "slots m g = Some a"
  shows "\<exists>s c lay'. ptr_tail (flags (shared m)) (wrappers m) (contexts m a) = Some (s, c) \<and>
    mem_ok (m\<lparr>contexts := (contexts m)(a := c)\<rparr>) lay' \<and>
    tc_tail (flags (shared m)) (ctx_of (wrappers m) (contexts m a) (lay g)) = (s, ctx_of (wrappers m) c (lay' g)) \<and>
    mem_abs (m\<lparr>contexts := (contexts m)(a := c)\<rparr>) lay' = set_ctx g (ctx_of (wrappers m) c (lay' g)) (mem_abs m lay) \<and>
    chain (wrappers m) (cc_sw c) (lay' g)"
proof -
  from ptr_tail_chain [OF mem_okD(2) [OF ok g], of "flags (shared m)"] obtain s c as' where
    *: "ptr_tail (flags (shared m)) (wrappers m) (contexts m a) = Some (s, c)" "chain (wrappers m) (cc_sw c) as'"
    "set as' \<subseteq> set (lay g)"
    "tc_tail (flags (shared m)) (ctx_of (wrappers m) (contexts m a) (lay g)) = (s, ctx_of (wrappers m) c as')" by blast
  note put = mem_put_own [OF ok g relinked_refl *(2) free_for_own [OF ok *(3)]]
  have "mem_put a (wrappers m, c) m = m\<lparr>contexts := (contexts m)(a := c)\<rparr>" by (simp add: mem_put_def)
  then show ?thesis
    using * put by (intro exI [of _ s] exI [of _ c] exI [of _ "lay(g := as')"]) simp
qed

lemma mem_span_from_gls_sim:
  assumes ok: "mem_ok m lay"
  shows "\<exists>m' lay'. mem_span_from_gls g m = Some (fst (span_from_gls g (mem_abs m lay)), m') \<and> mem_ok m' lay' \<and>
    mem_abs m' lay' = snd (span_from_gls g (mem_abs m lay))"
proof (cases "slots m g")
  case None
  then show ?thesis using ok by (auto simp: mem_span_from_gls_def span_from_gls_def)
next
  case (Some a)
  from mem_tail_sim [OF ok Some] obtain s c lay' where
    "ptr_tail (flags (shared m)) (wrappers m) (contexts m a) = Some (s, c)"
    "mem_ok (m\<lparr>contexts := (contexts m)(a := c)\<rparr>) lay'"
    "tc_tail (flags (shared m)) (ctx_of (wrappers m) (contexts m a) (lay g)) = (s, ctx_of (wrappers m) c (lay' g))"
    "mem_abs (m\<lparr>contexts := (contexts m)(a := c)\<rparr>) lay' = set_ctx g (ctx_of (wrappers m) c (lay' g)) (mem_abs m lay)"
    by blast
  then show ?thesis
    using Some by (intro exI [of _ "m\<lparr>contexts := (contexts m)(a := c)\<rparr>"] exI [of _ lay'])
      (simp add: mem_span_from_gls_def span_from_gls_def)
qed

lemma mem_del_span_sim:
  assumes ok: "mem_ok m lay"
  shows "\<exists>m' lay'. mem_del_span g s m = Some m' \<and> mem_ok m' lay' \<and>
    mem_abs m' lay' = trace_context_del_span g s (mem_abs m lay)"
proof -
  let ?w = "mark_span_ended s (shared m)"
  let ?m1 = "m\<lparr>shared := ?w\<rparr>"
  have ok1: "mem_ok ?m1 lay" using ok by simp
  have abs1: "mark_span_ended s (mem_abs m lay) = mem_abs ?m1 lay"
    unfolding mem_abs_def by (simp add: mark_span_ended_gls)
  show ?thesis
  proof (cases "slots m g")
    case None
    then show ?thesis
      using ok1 by (intro exI [of _ ?m1] exI [of _ lay]) (simp add: mem_del_span_def trace_context_del_span_def abs1)
  next
    case (Some a)
    then have g: "slots ?m1 g = Some a" by simp
    from ptr_del_chain [OF mem_okD(2) [OF ok1 g], of s "mem_abs ?m1 lay"] obtain h' c' as' hit where
      *: "ptr_del s (wrappers m, contexts m a) = Some ((h', c'), hit)" "chain h' (cc_sw c') as'"
      "set as' \<subseteq> set (lay g)" "relinked (set (lay g)) (wrappers m) h'"
      "tc_del s (ctx_of (wrappers m) (contexts m a) (lay g)) (mem_abs ?m1 lay) =
        (ctx_of h' c' as', case hit of None \<Rightarrow> mem_abs ?m1 lay | Some f \<Rightarrow> (mem_abs ?m1 lay)\<lparr>flags := (flags (mem_abs ?m1 lay))(f := True)\<rparr>)"
      by auto
    have h1: "relinked (set (lay g)) (wrappers ?m1) h'" using *(4) by simp
    note put = mem_put_own [OF ok1 g h1 *(2) free_for_own [OF ok1 *(3)]]
    let ?w2 = "case hit of None \<Rightarrow> ?w | Some f \<Rightarrow> ?w\<lparr>flags := (flags ?w)(f := True)\<rparr>"
    have "mem_del_span g s m = Some ((mem_put a (h', c') ?m1)\<lparr>shared := ?w2\<rparr>)"
      using *(1) Some by (cases hit) (simp_all add: mem_del_span_def Let_def)
    moreover have "mem_abs ((mem_put a (h', c') ?m1)\<lparr>shared := ?w2\<rparr>) (lay(g := as')) =
        trace_context_del_span g s (mem_abs m lay)"
      using *(5) Some unfolding mem_abs_shared put(2)
      by (cases hit) (simp_all add: trace_context_del_span_def mark_span_ended_gls set_ctx_def mem_abs_def)
    ultimately show ?thesis using put(1) by auto
  qed
qed

lemma mem_clear_sim:
  assumes ok: "mem_ok m lay"
  shows "\<exists>lay'. mem_ok (mem_clear g m) lay' \<and> mem_abs (mem_clear g m) lay' = clear_trace_context g (mem_abs m lay)"
proof -
  obtain a m1 where gi: "mem_get_or_init g m = (a, m1)" by (metis surj_pair)
  from mem_get_or_init_sim [OF ok gi] obtain lay1 where
    i: "mem_ok m1 lay1" "slots m1 g = Some a"
    "get_or_init_trace_context g (mem_abs m lay) = (ctx_of (wrappers m1) (contexts m1 a) (lay1 g), mem_abs m1 lay1)"
    by blast
  let ?c = "(contexts m1 a)\<lparr>cc_sw := None, cc_n := 0, cc_lcs := None\<rparr>"
  have ch: "chain (wrappers m1) (cc_sw ?c) []" by simp
  have free: "free_for m1 lay1 g (set [])" by simp
  note put = mem_put_own [OF i(1,2) relinked_refl ch free]
  have eq: "mem_clear g m = (mem_put a (wrappers m1, ?c) m1)\<lparr>shared := (shared m1)\<lparr>baggage := (baggage (shared m1))(g := None)\<rparr>\<rparr>"
    using gi by (simp add: mem_clear_def mem_put_def)
  have "mem_abs (mem_clear g m) (lay1(g := [])) = clear_trace_context g (mem_abs m lay)"
    unfolding eq mem_abs_shared put(2)
    using i(3) by (simp add: clear_trace_context_def set_ctx_def ctx_of_def) (simp add: mem_abs_def)
  then show ?thesis using put(1) eq by auto
qed

lemma tc_tail_span: "tc_tail fl tc = (s, tc') \<Longrightarrow> s = (case tc_sw tc' of [] \<Rightarrow> None | x # _ \<Rightarrow> Some (w_span x))"
  by (auto simp: tc_tail_def Let_def split: prod.splits list.splits)

text \<open>\<open>Clone\<close>, put into the slot of the new goroutine.\<close>

lemma mem_clone_sim:
  assumes ok: "mem_ok m lay" and p: "slots m p = Some a" and pc: "p \<noteq> c"
  shows "\<exists>b m1 lay'. mem_clone a m = Some (b, m1) \<and> shared m1 = shared m \<and>
    mem_ok (m1\<lparr>slots := (slots m1)(c := Some b)\<rparr>) lay' \<and>
    mem_abs (m1\<lparr>slots := (slots m1)(c := Some b)\<rparr>) lay' =
      (let (cl, own) = tc_clone (flags (shared m)) (ctx_of (wrappers m) (contexts m a) (lay p))
       in set_ctx c cl (set_ctx p own (mem_abs m lay)))"
proof -
  from mem_tail_sim [OF ok p] obtain s ct lay1 where
    t: "ptr_tail (flags (shared m)) (wrappers m) (contexts m a) = Some (s, ct)"
    "mem_ok (m\<lparr>contexts := (contexts m)(a := ct)\<rparr>) lay1"
    "tc_tail (flags (shared m)) (ctx_of (wrappers m) (contexts m a) (lay p)) = (s, ctx_of (wrappers m) ct (lay1 p))"
    "mem_abs (m\<lparr>contexts := (contexts m)(a := ct)\<rparr>) lay1 = set_ctx p (ctx_of (wrappers m) ct (lay1 p)) (mem_abs m lay)"
    "chain (wrappers m) (cc_sw ct) (lay1 p)" by blast
  let ?m1 = "m\<lparr>contexts := (contexts m)(a := ct)\<rparr>"
  have res: "s = (case lay1 p of [] \<Rightarrow> None | b # _ \<Rightarrow> Some (wc_span (wrappers m b)))"
    using tc_tail_span [OF t(3)] by (cases "lay1 p") simp_all
  show ?thesis
  proof (cases "lay1 p")
    case Nil
    then have none: "s = None" using res by simp
    have ch: "chain (wrappers ?m1) (cc_sw empty_cell) []" by simp
    have free: "free_for ?m1 lay1 c (set [])" by simp
    note new = mem_slot_new [OF t(2) ch free refl]
    have "mem_clone a m = Some (mem_new_context empty_cell ?m1)"
      using t(1) none by (simp add: mem_clone_def)
    moreover have "tc_clone (flags (shared m)) (ctx_of (wrappers m) (contexts m a) (lay p)) =
        (tc_empty, ctx_of (wrappers m) ct (lay1 p))"
      using t(3) none by (simp add: tc_clone_def)
    ultimately show ?thesis
      using new t(4) by (simp add: mem_new_context_def) blast
  next
    case (Cons b bs)
    then have some: "s = Some (wc_span (wrappers m b))" and top: "cc_sw ct = Some b"
      using res t(5) by auto
    let ?x = "\<lparr>wc_span = wc_span (wrappers m b), wc_prev = None, wc_ended = wc_ended (wrappers m b)\<rparr>"
    let ?m2 = "mem_new_wrapper ?x ?m1" and ?c = "\<lparr>cc_sw = Some (next_wrapper m), cc_n = 1, cc_lcs = None\<rparr>"
    note nw = mem_new_wrapper_ok [OF t(2), of ?x]
    have ch: "chain (wrappers ?m2) (cc_sw ?c) [next_wrapper m]" by simp
    have free: "free_for ?m2 lay1 c (set [next_wrapper m])" using nw(3) [of c] by (simp add: free_for_def)
    note new = mem_slot_new [OF nw(1) ch free refl]
    have "mem_clone a m = Some (mem_new_context ?c ?m2)"
      using t(1) some top by (simp add: mem_clone_def mem_new_wrapper_def Let_def)
    moreover have "tc_clone (flags (shared m)) (ctx_of (wrappers m) (contexts m a) (lay p)) =
        (ctx_of (wrappers ?m2) ?c [next_wrapper m], ctx_of (wrappers m) ct (lay1 p))"
      using t(3) some Cons by (simp add: tc_clone_def ctx_of_def wrap_of_def)
    moreover obtain m3 where m3: "mem_new_context ?c ?m2 = (next_context m, m3)" "shared m3 = shared m" "slots m3 = slots m"
      by (simp add: mem_new_context_def)
    ultimately show ?thesis
      using new t(4) nw(2)
      by (intro exI [of _ "next_context m"] exI [of _ m3] exI [of _ "lay1(c := [next_wrapper m])"])
        (simp del: fun_upd_apply)
  qed
qed

lemma mem_newproc1_sim:
  assumes ok: "mem_ok m lay" and pc: "p \<noteq> c"
  shows "\<exists>m' lay'. mem_newproc1 p c m = Some m' \<and> mem_ok m' lay' \<and> mem_abs m' lay' = newproc1 p c (mem_abs m lay)"
proof (cases "slots m p")
  case None
  let ?w = "(shared m)\<lparr>baggage := (baggage (shared m))(c := baggage (shared m) p)\<rparr>"
  note gone = mem_slot_none [OF ok, of c]
  have "mem_newproc1 p c m = Some (m\<lparr>slots := (slots m)(c := None)\<rparr>\<lparr>shared := ?w\<rparr>)"
    using None by (simp add: mem_newproc1_def)
  moreover have "mem_abs (m\<lparr>slots := (slots m)(c := None)\<rparr>\<lparr>shared := ?w\<rparr>) (lay(c := [])) = newproc1 p c (mem_abs m lay)"
    unfolding mem_abs_shared gone(2)
    using None pc by (simp add: newproc1_def propagate_trace_context_def mem_abs_def fun_eq_iff)
  ultimately show ?thesis using gone(1) by (metis mem_ok_shared)
next
  case (Some a)
  from mem_clone_sim [OF ok Some pc] obtain b m1 lay' where
    cl: "mem_clone a m = Some (b, m1)" "shared m1 = shared m" "mem_ok (m1\<lparr>slots := (slots m1)(c := Some b)\<rparr>) lay'"
    "mem_abs (m1\<lparr>slots := (slots m1)(c := Some b)\<rparr>) lay' =
      (let (cl, own) = tc_clone (flags (shared m)) (ctx_of (wrappers m) (contexts m a) (lay p))
       in set_ctx c cl (set_ctx p own (mem_abs m lay)))" by blast
  let ?w = "(shared m)\<lparr>baggage := (baggage (shared m))(c := baggage (shared m) p)\<rparr>"
  have "mem_newproc1 p c m = Some (m1\<lparr>slots := (slots m1)(c := Some b)\<rparr>\<lparr>shared := ?w\<rparr>)"
    using Some cl(1,2) by (simp add: mem_newproc1_def)
  moreover have "mem_abs (m1\<lparr>slots := (slots m1)(c := Some b)\<rparr>\<lparr>shared := ?w\<rparr>) lay' = newproc1 p c (mem_abs m lay)"
    unfolding mem_abs_shared cl(4)
    using Some by (simp add: newproc1_def propagate_trace_context_def set_ctx_def split: prod.split)
      (simp add: mem_abs_def)
  ultimately show ?thesis using cl(3) by (metis mem_ok_shared)
qed

section \<open>Every run\<close>

lemma init_represents: "represents (init_memory env) (init_world env)"
proof -
  have "mem_ok (init_memory env) (\<lambda>_. [])"
    by (rule mem_okI) (simp_all add: init_memory_def)
  moreover have "mem_abs (init_memory env) (\<lambda>_. []) = init_world env"
    by (simp add: mem_abs_def init_memory_def) (simp add: init_world_def)
  ultimately show ?thesis unfolding represents_def by blast
qed

interpretation mem_sys: total_simulation mem_step gls_step gls_ok represents
proof
  fix m w x
  assume "represents m w" and ok: "gls_ok x w"
  then obtain lay where m: "mem_ok m lay" "w = mem_abs m lay" by (auto simp: represents_def)
  show "\<exists>m'. mem_step x m = Some m' \<and> represents m' (gls_step x w)"
  proof (cases x)
    case (StartSpan g s)
    then show ?thesis using mem_add_span_sim [OF m(1), of g s] m(2) by (auto simp: represents_def new_recording_span_def)
  next
    case (EndSpan g s)
    then show ?thesis using mem_del_span_sim [OF m(1), of g s] m(2) by (auto simp: represents_def span_end_def)
  next
    case (LookupSpan g)
    then show ?thesis using mem_span_from_gls_sim [OF m(1), of g] m(2) by (auto simp: represents_def)
  next
    case (ForkGo p c)
    then show ?thesis using mem_newproc1_sim [OF m(1), of p c] m(2) ok by (auto simp: represents_def)
  next
    case (ClearCtx g)
    then show ?thesis using mem_clear_sim [OF m(1), of g] m(2) by (auto simp: represents_def)
  qed
qed

text \<open>
  C1: The pointer program refines the abstract stacks.  After any run of span starts, span ends,
  lookups, goroutine creations and clears from program start, on linked wrappers and contexts in memory:
  every loop returned, no wrapper is reachable from two goroutines and no chain has a cycle, the memory
  represents the state of the list model, its live spans are the stacks the specification reaches by the
  same operations, and a lookup on any goroutine returns and yields the top of its stack.
\<close>
theorem gls_pointers_refine_stacks:
  assumes "guarded gls_step gls_valid_op ops (init_world env)"
  shows "case run_partial mem_step ops (init_memory env) of None \<Rightarrow> False
    | Some m \<Rightarrow>
        (let spec = run_ops spec_step ops (abs_world (init_world env))
         in (\<exists>lay. mem_ok m lay \<and> mem_abs m lay = gls_run ops env \<and> abs_world (mem_abs m lay) = spec) \<and>
            map_option fst (mem_span_from_gls g m) =
              Some (case stk spec g of [] \<Rightarrow> None | s # _ \<Rightarrow> Some s))"
proof -
  from mem_sys.run_sim [OF init_represents gls_valid_ok [OF assms]] obtain m lay where
    m: "run_partial mem_step ops (init_memory env) = Some m" "mem_ok m lay" "mem_abs m lay = gls_run ops env"
    unfolding represents_def by blast
  have "abs_world (gls_run ops env) = run_ops spec_step ops (abs_world (init_world env))"
    by (rule gls_ref.run_abs [OF init_world_inv assms])
  moreover have "map_option fst (mem_span_from_gls g m) = Some (gls_current g (gls_run ops env))"
    using mem_span_from_gls_sim [OF m(2), of g] m(3) by auto
  moreover have "gls_current g (gls_run ops env) = (case live_stack (gls_run ops env) g of [] \<Rightarrow> None | s # _ \<Rightarrow> Some s)"
    by (rule gls_current_eq [OF gls_run_inv [OF gls_valid_ok [OF assms]]])
  ultimately show ?thesis using m by (auto simp: Let_def simp flip: abs_world_sel(1))
qed

theorem gls_pointers_refine_stacks_witness:
  "case run_partial mem_step demo_ops (init_memory demo_env) of None \<Rightarrow> False
   | Some m \<Rightarrow> map_option fst (mem_span_from_gls 1 m) = Some (Some (demo_span 1))"
proof -
  have "guarded gls_step gls_valid_op demo_ops (init_world demo_env)" by (simp add: demo_ops_def)
  moreover have "stk (run_ops spec_step demo_ops (abs_world (init_world demo_env))) 1 = [demo_span 1]"
    by (simp add: gls_eval)
  ultimately show ?thesis
    using gls_pointers_refine_stacks [of demo_ops demo_env 1] by (auto simp: Let_def split: option.splits)
qed

end
