(* ===== verification/Spec2Isabelle.thy ===== *)
theory Spec2Isabelle
  imports Gls_Props Hook_Support Boot Dsn_Total Dsn_Roundtrip Dsn_Url Db_Props
    Streaming_Props Stream_Reader_Props Stream_Semantics GenAI_Props Amqp_Props
    Net_Http_Props Kafka_Props Redis Grpc_Props
    Gocql Elastic Linodego K8s Log_Hooks
    Sw_Sql_Props Sw_Redis Sw_Messaging_Props Sw_Web_Props Sw_Rpc_Props Sw_Gorm_Props Sw_Mongo
    Sw_Runtime_Metrics_Props Sw_Boot Sw_Toolkit Gin Lazy_Init Client_Hooks Attr_Types Gocql_Loop Otel_Gls Amqp_Context Sw_Settings Sw_Options Hook_Log One_Span Gls_History Gls_Memory
begin

text \<open>
  \<^bold>\<open>What the program is.\<close>
  The repository is a set of compile-time instrumentation rules for Go programs: a weaver reads the files under
  \<open>src/otelc\<close> (rules that report to OpenTelemetry) and \<open>src/skywalking\<close> (the same idea for Apache SkyWalking) and injects their
  function bodies at the start of the library functions of the same names.  A body with a \<open>defer\<close> also sees the results of
  the original; the final \<open>return\<close> of a body is where the original starts.  The development models the Go code of the
  rules and of the support packages they call.  What the code does not contain is a parameter of the definitions: the
  tracer and its refusals, propagators and the keys they write, clocks, the results and errors of the original
  function, what the application does in between.

  \<^bold>\<open>How it is modelled.\<close>
  Go strings and byte slices are lists of characters that stand for bytes (\<open>Go_Prelude\<close>, with \<open>strings\<close> and \<open>strconv\<close>; \<open>Go_Net\<close> with
  \<open>net\<close> and \<open>net/url\<close>; \<open>Go_Json\<close> with \<open>encoding/json\<close> and \<open>unicode/utf8\<close>).  A slice expression out of range, a nil dereference
  or an index out of range is \<open>None\<close>.  A span is how it was started and the calls made on it, in order
  (\<open>Telemetry\<close> for OpenTelemetry, \<open>Sw_Tracing\<close> for SkyWalking).  Stateful parts are records with one function for each
  operation, run over lists of operations (\<open>Transition_Systems\<close>), so that everything several goroutines do
  under the locks of the code is some list.  Integers are unbounded where the code only compares or adds small
  numbers, and words or bounded integers where they can overflow (ids, counters of the runtime, durations, parsed
  numbers).  Aliasing is modelled where the code depends on it: ended flags shared by span stacks, header slices
  of Kafka messages, tables of AMQP acknowledgements, option slices passed with dots.

  \<^bold>\<open>The interfaces.\<close>
  \<open>Transition_Systems\<close>: \<open>invariant_system\<close> and its extension \<open>refinement_system\<close>, interpreted for every stateful component, and
  \<open>total_simulation\<close>, for operations that might not return;
  \<open>Telemetry\<close>: \<open>text_map_carrier\<close> (what a propagator writes into a carrier a reader extracts), \<open>finishing_hook\<close> and
  \<open>reporting_hook\<close> (a span ends once, and with an error exactly when there was one), interpreted for the carriers and hooks of
  the rules; \<open>Sw_Carriers\<close>: \<open>fresh_carrier\<close>, which the carriers of SkyWalking meet and every \<open>text_map_carrier\<close> is; \<open>Sw_Tracing\<close>:
  \<open>sw_finishing\<close>; \<open>Dsn_Total\<close>: \<open>dsn_parser\<close>, the contract of the registered parsers; \<open>Lazy_Init\<close>: \<open>lazy_init\<close>, what a
  once-guarded initialiser promises.

  \<^bold>\<open>OpenTelemetry: the core.\<close>
  \<open>Gls_Stack\<close> models \<open>sdktrace/gls.go\<close>, \<open>runtime/\<close>, \<open>oteltrace/hook.go\<close> and \<open>otelroot/hook.go\<close>: the span stack of each goroutine, the flags
  shared by all stacks, the tracker of span states with its eviction.  \<open>Gls_Invariant\<close> has its invariant, \<open>Gls_Refinement\<close> and \<open>Gls_Spec\<close>
  the abstract stacks it refines, \<open>Gls_Props\<close> the theorems over runs.  \<open>Gls_Pointers\<close> and \<open>Gls_Memory\<close> have the same program on linked
  wrappers and contexts in memory, with the loops as written, and show that it always returns and that
  \<open>Gls_Stack\<close> is what the memory represents; \<open>Gls_History\<close> says which span is current in terms of the calls
  made before, without stacks.  \<open>Otel_Gls\<close> is the registry \<open>otelgls\<close> and the
  composition with the log hooks of \<open>Log_Hooks\<close>.  \<open>Hook_Support\<close> is the switch and its cache (\<open>hooksupport\<close>, \<open>hooklog\<close>), \<open>Boot\<close> the start-up and
  shutdown (\<open>boot\<close>, \<open>bootinit\<close>), \<open>Lazy_Init\<close> everything made on first use (the \<open>sync.Once\<close> of the plugins, \<open>httpapi\<close>, the scopes of \<open>genai\<close>).
  \<open>Hook_Log\<close> has the logger of the hooks, \<open>One_Span\<close> the hooks that share the HTTP transport.  \<open>Attr_Types\<close> gives each attribute key one type across all plugins.

  \<^bold>\<open>OpenTelemetry: the plugins.\<close>
  \<open>Dsn_Parse\<close>, \<open>Dsn_Total\<close>, \<open>Dsn_Roundtrip\<close>, \<open>Dsn_Url\<close>: data source names (\<open>dsnparse\<close>), which never panic and read back what
  a connection string says.  \<open>Db_Sql\<close>, \<open>Db_Props\<close>: \<open>plugins/dbsql\<close> and \<open>dbsemconv\<close>.  \<open>Streaming\<close>, \<open>Streaming_Props\<close>, \<open>Stream_Reader_Props\<close>,
  \<open>Stream_Semantics\<close>: the SSE reader \<open>genai/streaming\<close>, bounded, one span per stream, independent of how the stream is cut.
  \<open>GenAI\<close>, \<open>GenAI_Props\<close>: the middlewares in \<open>genai\<close>.  \<open>Net_Http\<close>: \<open>plugins/nethttp\<close> with the response writer wrapper.  \<open>Amqp\<close>, \<open>Amqp_Props\<close>,
  \<open>Amqp_Context\<close>; \<open>Kafka\<close>; \<open>Redis\<close>; \<open>Grpc\<close>; \<open>Gocql\<close>, \<open>Gocql_Loop\<close>; \<open>Elastic\<close>; \<open>Linodego\<close>; \<open>K8s\<close>; \<open>Gin\<close>: the plugins of those names.  \<open>Client_Hooks\<close>: the
  constructors of \<open>mongov1\<close>, \<open>mongov2\<close>, \<open>openaiv1\<close> to \<open>openaiv3\<close>, \<open>anthropic\<close> and \<open>awssdkv2\<close>.

  \<^bold>\<open>SkyWalking.\<close>
  \<open>Sw_Boot\<close>: \<open>boot/\<close> and \<open>runtime/\<close>.  \<open>Sw_Sql\<close>: \<open>plugins/sql\<close>.  \<open>Sw_Redis\<close>: \<open>go-redisv9\<close>.  \<open>Sw_Carriers\<close>, \<open>Sw_Amqp\<close>, \<open>Sw_Messaging\<close>: \<open>amqp\<close>, \<open>segmentio-kafka\<close>,
  \<open>rocketmq\<close>, \<open>pulsar\<close>.  \<open>Sw_Web\<close>: \<open>http\<close>, \<open>fasthttp\<close>, \<open>mux\<close>, \<open>go-elasticsearchv8\<close>; \<open>Sw_Frameworks\<close>: \<open>gin\<close>, \<open>echov4\<close>, \<open>fiber\<close>, \<open>irisv12\<close>, \<open>go-restfulv3\<close>,
  \<open>goframe\<close>.  \<open>Sw_Grpc\<close>: \<open>grpc\<close>.  \<open>Sw_Rpc\<close>: \<open>kratosv2\<close>, \<open>microv4\<close>, \<open>dubbo\<close>.  \<open>Sw_Gorm\<close>: \<open>gorm\<close>.  \<open>Sw_Mongo\<close>: \<open>mongo\<close>.  \<open>Sw_Runtime_Metrics\<close>: \<open>runtimemetrics\<close>.
  \<open>Sw_Toolkit\<close>: \<open>toolkit-activation\<close> and \<open>pprof\<close>.  \<open>Sw_Settings\<close>: the settings that switch recording on, over all plugins.  \<open>Sw_Options\<close>: the
  rules that append to a slice of the application.  The theories with \<open>_Props\<close> have the theorems of the theory they are named after.

  \<^bold>\<open>What the lemmas show.\<close>
  Invariants over every run (span stacks, pending acknowledgements, RPC tables, logrus hooks, callbacks of gorm,
  events of MongoDB, histograms); refinement of abstract stacks; equivalence of the streamed and the whole
  reading, of a wrapped and a direct response writer, of wrapped and plain event handlers; round trips of data
  source names and of the trace context through each carrier; bounds on stacks, tables and captured content; that
  spans are ended exactly once and report errors exactly when there are some; that secrets are redacted and
  request data is recorded only when asked for.  Where the code falls short the lemmas say how, next to the theorem whose
  hypothesis excludes it.

  \<^bold>\<open>Termination, bounds and fuel.\<close>
  Loops over slices are structural recursions.  The loops over linked wrappers are partial functions, shown to
  return on every memory a run reaches.  The loops with another measure (comments of Cassandra statements, UTF-8 and
  URL decoding, observers around observers) are \<open>function\<close>s with a termination proof, and \<open>gocql_strip_terminates\<close> counts the
  turns of the loop as written: half the length of the statement and one suffice.  The JSON parser of \<open>Go_Json\<close> is
  one of them: every step leaves a shorter text, and nothing in the development needs fuel but that counted loop.  The limits of the code itself (1000 spans per goroutine, 100000
  tracked spans, 16 captured choices, the request and response sizes of \<open>genai\<close>, 255 bytes of an AMQP consumer tag) are
  definitions with the source's values.

  \<^bold>\<open>Not modelled.\<close>
  The weaver itself is not part of the repository.  \<open>activate.go\<close> and \<open>inject.go\<close> only import the rules, and the \<open>stub.go\<close> files declare the names
  the rules need to compile.  Everything under \<open>src/test\<close> and \<open>src/spike\<close> is demonstration programs, test drivers and a mock
  collector.  Memory reordering between goroutines is not modelled: operations under a lock, on a \<open>sync.Map\<close> or an atomic
  value are single steps.  Upper and lower case are those of ASCII letters.  The contents of the exporters, samplers and resources the SDK makes are outside the
  repository; \<open>Boot\<close> has which of them are made, in which order, and what happens when one fails or panics.
\<close>

end
